(* ===== verification/Prelude.thy ===== *)
theory Prelude
  imports Complex_Main "HOL-Library.AList"
begin

text \<open>
  Shared vocabulary of the development: the collections of rewrite rules the component
  theories extend, the Go-level types every component uses, and generic lemmas on lists,
  association lists and modular indices.

  A Go string is a \<^typ>\<open>string\<close> of its bytes.  A Go map is an association list with
  distinct keys: the list order stands for the (unspecified) iteration order, and
  \<open>map_of\<close> is the lookup.  An instant of \<open>time.Time\<close> is its number of nanoseconds since the
  zero time (so \<open>0\<close> is the value \<open>IsZero\<close> recognises) and a \<open>time.Duration\<close> is a number
  of nanoseconds.
\<close>

named_theorems go_simps "equations of the Go-level vocabulary"
named_theorems inv_intros "preservation of component invariants"

type_synonym instant = int
type_synonym duration = int
type_synonym tags = "(string \<times> string) list"

subsection \<open>Go maps as association lists\<close>

abbreviation go_map :: "('k \<times> 'v) list \<Rightarrow> bool" where
  "go_map m \<equiv> distinct (map fst m)"

definition map_get :: "('k \<times> 'v) list \<Rightarrow> 'k \<Rightarrow> 'v option" where
  "map_get m k = map_of m k"

definition map_put :: "'k \<Rightarrow> 'v \<Rightarrow> ('k \<times> 'v) list \<Rightarrow> ('k \<times> 'v) list" where
  "map_put k v m = AList.update k v m"

definition map_del :: "'k \<Rightarrow> ('k \<times> 'v) list \<Rightarrow> ('k \<times> 'v) list" where
  "map_del k m = AList.delete k m"

lemma map_get_Nil [simp, go_simps]: "map_get [] k = None"
  by (simp add: map_get_def)

lemma map_get_Cons [simp, go_simps]:
  "map_get ((k', v) # m) k = (if k = k' then Some v else map_get m k)"
  by (simp add: map_get_def)

lemma map_get_put [simp, go_simps]:
  "map_get (map_put k v m) k' = (if k' = k then Some v else map_get m k')"
  by (simp add: map_get_def map_put_def update_conv')

lemma map_get_del [simp, go_simps]:
  "map_get (map_del k m) k' = (if k' = k then None else map_get m k')"
  by (simp add: map_get_def map_del_def delete_conv')

lemma go_map_put [simp, intro]: "go_map m \<Longrightarrow> go_map (map_put k v m)"
  by (simp add: map_put_def distinct_update)

lemma go_map_del [simp, intro]: "go_map m \<Longrightarrow> go_map (map_del k m)"
  by (simp add: map_del_def distinct_delete)

lemma keys_put [simp]: "fst ` set (map_put k v m) = insert k (fst ` set m)"
  by (simp add: map_put_def dom_update)

lemma keys_del [simp]: "fst ` set (map_del k m) = fst ` set m - {k}"
  by (auto simp: map_del_def delete_keys image_iff AList.delete_eq)

lemma map_get_in_set: "map_get m k = Some v \<Longrightarrow> (k, v) \<in> set m"
  by (simp add: map_get_def map_of_SomeD)

lemma in_set_map_get: "go_map m \<Longrightarrow> (k, v) \<in> set m \<Longrightarrow> map_get m k = Some v"
  by (simp add: map_get_def)

lemma map_get_None_iff: "map_get m k = None \<longleftrightarrow> k \<notin> fst ` set m"
  by (simp add: map_get_def map_of_eq_None_iff)

lemma map_get_Some_iff: "(\<exists>v. map_get m k = Some v) \<longleftrightarrow> k \<in> fst ` set m"
  using map_get_None_iff [of m k] by (cases "map_get m k") auto

subsection \<open>Sums over the values of a map\<close>

definition sum_vals :: "('v \<Rightarrow> int) \<Rightarrow> ('k \<times> 'v) list \<Rightarrow> int" where
  "sum_vals f m = sum_list (map (\<lambda>p. f (snd p)) m)"

lemma sum_vals_Nil [simp]: "sum_vals f [] = 0"
  by (simp add: sum_vals_def)

lemma sum_vals_Cons [simp]: "sum_vals f (p # m) = f (snd p) + sum_vals f m"
  by (simp add: sum_vals_def)

lemma map_put_Cons [simp]:
  "map_put k v ((k', w) # m) = (if k' = k then (k, v) # m else (k', w) # map_put k v m)"
  by (simp add: map_put_def)

lemma map_del_Cons [simp]:
  "map_del k ((k', w) # m) = (if k' = k then map_del k m else (k', w) # map_del k m)"
  by (auto simp: map_del_def delete_simps)

lemma map_put_Nil [simp]: "map_put k v [] = [(k, v)]"
  by (simp add: map_put_def)

lemma map_del_Nil [simp]: "map_del k [] = []"
  by (simp add: map_del_def)

lemma map_del_notin: "k \<notin> fst ` set m \<Longrightarrow> map_del k m = m"
  by (induction m) auto

lemma sum_vals_del:
  "go_map m \<Longrightarrow> sum_vals f (map_del k m) =
     sum_vals f m - (case map_get m k of None \<Rightarrow> 0 | Some v \<Rightarrow> f v)"
  by (induction m) (auto simp: map_del_notin split: option.splits)

lemma sum_vals_put:
  "go_map m \<Longrightarrow> sum_vals f (map_put k v m) =
     sum_vals f m - (case map_get m k of None \<Rightarrow> 0 | Some w \<Rightarrow> f w) + f v"
  by (induction m) (auto split: option.splits)

lemma sum_vals_nonneg: "(\<And>v. 0 \<le> f v) \<Longrightarrow> 0 \<le> sum_vals f m"
  by (induction m) auto

lemma sum_vals_ge: "map_get m k = Some v \<Longrightarrow> (\<And>v. 0 \<le> f v) \<Longrightarrow> f v \<le> sum_vals f m"
proof (induction m)
  case Nil
  then show ?case by simp
next
  case (Cons p m)
  have "0 \<le> sum_vals f m" by (rule sum_vals_nonneg) (rule Cons.prems(2))
  with Cons show ?case
    by (cases p) (auto split: if_splits intro: add_increasing)
qed

subsection \<open>Lists\<close>

lemma remove1_eq_Nil_iff: "remove1 x xs = [] \<longleftrightarrow> xs = [] \<or> xs = [x]"
  by (cases xs) auto

lemma set_remove1_distinct: "distinct xs \<Longrightarrow> set (remove1 x xs) = set xs - {x}"
  by (rule set_remove1_eq)

lemma remove1_nth:
  "i < length xs \<Longrightarrow> xs ! i = x \<Longrightarrow> (\<forall>j<i. xs ! j \<noteq> x) \<Longrightarrow>
     remove1 x xs = take i xs @ drop (Suc i) xs"
proof (induction xs arbitrary: i)
  case Nil
  then show ?case by simp
next
  case (Cons y xs)
  show ?case
  proof (cases i)
    case 0
    with Cons.prems show ?thesis by simp
  next
    case (Suc k)
    with Cons.prems have "y \<noteq> x" by (metis nth_Cons_0 zero_less_Suc)
    moreover have "\<forall>j<k. xs ! j \<noteq> x"
      using Cons.prems(3) Suc by (metis Suc_mono nth_Cons_Suc)
    ultimately show ?thesis using Cons Suc by simp
  qed
qed

subsection \<open>Indices of a circular buffer\<close>

lemma mod_less_if: "(k::nat) < n \<Longrightarrow> a mod n < n"
  by (rule mod_less_divisor) linarith

lemma mod_add_cancel_less:
  fixes h i j n :: nat
  assumes "i < n" "j < n" "(h + i) mod n = (h + j) mod n"
  shows "i = j"
proof -
  have "(int h + int i) mod int n = (int h + int j) mod int n"
    using assms(3) by (metis of_nat_add of_nat_mod)
  then have "(int h + int i - int h) mod int n = (int h + int j - int h) mod int n"
    by (rule mod_diff_cong) simp
  with assms(1,2) show ?thesis by simp
qed

end
