(* ===== verification/EntryOrder.thy ===== *)
theory EntryOrder
  imports Prelude
begin

text \<open>
  The insertion order of the event store (\<open>store_order.go\<close>): a first-in first-out queue of
  entry ids kept in a circular buffer.  \<open>oValues\<close>, \<open>oHead\<close> and \<open>oCount\<close> are the fields
  \<open>values\<close>, \<open>head\<close> and \<open>count\<close> of \<open>entryOrder\<close>.  The abstraction \<open>order_list\<close> reads the
  window from the oldest id to the newest; every operation is shown to refine the
  corresponding list operation, never to index outside the buffer, and to leave the slots
  outside the window empty (so evicted ids are released).
\<close>

record entryOrder =
  oValues :: "string list"
  oHead :: nat
  oCount :: nat

definition newEntryOrder :: "int \<Rightarrow> entryOrder" where
  "newEntryOrder capacity =
     \<lparr>oValues = replicate (nat (if capacity < 0 then 0 else capacity)) '''', oHead = 0, oCount = 0\<rparr>"

definition order_len :: "entryOrder \<Rightarrow> nat" where
  "order_len d = oCount d"

definition order_at :: "entryOrder \<Rightarrow> int \<Rightarrow> string" where
  "order_at d index =
     (if index < 0 \<or> int (oCount d) \<le> index then ''''
      else oValues d ! ((oHead d + nat index) mod length (oValues d)))"

definition order_front :: "entryOrder \<Rightarrow> string \<times> bool" where
  "order_front d = (if oCount d = 0 then ('''', False) else (oValues d ! oHead d, True))"

definition grow :: "entryOrder \<Rightarrow> entryOrder" where
  "grow d =
     (let capacity = max 4 (length (oValues d) * 2);
          vals = map (\<lambda>index. if index < oCount d then order_at d (int index) else '''')
                   [0..<capacity]
      in d\<lparr>oValues := vals, oHead := 0\<rparr>)"

definition pushBack :: "entryOrder \<Rightarrow> string \<Rightarrow> entryOrder" where
  "pushBack d0 eid =
     (let d = (if oCount d0 = length (oValues d0) then grow d0 else d0);
          index = (oHead d + oCount d) mod length (oValues d)
      in d\<lparr>oValues := (oValues d)[index := eid], oCount := oCount d + 1\<rparr>)"

definition popFront :: "entryOrder \<Rightarrow> entryOrder \<times> string \<times> bool" where
  "popFront d =
     (if oCount d = 0 then (d, '''', False)
      else
        (let eid = oValues d ! oHead d;
             d1 = d\<lparr>oValues := (oValues d)[oHead d := ''''],
                    oHead := (oHead d + 1) mod length (oValues d),
                    oCount := oCount d - 1\<rparr>;
             d2 = (if oCount d1 = 0 then d1\<lparr>oHead := 0\<rparr> else d1)
         in (d2, eid, True)))"

text \<open>The inner loop of \<open>remove\<close>: it copies each later id one position forward.\<close>

function shift_ids :: "entryOrder \<Rightarrow> nat \<Rightarrow> entryOrder" where
  "shift_ids d current =
     (if current < oCount d - 1
      then shift_ids
             (d\<lparr>oValues := (oValues d)[(oHead d + current) mod length (oValues d) :=
                                         order_at d (int current + 1)]\<rparr>)
             (current + 1)
      else d)"
  by pat_completeness auto
termination
  by (relation "measure (\<lambda>(d, current). oCount d - current)") auto

definition remove_at :: "entryOrder \<Rightarrow> nat \<Rightarrow> entryOrder" where
  "remove_at d0 index =
     (let d = shift_ids d0 index;
          last = (oHead d + oCount d - 1) mod length (oValues d);
          d1 = d\<lparr>oValues := (oValues d)[last := ''''], oCount := oCount d - 1\<rparr>
      in (if oCount d1 = 0 then d1\<lparr>oHead := 0\<rparr> else d1))"

text \<open>The outer loop: the first position that holds the id, if there is one.\<close>

function remove_from :: "entryOrder \<Rightarrow> string \<Rightarrow> nat \<Rightarrow> entryOrder \<times> bool" where
  "remove_from d eid index =
     (if index < oCount d
      then if order_at d (int index) \<noteq> eid then remove_from d eid (index + 1)
           else (remove_at d index, True)
      else (d, False))"
  by pat_completeness auto
termination
  by (relation "measure (\<lambda>(d, eid, index). oCount d - index)") auto

definition order_remove :: "entryOrder \<Rightarrow> string \<Rightarrow> entryOrder \<times> bool" where
  "order_remove d eid = remove_from d eid 0"

definition order_reset :: "entryOrder \<Rightarrow> entryOrder" where
  "order_reset d = \<lparr>oValues = replicate (length (oValues d)) '''', oHead = 0, oCount = 0\<rparr>"

declare shift_ids.simps [simp del] remove_from.simps [simp del]

subsection \<open>Abstraction and invariant\<close>

definition slot :: "entryOrder \<Rightarrow> nat \<Rightarrow> nat" where
  "slot d i = (oHead d + i) mod length (oValues d)"

definition order_list :: "entryOrder \<Rightarrow> string list" where
  "order_list d = map (\<lambda>i. oValues d ! slot d i) [0..<oCount d]"

definition order_inv :: "entryOrder \<Rightarrow> bool" where
  "order_inv d \<longleftrightarrow>
     oCount d \<le> length (oValues d) \<and>
     (oHead d < length (oValues d) \<or> oHead d = 0 \<and> oValues d = []) \<and>
     (\<forall>i. oCount d \<le> i \<and> i < length (oValues d) \<longrightarrow> oValues d ! slot d i = '''')"

lemma slot_less [simp]: "0 < length (oValues d) \<Longrightarrow> slot d i < length (oValues d)"
  by (simp add: slot_def)

lemma slot_inj:
  "i < length (oValues d) \<Longrightarrow> j < length (oValues d) \<Longrightarrow> slot d i = slot d j \<Longrightarrow> i = j"
  unfolding slot_def by (rule mod_add_cancel_less)

lemma slot_eq_iff:
  "i < length (oValues d) \<Longrightarrow> j < length (oValues d) \<Longrightarrow> slot d i = slot d j \<longleftrightarrow> i = j"
  using slot_inj by blast

lemma length_order_list [simp]: "length (order_list d) = oCount d"
  by (simp add: order_list_def)

lemma order_len_list [simp]: "order_len d = length (order_list d)"
  by (simp add: order_len_def)

lemma order_list_nth: "i < oCount d \<Longrightarrow> order_list d ! i = oValues d ! slot d i"
  by (simp add: order_list_def)

lemma order_at_list [simp]: "i < oCount d \<Longrightarrow> order_at d (int i) = order_list d ! i"
  by (simp add: order_at_def order_list_nth slot_def)

lemma order_at_out: "int (oCount d) \<le> i \<or> i < 0 \<Longrightarrow> order_at d i = ''''"
  by (auto simp: order_at_def)

lemma order_list_eqI:
  assumes "oCount d = length xs" "\<And>i. i < length xs \<Longrightarrow> oValues d ! slot d i = xs ! i"
  shows "order_list d = xs"
  using assms by (intro nth_equalityI) (simp_all add: order_list_nth)

lemma order_invD:
  assumes "order_inv d"
  shows "oCount d \<le> length (oValues d)"
    and "0 < oCount d \<Longrightarrow> oHead d < length (oValues d)"
    and "oCount d \<le> i \<Longrightarrow> i < length (oValues d) \<Longrightarrow> oValues d ! slot d i = ''''"
  using assms by (auto simp: order_inv_def)

subsection \<open>Construction, reset and growth\<close>

lemma newEntryOrder_inv [simp, inv_intros]: "order_inv (newEntryOrder c)"
  by (auto simp: order_inv_def newEntryOrder_def slot_def)

lemma newEntryOrder_list [simp]: "order_list (newEntryOrder c) = []"
  by (simp add: order_list_def newEntryOrder_def)

lemma order_reset_inv [simp, inv_intros]: "order_inv (order_reset d)"
  by (auto simp: order_inv_def order_reset_def slot_def)

lemma order_reset_list [simp]: "order_list (order_reset d) = []"
  by (simp add: order_list_def order_reset_def)

lemma grow_fields [simp]:
  "oCount (grow d) = oCount d" "oHead (grow d) = 0"
  "length (oValues (grow d)) = max 4 (length (oValues d) * 2)"
  by (simp_all add: grow_def Let_def)

lemma grow_room: "oCount d \<le> length (oValues d) \<Longrightarrow> oCount d < length (oValues (grow d))"
  by (cases "length (oValues d)") auto

lemma grow_nth:
  "i < length (oValues (grow d)) \<Longrightarrow>
     oValues (grow d) ! i = (if i < oCount d then order_list d ! i else '''')"
  by (simp add: grow_def Let_def)

lemma grow_list: "order_inv d \<Longrightarrow> order_list (grow d) = order_list d"
  using grow_room [of d]
  by (intro order_list_eqI) (auto simp: slot_def grow_nth order_invD(1))

lemma grow_inv [inv_intros]: "order_inv d \<Longrightarrow> order_inv (grow d)"
  using grow_room [of d] by (auto simp: order_inv_def slot_def grow_nth)

subsection \<open>Insertion at the back, removal at the front\<close>

definition append_slot :: "entryOrder \<Rightarrow> string \<Rightarrow> entryOrder" where
  "append_slot d eid = d\<lparr>oValues := (oValues d)[slot d (oCount d) := eid], oCount := oCount d + 1\<rparr>"

lemma pushBack_append:
  "pushBack d eid = append_slot (if oCount d = length (oValues d) then grow d else d) eid"
  by (simp add: pushBack_def append_slot_def slot_def Let_def)

lemma append_slot_slot [simp]: "slot (append_slot d eid) i = slot d i"
  by (simp add: slot_def append_slot_def)

lemma append_slot_list:
  assumes "oCount d < length (oValues d)"
  shows "order_list (append_slot d eid) = order_list d @ [eid]"
proof (rule order_list_eqI)
  show "oCount (append_slot d eid) = length (order_list d @ [eid])"
    by (simp add: append_slot_def)
next
  fix i assume "i < length (order_list d @ [eid])"
  then have i: "i < oCount d \<or> i = oCount d" by auto
  have "slot d i \<noteq> slot d (oCount d)" if "i < oCount d"
    using that assms slot_eq_iff [of i d "oCount d"] by simp
  moreover have "slot d (oCount d) < length (oValues d)"
    by (rule slot_less) (use assms in linarith)
  ultimately have "oValues (append_slot d eid) ! slot d i = (order_list d @ [eid]) ! i"
    using i assms by (auto simp: append_slot_def nth_append order_list_nth)
  then show "oValues (append_slot d eid) ! slot (append_slot d eid) i = (order_list d @ [eid]) ! i"
    by simp
qed

lemma append_slot_inv:
  assumes "order_inv d" "oCount d < length (oValues d)"
  shows "order_inv (append_slot d eid)"
proof -
  have empty: "(oValues d)[slot d (oCount d) := eid] ! slot d i = ''''"
    if "Suc (oCount d) \<le> i" "i < length (oValues d)" for i
    using that assms slot_eq_iff [of i d "oCount d"] by (simp add: order_inv_def)
  show ?thesis
    using assms empty unfolding order_inv_def append_slot_slot
    by (auto simp: append_slot_def simp del: nth_list_update)
qed

lemma pushBack_room:
  assumes "order_inv d"
  defines "d' \<equiv> if oCount d = length (oValues d) then grow d else d"
  shows "order_inv d'" "oCount d' < length (oValues d')" "order_list d' = order_list d"
  using assms(1) order_invD(1) [OF assms(1)] grow_room [of d]
  by (auto simp: d'_def grow_inv grow_list simp del: grow_fields(3))

lemma pushBack_inv [inv_intros]: "order_inv d \<Longrightarrow> order_inv (pushBack d eid)"
  unfolding pushBack_append by (intro append_slot_inv pushBack_room)

lemma pushBack_list: "order_inv d \<Longrightarrow> order_list (pushBack d eid) = order_list d @ [eid]"
  unfolding pushBack_append by (simp only: append_slot_list pushBack_room)

lemma order_front_list:
  "order_inv d \<Longrightarrow>
     order_front d = (case order_list d of [] \<Rightarrow> ('''', False) | x # _ \<Rightarrow> (x, True))"
  using order_invD(2) [of d]
  by (auto simp: order_front_def order_list_def slot_def upt_conv_Cons split: list.splits)

lemma slot_surj:
  assumes "k < length (oValues d)" "oHead d < length (oValues d)"
  shows "\<exists>i < length (oValues d). slot d i = k"
proof (intro exI conjI)
  let ?n = "length (oValues d)"
  let ?i = "(k + ?n - oHead d) mod ?n"
  show "?i < ?n" using assms(1) by (rule mod_less_if)
  have "slot d ?i = (oHead d + (k + ?n - oHead d)) mod ?n"
    by (simp add: slot_def mod_add_right_eq)
  also have "oHead d + (k + ?n - oHead d) = k + ?n" using assms(2) by simp
  finally show "slot d ?i = k" using assms(1) by simp
qed

lemma order_inv_empty:
  assumes "order_inv d" "oCount d = 0" "k < length (oValues d)"
  shows "oValues d ! k = ''''"
proof -
  have "oHead d < length (oValues d)" using assms by (auto simp: order_inv_def)
  with slot_surj [OF assms(3)] obtain i where "i < length (oValues d)" "slot d i = k" by blast
  with order_invD(3) [OF assms(1), of i] assms(2) show ?thesis by simp
qed

lemma rewind_inv:
  assumes "order_inv d"
  shows "order_inv (if oCount d = 0 then d\<lparr>oHead := 0\<rparr> else d)"
  using assms order_inv_empty [OF assms] by (auto simp: order_inv_def slot_def)

lemma rewind_list: "order_list (if oCount d = 0 then d\<lparr>oHead := 0\<rparr> else d) = order_list d"
  by (simp add: order_list_def)

definition drop_head :: "entryOrder \<Rightarrow> entryOrder" where
  "drop_head d = d\<lparr>oValues := (oValues d)[oHead d := ''''],
                   oHead := (oHead d + 1) mod length (oValues d), oCount := oCount d - 1\<rparr>"

lemma drop_head_slot: "slot (drop_head d) i = slot d (Suc i)"
  by (simp add: slot_def drop_head_def mod_simps)

lemma drop_head_nth:
  assumes "oHead d < length (oValues d)" "Suc i < length (oValues d)"
  shows "oValues (drop_head d) ! slot d (Suc i) = oValues d ! slot d (Suc i)"
proof -
  have "oHead d = slot d 0" using assms(1) by (simp add: slot_def)
  then have "oHead d \<noteq> slot d (Suc i)"
    using slot_inj [of 0 d "Suc i"] assms by fastforce
  then show ?thesis by (simp add: drop_head_def)
qed

lemma drop_head_list:
  assumes "order_inv d" "0 < oCount d"
  shows "order_list (drop_head d) = tl (order_list d)"
proof (rule order_list_eqI)
  show "oCount (drop_head d) = length (tl (order_list d))" by (simp add: drop_head_def)
next
  fix i assume "i < length (tl (order_list d))"
  then have i: "Suc i < oCount d" by simp
  then have "Suc i < length (oValues d)" using order_invD(1) [OF assms(1)] by simp
  then show "oValues (drop_head d) ! slot (drop_head d) i = tl (order_list d) ! i"
    unfolding drop_head_slot
    using drop_head_nth order_invD(2) [OF assms] i by (simp add: nth_tl order_list_nth)
qed

lemma drop_head_inv:
  assumes "order_inv d" "0 < oCount d"
  shows "order_inv (drop_head d)"
proof -
  note head = order_invD(2) [OF assms]
  have "oValues (drop_head d) ! slot d (Suc i) = ''''"
    if i: "oCount d - 1 \<le> i" "i < length (oValues d)" for i
  proof (cases "Suc i = length (oValues d)")
    case True
    then have "slot d (Suc i) = oHead d" using head by (simp add: slot_def)
    with head show ?thesis by (simp add: drop_head_def)
  next
    case False
    with i have "Suc i < length (oValues d)" by simp
    with i assms head show ?thesis
      by (simp add: drop_head_nth order_invD(3))
  qed
  moreover have "length (oValues (drop_head d)) = length (oValues d)"
    "oCount (drop_head d) = oCount d - 1" "oHead (drop_head d) < length (oValues d)"
    using head mod_less_if [OF head] by (simp_all add: drop_head_def)
  ultimately show ?thesis
    unfolding order_inv_def drop_head_slot using order_invD(1) [OF assms(1)] by simp
qed

lemma popFront_unfold:
  "popFront d =
     (if oCount d = 0 then (d, '''', False)
      else (let d1 = drop_head d
            in (if oCount d1 = 0 then d1\<lparr>oHead := 0\<rparr> else d1, oValues d ! oHead d, True)))"
  by (simp add: popFront_def drop_head_def Let_def)

lemma popFront_inv [inv_intros]: "order_inv d \<Longrightarrow> order_inv (fst (popFront d))"
  using rewind_inv [OF drop_head_inv] by (simp add: popFront_unfold Let_def)

lemma popFront_list:
  "order_inv d \<Longrightarrow> order_list (fst (popFront d)) = tl (order_list d)"
  using drop_head_list [of d] by (auto simp: popFront_unfold Let_def rewind_list order_list_def)

lemma popFront_result: "order_inv d \<Longrightarrow> snd (popFront d) = order_front d"
  by (simp add: popFront_unfold order_front_def Let_def)

subsection \<open>Removal by id\<close>

lemma shift_ids_frame:
  "oCount (shift_ids d cur) = oCount d" "oHead (shift_ids d cur) = oHead d"
  "length (oValues (shift_ids d cur)) = length (oValues d)"
proof (induction d cur rule: shift_ids.induct)
  case (1 d cur)
  {
    case 1
    show ?case using "1.IH"(1) by (subst shift_ids.simps) simp
  next
    case 2
    show ?case using "1.IH"(2) by (subst shift_ids.simps) simp
  next
    case 3
    show ?case using "1.IH"(3) by (subst shift_ids.simps) simp
  }
qed

lemma shift_ids_slot [simp]: "slot (shift_ids d cur) i = slot d i"
  by (simp add: slot_def shift_ids_frame)

lemma shift_ids_nth:
  "oCount d \<le> length (oValues d) \<Longrightarrow> j < length (oValues d) \<Longrightarrow>
     oValues (shift_ids d cur) ! slot d j =
       (if cur \<le> j \<and> j + 1 < oCount d then oValues d ! slot d (j + 1) else oValues d ! slot d j)"
proof (induction d cur rule: shift_ids.induct)
  case (1 d cur)
  show ?case
  proof (cases "cur < oCount d - 1")
    case False
    then show ?thesis by (subst shift_ids.simps) auto
  next
    case True
    let ?d = "d\<lparr>oValues := (oValues d)[slot d cur := oValues d ! slot d (cur + 1)]\<rparr>"
    have nxt: "order_at d (int cur + 1) = oValues d ! slot d (cur + 1)"
      using True order_at_list [of "cur + 1" d] order_list_nth [of "cur + 1" d]
      by (simp add: add.commute)
    have step: "shift_ids d cur = shift_ids ?d (cur + 1)"
      using True by (subst shift_ids.simps) (simp add: nxt slot_def)
    have same: "slot ?d i = slot d i" for i by (simp add: slot_def)
    have upd: "oValues ?d ! slot d i =
        (if i = cur then oValues d ! slot d (cur + 1) else oValues d ! slot d i)"
      if "i < length (oValues d)" for i
    proof -
      have cur: "cur < length (oValues d)" using True "1.prems"(1) by simp
      then have "slot d cur < length (oValues d)" by (intro slot_less) linarith
      with slot_eq_iff [OF that cur] show ?thesis by (cases "i = cur") auto
    qed
    have "oValues (shift_ids ?d (cur + 1)) ! slot d j =
      (if cur + 1 \<le> j \<and> j + 1 < oCount d then oValues ?d ! slot d (j + 1)
       else oValues ?d ! slot d j)"
      using "1.IH" True "1.prems" same nxt by (simp add: slot_def)
    also have "\<dots> = (if cur \<le> j \<and> j + 1 < oCount d then oValues d ! slot d (j + 1)
                     else oValues d ! slot d j)"
      using upd [of j] upd [of "j + 1"] "1.prems" True by (auto simp del: select_convs)
    finally show ?thesis unfolding step .
  qed
qed

definition cut_slot :: "entryOrder \<Rightarrow> nat \<Rightarrow> entryOrder" where
  "cut_slot d index =
     (let d1 = shift_ids d index
      in d1\<lparr>oValues := (oValues d1)[slot d (oCount d - 1) := ''''], oCount := oCount d - 1\<rparr>)"

lemma cut_slot_slot [simp]: "slot (cut_slot d index) i = slot d i"
  by (simp add: slot_def cut_slot_def shift_ids_frame Let_def)

lemma remove_at_unfold:
  "0 < oCount d \<Longrightarrow> remove_at d index =
     (let d1 = cut_slot d index in if oCount d1 = 0 then d1\<lparr>oHead := 0\<rparr> else d1)"
  by (simp add: remove_at_def cut_slot_def slot_def shift_ids_frame Let_def)

lemma cut_slot_nth:
  assumes "order_inv d" "index < oCount d" "j < length (oValues d)"
  shows "oValues (cut_slot d index) ! slot d j =
    (if j = oCount d - 1 then ''''
     else if index \<le> j \<and> j + 1 < oCount d then oValues d ! slot d (j + 1)
     else oValues d ! slot d j)"
proof -
  have len: "oCount d \<le> length (oValues d)" by (rule order_invD(1) [OF assms(1)])
  have "slot d (oCount d - 1) = slot d j \<longleftrightarrow> oCount d - 1 = j"
    using assms len by (intro slot_eq_iff) auto
  moreover have "slot d j < length (oValues d)"
    by (rule slot_less) (use assms(3) in linarith)
  ultimately show ?thesis
    using shift_ids_nth [OF len assms(3), of index] len assms(2)
    by (auto simp: cut_slot_def Let_def shift_ids_frame nth_list_update)
qed

lemma cut_slot_list:
  assumes "order_inv d" "index < oCount d"
  shows "order_list (cut_slot d index) = take index (order_list d) @ drop (Suc index) (order_list d)"
proof (rule order_list_eqI)
  show "oCount (cut_slot d index) =
      length (take index (order_list d) @ drop (Suc index) (order_list d))"
    using assms(2) by (simp add: cut_slot_def Let_def)
next
  fix i
  assume "i < length (take index (order_list d) @ drop (Suc index) (order_list d))"
  then have i: "i + 1 < oCount d" using assms(2) by auto
  then have "i < length (oValues d)" using order_invD(1) [OF assms(1)] by simp
  from cut_slot_nth [OF assms this] i
  show "oValues (cut_slot d index) ! slot (cut_slot d index) i =
      (take index (order_list d) @ drop (Suc index) (order_list d)) ! i"
    by (auto simp: nth_append order_list_nth min_def)
qed

lemma cut_slot_inv:
  assumes "order_inv d" "index < oCount d"
  shows "order_inv (cut_slot d index)"
proof -
  have frame: "oHead (cut_slot d index) = oHead d" "oCount (cut_slot d index) = oCount d - 1"
    "length (oValues (cut_slot d index)) = length (oValues d)"
    by (simp_all add: cut_slot_def Let_def shift_ids_frame)
  have "oValues (cut_slot d index) ! slot d i = ''''"
    if "oCount d - 1 \<le> i" "i < length (oValues d)" for i
    using cut_slot_nth [OF assms that(2)] that assms order_invD(3) [OF assms(1)] by auto
  with assms frame show ?thesis
    unfolding order_inv_def cut_slot_slot by auto
qed

lemma remove_at_spec:
  assumes "order_inv d" "index < oCount d"
  shows "order_inv (remove_at d index)"
    and "order_list (remove_at d index) =
      take index (order_list d) @ drop (Suc index) (order_list d)"
proof -
  have "0 < oCount d" using assms(2) by simp
  then show "order_inv (remove_at d index)"
    "order_list (remove_at d index) = take index (order_list d) @ drop (Suc index) (order_list d)"
    using rewind_inv [OF cut_slot_inv [OF assms]] cut_slot_list [OF assms]
    by (simp_all only: remove_at_unfold Let_def rewind_list)
qed

lemma remove_from_spec:
  assumes "order_inv d" "\<forall>j < index. j < oCount d \<longrightarrow> order_list d ! j \<noteq> eid"
  shows "order_inv (fst (remove_from d eid index)) \<and>
    order_list (fst (remove_from d eid index)) = remove1 eid (order_list d) \<and>
    snd (remove_from d eid index) = (eid \<in> set (order_list d))"
  using assms
proof (induction d eid index rule: remove_from.induct)
  case (1 d eid index)
  show ?case
  proof (cases "index < oCount d")
    case False
    then have "eid \<notin> set (order_list d)"
      using "1.prems"(2) by (auto simp: in_set_conv_nth)
    with False "1.prems"(1) show ?thesis
      by (simp add: remove_from.simps [of d eid index] remove1_idem)
  next
    case True
    show ?thesis
    proof (cases "order_at d (int index) = eid")
      case False
      with True "1.prems" "1.IH" show ?thesis
        by (simp add: remove_from.simps [of d eid index] less_Suc_eq)
    next
      case found: True
      with True have at: "order_list d ! index = eid" by simp
      then have "eid \<in> set (order_list d)" using True by (metis length_order_list nth_mem)
      moreover have "remove1 eid (order_list d) =
          take index (order_list d) @ drop (Suc index) (order_list d)"
        using True at "1.prems"(2) by (intro remove1_nth) auto
      ultimately show ?thesis
        using True found remove_at_spec [OF "1.prems"(1) True]
        by (simp add: remove_from.simps [of d eid index])
    qed
  qed
qed

lemma order_remove_inv [inv_intros]: "order_inv d \<Longrightarrow> order_inv (fst (order_remove d eid))"
  using remove_from_spec [of d 0 eid] by (simp add: order_remove_def)

lemma order_remove_list:
  "order_inv d \<Longrightarrow> order_list (fst (order_remove d eid)) = remove1 eid (order_list d)"
  using remove_from_spec [of d 0 eid] by (simp add: order_remove_def)

lemma order_remove_found:
  "order_inv d \<Longrightarrow> snd (order_remove d eid) = (eid \<in> set (order_list d))"
  using remove_from_spec [of d 0 eid] by (simp add: order_remove_def)

subsection \<open>The queue interface the event store relies on\<close>

text \<open>
  What \<open>entryStore\<close> needs of its order: a list of ids, oldest first, that it appends to,
  pops from the front of, deletes by value, scans by index and resets.
\<close>

locale id_queue =
  fixes qlist :: "'q \<Rightarrow> string list"
    and qinv :: "'q \<Rightarrow> bool"
    and qpush :: "'q \<Rightarrow> string \<Rightarrow> 'q"
    and qpop :: "'q \<Rightarrow> 'q \<times> string \<times> bool"
    and qremove :: "'q \<Rightarrow> string \<Rightarrow> 'q \<times> bool"
    and qfront :: "'q \<Rightarrow> string \<times> bool"
    and qat :: "'q \<Rightarrow> int \<Rightarrow> string"
    and qlen :: "'q \<Rightarrow> nat"
    and qreset :: "'q \<Rightarrow> 'q"
  assumes push_inv: "qinv q \<Longrightarrow> qinv (qpush q x)"
    and push_list: "qinv q \<Longrightarrow> qlist (qpush q x) = qlist q @ [x]"
    and pop_inv: "qinv q \<Longrightarrow> qinv (fst (qpop q))"
    and pop_list: "qinv q \<Longrightarrow> qlist (fst (qpop q)) = tl (qlist q)"
    and pop_front: "qinv q \<Longrightarrow> snd (qpop q) = qfront q"
    and remove_inv: "qinv q \<Longrightarrow> qinv (fst (qremove q x))"
    and remove_list: "qinv q \<Longrightarrow> qlist (fst (qremove q x)) = remove1 x (qlist q)"
    and front_list: "qinv q \<Longrightarrow>
      qfront q = (case qlist q of [] \<Rightarrow> ('''', False) | x # _ \<Rightarrow> (x, True))"
    and at_list: "qinv q \<Longrightarrow> i < length (qlist q) \<Longrightarrow> qat q (int i) = qlist q ! i"
    and len_list: "qinv q \<Longrightarrow> qlen q = length (qlist q)"
    and reset_inv: "qinv q \<Longrightarrow> qinv (qreset q)"
    and reset_list: "qinv q \<Longrightarrow> qlist (qreset q) = []"
begin

lemma scan: "qinv q \<Longrightarrow> map (\<lambda>i. qat q (int i)) [0..<qlen q] = qlist q"
  by (rule nth_equalityI) (simp_all add: len_list at_list)

lemma touch_list:
  "qinv q \<Longrightarrow> qlist (qpush (fst (qremove q x)) x) = remove1 x (qlist q) @ [x]"
  by (simp add: push_list remove_inv remove_list)

lemma touch_inv: "qinv q \<Longrightarrow> qinv (qpush (fst (qremove q x)) x)"
  by (simp add: push_inv remove_inv)

lemma touch_distinct:
  "qinv q \<Longrightarrow> distinct (qlist q) \<Longrightarrow> distinct (qlist (qpush (fst (qremove q x)) x))"
  by (simp add: touch_list)

lemma pop_cons: "qinv q \<Longrightarrow> qlist q = x # xs \<Longrightarrow> snd (qpop q) = (x, True)"
  by (simp add: pop_front front_list)

lemma pop_nil: "qinv q \<Longrightarrow> qlist q = [] \<Longrightarrow> snd (qpop q) = ('''', False)"
  by (simp add: pop_front front_list)

lemma len_zero: "qinv q \<Longrightarrow> qlen q = 0 \<longleftrightarrow> qlist q = []"
  by (simp add: len_list)

end

interpretation ord: id_queue order_list order_inv pushBack popFront order_remove order_front
  order_at order_len order_reset
  by unfold_locales
    (simp_all add: inv_intros pushBack_list popFront_list popFront_result order_remove_list
      order_front_list)

subsection \<open>Runs of operations\<close>

datatype orderOp = Push string | Pop | Remove string | Reset

fun order_step :: "entryOrder \<Rightarrow> orderOp \<Rightarrow> entryOrder" where
  "order_step d (Push x) = pushBack d x"
| "order_step d Pop = fst (popFront d)"
| "order_step d (Remove x) = fst (order_remove d x)"
| "order_step d Reset = order_reset d"

fun fifo_step :: "string list \<Rightarrow> orderOp \<Rightarrow> string list" where
  "fifo_step xs (Push x) = xs @ [x]"
| "fifo_step xs Pop = tl xs"
| "fifo_step xs (Remove x) = remove1 x xs"
| "fifo_step xs Reset = []"

lemma order_step_inv: "order_inv d \<Longrightarrow> order_inv (order_step d c)"
  by (cases c) (simp_all add: inv_intros)

lemma order_step_list: "order_inv d \<Longrightarrow> order_list (order_step d c) = fifo_step (order_list d) c"
  by (cases c) (simp_all add: pushBack_list popFront_list order_remove_list)

lemma order_run:
  "order_inv d \<Longrightarrow> order_inv (fold (\<lambda>c d. order_step d c) ops d) \<and>
     order_list (fold (\<lambda>c d. order_step d c) ops d) =
       fold (\<lambda>c xs. fifo_step xs c) ops (order_list d)"
  by (induction ops arbitrary: d) (simp_all add: order_step_inv order_step_list)

text \<open>
  C4. Whatever sequence of pushes, pops, removals by id and resets is run on a circular
  order of any initial capacity, the ids it holds, oldest first, are those of a plain
  first-in first-out list; the buffer invariant (window inside the buffer, vacated slots
  cleared) holds at the end, and scanning the positions \<open>0\<close> to \<open>len - 1\<close> with \<open>at\<close> reads
  exactly that list.
\<close>
theorem order_refines_fifo:
  "let d = fold (\<lambda>c d. order_step d c) ops (newEntryOrder capacity)
   in order_inv d \<and>
      order_list d = fold (\<lambda>c xs. fifo_step xs c) ops [] \<and>
      map (\<lambda>i. order_at d (int i)) [0..<order_len d] = order_list d"
  using order_run [OF newEntryOrder_inv, of ops capacity] ord.scan by (simp add: Let_def)

end
