(* ===== verification/Redact.thy ===== *)
theory Redact
  imports GoText
begin

text \<open>
  JSON documents as \<open>encoding/json\<close> holds them, and the redaction of \<open>redact.go\<close>.

  A document is a tree.  \<open>JInt\<close> is a number without fraction, \<open>JDec\<close> a number with one (its
  shortest decimal text) and \<open>JTime\<close> the RFC 3339 text of an instant, kept as the instant.
  \<open>json_any\<close> is what decoding into Go's \<open>any\<close> makes of a document: numbers become
  \<open>float64\<close>, the last of several equal keys wins, and objects become maps, which
  \<open>json.Marshal\<close> prints in ascending key order.  \<open>json_text\<close> is that printing.
\<close>

datatype json =
    JNull
  | JBool bool
  | JInt int
  | JDec string
  | JStr string
  | JTime instant
  | JArr "json list"
  | JObj "(string \<times> json) list"

subsection \<open>Printing\<close>

definition hex_digit :: "nat \<Rightarrow> char" where
  "hex_digit n = (if n < 10 then char_of (48 + n) else char_of (87 + n))"

definition json_escape :: "char \<Rightarrow> string" where
  "json_escape c =
     (let n = byte c; bs = CHR 0x5C in
      if n = 34 \<or> n = 92 then [bs, c]
      else if n = 8 then [bs, CHR ''b'']
      else if n = 12 then [bs, CHR ''f'']
      else if n = 10 then [bs, CHR ''n'']
      else if n = 13 then [bs, CHR ''r'']
      else if n = 9 then [bs, CHR ''t'']
      else if n < 32 \<or> n = 38 \<or> n = 60 \<or> n = 62
        then [bs, CHR ''u'', CHR ''0'', CHR ''0'', hex_digit (n div 16), hex_digit (n mod 16)]
      else [c])"

definition json_quote :: "string \<Rightarrow> string" where
  "json_quote s = CHR 0x22 # concat (map json_escape s) @ [CHR 0x22]"

definition pad_nat :: "nat \<Rightarrow> nat \<Rightarrow> string" where
  "pad_nat w n = (let s = show_nat n in replicate (w - length s) CHR ''0'' @ s)"

text \<open>Year, month and day of a day number counted from 1 January of year 1.\<close>

definition civil_date :: "nat \<Rightarrow> nat \<times> nat \<times> nat" where
  "civil_date days =
     (let z = days + 306; era = z div 146097; doe = z mod 146097;
          yoe = (doe - doe div 1460 + doe div 36524 - doe div 146096) div 365;
          doy = doe - (365 * yoe + yoe div 4 - yoe div 100);
          mp = (5 * doy + 2) div 153;
          d = doy - (153 * mp + 2) div 5 + 1;
          m = (if mp < 10 then mp + 3 else mp - 9);
          y = yoe + era * 400 + (if m \<le> 2 then 1 else 0)
      in (y, m, d))"

definition rfc3339 :: "instant \<Rightarrow> string" where
  "rfc3339 t =
     (let ns = nat t; secs = ns div 1000000000; frac = ns mod 1000000000;
          (y, m, d) = civil_date (secs div 86400); s = secs mod 86400;
          ftext = trim_right (\<lambda>c. c = CHR ''0'') (pad_nat 9 frac)
      in pad_nat 4 y @ ''-'' @ pad_nat 2 m @ ''-'' @ pad_nat 2 d @ ''T'' @
         pad_nat 2 (s div 3600) @ '':'' @ pad_nat 2 (s div 60 mod 60) @ '':'' @
         pad_nat 2 (s mod 60) @ (if frac = 0 then '''' else ''.'' @ ftext) @ ''Z'')"

fun json_text :: "json \<Rightarrow> string" where
  "json_text JNull = ''null''"
| "json_text (JBool b) = (if b then ''true'' else ''false'')"
| "json_text (JInt i) = show_int i"
| "json_text (JDec s) = s"
| "json_text (JStr s) = json_quote s"
| "json_text (JTime t) = json_quote (rfc3339 t)"
| "json_text (JArr xs) = ''['' @ join '','' (map json_text xs) @ '']''"
| "json_text (JObj kvs) =
     [CHR 0x7B] @ join '','' (map (\<lambda>(k, v). json_quote k @ '':'' @ json_text v) kvs) @ [CHR 0x7D]"

subsection \<open>Decoding into \<open>any\<close>\<close>

fun bit_len :: "nat \<Rightarrow> nat" where
  "bit_len n = (if n = 0 then 0 else Suc (bit_len (n div 2)))"

declare bit_len.simps [simp del]

text \<open>The nearest \<open>float64\<close> to a natural number: 53 significant bits, ties to even.\<close>

definition float64_nat :: "nat \<Rightarrow> nat" where
  "float64_nat n =
     (let k = bit_len n - 53; q = n div 2 ^ k; r = n mod 2 ^ k
      in (if 2 * r > 2 ^ k \<or> 2 * r = 2 ^ k \<and> odd q then q + 1 else q) * 2 ^ k)"

definition float64_int :: "int \<Rightarrow> int" where
  "float64_int i = (if i < 0 then - int (float64_nat (nat (- i))) else int (float64_nat (nat i)))"

definition last_wins :: "(string \<times> json) list \<Rightarrow> (string \<times> json) list" where
  "last_wins kvs = foldl (\<lambda>m (k, v). map_put k v m) [] kvs"

fun json_any :: "json \<Rightarrow> json" where
  "json_any (JInt i) = JInt (float64_int i)"
| "json_any (JArr xs) = JArr (map json_any xs)"
| "json_any (JObj kvs) = JObj (sort_key fst (last_wins (map (\<lambda>(k, v). (k, json_any v)) kvs)))"
| "json_any j = j"

subsection \<open>Redaction\<close>

definition sensitiveKeys :: "string list" where
  "sensitiveKeys = [''authorization'', ''cookie'', ''password'', ''passwd'', ''token'', ''secret'',
     ''api_key'', ''apikey'', ''jwt'', ''dsn'']"

definition isSensitiveKey :: "string \<Rightarrow> bool" where
  "isSensitiveKey key =
     (let lowered = to_lower (trim_space key);
          normalized = map (\<lambda>c. if c = CHR ''-'' \<or> c = CHR ''.'' then CHR ''_'' else c) lowered
      in list_ex (\<lambda>sensitive. normalized = sensitive \<or> has_suffix normalized (''_'' @ sensitive))
           sensitiveKeys)"

fun redactedValue :: "json \<Rightarrow> json" where
  "redactedValue (JObj kvs) = JObj (map (\<lambda>(k, child). (k, redactedValue child)) kvs)"
| "redactedValue (JArr xs) = JArr (map redactedValue xs)"
| "redactedValue JNull = JNull"
| "redactedValue _ = JStr ''[REDACTED]''"

fun redact :: "json \<Rightarrow> json" where
  "redact (JObj kvs) =
     JObj (map (\<lambda>(k, child). (k, if isSensitiveKey k then redactedValue child else redact child)) kvs)"
| "redact (JArr xs) = JArr (map redact xs)"
| "redact j = j"

text \<open>
  A value of Go type \<open>any\<close> that \<open>json.Marshal\<close> rejects (a channel, a function, a cyclic or
  non-finite value) is \<open>None\<close>.
\<close>

type_synonym anyval = "json option"

definition marshalRedacted :: "anyval \<Rightarrow> json option" where
  "marshalRedacted value = (case value of None \<Rightarrow> None | Some v \<Rightarrow> Some (redact (json_any v)))"

subsection \<open>Paths to the leaves of a document\<close>

text \<open>The scalars and empty containers of a document with the object keys above them.\<close>

fun leaf_paths :: "json \<Rightarrow> (string list \<times> json) list" where
  "leaf_paths (JArr xs) =
     (if xs = [] then [([], JArr [])] else concat (map leaf_paths xs))"
| "leaf_paths (JObj kvs) =
     (if kvs = [] then [([], JObj [])]
      else concat (map (\<lambda>(k, v). map (\<lambda>(p, l). (k # p, l)) (leaf_paths v)) kvs))"
| "leaf_paths j = [([], j)]"

definition mask_leaf :: "json \<Rightarrow> json" where
  "mask_leaf l = (case l of JNull \<Rightarrow> JNull | JArr _ \<Rightarrow> l | JObj _ \<Rightarrow> l | _ \<Rightarrow> JStr ''[REDACTED]'')"

lemma mask_leaf_simps [simp]:
  "mask_leaf JNull = JNull" "mask_leaf (JArr xs) = JArr xs" "mask_leaf (JObj kvs) = JObj kvs"
  "mask_leaf (JBool b) = JStr ''[REDACTED]''" "mask_leaf (JInt i) = JStr ''[REDACTED]''"
  "mask_leaf (JDec s) = JStr ''[REDACTED]''" "mask_leaf (JStr s) = JStr ''[REDACTED]''"
  "mask_leaf (JTime t) = JStr ''[REDACTED]''"
  by (simp_all add: mask_leaf_def)

lemma map_concat_cong:
  "(\<And>x. x \<in> set xs \<Longrightarrow> f x = map g (h x)) \<Longrightarrow> concat (map f xs) = map g (concat (map h xs))"
  by (induction xs) auto

lemma leaf_paths_redactedValue:
  "leaf_paths (redactedValue v) = map (\<lambda>(p, l). (p, mask_leaf l)) (leaf_paths v)"
proof (induction v rule: redactedValue.induct)
  case (1 kvs)
  have "map (\<lambda>(p, l). (k # p, l)) (leaf_paths (redactedValue child)) =
      map (\<lambda>(p, l). (p, mask_leaf l)) (map (\<lambda>(p, l). (k # p, l)) (leaf_paths child))"
    if "(k, child) \<in> set kvs" for k child
    using 1 that by fastforce
  then show ?case
    by (auto simp: comp_def split_beta intro!: map_concat_cong)
next
  case (2 xs)
  then show ?case
    by (auto simp: comp_def intro!: map_concat_cong)
qed auto

lemma leaf_paths_redact:
  "leaf_paths (redact v) =
     map (\<lambda>(p, l). (p, if list_ex isSensitiveKey p then mask_leaf l else l)) (leaf_paths v)"
proof (induction v rule: redact.induct)
  case (1 kvs)
  let ?g = "\<lambda>(p, l). (p, if list_ex isSensitiveKey p then mask_leaf l else l)"
  have "map (\<lambda>(p, l). (k # p, l)) (leaf_paths (if isSensitiveKey k then redactedValue child else redact child)) =
      map ?g (map (\<lambda>(p, l). (k # p, l)) (leaf_paths child))"
    if "(k, child) \<in> set kvs" for k child
    using 1 that by (cases "isSensitiveKey k") (fastforce simp: leaf_paths_redactedValue)+
  then show ?case
    by (auto simp: comp_def split_beta intro!: map_concat_cong)
next
  case (2 xs)
  then show ?case
    by (auto simp: comp_def intro!: map_concat_cong)
qed auto

lemma redactedValue_idem [simp]: "redactedValue (redactedValue v) = redactedValue v"
  by (induction v rule: redactedValue.induct) auto

lemma redact_redactedValue [simp]: "redact (redactedValue v) = redactedValue v"
  by (induction v rule: redactedValue.induct) auto

lemma redact_idem: "redact (redact v) = redact v"
  by (induction v rule: redact.induct) auto

subsection \<open>Precision of decoded numbers\<close>

lemma bit_len_bound: "n < 2 ^ bit_len n"
proof (induction n rule: bit_len.induct)
  case (1 n)
  show ?case
  proof (cases "n = 0")
    case False
    then have "n div 2 < 2 ^ bit_len (n div 2)" using 1 by simp
    then have "n < 2 * 2 ^ bit_len (n div 2)" by linarith
    then show ?thesis using False by (simp add: bit_len.simps [of n])
  qed (simp add: bit_len.simps)
qed

lemma bit_len_le: "n < 2 ^ k \<Longrightarrow> bit_len n \<le> k"
proof (induction n arbitrary: k rule: bit_len.induct)
  case (1 n)
  show ?case
  proof (cases "n = 0")
    case False
    with "1.prems" obtain j where j: "k = Suc j" by (cases k) auto
    then have "n div 2 < 2 ^ j" using "1.prems" by simp
    then show ?thesis using 1 False j by (simp add: bit_len.simps [of n])
  qed (simp add: bit_len.simps)
qed

lemma float64_nat_exact: "n \<le> 2 ^ 53 \<Longrightarrow> float64_nat n = n"
proof (cases "n = 2 ^ 53")
  case True
  have "bit_len (2 ^ 53) = 54" by (simp add: bit_len.simps)
  with True show ?thesis by (simp add: float64_nat_def)
next
  case False
  moreover assume "n \<le> 2 ^ 53"
  ultimately have "bit_len n \<le> 53" by (intro bit_len_le) simp
  then show ?thesis by (simp add: float64_nat_def)
qed

lemma float64_int_exact: "\<bar>i\<bar> \<le> 2 ^ 53 \<Longrightarrow> float64_int i = i"
  using float64_nat_exact [of "nat (- i)"] float64_nat_exact [of "nat i"]
  by (auto simp: float64_int_def nat_le_iff)

text \<open>
  C25. What redaction does to a captured document, leaf by leaf.  A scalar that lies under a
  sensitive key, at whatever depth, is replaced by the mask, nulls and empty containers
  excepted; every other scalar, every key and the whole shape of the document stay as the
  decoded value had them, and redacting a second time changes nothing.
\<close>
theorem marshalRedacted_masks_exactly:
  "marshalRedacted (Some v) = Some (redact (json_any v)) \<and>
   leaf_paths (redact (json_any v)) =
     map (\<lambda>(path, leaf). (path, if list_ex isSensitiveKey path then mask_leaf leaf else leaf))
       (leaf_paths (json_any v)) \<and>
   redact (redact (json_any v)) = redact (json_any v)"
  by (simp add: marshalRedacted_def leaf_paths_redact redact_idem)

text \<open>
  An integer survives the decoding that precedes redaction unchanged up to 2 to the 53 in
  absolute value; the integer after that comes back as its even neighbour, because the value
  passes through a 64-bit float.
\<close>
theorem captured_integers_exact:
  "map (\<lambda>i. marshalRedacted (Some (JInt i))) [- (2 ^ 53), max (- (2 ^ 53)) (min (2 ^ 53) k), 2 ^ 53, 2 ^ 53 + 1] =
   map (\<lambda>i. Some (JInt i)) [- (2 ^ 53), max (- (2 ^ 53)) (min (2 ^ 53) k), 2 ^ 53, 2 ^ 53]"
proof -
  have "float64_int (2 ^ 53 + 1) = 2 ^ 53"
    by (simp add: float64_int_def float64_nat_def bit_len.simps)
  then show ?thesis by (simp add: marshalRedacted_def float64_int_exact)
qed


end
