(* ===== verification/Contracts.thy ===== *)
theory Contracts
  imports Redact "HOL-Library.Monad_Syntax"
begin

text \<open>
  The entities of \<open>contracts.go\<close>: one record per struct, with the struct's embedded \<open>Meta\<close> as
  the record it extends, and for each the JSON object its tags prescribe (\<open>enc_\<dots>\<close>) and the
  decoding of such an object (\<open>dec_\<dots>\<close>, \<open>None\<close> where \<open>json.Unmarshal\<close> reports an error:
  a field of another JSON type).  A missing or null field decodes to the zero value.
\<close>

type_synonym Kind = string

abbreviation KindRequest :: Kind where "KindRequest \<equiv> ''request''"
abbreviation KindQuery :: Kind where "KindQuery \<equiv> ''query''"
abbreviation KindEmail :: Kind where "KindEmail \<equiv> ''email''"
abbreviation KindCache :: Kind where "KindCache \<equiv> ''cache''"
abbreviation KindJob :: Kind where "KindJob \<equiv> ''job''"
abbreviation KindLog :: Kind where "KindLog \<equiv> ''log''"
abbreviation KindHTTPCall :: Kind where "KindHTTPCall \<equiv> ''http_call''"
abbreviation KindSchedule :: Kind where "KindSchedule \<equiv> ''schedule''"
abbreviation KindCallable :: Kind where "KindCallable \<equiv> ''callable''"
abbreviation KindTask :: Kind where "KindTask \<equiv> ''task''"
abbreviation KindException :: Kind where "KindException \<equiv> ''exception''"
abbreviation KindEvent :: Kind where "KindEvent \<equiv> ''event''"
abbreviation KindMiddleware :: Kind where "KindMiddleware \<equiv> ''middleware''"

subsection \<open>Records\<close>

record Meta =
  mID :: string
  mRequestID :: string
  mParentID :: string
  mOriginRequestID :: string
  mProcess :: string
  mInstance :: string
  mStartedAt :: instant
  mDuration :: duration
  mTags :: tags

record HTTPMessage =
  hmHeaders :: "(string \<times> string list) list"
  hmContentType :: string
  hmBody :: string
  hmSize :: int
  hmTruncated :: bool

record SourceFrame =
  sfFunction :: string
  sfFile :: string
  sfLine :: int
  sfURL :: string

record QueryPlanIssue =
  qiCode :: string
  qiRelation :: string
  qiEstimatedRows :: int
  qiDetail :: string

record QueryPlan =
  qpCommand :: string
  qpFormat :: string
  qpText :: string
  qpDuration :: duration
  qpIssues :: "QueryPlanIssue list"
  qpError :: string

record Query = Meta +
  qConnection :: string
  qDriver :: string
  qDatabase :: string
  qOperation :: string
  qSQL :: string
  qRowsAffected :: "int option"
  qCallsite :: "SourceFrame list"
  qPlan :: "QueryPlan option"
  qError :: string

record Address =
  adName :: string
  adEmail :: string

record Email = Meta +
  emTransport :: string
  emFrom :: Address
  emTo :: "Address list"
  emCC :: "Address list"
  emBCC :: "Address list"
  emSubject :: string
  emText :: string
  emHTML :: string
  emStatus :: string
  emCallsite :: "SourceFrame list"
  emError :: string

record Cache = Meta +
  caStore :: string
  caOperation :: string
  caKey :: string
  caHit :: bool
  caTTL :: duration
  caSize :: int
  caValue :: string
  caTruncated :: bool
  caCallsite :: "SourceFrame list"
  caError :: string

record Argument =
  arName :: string
  arType :: string
  arValue :: string
  arSize :: int
  arTruncated :: bool

record Job = Meta +
  joName :: string
  joQueue :: string
  joConnection :: string
  joState :: string
  joAttempt :: int
  joMaxAttempts :: int
  joAvailableAt :: instant
  joWait :: duration
  joArguments :: "Argument list"
  joCallsite :: "SourceFrame list"
  joError :: string

record Log = Meta +
  loLevel :: string
  loMessage :: string
  loFields :: "(string \<times> anyval) list"
  loStack :: string

record HTTPCall = Meta +
  hcMethod :: string
  hcURL :: string
  hcStatus :: int
  hcRequest :: HTTPMessage
  hcResponse :: HTTPMessage
  hcResponseSize :: int
  hcCallsite :: "SourceFrame list"
  hcError :: string

record Schedule = Meta +
  scName :: string
  scState :: string
  scPlannedAt :: instant
  scPayload :: anyval
  scCallsite :: "SourceFrame list"
  scError :: string
  scPanic :: string

record Callable = Meta +
  clName :: string
  clState :: string
  clPayload :: anyval
  clResult :: anyval
  clCallsite :: "SourceFrame list"
  clError :: string
  clPanic :: string

record Task = Meta +
  taName :: string
  taState :: string
  taFields :: "(string \<times> anyval) list"
  taCallsite :: "SourceFrame list"
  taError :: string
  taPanic :: string

record Exception = Meta +
  exType :: string
  exMessage :: string
  exStack :: string

record Event = Meta +
  evKind :: string
  evName :: string
  evStatus :: string
  evSummary :: string
  evFields :: "(string \<times> anyval) list"
  evError :: string

record MiddlewareWorkSpan =
  wsOffset :: duration
  wsDuration :: duration

record Middleware = Meta +
  mwName :: string
  mwState :: string
  mwWorkDuration :: "duration option"
  mwWorkSpans :: "MiddlewareWorkSpan list"
  mwError :: string

record Request = Meta +
  rqMethod :: string
  rqPath :: string
  rqRoute :: string
  rqQuery :: string
  rqScheme :: string
  rqProtocol :: string
  rqHost :: string
  rqRemoteIP :: string
  rqStatus :: int
  rqRequestSize :: int
  rqResponseSize :: int
  rqRequest :: HTTPMessage
  rqResponse :: HTTPMessage
  rqError :: string
  rqQueries :: "Query list"
  rqEmails :: "Email list"
  rqCache :: "Cache list"
  rqJobs :: "Job list"
  rqLogs :: "Log list"
  rqHTTPCalls :: "HTTPCall list"
  rqSchedules :: "Schedule list"
  rqExceptions :: "Exception list"
  rqEvents :: "Event list"
  rqMiddlewares :: "Middleware list"

record RequestResult =
  rrStatus :: int
  rrResponseSize :: int
  rrResponse :: HTTPMessage
  rrError :: string

record Entry =
  eCursor :: nat
  eID :: string
  eKind :: Kind
  eRequestID :: string
  eParentID :: string
  eOriginRequestID :: string
  eProcess :: string
  eInstance :: string
  eStartedAt :: instant
  eRecordedAt :: instant
  eDurationNS :: int
  eTags :: tags
  eData :: json

record Stats =
  stEvents :: nat
  stBytes :: int
  stDroppedEvents :: nat
  stEvictedEvents :: nat
  stSubscribers :: nat
  stCursor :: nat
  stMaxEvents :: int
  stMaxBytes :: int
  stRetentionNS :: int
  stStorage :: string
  stStorageError :: string
  stBodyLimit :: int
  stSampleRate :: rat
  stDisabledKinds :: "Kind list"
  stSidebarKinds :: "Kind list"

end
