(* ===== verification/ContractsJson.thy ===== *)
theory ContractsJson
  imports Contracts
begin

text \<open>
  The JSON form of the entities: \<open>enc_\<dots>\<close> builds the object the struct tags of
  \<open>contracts.go\<close> prescribe (\<open>omitempty\<close> drops zero numbers, false, empty strings, lists and
  maps and nil pointers and interfaces, but never a struct or a \<open>time.Time\<close>), \<open>dec_\<dots>\<close> is
  \<open>json.Unmarshal\<close> into the struct.  Field names are matched exactly, as every document the
  program writes spells them.
\<close>

subsection \<open>Encoding fields\<close>

type_synonym jfields = "(string \<times> json) list"

definition om_str :: "string \<Rightarrow> string \<Rightarrow> jfields" where
  "om_str k s = (if s = [] then [] else [(k, JStr s)])"

definition om_int :: "string \<Rightarrow> int \<Rightarrow> jfields" where
  "om_int k i = (if i = 0 then [] else [(k, JInt i)])"

definition om_bool :: "string \<Rightarrow> bool \<Rightarrow> jfields" where
  "om_bool k b = (if b then [(k, JBool b)] else [])"

definition om_list :: "string \<Rightarrow> ('a \<Rightarrow> json) \<Rightarrow> 'a list \<Rightarrow> jfields" where
  "om_list k f xs = (if xs = [] then [] else [(k, JArr (map f xs))])"

definition om_map :: "string \<Rightarrow> ('a \<Rightarrow> json) \<Rightarrow> (string \<times> 'a) list \<Rightarrow> jfields" where
  "om_map k f m = (if m = [] then [] else [(k, JObj (map (\<lambda>(x, v). (x, f v)) m))])"

definition om_ptr :: "string \<Rightarrow> ('a \<Rightarrow> json) \<Rightarrow> 'a option \<Rightarrow> jfields" where
  "om_ptr k f p = (case p of None \<Rightarrow> [] | Some v \<Rightarrow> [(k, f v)])"

text \<open>A nil interface is the value whose encoding is \<open>null\<close>.\<close>

definition om_any :: "string \<Rightarrow> anyval \<Rightarrow> jfields option" where
  "om_any k v = (case v of None \<Rightarrow> None | Some JNull \<Rightarrow> Some [] | Some j \<Rightarrow> Some [(k, j)])"

definition om_anymap :: "string \<Rightarrow> (string \<times> anyval) list \<Rightarrow> jfields option" where
  "om_anymap k m =
     (if m = [] then Some []
      else do { vs \<leftarrow> those (map snd m); Some [(k, JObj (zip (map fst m) vs))] })"

subsection \<open>Encoding structs\<close>

definition enc_meta :: "'a Meta_scheme \<Rightarrow> jfields" where
  "enc_meta m =
     om_str ''id'' (mID m) @ om_str ''request_id'' (mRequestID m) @
     om_str ''parent_id'' (mParentID m) @ om_str ''origin_request_id'' (mOriginRequestID m) @
     om_str ''process'' (mProcess m) @ om_str ''instance'' (mInstance m) @
     [(''started_at'', JTime (mStartedAt m))] @ om_int ''duration_ns'' (mDuration m) @
     om_map ''tags'' JStr (mTags m)"

definition enc_message :: "HTTPMessage \<Rightarrow> json" where
  "enc_message h = JObj (
     om_map ''headers'' (\<lambda>vs. JArr (map JStr vs)) (hmHeaders h) @
     om_str ''content_type'' (hmContentType h) @ om_str ''body'' (hmBody h) @
     om_int ''size'' (hmSize h) @ om_bool ''truncated'' (hmTruncated h))"

definition enc_frame :: "SourceFrame \<Rightarrow> json" where
  "enc_frame f = JObj (om_str ''function'' (sfFunction f) @
     [(''file'', JStr (sfFile f)), (''line'', JInt (sfLine f))] @ om_str ''url'' (sfURL f))"

definition enc_issue :: "QueryPlanIssue \<Rightarrow> json" where
  "enc_issue i = JObj ([(''code'', JStr (qiCode i))] @ om_str ''relation'' (qiRelation i) @
     om_int ''estimated_rows'' (qiEstimatedRows i) @ om_str ''detail'' (qiDetail i))"

definition enc_plan :: "QueryPlan \<Rightarrow> json" where
  "enc_plan p = JObj (om_str ''command'' (qpCommand p) @ om_str ''format'' (qpFormat p) @
     om_str ''text'' (qpText p) @ om_int ''duration_ns'' (qpDuration p) @
     om_list ''issues'' enc_issue (qpIssues p) @ om_str ''error'' (qpError p))"

definition enc_query :: "Query \<Rightarrow> json" where
  "enc_query q = JObj (enc_meta q @
     om_str ''connection'' (qConnection q) @ om_str ''driver'' (qDriver q) @
     om_str ''database'' (qDatabase q) @ om_str ''operation'' (qOperation q) @
     [(''sql'', JStr (qSQL q))] @ om_ptr ''rows_affected'' JInt (qRowsAffected q) @
     om_list ''callsite'' enc_frame (qCallsite q) @ om_ptr ''plan'' enc_plan (qPlan q) @
     om_str ''error'' (qError q))"

definition enc_address :: "Address \<Rightarrow> json" where
  "enc_address a = JObj (om_str ''name'' (adName a) @ [(''email'', JStr (adEmail a))])"

definition enc_email :: "Email \<Rightarrow> json" where
  "enc_email e = JObj (enc_meta e @
     om_str ''transport'' (emTransport e) @ [(''from'', enc_address (emFrom e))] @
     om_list ''to'' enc_address (emTo e) @ om_list ''cc'' enc_address (emCC e) @
     om_list ''bcc'' enc_address (emBCC e) @ om_str ''subject'' (emSubject e) @
     om_str ''text'' (emText e) @ om_str ''html'' (emHTML e) @ om_str ''status'' (emStatus e) @
     om_list ''callsite'' enc_frame (emCallsite e) @ om_str ''error'' (emError e))"

definition enc_cache :: "Cache \<Rightarrow> json" where
  "enc_cache c = JObj (enc_meta c @
     om_str ''store'' (caStore c) @ om_str ''operation'' (caOperation c) @
     om_str ''key'' (caKey c) @ [(''hit'', JBool (caHit c))] @ om_int ''ttl_ns'' (caTTL c) @
     om_int ''size'' (caSize c) @ om_str ''value'' (caValue c) @
     om_bool ''truncated'' (caTruncated c) @ om_list ''callsite'' enc_frame (caCallsite c) @
     om_str ''error'' (caError c))"

definition enc_argument :: "Argument \<Rightarrow> json" where
  "enc_argument a = JObj (om_str ''name'' (arName a) @ om_str ''type'' (arType a) @
     om_str ''value'' (arValue a) @ om_int ''size'' (arSize a) @ om_bool ''truncated'' (arTruncated a))"

definition enc_job :: "Job \<Rightarrow> json" where
  "enc_job j = JObj (enc_meta j @
     [(''name'', JStr (joName j))] @ om_str ''queue'' (joQueue j) @
     om_str ''connection'' (joConnection j) @ om_str ''state'' (joState j) @
     om_int ''attempt'' (joAttempt j) @ om_int ''max_attempts'' (joMaxAttempts j) @
     [(''available_at'', JTime (joAvailableAt j))] @ om_int ''wait_ns'' (joWait j) @
     om_list ''arguments'' enc_argument (joArguments j) @
     om_list ''callsite'' enc_frame (joCallsite j) @ om_str ''error'' (joError j))"

definition enc_log :: "Log \<Rightarrow> anyval" where
  "enc_log l = do {
     fs \<leftarrow> om_anymap ''fields'' (loFields l);
     Some (JObj (enc_meta l @ om_str ''level'' (loLevel l) @
       [(''message'', JStr (loMessage l))] @ fs @ om_str ''stack'' (loStack l))) }"

definition enc_call :: "HTTPCall \<Rightarrow> json" where
  "enc_call c = JObj (enc_meta c @
     [(''method'', JStr (hcMethod c)), (''url'', JStr (hcURL c))] @ om_int ''status'' (hcStatus c) @
     [(''request'', enc_message (hcRequest c)), (''response'', enc_message (hcResponse c))] @
     om_int ''response_size'' (hcResponseSize c) @ om_list ''callsite'' enc_frame (hcCallsite c) @
     om_str ''error'' (hcError c))"

definition enc_schedule :: "Schedule \<Rightarrow> anyval" where
  "enc_schedule s = do {
     payload \<leftarrow> om_any ''payload'' (scPayload s);
     Some (JObj (enc_meta s @ [(''name'', JStr (scName s))] @ om_str ''state'' (scState s) @
       [(''planned_at'', JTime (scPlannedAt s))] @ payload @
       om_list ''callsite'' enc_frame (scCallsite s) @ om_str ''error'' (scError s) @
       om_str ''panic'' (scPanic s))) }"

definition enc_callable :: "Callable \<Rightarrow> anyval" where
  "enc_callable c = do {
     payload \<leftarrow> om_any ''payload'' (clPayload c);
     result \<leftarrow> om_any ''result'' (clResult c);
     Some (JObj (enc_meta c @ [(''name'', JStr (clName c))] @ om_str ''state'' (clState c) @
       payload @ result @ om_list ''callsite'' enc_frame (clCallsite c) @
       om_str ''error'' (clError c) @ om_str ''panic'' (clPanic c))) }"

definition enc_task :: "Task \<Rightarrow> anyval" where
  "enc_task t = do {
     fs \<leftarrow> om_anymap ''fields'' (taFields t);
     Some (JObj (enc_meta t @ [(''name'', JStr (taName t))] @ om_str ''state'' (taState t) @ fs @
       om_list ''callsite'' enc_frame (taCallsite t) @ om_str ''error'' (taError t) @
       om_str ''panic'' (taPanic t))) }"

definition enc_exception :: "Exception \<Rightarrow> json" where
  "enc_exception e = JObj (enc_meta e @ om_str ''type'' (exType e) @
     [(''message'', JStr (exMessage e))] @ om_str ''stack'' (exStack e))"

definition enc_event :: "Event \<Rightarrow> anyval" where
  "enc_event e = do {
     fs \<leftarrow> om_anymap ''fields'' (evFields e);
     Some (JObj (enc_meta e @ [(''kind'', JStr (evKind e)), (''name'', JStr (evName e))] @
       om_str ''status'' (evStatus e) @ om_str ''summary'' (evSummary e) @ fs @
       om_str ''error'' (evError e))) }"

definition enc_span :: "MiddlewareWorkSpan \<Rightarrow> json" where
  "enc_span s = JObj (om_int ''offset_ns'' (wsOffset s) @ [(''duration_ns'', JInt (wsDuration s))])"

definition enc_middleware :: "Middleware \<Rightarrow> json" where
  "enc_middleware m = JObj (enc_meta m @ [(''name'', JStr (mwName m))] @
     om_str ''state'' (mwState m) @ om_ptr ''work_duration_ns'' JInt (mwWorkDuration m) @
     om_list ''work_spans'' enc_span (mwWorkSpans m) @ om_str ''error'' (mwError m))"

definition enc_request :: "Request \<Rightarrow> anyval" where
  "enc_request r = do {
     logs \<leftarrow> those (map enc_log (rqLogs r));
     schedules \<leftarrow> those (map enc_schedule (rqSchedules r));
     events \<leftarrow> those (map enc_event (rqEvents r));
     Some (JObj (enc_meta r @
       [(''method'', JStr (rqMethod r)), (''path'', JStr (rqPath r))] @
       om_str ''route'' (rqRoute r) @ om_str ''query'' (rqQuery r) @
       om_str ''scheme'' (rqScheme r) @ om_str ''protocol'' (rqProtocol r) @
       om_str ''host'' (rqHost r) @ om_str ''remote_ip'' (rqRemoteIP r) @
       [(''status'', JInt (rqStatus r))] @ om_int ''request_size'' (rqRequestSize r) @
       om_int ''response_size'' (rqResponseSize r) @
       [(''request'', enc_message (rqRequest r)), (''response'', enc_message (rqResponse r))] @
       om_str ''error'' (rqError r) @ om_list ''queries'' enc_query (rqQueries r) @
       om_list ''emails'' enc_email (rqEmails r) @ om_list ''cache'' enc_cache (rqCache r) @
       om_list ''jobs'' enc_job (rqJobs r) @ om_list ''logs'' (\<lambda>j. j) logs @
       om_list ''http_calls'' enc_call (rqHTTPCalls r) @ om_list ''schedules'' (\<lambda>j. j) schedules @
       om_list ''exceptions'' enc_exception (rqExceptions r) @ om_list ''events'' (\<lambda>j. j) events @
       om_list ''middlewares'' enc_middleware (rqMiddlewares r))) }"

definition enc_entry :: "Entry \<Rightarrow> json" where
  "enc_entry e = JObj ([(''cursor'', JInt (int (eCursor e))), (''id'', JStr (eID e)),
       (''kind'', JStr (eKind e))] @
     om_str ''request_id'' (eRequestID e) @ om_str ''parent_id'' (eParentID e) @
     om_str ''origin_request_id'' (eOriginRequestID e) @ om_str ''process'' (eProcess e) @
     om_str ''instance'' (eInstance e) @
     [(''started_at'', JTime (eStartedAt e)), (''recorded_at'', JTime (eRecordedAt e))] @
     om_int ''duration_ns'' (eDurationNS e) @ om_map ''tags'' JStr (eTags e) @
     [(''data'', eData e)])"

subsection \<open>Decoding fields\<close>

definition get_str :: "jfields \<Rightarrow> string \<Rightarrow> string option" where
  "get_str kvs k = (case map_get kvs k of
     None \<Rightarrow> Some [] | Some JNull \<Rightarrow> Some [] | Some (JStr s) \<Rightarrow> Some s
   | Some (JTime t) \<Rightarrow> Some (rfc3339 t) | Some _ \<Rightarrow> None)"

definition get_int :: "jfields \<Rightarrow> string \<Rightarrow> int option" where
  "get_int kvs k = (case map_get kvs k of
     None \<Rightarrow> Some 0 | Some JNull \<Rightarrow> Some 0 | Some (JInt i) \<Rightarrow> Some i | Some _ \<Rightarrow> None)"

definition get_bool :: "jfields \<Rightarrow> string \<Rightarrow> bool option" where
  "get_bool kvs k = (case map_get kvs k of
     None \<Rightarrow> Some False | Some JNull \<Rightarrow> Some False | Some (JBool b) \<Rightarrow> Some b | Some _ \<Rightarrow> None)"

definition get_time :: "jfields \<Rightarrow> string \<Rightarrow> instant option" where
  "get_time kvs k = (case map_get kvs k of
     None \<Rightarrow> Some 0 | Some JNull \<Rightarrow> Some 0 | Some (JTime t) \<Rightarrow> Some t | Some _ \<Rightarrow> None)"

definition get_list :: "(json \<Rightarrow> 'a option) \<Rightarrow> jfields \<Rightarrow> string \<Rightarrow> 'a list option" where
  "get_list f kvs k = (case map_get kvs k of
     None \<Rightarrow> Some [] | Some JNull \<Rightarrow> Some [] | Some (JArr xs) \<Rightarrow> those (map f xs) | Some _ \<Rightarrow> None)"

definition get_map :: "(json \<Rightarrow> 'a option) \<Rightarrow> jfields \<Rightarrow> string \<Rightarrow> (string \<times> 'a) list option" where
  "get_map f kvs k = (case map_get kvs k of
     None \<Rightarrow> Some [] | Some JNull \<Rightarrow> Some []
   | Some (JObj m) \<Rightarrow> map_option (zip (map fst m)) (those (map (\<lambda>(x, v). f v) m)) | Some _ \<Rightarrow> None)"

definition get_ptr :: "(json \<Rightarrow> 'a option) \<Rightarrow> jfields \<Rightarrow> string \<Rightarrow> 'a option option" where
  "get_ptr f kvs k = (case map_get kvs k of
     None \<Rightarrow> Some None | Some JNull \<Rightarrow> Some None | Some j \<Rightarrow> map_option Some (f j))"

definition get_struct :: "(json \<Rightarrow> 'a option) \<Rightarrow> jfields \<Rightarrow> string \<Rightarrow> 'a option" where
  "get_struct f kvs k = (case map_get kvs k of None \<Rightarrow> f JNull | Some j \<Rightarrow> f j)"

definition get_any :: "jfields \<Rightarrow> string \<Rightarrow> anyval option" where
  "get_any kvs k = (case map_get kvs k of None \<Rightarrow> Some (Some JNull) | Some j \<Rightarrow> Some (Some j))"

definition as_str :: "json \<Rightarrow> string option" where
  "as_str j = get_str [([], j)] []"

definition as_int :: "json \<Rightarrow> int option" where
  "as_int j = get_int [([], j)] []"

definition as_strs :: "json \<Rightarrow> string list option" where
  "as_strs j = get_list as_str [([], j)] []"

definition as_any :: "json \<Rightarrow> anyval option" where
  "as_any j = Some (Some j)"

text \<open>Decoding \<open>null\<close> into a struct leaves it as it is; any other non-object is an error.\<close>

definition obj_fields :: "json \<Rightarrow> jfields option" where
  "obj_fields j = (case j of JObj kvs \<Rightarrow> Some kvs | JNull \<Rightarrow> Some [] | _ \<Rightarrow> None)"

subsection \<open>Decoding structs\<close>

definition dec_meta :: "jfields \<Rightarrow> Meta option" where
  "dec_meta kvs = do {
     i \<leftarrow> get_str kvs ''id''; r \<leftarrow> get_str kvs ''request_id''; p \<leftarrow> get_str kvs ''parent_id'';
     og \<leftarrow> get_str kvs ''origin_request_id''; pr \<leftarrow> get_str kvs ''process'';
     inst \<leftarrow> get_str kvs ''instance''; st \<leftarrow> get_time kvs ''started_at'';
     du \<leftarrow> get_int kvs ''duration_ns''; tg \<leftarrow> get_map as_str kvs ''tags'';
     Some \<lparr>mID = i, mRequestID = r, mParentID = p, mOriginRequestID = og, mProcess = pr,
           mInstance = inst, mStartedAt = st, mDuration = du, mTags = tg\<rparr> }"

definition dec_message :: "json \<Rightarrow> HTTPMessage option" where
  "dec_message j = do {
     kvs \<leftarrow> obj_fields j;
     h \<leftarrow> get_map as_strs kvs ''headers''; c \<leftarrow> get_str kvs ''content_type'';
     b \<leftarrow> get_str kvs ''body''; s \<leftarrow> get_int kvs ''size''; t \<leftarrow> get_bool kvs ''truncated'';
     Some \<lparr>hmHeaders = h, hmContentType = c, hmBody = b, hmSize = s, hmTruncated = t\<rparr> }"

definition dec_frame :: "json \<Rightarrow> SourceFrame option" where
  "dec_frame j = do {
     kvs \<leftarrow> obj_fields j;
     fn \<leftarrow> get_str kvs ''function''; fl \<leftarrow> get_str kvs ''file''; ln \<leftarrow> get_int kvs ''line'';
     u \<leftarrow> get_str kvs ''url'';
     Some \<lparr>sfFunction = fn, sfFile = fl, sfLine = ln, sfURL = u\<rparr> }"

definition dec_issue :: "json \<Rightarrow> QueryPlanIssue option" where
  "dec_issue j = do {
     kvs \<leftarrow> obj_fields j;
     c \<leftarrow> get_str kvs ''code''; r \<leftarrow> get_str kvs ''relation'';
     n \<leftarrow> get_int kvs ''estimated_rows''; d \<leftarrow> get_str kvs ''detail'';
     Some \<lparr>qiCode = c, qiRelation = r, qiEstimatedRows = n, qiDetail = d\<rparr> }"

definition dec_plan :: "json \<Rightarrow> QueryPlan option" where
  "dec_plan j = do {
     kvs \<leftarrow> obj_fields j;
     c \<leftarrow> get_str kvs ''command''; f \<leftarrow> get_str kvs ''format''; t \<leftarrow> get_str kvs ''text'';
     d \<leftarrow> get_int kvs ''duration_ns''; is \<leftarrow> get_list dec_issue kvs ''issues'';
     e \<leftarrow> get_str kvs ''error'';
     Some \<lparr>qpCommand = c, qpFormat = f, qpText = t, qpDuration = d, qpIssues = is, qpError = e\<rparr> }"

definition dec_query :: "json \<Rightarrow> Query option" where
  "dec_query j = do {
     kvs \<leftarrow> obj_fields j; m \<leftarrow> dec_meta kvs;
     cn \<leftarrow> get_str kvs ''connection''; dr \<leftarrow> get_str kvs ''driver''; db \<leftarrow> get_str kvs ''database'';
     op \<leftarrow> get_str kvs ''operation''; sq \<leftarrow> get_str kvs ''sql'';
     ra \<leftarrow> get_ptr as_int kvs ''rows_affected''; cs \<leftarrow> get_list dec_frame kvs ''callsite'';
     pl \<leftarrow> get_ptr dec_plan kvs ''plan''; er \<leftarrow> get_str kvs ''error'';
     Some (Meta.extend m (Query.fields cn dr db op sq ra cs pl er)) }"

definition dec_address :: "json \<Rightarrow> Address option" where
  "dec_address j = do {
     kvs \<leftarrow> obj_fields j; n \<leftarrow> get_str kvs ''name''; e \<leftarrow> get_str kvs ''email'';
     Some \<lparr>adName = n, adEmail = e\<rparr> }"

definition dec_email :: "json \<Rightarrow> Email option" where
  "dec_email j = do {
     kvs \<leftarrow> obj_fields j; m \<leftarrow> dec_meta kvs;
     tr \<leftarrow> get_str kvs ''transport''; fr \<leftarrow> get_struct dec_address kvs ''from'';
     tos \<leftarrow> get_list dec_address kvs ''to''; cc \<leftarrow> get_list dec_address kvs ''cc'';
     bcc \<leftarrow> get_list dec_address kvs ''bcc''; su \<leftarrow> get_str kvs ''subject'';
     tx \<leftarrow> get_str kvs ''text''; ht \<leftarrow> get_str kvs ''html''; st \<leftarrow> get_str kvs ''status'';
     cs \<leftarrow> get_list dec_frame kvs ''callsite''; er \<leftarrow> get_str kvs ''error'';
     Some (Meta.extend m (Email.fields tr fr tos cc bcc su tx ht st cs er)) }"

definition dec_cache :: "json \<Rightarrow> Cache option" where
  "dec_cache j = do {
     kvs \<leftarrow> obj_fields j; m \<leftarrow> dec_meta kvs;
     st \<leftarrow> get_str kvs ''store''; op \<leftarrow> get_str kvs ''operation''; ke \<leftarrow> get_str kvs ''key'';
     hi \<leftarrow> get_bool kvs ''hit''; tt \<leftarrow> get_int kvs ''ttl_ns''; si \<leftarrow> get_int kvs ''size'';
     va \<leftarrow> get_str kvs ''value''; tr \<leftarrow> get_bool kvs ''truncated'';
     cs \<leftarrow> get_list dec_frame kvs ''callsite''; er \<leftarrow> get_str kvs ''error'';
     Some (Meta.extend m (Cache.fields st op ke hi tt si va tr cs er)) }"

definition dec_argument :: "json \<Rightarrow> Argument option" where
  "dec_argument j = do {
     kvs \<leftarrow> obj_fields j; n \<leftarrow> get_str kvs ''name''; t \<leftarrow> get_str kvs ''type'';
     v \<leftarrow> get_str kvs ''value''; s \<leftarrow> get_int kvs ''size''; tr \<leftarrow> get_bool kvs ''truncated'';
     Some \<lparr>arName = n, arType = t, arValue = v, arSize = s, arTruncated = tr\<rparr> }"

definition dec_job :: "json \<Rightarrow> Job option" where
  "dec_job j = do {
     kvs \<leftarrow> obj_fields j; m \<leftarrow> dec_meta kvs;
     na \<leftarrow> get_str kvs ''name''; qu \<leftarrow> get_str kvs ''queue''; cn \<leftarrow> get_str kvs ''connection'';
     st \<leftarrow> get_str kvs ''state''; atm \<leftarrow> get_int kvs ''attempt''; ma \<leftarrow> get_int kvs ''max_attempts'';
     av \<leftarrow> get_time kvs ''available_at''; wa \<leftarrow> get_int kvs ''wait_ns'';
     ar \<leftarrow> get_list dec_argument kvs ''arguments''; cs \<leftarrow> get_list dec_frame kvs ''callsite'';
     er \<leftarrow> get_str kvs ''error'';
     Some (Meta.extend m (Job.fields na qu cn st atm ma av wa ar cs er)) }"

definition dec_log :: "json \<Rightarrow> Log option" where
  "dec_log j = do {
     kvs \<leftarrow> obj_fields j; m \<leftarrow> dec_meta kvs;
     le \<leftarrow> get_str kvs ''level''; me \<leftarrow> get_str kvs ''message''; fs \<leftarrow> get_map as_any kvs ''fields'';
     st \<leftarrow> get_str kvs ''stack'';
     Some (Meta.extend m (Log.fields le me fs st)) }"

definition dec_call :: "json \<Rightarrow> HTTPCall option" where
  "dec_call j = do {
     kvs \<leftarrow> obj_fields j; m \<leftarrow> dec_meta kvs;
     me \<leftarrow> get_str kvs ''method''; ur \<leftarrow> get_str kvs ''url''; st \<leftarrow> get_int kvs ''status'';
     rq \<leftarrow> get_struct dec_message kvs ''request''; rs \<leftarrow> get_struct dec_message kvs ''response'';
     sz \<leftarrow> get_int kvs ''response_size''; cs \<leftarrow> get_list dec_frame kvs ''callsite'';
     er \<leftarrow> get_str kvs ''error'';
     Some (Meta.extend m (HTTPCall.fields me ur st rq rs sz cs er)) }"

definition dec_schedule :: "json \<Rightarrow> Schedule option" where
  "dec_schedule j = do {
     kvs \<leftarrow> obj_fields j; m \<leftarrow> dec_meta kvs;
     na \<leftarrow> get_str kvs ''name''; st \<leftarrow> get_str kvs ''state''; pl \<leftarrow> get_time kvs ''planned_at'';
     pa \<leftarrow> get_any kvs ''payload''; cs \<leftarrow> get_list dec_frame kvs ''callsite'';
     er \<leftarrow> get_str kvs ''error''; pn \<leftarrow> get_str kvs ''panic'';
     Some (Meta.extend m (Schedule.fields na st pl pa cs er pn)) }"

definition dec_callable :: "json \<Rightarrow> Callable option" where
  "dec_callable j = do {
     kvs \<leftarrow> obj_fields j; m \<leftarrow> dec_meta kvs;
     na \<leftarrow> get_str kvs ''name''; st \<leftarrow> get_str kvs ''state''; pa \<leftarrow> get_any kvs ''payload'';
     re \<leftarrow> get_any kvs ''result''; cs \<leftarrow> get_list dec_frame kvs ''callsite'';
     er \<leftarrow> get_str kvs ''error''; pn \<leftarrow> get_str kvs ''panic'';
     Some (Meta.extend m (Callable.fields na st pa re cs er pn)) }"

definition dec_task :: "json \<Rightarrow> Task option" where
  "dec_task j = do {
     kvs \<leftarrow> obj_fields j; m \<leftarrow> dec_meta kvs;
     na \<leftarrow> get_str kvs ''name''; st \<leftarrow> get_str kvs ''state''; fs \<leftarrow> get_map as_any kvs ''fields'';
     cs \<leftarrow> get_list dec_frame kvs ''callsite''; er \<leftarrow> get_str kvs ''error'';
     pn \<leftarrow> get_str kvs ''panic'';
     Some (Meta.extend m (Task.fields na st fs cs er pn)) }"

definition dec_exception :: "json \<Rightarrow> Exception option" where
  "dec_exception j = do {
     kvs \<leftarrow> obj_fields j; m \<leftarrow> dec_meta kvs;
     ty \<leftarrow> get_str kvs ''type''; me \<leftarrow> get_str kvs ''message''; st \<leftarrow> get_str kvs ''stack'';
     Some (Meta.extend m (Exception.fields ty me st)) }"

definition dec_event :: "json \<Rightarrow> Event option" where
  "dec_event j = do {
     kvs \<leftarrow> obj_fields j; m \<leftarrow> dec_meta kvs;
     ki \<leftarrow> get_str kvs ''kind''; na \<leftarrow> get_str kvs ''name''; st \<leftarrow> get_str kvs ''status'';
     su \<leftarrow> get_str kvs ''summary''; fs \<leftarrow> get_map as_any kvs ''fields''; er \<leftarrow> get_str kvs ''error'';
     Some (Meta.extend m (Event.fields ki na st su fs er)) }"

definition dec_span :: "json \<Rightarrow> MiddlewareWorkSpan option" where
  "dec_span j = do {
     kvs \<leftarrow> obj_fields j; off \<leftarrow> get_int kvs ''offset_ns''; du \<leftarrow> get_int kvs ''duration_ns'';
     Some \<lparr>wsOffset = off, wsDuration = du\<rparr> }"

definition dec_middleware :: "json \<Rightarrow> Middleware option" where
  "dec_middleware j = do {
     kvs \<leftarrow> obj_fields j; m \<leftarrow> dec_meta kvs;
     na \<leftarrow> get_str kvs ''name''; st \<leftarrow> get_str kvs ''state'';
     wd \<leftarrow> get_ptr as_int kvs ''work_duration_ns''; ws \<leftarrow> get_list dec_span kvs ''work_spans'';
     er \<leftarrow> get_str kvs ''error'';
     Some (Meta.extend m (Middleware.fields na st wd ws er)) }"

text \<open>
  \<open>Request\<close> is decoded with every list of its entities; \<open>RequestHead\<close> is the anonymous
  struct of method, path and status that the request filters decode.
\<close>

definition dec_request :: "json \<Rightarrow> Request option" where
  "dec_request j = do {
     kvs \<leftarrow> obj_fields j; m \<leftarrow> dec_meta kvs;
     me \<leftarrow> get_str kvs ''method''; pa \<leftarrow> get_str kvs ''path''; ro \<leftarrow> get_str kvs ''route'';
     qu \<leftarrow> get_str kvs ''query''; sc \<leftarrow> get_str kvs ''scheme''; pr \<leftarrow> get_str kvs ''protocol'';
     ho \<leftarrow> get_str kvs ''host''; ip \<leftarrow> get_str kvs ''remote_ip''; st \<leftarrow> get_int kvs ''status'';
     qs \<leftarrow> get_int kvs ''request_size''; ss \<leftarrow> get_int kvs ''response_size'';
     rq \<leftarrow> get_struct dec_message kvs ''request''; rs \<leftarrow> get_struct dec_message kvs ''response'';
     er \<leftarrow> get_str kvs ''error''; l1 \<leftarrow> get_list dec_query kvs ''queries'';
     l2 \<leftarrow> get_list dec_email kvs ''emails''; l3 \<leftarrow> get_list dec_cache kvs ''cache'';
     l4 \<leftarrow> get_list dec_job kvs ''jobs''; l5 \<leftarrow> get_list dec_log kvs ''logs'';
     l6 \<leftarrow> get_list dec_call kvs ''http_calls''; l7 \<leftarrow> get_list dec_schedule kvs ''schedules'';
     l8 \<leftarrow> get_list dec_exception kvs ''exceptions''; l9 \<leftarrow> get_list dec_event kvs ''events'';
     l10 \<leftarrow> get_list dec_middleware kvs ''middlewares'';
     Some (Meta.extend m (Request.fields me pa ro qu sc pr ho ip st qs ss rq rs er
       l1 l2 l3 l4 l5 l6 l7 l8 l9 l10)) }"

end
