(* ===== verification/Dashboard.thy ===== *)
theory Dashboard
  imports Contracts
begin

text \<open>
  The dashboard configuration and its snapshots (\<open>dashboard.go\<close>): an ordered list of widgets
  with distinct ids, normalised when they are added, and the sampling of their value sources.

  A value source is a callback of the application; \<open>'w\<close> is what it reads (its context and
  the rest of the world at the time of the call), and its outcome is a pair of results or a
  panic.
\<close>

datatype float64 = Fin rat | NaN | PosInf | NegInf

datatype valueOutcome = Returns float64 "string option" | Panics string

type_synonym 'w DashboardValueFunc = "'w \<Rightarrow> valueOutcome"

subsection \<open>Configuration\<close>

record 'w DashboardMetric =
  dmID :: string
  dmTitle :: string
  dmDescription :: string
  dmUnit :: string
  dmFormat :: string
  dmMode :: string
  dmSparkline :: bool
  dmColor :: string
  dmValue :: "'w DashboardValueFunc option"

record 'w DashboardSeries =
  dsID :: string
  dsLabel :: string
  dsColor :: string
  dsValue :: "'w DashboardValueFunc option"

record 'w DashboardChart =
  dcID :: string
  dcTitle :: string
  dcDescription :: string
  dcUnit :: string
  dcFormat :: string
  dcSpan :: int
  dcSeries :: "'w DashboardSeries list"

record 'w DashboardCounter =
  dkID :: string
  dkLabel :: string
  dkUnit :: string
  dkFormat :: string
  dkValue :: "'w DashboardValueFunc option"

record 'w DashboardCounterGrid =
  dgID :: string
  dgTitle :: string
  dgDescription :: string
  dgSpan :: int
  dgCounters :: "'w DashboardCounter list"

record 'w dashboardWidget =
  dwID :: string
  dwKind :: string
  dwBuiltin :: string
  dwTitle :: string
  dwDescription :: string
  dwSpan :: int
  dwMetric :: "'w DashboardMetric option"
  dwChart :: "'w DashboardChart option"
  dwCounterGrid :: "'w DashboardCounterGrid option"

type_synonym 'w dashboardConfig = "'w dashboardWidget list"

definition emptyWidget :: "'w dashboardWidget" where
  "emptyWidget = \<lparr>dwID = [], dwKind = [], dwBuiltin = [], dwTitle = [], dwDescription = [],
     dwSpan = 0, dwMetric = None, dwChart = None, dwCounterGrid = None\<rparr>"

definition DashboardMetricValue :: string where "DashboardMetricValue = ''value''"
definition DashboardMetricRate :: string where "DashboardMetricRate = ''rate''"

fun dashboard_set :: "'w dashboardConfig \<Rightarrow> 'w dashboardWidget \<Rightarrow> 'w dashboardConfig" where
  "dashboard_set [] widget = [widget]"
| "dashboard_set (w # ws) widget =
     (if dwID w = dwID widget then widget # ws else w # dashboard_set ws widget)"

definition dashboardSpan :: "int \<Rightarrow> int \<Rightarrow> int" where
  "dashboardSpan columns fallback =
     (let columns = (if columns = 0 then fallback else columns) in min 4 (max 1 columns))"

definition normalizedDashboardFormat :: "string \<Rightarrow> string" where
  "normalizedDashboardFormat format =
     (if format = ''bytes'' \<or> format = ''percent'' \<or> format = ''duration'' then format else ''number'')"

text \<open>The loop of \<open>dashboardID\<close>, with the text written so far (newest first) and its flag.\<close>

fun slug :: "string \<Rightarrow> string \<Rightarrow> bool \<Rightarrow> string" where
  "slug [] acc sep = rev acc"
| "slug (c # cs) acc sep =
     (if is_alpha c \<or> is_digit c then slug cs (c # acc) False
      else if acc \<noteq> [] \<and> \<not> sep then slug cs (CHR ''-'' # acc) True
      else slug cs acc sep)"

definition dashboardID :: "string \<Rightarrow> string \<Rightarrow> string \<Rightarrow> string" where
  "dashboardID i title fallback =
     (let val = trim_space i; val = (if val = [] then trim_space title else val);
          normalized = trim_by (\<lambda>c. c = CHR ''-'') (slug (to_lower val) [] False)
      in if normalized = [] then fallback else normalized)"

definition withBuiltinDashboardWidget ::
    "string \<Rightarrow> string \<Rightarrow> string \<Rightarrow> string \<Rightarrow> int \<Rightarrow> 'w dashboardConfig \<Rightarrow> 'w dashboardConfig" where
  "withBuiltinDashboardWidget i kind title description columns c =
     dashboard_set c (emptyWidget\<lparr>dwID := i, dwKind := kind, dwBuiltin := i, dwTitle := title,
       dwDescription := description, dwSpan := dashboardSpan columns 1\<rparr>)"

definition WithCustomMetric :: "'w DashboardMetric \<Rightarrow> 'w dashboardConfig \<Rightarrow> 'w dashboardConfig" where
  "WithCustomMetric metric c =
     (let metric = metric\<lparr>dmID := dashboardID (dmID metric) (dmTitle metric) ''metric''\<rparr>;
          metric = metric\<lparr>dmFormat := normalizedDashboardFormat (dmFormat metric)\<rparr>;
          metric = (if dmMode metric = [] then metric\<lparr>dmMode := DashboardMetricValue\<rparr> else metric);
          metric = (if dmMode metric \<noteq> DashboardMetricValue \<and> dmMode metric \<noteq> DashboardMetricRate
                    then metric\<lparr>dmMode := DashboardMetricValue\<rparr> else metric);
          metric = (if trim_space (dmTitle metric) = [] then metric\<lparr>dmTitle := dmID metric\<rparr> else metric)
      in dashboard_set c (emptyWidget\<lparr>dwID := dmID metric, dwKind := ''custom_metric'',
           dwTitle := dmTitle metric, dwDescription := dmDescription metric, dwSpan := 1,
           dwMetric := Some metric\<rparr>))"

text \<open>\<open>for index := range xs\<close> with the index in the fallback text.\<close>

definition indexed_name :: "string \<Rightarrow> nat \<Rightarrow> string" where
  "indexed_name label index = label @ show_nat (index + 1)"

definition WithCustomChart :: "'w DashboardChart \<Rightarrow> 'w dashboardConfig \<Rightarrow> 'w dashboardConfig" where
  "WithCustomChart chart c =
     (let chart = chart\<lparr>dcID := dashboardID (dcID chart) (dcTitle chart) ''chart''\<rparr>;
          chart = chart\<lparr>dcFormat := normalizedDashboardFormat (dcFormat chart)\<rparr>;
          chart = chart\<lparr>dcSpan := dashboardSpan (dcSpan chart) 2\<rparr>;
          chart = chart\<lparr>dcSeries := map (\<lambda>(index, series).
              series\<lparr>dsID := dashboardID (dsID series) (dsLabel series) (indexed_name ''series-'' index)\<rparr>)
              (enumerate 0 (dcSeries chart))\<rparr>;
          chart = (if trim_space (dcTitle chart) = [] then chart\<lparr>dcTitle := dcID chart\<rparr> else chart)
      in dashboard_set c (emptyWidget\<lparr>dwID := dcID chart, dwKind := ''custom_chart'',
           dwTitle := dcTitle chart, dwDescription := dcDescription chart, dwSpan := dcSpan chart,
           dwChart := Some chart\<rparr>))"

definition WithCounterGrid :: "'w DashboardCounterGrid \<Rightarrow> 'w dashboardConfig \<Rightarrow> 'w dashboardConfig" where
  "WithCounterGrid grid c =
     (let grid = grid\<lparr>dgID := dashboardID (dgID grid) (dgTitle grid) ''counter-grid''\<rparr>;
          grid = grid\<lparr>dgSpan := dashboardSpan (dgSpan grid) 2\<rparr>;
          grid = grid\<lparr>dgCounters := map (\<lambda>(index, counter).
              counter\<lparr>dkID := dashboardID (dkID counter) (dkLabel counter) (indexed_name ''counter-'' index),
                      dkFormat := normalizedDashboardFormat (dkFormat counter)\<rparr>)
              (enumerate 0 (dgCounters grid))\<rparr>;
          grid = (if trim_space (dgTitle grid) = [] then grid\<lparr>dgTitle := dgID grid\<rparr> else grid)
      in dashboard_set c (emptyWidget\<lparr>dwID := dgID grid, dwKind := ''counter_grid'',
           dwTitle := dgTitle grid, dwDescription := dgDescription grid, dwSpan := dgSpan grid,
           dwCounterGrid := Some grid\<rparr>))"

definition WithCPU :: "'w dashboardConfig \<Rightarrow> 'w dashboardConfig" where
  "WithCPU = withBuiltinDashboardWidget ''cpu'' ''metric'' ''CPU usage'' ''Process CPU utilization'' 1"

definition WithGoMemory :: "'w dashboardConfig \<Rightarrow> 'w dashboardConfig" where
  "WithGoMemory = withBuiltinDashboardWidget ''memory'' ''metric'' ''Go memory'' ''Memory held by the Go runtime'' 1"

definition WithRequests :: "'w dashboardConfig \<Rightarrow> 'w dashboardConfig" where
  "WithRequests = withBuiltinDashboardWidget ''requests'' ''metric'' ''HTTP requests'' ''Recorded request throughput'' 1"

definition WithQueries :: "'w dashboardConfig \<Rightarrow> 'w dashboardConfig" where
  "WithQueries = withBuiltinDashboardWidget ''queries'' ''metric'' ''Database queries'' ''Recorded query throughput'' 1"

definition WithCacheHitRate :: "'w dashboardConfig \<Rightarrow> 'w dashboardConfig" where
  "WithCacheHitRate = withBuiltinDashboardWidget ''cache'' ''metric'' ''Cache hit rate'' ''Hits across recorded cache operations'' 1"

definition WithGoroutines :: "'w dashboardConfig \<Rightarrow> 'w dashboardConfig" where
  "WithGoroutines = withBuiltinDashboardWidget ''goroutines'' ''metric'' ''Goroutines'' ''Current Go goroutine count'' 1"

definition WithEventMix :: "'w dashboardConfig \<Rightarrow> 'w dashboardConfig" where
  "WithEventMix = withBuiltinDashboardWidget ''event_mix'' ''event_mix'' ''Event mix'' ''Events retained by the profiler'' 2"

definition WithQueueHealth :: "'w dashboardConfig \<Rightarrow> 'w dashboardConfig" where
  "WithQueueHealth = withBuiltinDashboardWidget ''queue_health'' ''queue_health'' ''Queue health'' ''Backlog and worker capacity by queue'' 4"

definition WithSlowestOperations :: "'w dashboardConfig \<Rightarrow> 'w dashboardConfig" where
  "WithSlowestOperations = withBuiltinDashboardWidget ''slowest_operations'' ''slowest_operations'' ''Slowest operations'' ''Requests, queries and HTTP calls'' 4"

type_synonym 'w DashboardOption = "'w dashboardConfig \<Rightarrow> 'w dashboardConfig"

definition defaultDashboardConfig :: "'w dashboardConfig" where
  "defaultDashboardConfig = fold (\<lambda>option c. option c)
     [WithCPU, WithGoMemory, WithRequests, WithQueries, WithCacheHitRate, WithGoroutines,
      WithEventMix, WithQueueHealth, WithSlowestOperations] []"

text \<open>The configuration \<open>Dashboard\<close> builds; a nil option is skipped.\<close>

definition dashboardOf :: "'w DashboardOption option list \<Rightarrow> 'w dashboardConfig" where
  "dashboardOf options =
     fold (\<lambda>option c. case option of None \<Rightarrow> c | Some f \<Rightarrow> f c) options []"

subsection \<open>Snapshots\<close>

record DashboardMetricSnapshot =
  msValue :: float64
  msUnit :: string
  msFormat :: string
  msMode :: string
  msSparkline :: bool
  msColor :: string
  msError :: string

record DashboardSeriesSnapshot =
  ssID :: string
  ssLabel :: string
  ssColor :: string
  ssValue :: float64
  ssError :: string

record DashboardCounterSnapshot =
  ksID :: string
  ksLabel :: string
  ksUnit :: string
  ksFormat :: string
  ksValue :: float64
  ksError :: string

record DashboardWidgetSnapshot =
  wnID :: string
  wnKind :: string
  wnBuiltin :: string
  wnTitle :: string
  wnDescription :: string
  wnSpan :: int
  wnUnit :: string
  wnFormat :: string
  wnMetric :: "DashboardMetricSnapshot option"
  wnSeries :: "DashboardSeriesSnapshot list"
  wnCounters :: "DashboardCounterSnapshot list"

record DashboardSnapshot =
  snRecordedAt :: instant
  snWidgets :: "DashboardWidgetSnapshot list"

definition finite_float :: "float64 \<Rightarrow> bool" where
  "finite_float x = (case x of Fin _ \<Rightarrow> True | _ \<Rightarrow> False)"

text \<open>
  \<open>dashboardValue\<close>: a panic of the source is recovered with the named result \<open>value\<close> still
  zero, and a value that is not finite is an error.
\<close>

definition dashboardValue :: "'w \<Rightarrow> 'w DashboardValueFunc option \<Rightarrow> float64 \<times> string option" where
  "dashboardValue ctx source =
     (case source of
        None \<Rightarrow> (Fin 0, Some ''dashboard value source is nil'')
      | Some f \<Rightarrow> (case f ctx of
            Panics recovered \<Rightarrow> (Fin 0, Some (''dashboard value source panicked: '' @ recovered))
          | Returns val err \<Rightarrow>
              if err = None \<and> \<not> finite_float val
              then (Fin 0, Some ''dashboard value is not finite'')
              else (val, err)))"

definition dashboardError :: "string option \<Rightarrow> string" where
  "dashboardError err = (case err of None \<Rightarrow> [] | Some e \<Rightarrow> e)"

definition metric_snapshot :: "'w \<Rightarrow> 'w DashboardMetric \<Rightarrow> DashboardMetricSnapshot" where
  "metric_snapshot ctx m =
     (let (val, err) = dashboardValue ctx (dmValue m)
      in \<lparr>msValue = val, msUnit = dmUnit m, msFormat = dmFormat m, msMode = dmMode m,
          msSparkline = dmSparkline m, msColor = dmColor m, msError = dashboardError err\<rparr>)"

definition series_snapshot :: "'w \<Rightarrow> 'w DashboardSeries \<Rightarrow> DashboardSeriesSnapshot" where
  "series_snapshot ctx s =
     (let (val, err) = dashboardValue ctx (dsValue s)
      in \<lparr>ssID = dsID s, ssLabel = dsLabel s, ssColor = dsColor s, ssValue = val,
          ssError = dashboardError err\<rparr>)"

definition counter_snapshot :: "'w \<Rightarrow> 'w DashboardCounter \<Rightarrow> DashboardCounterSnapshot" where
  "counter_snapshot ctx k =
     (let (val, err) = dashboardValue ctx (dkValue k)
      in \<lparr>ksID = dkID k, ksLabel = dkLabel k, ksUnit = dkUnit k, ksFormat = dkFormat k,
          ksValue = val, ksError = dashboardError err\<rparr>)"

text \<open>
  One iteration of \<open>DashboardSnapshot\<close>.  A widget of a custom kind whose configuration is a
  nil pointer would panic; \<open>None\<close> is that panic.
\<close>

definition widget_snapshot :: "'w \<Rightarrow> 'w dashboardWidget \<Rightarrow> DashboardWidgetSnapshot option" where
  "widget_snapshot ctx w =
     (let current = \<lparr>wnID = dwID w, wnKind = dwKind w, wnBuiltin = dwBuiltin w, wnTitle = dwTitle w,
            wnDescription = dwDescription w, wnSpan = dwSpan w, wnUnit = [], wnFormat = [],
            wnMetric = None, wnSeries = [], wnCounters = []\<rparr> in
      if dwKind w = ''custom_metric'' then
        map_option (\<lambda>m. current\<lparr>wnMetric := Some (metric_snapshot ctx m)\<rparr>) (dwMetric w)
      else if dwKind w = ''custom_chart'' then
        map_option (\<lambda>c. current\<lparr>wnUnit := dcUnit c, wnFormat := dcFormat c,
          wnSeries := map (series_snapshot ctx) (dcSeries c)\<rparr>) (dwChart w)
      else if dwKind w = ''counter_grid'' then
        map_option (\<lambda>g. current\<lparr>wnCounters := map (counter_snapshot ctx) (dgCounters g)\<rparr>)
          (dwCounterGrid w)
      else Some current)"

definition dashboardSnapshot :: "instant \<Rightarrow> 'w \<Rightarrow> 'w dashboardConfig \<Rightarrow> DashboardSnapshot option" where
  "dashboardSnapshot now ctx c =
     map_option (\<lambda>ws. \<lparr>snRecordedAt = now, snWidgets = ws\<rparr>) (those (map (widget_snapshot ctx) c))"

subsection \<open>Ids\<close>

definition id_char :: "char \<Rightarrow> bool" where
  "id_char c \<longleftrightarrow> is_alpha c \<and> lower_char c = c \<or> is_digit c"

text \<open>Words of letters and digits joined by single dashes.\<close>

fun slug_ok :: "bool \<Rightarrow> string \<Rightarrow> bool" where
  "slug_ok b [] = True"
| "slug_ok b (c # cs) =
     (if c = CHR ''-'' then \<not> b \<and> slug_ok True cs else id_char c \<and> slug_ok False cs)"

definition dashboard_id_ok :: "string \<Rightarrow> bool" where
  "dashboard_id_ok s \<longleftrightarrow> slug_ok True s \<and> (s = [] \<or> last s \<noteq> CHR ''-'')"

lemma byte_dash: "byte (CHR ''-'') = 45"
  by (simp add: byte_def)

lemma dash_not_id [simp]: "\<not> id_char (CHR ''-'')" "\<not> is_alpha (CHR ''-'')" "\<not> is_digit (CHR ''-'')"
  by (simp_all add: id_char_def is_alpha_def is_digit_def byte_dash)

lemma slug_ok_append:
  "slug_ok b (s @ [c]) \<longleftrightarrow> slug_ok b s \<and>
     (if c = CHR ''-'' then (if s = [] then \<not> b else last s \<noteq> CHR ''-'') else id_char c)"
  by (induction b s rule: slug_ok.induct) auto

lemma slug_slug_ok:
  "list_all (\<lambda>c. is_alpha c \<longrightarrow> lower_char c = c) cs \<Longrightarrow> slug_ok True (rev acc) \<Longrightarrow>
     sep = (acc \<noteq> [] \<and> hd acc = CHR ''-'') \<Longrightarrow> slug_ok True (slug cs acc sep)"
proof (induction cs acc sep rule: slug.induct)
  case (1 acc sep)
  then show ?case by simp
next
  case (2 c cs acc sep)
  show ?case
  proof (cases "is_alpha c \<or> is_digit c")
    case True
    then have "id_char c" "c \<noteq> CHR ''-''"
      using "2.prems"(1) by (auto simp: id_char_def)
    with True 2 show ?thesis by (simp add: slug_ok_append)
  next
    case False
    show ?thesis
    proof (cases "acc \<noteq> [] \<and> \<not> sep")
      case True
      with False 2 show ?thesis by (simp add: slug_ok_append last_rev)
    next
      case sep: False
      have "slug (c # cs) acc sep = slug cs acc sep" using False sep by auto
      with False sep 2 show ?thesis by simp
    qed
  qed
qed

lemma slug_ok_prefix: "slug_ok b (s @ t) \<Longrightarrow> slug_ok b s"
  by (induction b s rule: slug_ok.induct) auto

lemma slug_ok_dropWhile: "slug_ok b s \<Longrightarrow> slug_ok True (dropWhile (\<lambda>c. c = CHR ''-'') s)"
  by (induction b s rule: slug_ok.induct) auto

lemma lower_char_lower [simp]: "lower_char (lower_char c) = lower_char c"
  by (auto simp: lower_char_def)

lemma trim_by_last: "trim_by p s \<noteq> [] \<Longrightarrow> \<not> p (last (trim_by p s))"
  using hd_dropWhile [of p "rev (dropWhile p s)"] by (simp add: trim_by_def last_rev)

lemma slug_ok_trim: "slug_ok True s \<Longrightarrow> dashboard_id_ok (trim_by (\<lambda>c. c = CHR ''-'') s)"
proof -
  assume s: "slug_ok True s"
  let ?p = "\<lambda>c. c = CHR ''-''"
  have "dropWhile ?p s = trim_by ?p s @ rev (takeWhile ?p (rev (dropWhile ?p s)))"
    by (metis trim_by_def rev_append rev_rev_ident takeWhile_dropWhile_id)
  with slug_ok_dropWhile [OF s] have "slug_ok True (trim_by ?p s)"
    by (metis slug_ok_prefix)
  then show ?thesis using trim_by_last [of ?p s] by (auto simp: dashboard_id_ok_def)
qed

lemma dashboardID_ok:
  assumes "dashboard_id_ok fallback" "fallback \<noteq> []"
  shows "dashboard_id_ok (dashboardID i t fallback) \<and> dashboardID i t fallback \<noteq> []"
proof -
  have "slug_ok True (slug (to_lower val) [] False)" for val
    by (rule slug_slug_ok) (auto simp: to_lower_def list_all_iff)
  then show ?thesis using assms slug_ok_trim by (auto simp: dashboardID_def Let_def)
qed

subsection \<open>Every configuration samples\<close>

text \<open>The options the package exports.\<close>

datatype 'w dashOption = OptCPU | OptGoMemory | OptRequests | OptQueries | OptCacheHitRate
  | OptGoroutines | OptEventMix | OptQueueHealth | OptSlowestOperations
  | OptMetric "'w DashboardMetric" | OptChart "'w DashboardChart" | OptGrid "'w DashboardCounterGrid"

fun dash_apply :: "'w dashOption \<Rightarrow> 'w DashboardOption" where
  "dash_apply OptCPU = WithCPU"
| "dash_apply OptGoMemory = WithGoMemory"
| "dash_apply OptRequests = WithRequests"
| "dash_apply OptQueries = WithQueries"
| "dash_apply OptCacheHitRate = WithCacheHitRate"
| "dash_apply OptGoroutines = WithGoroutines"
| "dash_apply OptEventMix = WithEventMix"
| "dash_apply OptQueueHealth = WithQueueHealth"
| "dash_apply OptSlowestOperations = WithSlowestOperations"
| "dash_apply (OptMetric m) = WithCustomMetric m"
| "dash_apply (OptChart c) = WithCustomChart c"
| "dash_apply (OptGrid g) = WithCounterGrid g"

definition widget_ok :: "'w dashboardWidget \<Rightarrow> bool" where
  "widget_ok w \<longleftrightarrow> dwID w \<noteq> [] \<and> 1 \<le> dwSpan w \<and> dwSpan w \<le> 4 \<and>
     (dwKind w = ''custom_metric'' \<longrightarrow> dwMetric w \<noteq> None) \<and>
     (dwKind w = ''custom_chart'' \<longrightarrow> dwChart w \<noteq> None) \<and>
     (dwKind w = ''counter_grid'' \<longrightarrow> dwCounterGrid w \<noteq> None)"

definition dashboard_ok :: "'w dashboardConfig \<Rightarrow> bool" where
  "dashboard_ok c \<longleftrightarrow> distinct (map dwID c) \<and> list_all widget_ok c"

lemma dashboard_set_ids:
  "map dwID (dashboard_set c w) =
     (if dwID w \<in> set (map dwID c) then map dwID c else map dwID c @ [dwID w])"
  by (induction c w rule: dashboard_set.induct) auto

lemma dashboard_set_all: "list_all P c \<Longrightarrow> P w \<Longrightarrow> list_all P (dashboard_set c w)"
  by (induction c w rule: dashboard_set.induct) auto

lemma dashboard_set_ok [inv_intros]: "dashboard_ok c \<Longrightarrow> widget_ok w \<Longrightarrow> dashboard_ok (dashboard_set c w)"
  by (auto simp: dashboard_ok_def dashboard_set_ids dashboard_set_all)

lemma dashboardSpan_range: "1 \<le> dashboardSpan n f \<and> dashboardSpan n f \<le> 4"
  by (simp add: dashboardSpan_def Let_def)

lemma fallback_ids:
  "dashboard_id_ok ''metric''" "dashboard_id_ok ''chart''" "dashboard_id_ok ''counter-grid''"
  by (simp_all add: dashboard_id_ok_def id_char_def is_alpha_def is_digit_def lower_char_def byte_def)

lemma dashboardID_nonempty:
  "dashboardID i t ''metric'' \<noteq> []" "dashboardID i t ''chart'' \<noteq> []"
  "dashboardID i t ''counter-grid'' \<noteq> []"
  using dashboardID_ok [OF fallback_ids(1), of i t] dashboardID_ok [OF fallback_ids(2), of i t]
    dashboardID_ok [OF fallback_ids(3), of i t] by auto

lemma builtin_ok [inv_intros]:
  "dashboard_ok c \<Longrightarrow> i \<noteq> [] \<Longrightarrow> k \<notin> {''custom_metric'', ''custom_chart'', ''counter_grid''} \<Longrightarrow>
     dashboard_ok (withBuiltinDashboardWidget i k t d n c)"
  using dashboardSpan_range [of n 1]
  by (auto simp: withBuiltinDashboardWidget_def widget_ok_def intro!: dashboard_set_ok)

lemma metric_ok [inv_intros]: "dashboard_ok c \<Longrightarrow> dashboard_ok (WithCustomMetric m c)"
  unfolding WithCustomMetric_def Let_def
  by (rule dashboard_set_ok) (auto simp: widget_ok_def emptyWidget_def dashboardID_nonempty)

lemma chart_ok [inv_intros]: "dashboard_ok c \<Longrightarrow> dashboard_ok (WithCustomChart m c)"
  unfolding WithCustomChart_def Let_def
  by (rule dashboard_set_ok)
    (auto simp: widget_ok_def emptyWidget_def dashboardID_nonempty dashboardSpan_range)

lemma grid_ok [inv_intros]: "dashboard_ok c \<Longrightarrow> dashboard_ok (WithCounterGrid m c)"
  unfolding WithCounterGrid_def Let_def
  by (rule dashboard_set_ok)
    (auto simp: widget_ok_def emptyWidget_def dashboardID_nonempty dashboardSpan_range)

lemmas builtin_defs = WithCPU_def WithGoMemory_def WithRequests_def WithQueries_def
  WithCacheHitRate_def WithGoroutines_def WithEventMix_def WithQueueHealth_def
  WithSlowestOperations_def

lemma dash_apply_ok: "dashboard_ok c \<Longrightarrow> dashboard_ok (dash_apply opt c)"
  by (cases opt) (simp_all add: builtin_defs inv_intros)

lemma dashboardOf_ok: "dashboard_ok (dashboardOf (map (map_option dash_apply) opts))"
proof -
  have "dashboard_ok c \<Longrightarrow>
      dashboard_ok (fold (\<lambda>option c. case option of None \<Rightarrow> c | Some f \<Rightarrow> f c) (map (map_option dash_apply) opts) c)"
    for c :: "'a dashboardConfig"
    by (induction opts arbitrary: c) (auto simp: dash_apply_ok split: option.splits)
  then show ?thesis by (simp add: dashboardOf_def dashboard_ok_def)
qed

lemma widget_snapshot_ok:
  "widget_ok w \<Longrightarrow> \<exists>d. widget_snapshot ctx w = Some d \<and> wnID d = dwID w \<and> wnSpan d = dwSpan w"
  by (auto simp: widget_snapshot_def widget_ok_def Let_def)

lemma those_map_Some:
  "list_all (\<lambda>x. \<exists>y. f x = Some y \<and> P x y) xs \<Longrightarrow> \<exists>ys. those (map f xs) = Some ys \<and> list_all2 P xs ys"
  by (induction xs) auto

lemma snapshot_ok:
  assumes "dashboard_ok c"
  shows "\<exists>d. dashboardSnapshot now ctx c = Some d \<and>
    list_all2 (\<lambda>w d. wnID d = dwID w \<and> wnSpan d = dwSpan w) c (snWidgets d)"
  using those_map_Some [of "widget_snapshot ctx" "\<lambda>w d. wnID d = dwID w \<and> wnSpan d = dwSpan w" c]
    assms widget_snapshot_ok [of _ ctx]
  by (auto simp: dashboardSnapshot_def dashboard_ok_def list_all_iff)

text \<open>
  A dashboard configured with any sequence of the package's options, nil options included,
  has distinct, non-empty widget ids and spans between 1 and 4, and sampling it never
  dereferences a missing metric, chart or grid: the snapshot exists and has exactly one entry
  per configured widget, in the configured order, under the widget's id and span.
\<close>
theorem dashboard_snapshot_total:
  "let c = dashboardOf (map (map_option dash_apply) opts)
   in distinct (map dwID c) \<and> [] \<notin> dwID ` set c \<and> dwSpan ` set c \<subseteq> {1..4} \<and>
      (\<exists>d. dashboardSnapshot now ctx c = Some d \<and> snRecordedAt d = now \<and>
         map wnID (snWidgets d) = map dwID c \<and> map wnSpan (snWidgets d) = map dwSpan c)"
proof -
  let ?c = "dashboardOf (map (map_option dash_apply) opts)"
  obtain d where d: "dashboardSnapshot now ctx ?c = Some d"
    "list_all2 (\<lambda>w d. wnID d = dwID w \<and> wnSpan d = dwSpan w) ?c (snWidgets d)"
    using snapshot_ok [OF dashboardOf_ok [of opts], of now ctx] by (elim exE conjE)
  have "map wnID (snWidgets d) = map dwID ?c \<and> map wnSpan (snWidgets d) = map dwSpan ?c"
    using d(2) by (induction rule: list_all2_induct) auto
  with d dashboardOf_ok [of opts] show ?thesis
    by (auto simp: Let_def dashboard_ok_def widget_ok_def list_all_iff dashboardSnapshot_def)
qed

text \<open>
  A sampled dashboard value is finite whenever it is reported without an error: a missing
  source, a source that panics and a source whose value is not finite all give zero with an
  error.  The only value that is passed on unchecked is one the source itself returned together
  with an error; there a NaN reaches the snapshot.
\<close>
theorem dashboardValue_finite:
  "(case dashboardValue ctx source of (val, err) \<Rightarrow>
      finite_float val \<or> (\<exists>f e. source = Some f \<and> f ctx = Returns val (Some e) \<and> err = Some e)) \<and>
   dashboardValue ctx (Some (\<lambda>_. Returns NaN (Some e))) = (NaN, Some e)"
  by (auto simp: dashboardValue_def finite_float_def split: option.splits valueOutcome.splits)


end
