(* ===== verification/Options.thy ===== *)
theory Options
  imports Dashboard
begin

text \<open>
  The configuration of a profiler: \<open>options.go\<close>, the retention and capture options of
  \<open>capture_rules.go\<close> and the storage interface of \<open>storage.go\<close>.  An option is a function of the
  configuration.  An \<open>http.Request\<close> is a record of what the program reads of it; an external
  storage is a record of its operations over a state of its own, each returning the error it
  reports, if any.
\<close>

subsection \<open>What the program reads of a request\<close>

record httpRequest =
  hqMethod :: string
  hqPath :: string
  hqRawQuery :: string
  hqHeader :: "(string \<times> string list) list"
  hqCookies :: "(string \<times> string) list"
  hqHost :: string
  hqRemoteAddr :: string
  hqProto :: string
  hqTLS :: bool
  hqContentLength :: int
  hqPattern :: string

text \<open>\<open>Header.Get\<close>: the first value under a (canonical) key, or the empty string.\<close>

definition header_get :: "(string \<times> string list) list \<Rightarrow> string \<Rightarrow> string" where
  "header_get h key = (case map_get h key of Some (v # _) \<Rightarrow> v | _ \<Rightarrow> [])"

subsection \<open>Glob patterns (\<open>path.Match\<close>)\<close>

datatype globToken = GStar | GAny | GLit char | GClass bool "(char \<times> char) list"

text \<open>
  A character of a class (\<open>getEsc\<close>): not \<open>-\<close> or \<open>]\<close> unless escaped, and not the last one.
\<close>

definition glob_esc :: "string \<Rightarrow> (char \<times> string) option" where
  "glob_esc s =
     (case s of
        [] \<Rightarrow> None
      | c # r \<Rightarrow>
          if c = CHR ''-'' \<or> c = CHR '']'' then None
          else if c = CHR 0x5C then
            (case r of d # e # t \<Rightarrow> Some (d, e # t) | _ \<Rightarrow> None)
          else if r = [] then None else Some (c, r))"

fun glob_ranges :: "nat \<Rightarrow> (char \<times> char) list \<Rightarrow> string \<Rightarrow> ((char \<times> char) list \<times> string) option" where
  "glob_ranges 0 acc s = None"
| "glob_ranges (Suc n) acc s =
     (case s of
        CHR '']'' # r \<Rightarrow> if acc \<noteq> [] then Some (rev acc, r) else None
      | _ \<Rightarrow>
        (case glob_esc s of
           None \<Rightarrow> None
         | Some (lo, r) \<Rightarrow>
             (case r of
                CHR ''-'' # t \<Rightarrow>
                  (case glob_esc t of
                     None \<Rightarrow> None
                   | Some (hi, u) \<Rightarrow> glob_ranges n ((lo, hi) # acc) u)
              | _ \<Rightarrow> glob_ranges n ((lo, lo) # acc) r)))"

text \<open>The pattern as tokens; \<open>None\<close> is \<open>ErrBadPattern\<close>.  Every token takes a character.\<close>

fun glob_parse :: "nat \<Rightarrow> string \<Rightarrow> globToken list option" where
  "glob_parse 0 s = (if s = [] then Some [] else None)"
| "glob_parse (Suc n) s =
     (case s of
        [] \<Rightarrow> Some []
      | c # r \<Rightarrow>
          if c = CHR ''*'' then map_option ((#) GStar) (glob_parse n r)
          else if c = CHR ''?'' then map_option ((#) GAny) (glob_parse n r)
          else if c = CHR 0x5C then
            (case r of [] \<Rightarrow> None | d # t \<Rightarrow> map_option ((#) (GLit d)) (glob_parse n t))
          else if c = CHR ''['' then
            (let (neg, body) = (case r of CHR ''^'' # t \<Rightarrow> (True, t) | _ \<Rightarrow> (False, r))
             in case glob_ranges (Suc (length body)) [] body of
                  None \<Rightarrow> None
                | Some (rs, t) \<Rightarrow> map_option ((#) (GClass neg rs)) (glob_parse n t))
          else map_option ((#) (GLit c)) (glob_parse n r))"

fun glob_match :: "globToken list \<Rightarrow> string \<Rightarrow> bool" where
  "glob_match [] s = (s = [])"
| "glob_match (GStar # ts) [] = glob_match ts []"
| "glob_match (GStar # ts) (c # s) =
     (glob_match ts (c # s) \<or> c \<noteq> CHR ''/'' \<and> glob_match (GStar # ts) s)"
| "glob_match (GAny # ts) [] = False"
| "glob_match (GAny # ts) (c # s) = (c \<noteq> CHR ''/'' \<and> glob_match ts s)"
| "glob_match (GLit d # ts) [] = False"
| "glob_match (GLit d # ts) (c # s) = (c = d \<and> glob_match ts s)"
| "glob_match (GClass neg rs # ts) [] = False"
| "glob_match (GClass neg rs # ts) (c # s) =
     (list_ex (\<lambda>(lo, hi). lo \<le> c \<and> c \<le> hi) rs \<noteq> neg \<and> glob_match ts s)"

definition path_match :: "string \<Rightarrow> string \<Rightarrow> bool option" where
  "path_match pattern name = map_option (\<lambda>ts. glob_match ts name) (glob_parse (length pattern) pattern)"

subsection \<open>Request patterns\<close>

record requestPattern =
  rpMethod :: string
  rpPath :: string

fun parseRequestPatterns :: "string list \<Rightarrow> requestPattern list" where
  "parseRequestPatterns [] = []"
| "parseRequestPatterns (p # ps) =
     (case GoText.fields p of
        [f0] \<Rightarrow> \<lparr>rpMethod = [], rpPath = f0\<rparr> # parseRequestPatterns ps
      | [f0, f1] \<Rightarrow> \<lparr>rpMethod = to_upper f0, rpPath = f1\<rparr> # parseRequestPatterns ps
      | _ \<Rightarrow> parseRequestPatterns ps)"

definition pattern_matches :: "requestPattern \<Rightarrow> httpRequest \<Rightarrow> bool" where
  "pattern_matches p r =
     (if rpPath p = [] \<or> rpMethod p \<noteq> [] \<and> rpMethod p \<noteq> hqMethod r then False
      else if has_suffix (rpPath p) ''/*'' then
        (let pre = trim_suffix (rpPath p) ''/*''
         in hqPath r = pre \<or> has_prefix (hqPath r) (pre @ ''/''))
      else if has_prefix (rpPath p) ''*.'' then
        has_suffix (to_lower (hqPath r)) (to_lower (trim_prefix (rpPath p) ''*''))
      else path_match (rpPath p) (hqPath r) = Some True)"

definition ExcludingRequests :: "string list \<Rightarrow> httpRequest \<Rightarrow> bool" where
  "ExcludingRequests patterns r =
     (\<not> list_ex (\<lambda>p. pattern_matches p r) (parseRequestPatterns patterns))"

subsection \<open>The external storage interface\<close>

record 'x EntryStorage =
  esName :: "'x \<Rightarrow> string"
  esLoad :: "'x \<Rightarrow> Entry list \<times> nat \<times> string option"
  esPut :: "'x \<Rightarrow> Entry \<Rightarrow> nat \<Rightarrow> 'x \<times> string option"
  esDelete :: "'x \<Rightarrow> string \<Rightarrow> 'x \<times> string option"
  esClear :: "'x \<Rightarrow> nat \<Rightarrow> 'x \<times> string option"
  esClose :: "'x \<Rightarrow> 'x \<times> string option"

subsection \<open>The configuration\<close>

abbreviation storageKindMemory :: string where "storageKindMemory \<equiv> ''memory''"
abbreviation storageKindJournal :: string where "storageKindJournal \<equiv> ''disk''"

record ('w, 'x) config =
  cBasePath :: string
  cToken :: string
  cUnsafeNoAuth :: bool
  cRetention :: duration
  cMaxEvents :: int
  cMaxBytes :: int
  cBodyLimit :: int
  cStreamBuffer :: int
  cQueueTimeout :: duration
  cDashboardTimeout :: duration
  cDashboard :: "'w dashboardConfig"
  cSecureCookie :: bool
  cAllowedOrigins :: "string list"
  cRequestFilters :: "(httpRequest \<Rightarrow> bool) list"
  cRetentionFilters :: "(Request \<Rightarrow> bool) list"
  cExcluded :: "requestPattern list"
  cStorageKind :: string
  cStoragePath :: string
  cStorage :: "'x option"
  cRequestSample :: rat
  cRequestLimit :: int
  cDisabledKinds :: "Kind list"
  cCallsiteKinds :: "Kind list"
  cSidebarKinds :: "Kind list"
  cSourceLink :: "(SourceFrame \<Rightarrow> string) option"

definition defaultSidebarKinds :: "Kind list" where
  "defaultSidebarKinds = [KindSchedule, KindCallable, KindTask, KindRequest, KindMiddleware,
     KindQuery, KindCache, KindJob, KindEmail, KindLog, KindHTTPCall, KindException, KindEvent]"

definition millisecond :: duration where "millisecond = 1000000"
definition minute :: duration where "minute = 60000 * millisecond"

definition defaultConfig :: "('w, 'x) config" where
  "defaultConfig = \<lparr>cBasePath = ''/debug/webpprof'', cToken = [], cUnsafeNoAuth = False,
     cRetention = 30 * minute, cMaxEvents = 10000, cMaxBytes = 64 * 2 ^ 20, cBodyLimit = 64 * 2 ^ 10,
     cStreamBuffer = 256, cQueueTimeout = 1500 * millisecond, cDashboardTimeout = 1500 * millisecond,
     cDashboard = defaultDashboardConfig, cSecureCookie = False, cAllowedOrigins = [],
     cRequestFilters = [], cRetentionFilters = [], cExcluded = [], cStorageKind = storageKindMemory,
     cStoragePath = [], cStorage = None, cRequestSample = 1, cRequestLimit = -1, cDisabledKinds = [],
     cCallsiteKinds = [KindQuery], cSidebarKinds = defaultSidebarKinds, cSourceLink = None\<rparr>"

definition supportsCallsite :: "Kind \<Rightarrow> bool" where
  "supportsCallsite kind \<longleftrightarrow> kind \<in> set [KindQuery, KindCache, KindEmail, KindJob, KindHTTPCall,
     KindSchedule, KindCallable, KindTask]"

definition supportsSidebar :: "Kind \<Rightarrow> bool" where
  "supportsSidebar kind \<longleftrightarrow> kind \<in> set [KindRequest, KindMiddleware, KindQuery, KindCache, KindJob,
     KindEmail, KindLog, KindHTTPCall, KindSchedule, KindCallable, KindTask, KindException, KindEvent]"

subsection \<open>Options\<close>

definition WithStoragePath :: "string \<Rightarrow> ('w, 'x) config \<Rightarrow> ('w, 'x) config" where
  "WithStoragePath path c =
     (let c = c\<lparr>cStorage := None, cStoragePath := trim_space path, cStorageKind := storageKindMemory\<rparr>
      in if cStoragePath c \<noteq> [] then c\<lparr>cStorageKind := storageKindJournal\<rparr> else c)"

definition WithStorage :: "'x EntryStorage \<Rightarrow> 'x option \<Rightarrow> ('w, 'x) config \<Rightarrow> ('w, 'x) config" where
  "WithStorage es storage c =
     (let c = c\<lparr>cStorage := storage, cStoragePath := [], cStorageKind := storageKindMemory\<rparr>
      in case storage of
           None \<Rightarrow> c
         | Some x \<Rightarrow>
             let name = trim_space (esName es x); name = (if name = [] then ''custom'' else name)
             in c\<lparr>cStorageKind := name\<rparr>)"

definition WithQueryCallsite :: "bool \<Rightarrow> ('w, 'x) config \<Rightarrow> ('w, 'x) config" where
  "WithQueryCallsite enabled c =
     (if enabled then c\<lparr>cCallsiteKinds := List.insert KindQuery (cCallsiteKinds c)\<rparr>
      else c\<lparr>cCallsiteKinds := removeAll KindQuery (cCallsiteKinds c)\<rparr>)"

definition WithCallsiteKinds :: "Kind list \<Rightarrow> ('w, 'x) config \<Rightarrow> ('w, 'x) config" where
  "WithCallsiteKinds kinds c =
     c\<lparr>cCallsiteKinds := fold (\<lambda>kind acc. if supportsCallsite kind then List.insert kind acc else acc) kinds []\<rparr>"

definition WithSourceLink :: "(SourceFrame \<Rightarrow> string) option \<Rightarrow> ('w, 'x) config \<Rightarrow> ('w, 'x) config" where
  "WithSourceLink link c = c\<lparr>cSourceLink := link\<rparr>"

definition WithRequestSampleRate :: "rat \<Rightarrow> ('w, 'x) config \<Rightarrow> ('w, 'x) config" where
  "WithRequestSampleRate rate c = c\<lparr>cRequestSample := min 1 (max 0 rate)\<rparr>"

definition WithDisabledKinds :: "Kind list \<Rightarrow> ('w, 'x) config \<Rightarrow> ('w, 'x) config" where
  "WithDisabledKinds kinds c =
     c\<lparr>cDisabledKinds := fold (\<lambda>kind acc. if kind \<noteq> [] then List.insert kind acc else acc) kinds (cDisabledKinds c)\<rparr>"

text \<open>The loop of \<open>WithSidebarKinds\<close>; the kinds seen are those already appended.\<close>

fun sidebar_kinds :: "Kind list \<Rightarrow> Kind list \<Rightarrow> Kind list" where
  "sidebar_kinds [] acc = acc"
| "sidebar_kinds (kind # kinds) acc =
     (if \<not> supportsSidebar kind then sidebar_kinds kinds acc
      else if kind \<in> set acc then sidebar_kinds kinds acc
      else sidebar_kinds kinds (acc @ [kind]))"

definition WithSidebarKinds :: "Kind list \<Rightarrow> ('w, 'x) config \<Rightarrow> ('w, 'x) config" where
  "WithSidebarKinds kinds c = c\<lparr>cSidebarKinds := sidebar_kinds kinds []\<rparr>"

definition WithBasePath :: "string \<Rightarrow> ('w, 'x) config \<Rightarrow> ('w, 'x) config" where
  "WithBasePath path c =
     (let path = ''/'' @ trim_by (\<lambda>ch. ch = CHR ''/'') path
      in if path \<noteq> ''/'' then c\<lparr>cBasePath := path\<rparr> else c)"

definition WithToken :: "string \<Rightarrow> ('w, 'x) config \<Rightarrow> ('w, 'x) config" where
  "WithToken token c = c\<lparr>cToken := token\<rparr>"

definition WithUnsafeUnauthenticatedAccess :: "('w, 'x) config \<Rightarrow> ('w, 'x) config" where
  "WithUnsafeUnauthenticatedAccess c = c\<lparr>cUnsafeNoAuth := True\<rparr>"

definition WithRetention :: "duration \<Rightarrow> ('w, 'x) config \<Rightarrow> ('w, 'x) config" where
  "WithRetention retention c = (if retention > 0 then c\<lparr>cRetention := retention\<rparr> else c)"

definition WithMaxEvents :: "int \<Rightarrow> ('w, 'x) config \<Rightarrow> ('w, 'x) config" where
  "WithMaxEvents maxEvents c = (if maxEvents > 0 then c\<lparr>cMaxEvents := maxEvents\<rparr> else c)"

definition WithMaxBytes :: "int \<Rightarrow> ('w, 'x) config \<Rightarrow> ('w, 'x) config" where
  "WithMaxBytes maxBytes c = (if maxBytes > 0 then c\<lparr>cMaxBytes := maxBytes\<rparr> else c)"

definition WithBodyLimit :: "int \<Rightarrow> ('w, 'x) config \<Rightarrow> ('w, 'x) config" where
  "WithBodyLimit maxBytes c = (if maxBytes \<ge> 0 then c\<lparr>cBodyLimit := maxBytes\<rparr> else c)"

definition WithStreamBuffer :: "int \<Rightarrow> ('w, 'x) config \<Rightarrow> ('w, 'x) config" where
  "WithStreamBuffer sz c = (if sz > 0 then c\<lparr>cStreamBuffer := sz\<rparr> else c)"

definition WithQueueStatsTimeout :: "duration \<Rightarrow> ('w, 'x) config \<Rightarrow> ('w, 'x) config" where
  "WithQueueStatsTimeout timeout c = (if timeout > 0 then c\<lparr>cQueueTimeout := timeout\<rparr> else c)"

definition WithDashboardTimeout :: "duration \<Rightarrow> ('w, 'x) config \<Rightarrow> ('w, 'x) config" where
  "WithDashboardTimeout timeout c = (if timeout > 0 then c\<lparr>cDashboardTimeout := timeout\<rparr> else c)"

definition WithSecureCookie :: "bool \<Rightarrow> ('w, 'x) config \<Rightarrow> ('w, 'x) config" where
  "WithSecureCookie isSecure c = c\<lparr>cSecureCookie := isSecure\<rparr>"

definition WithAllowedOrigins :: "string list \<Rightarrow> ('w, 'x) config \<Rightarrow> ('w, 'x) config" where
  "WithAllowedOrigins origins c =
     c\<lparr>cAllowedOrigins := fold (\<lambda>origin acc. let origin = trim_space origin in
         if origin \<noteq> [] then List.insert origin acc else acc) origins (cAllowedOrigins c)\<rparr>"

definition WithRequestFilter :: "(httpRequest \<Rightarrow> bool) option \<Rightarrow> ('w, 'x) config \<Rightarrow> ('w, 'x) config" where
  "WithRequestFilter f c =
     (case f of None \<Rightarrow> c | Some p \<Rightarrow> c\<lparr>cRequestFilters := cRequestFilters c @ [p]\<rparr>)"

definition WithExcludedRequests :: "string list \<Rightarrow> ('w, 'x) config \<Rightarrow> ('w, 'x) config" where
  "WithExcludedRequests patterns c = c\<lparr>cExcluded := cExcluded c @ parseRequestPatterns patterns\<rparr>"

definition DashboardOpt :: "'w DashboardOption option list \<Rightarrow> ('w, 'x) config \<Rightarrow> ('w, 'x) config" where
  "DashboardOpt options c = c\<lparr>cDashboard := dashboardOf options\<rparr>"

definition WithRequestRetentionFilter :: "(Request \<Rightarrow> bool) option \<Rightarrow> ('w, 'x) config \<Rightarrow> ('w, 'x) config" where
  "WithRequestRetentionFilter f c =
     (case f of None \<Rightarrow> c | Some p \<Rightarrow> c\<lparr>cRetentionFilters := cRetentionFilters c @ [p]\<rparr>)"

definition WithHTTPStatusCodes :: "int list \<Rightarrow> ('w, 'x) config \<Rightarrow> ('w, 'x) config" where
  "WithHTTPStatusCodes codes = WithRequestRetentionFilter (Some (\<lambda>r. rqStatus r \<in> set codes))"

definition WithHTTPStatusAtLeast :: "int \<Rightarrow> ('w, 'x) config \<Rightarrow> ('w, 'x) config" where
  "WithHTTPStatusAtLeast status = WithRequestRetentionFilter (Some (\<lambda>r. rqStatus r \<ge> status))"

definition WithMinRequestDuration :: "duration \<Rightarrow> ('w, 'x) config \<Rightarrow> ('w, 'x) config" where
  "WithMinRequestDuration d = WithRequestRetentionFilter (Some (\<lambda>r. mDuration r \<ge> d))"

text \<open>A missing key reads as the empty string.\<close>

definition retains_tags :: "tags \<Rightarrow> Request \<Rightarrow> bool" where
  "retains_tags expected r =
     list_all (\<lambda>(key, val). (case map_get (mTags r) key of None \<Rightarrow> [] | Some v \<Rightarrow> v) = val) expected"

definition WithRequestTags :: "tags \<Rightarrow> ('w, 'x) config \<Rightarrow> ('w, 'x) config" where
  "WithRequestTags expected = WithRequestRetentionFilter (Some (retains_tags expected))"

definition WithNextRequests :: "int \<Rightarrow> ('w, 'x) config \<Rightarrow> ('w, 'x) config" where
  "WithNextRequests count c = c\<lparr>cRequestLimit := max 0 count\<rparr>"

definition CaptureSessionHeader :: string where "CaptureSessionHeader = ''X-Webpprof-Session''"
definition CaptureSessionCookie :: string where "CaptureSessionCookie = ''webpprof_capture''"

definition in_session :: "string \<Rightarrow> httpRequest \<Rightarrow> bool" where
  "in_session session r =
     (if session = [] then False
      else if header_get (hqHeader r) CaptureSessionHeader = session then True
      else case map_get (hqCookies r) CaptureSessionCookie of None \<Rightarrow> False | Some v \<Rightarrow> v = session)"

definition WithBrowserSession :: "string \<Rightarrow> ('w, 'x) config \<Rightarrow> ('w, 'x) config" where
  "WithBrowserSession session = WithRequestFilter (Some (in_session (trim_space session)))"

subsection \<open>Every configuration is within bounds\<close>

datatype ('w, 'x) Opt =
    OStoragePath string | OStorage "'x EntryStorage" "'x option" | OQueryCallsite bool
  | OCallsiteKinds "Kind list" | OSourceLink "(SourceFrame \<Rightarrow> string) option" | OSampleRate rat
  | ODisabledKinds "Kind list" | OSidebarKinds "Kind list" | OBasePath string | OToken string
  | OUnsafe | ORetention duration | OMaxEvents int | OMaxBytes int | OBodyLimit int
  | OStreamBuffer int | OQueueTimeout duration | ODashboardTimeout duration | OSecureCookie bool
  | OAllowedOrigins "string list" | ORequestFilter "(httpRequest \<Rightarrow> bool) option"
  | OExcluded "string list" | ODashboard "'w DashboardOption option list"
  | ORetentionFilter "(Request \<Rightarrow> bool) option" | OStatusCodes "int list" | OStatusAtLeast int
  | OMinDuration duration | ORequestTags tags | ONextRequests int | OBrowserSession string

fun apply_opt :: "('w, 'x) Opt \<Rightarrow> ('w, 'x) config \<Rightarrow> ('w, 'x) config" where
  "apply_opt (OStoragePath p) = WithStoragePath p"
| "apply_opt (OStorage es x) = WithStorage es x"
| "apply_opt (OQueryCallsite b) = WithQueryCallsite b"
| "apply_opt (OCallsiteKinds ks) = WithCallsiteKinds ks"
| "apply_opt (OSourceLink f) = WithSourceLink f"
| "apply_opt (OSampleRate q) = WithRequestSampleRate q"
| "apply_opt (ODisabledKinds ks) = WithDisabledKinds ks"
| "apply_opt (OSidebarKinds ks) = WithSidebarKinds ks"
| "apply_opt (OBasePath p) = WithBasePath p"
| "apply_opt (OToken t) = WithToken t"
| "apply_opt OUnsafe = WithUnsafeUnauthenticatedAccess"
| "apply_opt (ORetention d) = WithRetention d"
| "apply_opt (OMaxEvents n) = WithMaxEvents n"
| "apply_opt (OMaxBytes n) = WithMaxBytes n"
| "apply_opt (OBodyLimit n) = WithBodyLimit n"
| "apply_opt (OStreamBuffer n) = WithStreamBuffer n"
| "apply_opt (OQueueTimeout d) = WithQueueStatsTimeout d"
| "apply_opt (ODashboardTimeout d) = WithDashboardTimeout d"
| "apply_opt (OSecureCookie b) = WithSecureCookie b"
| "apply_opt (OAllowedOrigins xs) = WithAllowedOrigins xs"
| "apply_opt (ORequestFilter f) = WithRequestFilter f"
| "apply_opt (OExcluded ps) = WithExcludedRequests ps"
| "apply_opt (ODashboard ds) = DashboardOpt ds"
| "apply_opt (ORetentionFilter f) = WithRequestRetentionFilter f"
| "apply_opt (OStatusCodes ns) = WithHTTPStatusCodes ns"
| "apply_opt (OStatusAtLeast n) = WithHTTPStatusAtLeast n"
| "apply_opt (OMinDuration d) = WithMinRequestDuration d"
| "apply_opt (ORequestTags ts) = WithRequestTags ts"
| "apply_opt (ONextRequests n) = WithNextRequests n"
| "apply_opt (OBrowserSession s) = WithBrowserSession s"

definition configured :: "('w, 'x) Opt list \<Rightarrow> ('w, 'x) config" where
  "configured opts = fold apply_opt opts defaultConfig"

definition base_path_ok :: "string \<Rightarrow> bool" where
  "base_path_ok p \<longleftrightarrow> (\<exists>q. p = ''/'' @ q \<and> q \<noteq> [] \<and> hd q \<noteq> CHR ''/'' \<and> last q \<noteq> CHR ''/'')"

definition storage_choice_ok :: "('w, 'x) config \<Rightarrow> bool" where
  "storage_choice_ok c \<longleftrightarrow>
     (if cStorage c \<noteq> None then cStoragePath c = [] \<and> cStorageKind c \<noteq> []
      else if cStoragePath c \<noteq> [] then cStorageKind c = storageKindJournal
      else cStorageKind c = storageKindMemory)"

definition config_ok :: "('w, 'x) config \<Rightarrow> bool" where
  "config_ok c \<longleftrightarrow> 0 < cRetention c \<and> 0 < cMaxEvents c \<and> 0 < cMaxBytes c \<and> 0 \<le> cBodyLimit c \<and>
     0 < cStreamBuffer c \<and> 0 < cQueueTimeout c \<and> 0 < cDashboardTimeout c \<and>
     0 \<le> cRequestSample c \<and> cRequestSample c \<le> 1 \<and> -1 \<le> cRequestLimit c \<and>
     base_path_ok (cBasePath c) \<and> storage_choice_ok c \<and>
     distinct (cSidebarKinds c) \<and> list_all supportsSidebar (cSidebarKinds c) \<and>
     list_all supportsCallsite (cCallsiteKinds c) \<and> list_all ((\<noteq>) []) (cDisabledKinds c) \<and>
     list_all ((\<noteq>) []) (cAllowedOrigins c) \<and> distinct (cDisabledKinds c)"

lemma trim_by_hd: "trim_by p s \<noteq> [] \<Longrightarrow> \<not> p (hd (trim_by p s))"
proof -
  assume ne: "trim_by p s \<noteq> []"
  have eq: "dropWhile p s = trim_by p s @ rev (takeWhile p (rev (dropWhile p s)))"
    by (metis trim_by_def rev_append rev_rev_ident takeWhile_dropWhile_id)
  have "hd (dropWhile p s) = hd (trim_by p s)" using ne by (subst eq) simp
  moreover have "dropWhile p s \<noteq> []" using ne by (subst eq) simp
  ultimately show ?thesis by (metis hd_dropWhile)
qed

lemma base_path_trim:
  "trim_by (\<lambda>ch. ch = CHR ''/'') p \<noteq> [] \<Longrightarrow> base_path_ok (''/'' @ trim_by (\<lambda>ch. ch = CHR ''/'') p)"
  using trim_by_hd [of "\<lambda>ch. ch = CHR ''/''" p] trim_by_last [of "\<lambda>ch. ch = CHR ''/''" p]
  by (auto simp: base_path_ok_def)

lemma sidebar_kinds_ok:
  "distinct acc \<Longrightarrow> list_all supportsSidebar acc \<Longrightarrow>
     distinct (sidebar_kinds ks acc) \<and> list_all supportsSidebar (sidebar_kinds ks acc)"
  by (induction ks acc rule: sidebar_kinds.induct) auto

lemma fold_insert_ok:
  "list_all P acc \<Longrightarrow> distinct acc \<Longrightarrow>
     list_all P (fold (\<lambda>k acc. if P k then List.insert k acc else acc) ks acc) \<and>
     distinct (fold (\<lambda>k acc. if P k then List.insert k acc else acc) ks acc)"
proof (induction ks arbitrary: acc)
  case (Cons k ks)
  have "list_all P (if P k then List.insert k acc else acc)"
    "distinct (if P k then List.insert k acc else acc)"
    using Cons.prems by (simp_all add: list_all_iff)
  from Cons.IH [OF this] show ?case by simp
qed simp

lemma origins_ok:
  "list_all ((\<noteq>) []) acc \<Longrightarrow> list_all ((\<noteq>) []) (fold (\<lambda>origin acc. let origin = trim_space origin in
     if origin \<noteq> [] then List.insert origin acc else acc) xs acc)"
proof (induction xs arbitrary: acc)
  case (Cons x xs)
  have "list_all ((\<noteq>) []) (let origin = trim_space x in if origin \<noteq> [] then List.insert origin acc else acc)"
    using Cons.prems by (simp add: list_all_iff Let_def eq_commute [of "[]"])
  from Cons.IH [OF this] show ?case by simp
qed simp

lemma default_ok: "config_ok defaultConfig"
proof -
  have "base_path_ok ''/debug/webpprof''"
    unfolding base_path_ok_def by (rule exI [of _ "''debug/webpprof''"]) simp
  then show ?thesis
    by (simp add: config_ok_def defaultConfig_def minute_def millisecond_def storage_choice_ok_def
        defaultSidebarKinds_def supportsSidebar_def supportsCallsite_def)
qed

lemma supports_query: "supportsCallsite KindQuery"
  by (simp add: supportsCallsite_def)

lemma apply_opt_ok: "config_ok c \<Longrightarrow> config_ok (apply_opt opt c)"
proof (cases opt)
  case (OSidebarKinds ks)
  then show "config_ok c \<Longrightarrow> ?thesis"
    using sidebar_kinds_ok [of "[]" ks] by (simp add: config_ok_def WithSidebarKinds_def storage_choice_ok_def)
next
  case (OCallsiteKinds ks)
  then show "config_ok c \<Longrightarrow> ?thesis"
    using fold_insert_ok [of supportsCallsite "[]" ks]
    by (simp add: config_ok_def WithCallsiteKinds_def storage_choice_ok_def)
next
  case (ODisabledKinds ks)
  then show "config_ok c \<Longrightarrow> ?thesis"
    using fold_insert_ok [of "(\<noteq>) []" "cDisabledKinds c" ks]
    by (simp add: config_ok_def WithDisabledKinds_def storage_choice_ok_def eq_commute [of "[]"])
next
  case (OBasePath p)
  then show "config_ok c \<Longrightarrow> ?thesis"
    using base_path_trim [of p] by (auto simp: config_ok_def WithBasePath_def storage_choice_ok_def Let_def)
next
  case (OAllowedOrigins xs)
  then show "config_ok c \<Longrightarrow> ?thesis"
    using origins_ok [of "cAllowedOrigins c" xs]
    by (simp add: config_ok_def WithAllowedOrigins_def storage_choice_ok_def)
next
  case (OQueryCallsite b)
  then show "config_ok c \<Longrightarrow> ?thesis"
    by (simp add: config_ok_def WithQueryCallsite_def storage_choice_ok_def list_all_iff supports_query)
next
  case (ORequestFilter f)
  then show "config_ok c \<Longrightarrow> ?thesis"
    by (cases f) (simp_all add: config_ok_def WithRequestFilter_def storage_choice_ok_def)
next
  case (ORetentionFilter f)
  then show "config_ok c \<Longrightarrow> ?thesis"
    by (cases f) (simp_all add: config_ok_def WithRequestRetentionFilter_def storage_choice_ok_def)
next
  case (ONextRequests n)
  have "-1 \<le> max 0 n" by simp
  with ONextRequests show "config_ok c \<Longrightarrow> ?thesis"
    by (simp only: config_ok_def WithNextRequests_def storage_choice_ok_def apply_opt.simps) simp
qed (simp_all add: config_ok_def WithStoragePath_def WithStorage_def storage_choice_ok_def Let_def
    WithSourceLink_def WithRequestSampleRate_def WithToken_def WithUnsafeUnauthenticatedAccess_def
    WithRetention_def WithMaxEvents_def WithMaxBytes_def WithBodyLimit_def WithStreamBuffer_def
    WithQueueStatsTimeout_def WithDashboardTimeout_def WithSecureCookie_def WithRequestFilter_def
    WithExcludedRequests_def DashboardOpt_def WithRequestRetentionFilter_def WithHTTPStatusCodes_def
    WithHTTPStatusAtLeast_def WithMinRequestDuration_def WithRequestTags_def WithNextRequests_def
    WithBrowserSession_def split: option.split)

lemma configured_ok: "config_ok (configured opts)"
proof -
  have "config_ok c \<Longrightarrow> config_ok (fold apply_opt opts c)" for c :: "('a, 'b) config"
    by (induction opts arbitrary: c) (auto simp: apply_opt_ok)
  then show ?thesis by (simp add: configured_def default_ok)
qed

text \<open>
  Whatever options a profiler is built with, in whatever order and with whatever
  arguments, its configuration stays usable: retention, event and byte limits, stream buffer
  and timeouts are positive, the sample rate lies between 0 and 1, the base path begins with
  a single slash and does not end with one, the sidebar lists distinct supported kinds, only
  supported kinds capture callsites, and at most one of the journal path and the external
  storage is selected, with the storage kind that belongs to it.
\<close>
theorem configured_within_bounds:
  "let c = configured opts
   in 0 < cRetention c \<and> 0 < cMaxEvents c \<and> 0 < cMaxBytes c \<and> 0 \<le> cBodyLimit c \<and>
      0 < cStreamBuffer c \<and> 0 < cQueueTimeout c \<and> 0 < cDashboardTimeout c \<and>
      0 \<le> cRequestSample c \<and> cRequestSample c \<le> 1 \<and>
      (\<exists>q. cBasePath c = ''/'' @ q \<and> q \<noteq> [] \<and> hd q \<noteq> CHR ''/'' \<and> last q \<noteq> CHR ''/'') \<and>
      distinct (cSidebarKinds c) \<and> list_all supportsSidebar (cSidebarKinds c) \<and>
      list_all supportsCallsite (cCallsiteKinds c) \<and>
      (if cStorage c \<noteq> None then cStoragePath c = [] \<and> cStorageKind c \<noteq> []
       else if cStoragePath c \<noteq> [] then cStorageKind c = storageKindJournal
       else cStorageKind c = storageKindMemory)"
  using configured_ok [of opts]
  by (simp add: config_ok_def base_path_ok_def storage_choice_ok_def Let_def)

end
