(* ===== verification/Store.thy ===== *)
theory Store
  imports EntryOrder ContractsJson Options
begin

text \<open>
  The event store of \<open>store.go\<close>: a bounded window of entries kept in memory under
  \<open>entryStore.mu\<close>, broadcast to subscribers, and journalled to a storage back end under
  \<open>entryStore.storageMu\<close>.  Every \<open>\<dots>Locked\<close> method, and the part of every other method that
  runs under \<open>mu\<close>, is one function of the state; the reads of the clock are arguments.
  What a method writes to storage it returns as a \<open>storageBatch\<close>; StorePersist holds what
  happens to it after the lock is released.

  A \<open>chan\<close> lives in a heap indexed by the subscriber number, because the subscriber keeps
  receiving from it after the store has forgotten it.
\<close>

subsection \<open>State\<close>


record streamMessage =
  smType :: string
  smCursor :: nat
  smEvent :: "Entry option"
  smDropped :: nat

record chan =
  chBuf :: "streamMessage list"
  chCap :: nat
  chCloses :: nat

record storeJournalRecord =
  jrOperation :: string
  jrEntry :: "Entry option"
  jrCursor :: nat

record storageBatch =
  sbSequence :: nat
  sbRecords :: "storeJournalRecord list"

datatype fileHandle = NoFile | OpenFile | ClosedFile

text \<open>
  \<open>'x\<close> is the state of an external \<open>EntryStorage\<close>.  The journal file holds one line per
  record; \<open>Torn\<close> is the rest of a line whose write was cut short.
\<close>

datatype journalLine = Line storeJournalRecord | Torn nat

record 'x entryStore =
  sEntries :: "(string \<times> Entry) list"
  sOrder :: entryOrder
  sBytes :: int
  sNextCursor :: nat
  sDropped :: nat
  sEvicted :: nat
  sRetention :: duration
  sMaxEvents :: int
  sMaxBytes :: int
  sStreamBuffer :: nat
  sSubscribers :: "nat list"
  sChannels :: "(nat \<times> chan) list"
  sNextSubscriber :: nat
  sIsClosed :: bool
  sStorageKind :: string
  sStoragePath :: string
  sStorageFile :: fileHandle
  sStorage :: "'x option"
  sStorageBytes :: int
  sStorageError :: string
  sBodyLimit :: int
  sRequestSample :: rat
  sDisabledKinds :: "Kind list"
  sSidebarKinds :: "Kind list"
  sStorageIssued :: nat
  sStorageDone :: nat

definition zeroEntry :: Entry where
  "zeroEntry = \<lparr>eCursor = 0, eID = [], eKind = [], eRequestID = [], eParentID = [],
     eOriginRequestID = [], eProcess = [], eInstance = [], eStartedAt = 0, eRecordedAt = 0,
     eDurationNS = 0, eTags = [], eData = JNull\<rparr>"

definition entrySize :: "Entry \<Rightarrow> int" where
  "entrySize e =
     int (length (eID e) + length (eRequestID e) + length (eParentID e) +
       length (eOriginRequestID e) + length (eProcess e) + length (eInstance e) +
       length (eKind e) + length (json_text (eData e))) + 160 +
     sum_list (map (\<lambda>(k, v). int (length k + length v + 32)) (eTags e))"

definition lookup_entry :: "'x entryStore \<Rightarrow> string \<Rightarrow> Entry" where
  "lookup_entry s i = (case map_get (sEntries s) i of None \<Rightarrow> zeroEntry | Some e \<Rightarrow> e)"

subsection \<open>Removing\<close>

definition deleteRecord :: "string \<Rightarrow> storeJournalRecord" where
  "deleteRecord i = \<lparr>jrOperation = ''delete'', jrEntry = Some (zeroEntry\<lparr>eID := i\<rparr>), jrCursor = 0\<rparr>"

definition removeOldest :: "'x entryStore \<Rightarrow> 'x entryStore \<times> storeJournalRecord option" where
  "removeOldest s =
     (case popFront (sOrder s) of (d, i, ok) \<Rightarrow>
        let s = s\<lparr>sOrder := d\<rparr> in
        if \<not> ok then (s, None)
        else case map_get (sEntries s) i of
          None \<Rightarrow> (s, None)
        | Some e \<Rightarrow>
            (s\<lparr>sEntries := map_del i (sEntries s), sBytes := sBytes s - entrySize e\<rparr>,
             Some (deleteRecord i)))"

definition removeOrder :: "string \<Rightarrow> 'x entryStore \<Rightarrow> 'x entryStore" where
  "removeOrder i s = s\<lparr>sOrder := fst (order_remove (sOrder s) i)\<rparr>"

definition removeMemory :: "string \<Rightarrow> 'x entryStore \<Rightarrow> 'x entryStore" where
  "removeMemory i s =
     (case map_get (sEntries s) i of
        None \<Rightarrow> s
      | Some e \<Rightarrow> removeOrder i
          (s\<lparr>sEntries := map_del i (sEntries s), sBytes := sBytes s - entrySize e\<rparr>))"

definition removeEntry :: "string \<Rightarrow> 'x entryStore \<Rightarrow> 'x entryStore" where
  "removeEntry i s = (case map_get (sEntries s) i of None \<Rightarrow> s | Some _ \<Rightarrow> removeMemory i s)"

definition cons_opt :: "'a option \<Rightarrow> 'a list \<Rightarrow> 'a list" where
  "cons_opt r rs = (case r of None \<Rightarrow> rs | Some x \<Rightarrow> x # rs)"

lemma removeOldest_len:
  "0 < order_len (sOrder s) \<Longrightarrow> order_len (sOrder (fst (removeOldest s))) < order_len (sOrder s)"
  by (auto simp: removeOldest_def popFront_def order_len_def Let_def split: prod.splits option.splits if_splits)

lemma removeOldest_dec:
  "(s1, r) = removeOldest s \<Longrightarrow> order_len (sOrder s) \<noteq> 0 \<Longrightarrow>
     order_len (sOrder s1) < order_len (sOrder s)"
  using removeOldest_len [of s] by (metis fst_conv neq0_conv)

function purgeExpired :: "instant \<Rightarrow> 'x entryStore \<Rightarrow> 'x entryStore \<times> storeJournalRecord list" where
  "purgeExpired now s =
     (if order_len (sOrder s) = 0 then (s, [])
      else let (i, _) = order_front (sOrder s); e = lookup_entry s i in
        if \<not> eRecordedAt e < now - sRetention s then (s, [])
        else let (s1, r) = removeOldest s;
                 (s2, rs) = purgeExpired now (s1\<lparr>sEvicted := sEvicted s1 + 1\<rparr>)
             in (s2, cons_opt r rs))"
  by pat_completeness auto
termination
proof (relation "measure (\<lambda>(now, s). order_len (sOrder s))", goal_cases)
  case (2 now s x xa y xb xc xd ya)
  then show ?case using removeOldest_dec [of xd ya s] by simp
qed simp

function evict :: "'x entryStore \<Rightarrow> 'x entryStore \<times> storeJournalRecord list" where
  "evict s =
     (if int (order_len (sOrder s)) > sMaxEvents s \<or> sBytes s > sMaxBytes s then
        (if order_len (sOrder s) = 0 then (s, [])
         else let (s1, r) = removeOldest s;
                  (s2, rs) = evict (s1\<lparr>sEvicted := sEvicted s1 + 1\<rparr>)
              in (s2, cons_opt r rs))
      else (s, []))"
  by pat_completeness auto
termination
proof (relation "measure (\<lambda>s. order_len (sOrder s))", goal_cases)
  case (2 s x xa y)
  then show ?case using removeOldest_dec [of xa y s] by simp
qed simp

declare purgeExpired.simps [simp del] evict.simps [simp del]

subsection \<open>Subscribers\<close>

definition chan_send :: "streamMessage \<Rightarrow> chan \<Rightarrow> chan" where
  "chan_send m c = c\<lparr>chBuf := chBuf c @ [m]\<rparr>"

definition chan_close :: "chan \<Rightarrow> chan" where
  "chan_close c = c\<lparr>chCloses := chCloses c + 1\<rparr>"

text \<open>
  One \<open>select\<close> of \<open>broadcastLocked\<close>: a full buffer drops the subscriber and closes its
  channel.
\<close>

definition offer :: "streamMessage \<Rightarrow> nat \<Rightarrow> 'x entryStore \<Rightarrow> 'x entryStore" where
  "offer m i s =
     (case map_get (sChannels s) i of
        None \<Rightarrow> s
      | Some c \<Rightarrow>
          if length (chBuf c) < chCap c
          then s\<lparr>sChannels := map_put i (chan_send m c) (sChannels s)\<rparr>
          else s\<lparr>sSubscribers := removeAll i (sSubscribers s),
                 sChannels := map_put i (chan_close c) (sChannels s)\<rparr>)"

definition broadcast :: "streamMessage \<Rightarrow> 'x entryStore \<Rightarrow> 'x entryStore" where
  "broadcast m s = fold (offer m) (sSubscribers s) s"

text \<open>
  \<open>subscribe\<close> returns the subscriber number, by which the receiver and the returned
  unsubscribe function refer to the channel.  On a closed store the channel is closed.
\<close>

definition subscribe :: "'x entryStore \<Rightarrow> 'x entryStore \<times> nat option" where
  "subscribe s =
     (if sIsClosed s then (s, None)
      else let i = sNextSubscriber s + 1 in
        (s\<lparr>sNextSubscriber := i, sSubscribers := i # sSubscribers s,
           sChannels := map_put i \<lparr>chBuf = [], chCap = sStreamBuffer s, chCloses = 0\<rparr> (sChannels s)\<rparr>,
         Some i))"

definition drop_subscriber :: "nat \<Rightarrow> 'x entryStore \<Rightarrow> 'x entryStore" where
  "drop_subscriber i s =
     (case map_get (sChannels s) i of
        None \<Rightarrow> s
      | Some c \<Rightarrow> s\<lparr>sSubscribers := removeAll i (sSubscribers s),
                   sChannels := map_put i (chan_close c) (sChannels s)\<rparr>)"

definition unsubscribe :: "nat \<Rightarrow> 'x entryStore \<Rightarrow> 'x entryStore" where
  "unsubscribe i s = (if i \<in> set (sSubscribers s) then drop_subscriber i s else s)"

text \<open>A receive by the subscriber: \<open>None\<close> when it would block, a closed drained channel gives \<open>Some None\<close>.\<close>

definition receive :: "nat \<Rightarrow> 'x entryStore \<Rightarrow> ('x entryStore \<times> streamMessage option) option" where
  "receive i s =
     (case map_get (sChannels s) i of
        None \<Rightarrow> None
      | Some c \<Rightarrow> (case chBuf c of
            m # ms \<Rightarrow> Some (s\<lparr>sChannels := map_put i (c\<lparr>chBuf := ms\<rparr>) (sChannels s)\<rparr>, Some m)
          | [] \<Rightarrow> if chCloses c = 0 then None else Some (s, None)))"

subsection \<open>Recording, clearing\<close>

definition storageBatchLocked :: "storeJournalRecord list \<Rightarrow> 'x entryStore \<Rightarrow> 'x entryStore \<times> storageBatch" where
  "storageBatchLocked records s =
     (let none = \<lparr>sbSequence = 0, sbRecords = []\<rparr> in
      if records = [] then (s, none)
      else if sStorageKind s = storageKindMemory then (s, none)
      else if sStorageKind s = storageKindJournal \<and> sStorageFile s = NoFile then (s, none)
      else if sStorageKind s \<noteq> storageKindJournal \<and> sStorage s = None then (s, none)
      else (s\<lparr>sStorageIssued := sStorageIssued s + 1\<rparr>,
            \<lparr>sbSequence = sStorageIssued s + 1, sbRecords = records\<rparr>))"

definition putRecord :: "Entry \<Rightarrow> nat \<Rightarrow> storeJournalRecord" where
  "putRecord e c = \<lparr>jrOperation = ''put'', jrEntry = Some e, jrCursor = c\<rparr>"

definition clearRecord :: "nat \<Rightarrow> storeJournalRecord" where
  "clearRecord c = \<lparr>jrOperation = ''clear'', jrEntry = None, jrCursor = c\<rparr>"

definition droppedMessage :: "nat \<Rightarrow> streamMessage" where
  "droppedMessage n = \<lparr>smType = ''events.dropped'', smCursor = 0, smEvent = None, smDropped = n\<rparr>"

definition eventMessage :: "string \<Rightarrow> Entry \<Rightarrow> streamMessage" where
  "eventMessage t e = \<lparr>smType = t, smCursor = eCursor e, smEvent = Some e, smDropped = 0\<rparr>"

definition clearedMessage :: "nat \<Rightarrow> streamMessage" where
  "clearedMessage c = \<lparr>smType = ''events.cleared'', smCursor = c, smEvent = None, smDropped = 0\<rparr>"

text \<open>\<open>insert_entry\<close> is the replacement of an entry by a newer one, shared with the replay.\<close>

definition insert_entry :: "Entry \<Rightarrow> 'x entryStore \<Rightarrow> 'x entryStore" where
  "insert_entry e s =
     (let s = (case map_get (sEntries s) (eID e) of
                 None \<Rightarrow> s
               | Some previous \<Rightarrow>
                   removeOrder (eID e) (s\<lparr>sBytes := sBytes s - entrySize previous\<rparr>))
      in s\<lparr>sEntries := map_put (eID e) e (sEntries s),
           sOrder := pushBack (sOrder s) (eID e),
           sBytes := sBytes s + entrySize e\<rparr>)"

definition put :: "instant \<Rightarrow> Entry \<Rightarrow> 'x entryStore \<Rightarrow> 'x entryStore \<times> storageBatch \<times> bool" where
  "put now entry s =
     (if sIsClosed s then (s, \<lparr>sbSequence = 0, sbRecords = []\<rparr>, False)
      else
        let (s, records) = purgeExpired now s in
        if entrySize entry > sMaxBytes s then
          let s = s\<lparr>sDropped := sDropped s + 1\<rparr>;
              s = broadcast (droppedMessage (sDropped s)) s;
              (s, batch) = storageBatchLocked records s
          in (s, batch, False)
        else
          let messageType = (case map_get (sEntries s) (eID entry) of
                None \<Rightarrow> ''event.created'' | Some _ \<Rightarrow> ''event.updated'');
              s = s\<lparr>sNextCursor := sNextCursor s + 1\<rparr>;
              entry = entry\<lparr>eCursor := sNextCursor s\<rparr>;
              s = insert_entry entry s;
              (s, evictions) = evict s;
              records = records @ evictions @ [putRecord entry (sNextCursor s)];
              s = broadcast (eventMessage messageType entry) s;
              (s, batch) = storageBatchLocked records s
          in (s, batch, True))"

definition clear :: "'x entryStore \<Rightarrow> 'x entryStore \<times> storageBatch" where
  "clear s =
     (let s = s\<lparr>sEntries := [], sOrder := order_reset (sOrder s), sBytes := 0,
                sNextCursor := sNextCursor s + 1\<rparr>;
          s = broadcast (clearedMessage (sNextCursor s)) s
      in storageBatchLocked [clearRecord (sNextCursor s)] s)"

text \<open>\<open>purged\<close> is the opening of every query: expired entries leave before it is answered.\<close>

definition purged :: "instant \<Rightarrow> 'x entryStore \<Rightarrow> 'x entryStore \<times> storageBatch" where
  "purged now s = (let (s, records) = purgeExpired now s in storageBatchLocked records s)"

definition close_subscribers :: "'x entryStore \<Rightarrow> 'x entryStore" where
  "close_subscribers s = fold drop_subscriber (sSubscribers s) s"

text \<open>The first critical section of \<open>close\<close>; the back end is closed in StorePersist.\<close>

definition close_store :: "'x entryStore \<Rightarrow> 'x entryStore" where
  "close_store s = (if sIsClosed s then s else close_subscribers (s\<lparr>sIsClosed := True\<rparr>))"

subsection \<open>Queries\<close>

record eventFilters =
  fKind :: Kind
  fRequestID :: string
  fScopeID :: string
  fTags :: "string list"
  fQuery :: string
  fMethod :: string
  fPathContains :: string
  fStatus :: int
  fMinDurationNS :: int
  fMaxDurationNS :: int
  fAfter :: nat
  fBefore :: nat

text \<open>One filter of \<open>matchesTags\<close>; \<open>cut\<close> gives the text before and after \<open>=\<close>, if there is one.\<close>

definition matchesTag :: "tags \<Rightarrow> string \<Rightarrow> bool" where
  "matchesTag ts raw =
     (let filter = trim_space raw in
      if filter = [] then True
      else case cut filter ''='' of (key, val, exact) \<Rightarrow>
        let key = trim_space key in
        if key = [] then False
        else case map_get ts key of
          None \<Rightarrow> False
        | Some actual \<Rightarrow> \<not> (exact \<and> actual \<noteq> trim_space val))"

definition matchesTags :: "tags \<Rightarrow> string list \<Rightarrow> bool" where
  "matchesTags ts filters = list_all (matchesTag ts) filters"

definition entryContains :: "Entry \<Rightarrow> string \<Rightarrow> bool" where
  "entryContains e query =
     (list_ex (\<lambda>s. contains (to_lower s) query)
        [eID e, eKind e, eRequestID e, eProcess e, eInstance e, json_text (eData e)] \<or>
      list_ex (\<lambda>(key, val). contains (to_lower key) query \<or> contains (to_lower val) query) (eTags e))"

text \<open>The anonymous struct of method, path and status that \<open>matchesEventFilters\<close> decodes.\<close>

definition decRequestHead :: "json \<Rightarrow> (string \<times> string \<times> int) option" where
  "decRequestHead j = do {
     kvs \<leftarrow> obj_fields j;
     me \<leftarrow> get_str kvs ''method''; pa \<leftarrow> get_str kvs ''path''; st \<leftarrow> get_int kvs ''status'';
     Some (me, pa, st) }"

definition matchesEventFilters :: "Entry \<Rightarrow> eventFilters \<Rightarrow> bool" where
  "matchesEventFilters e f =
     (if fKind f \<noteq> [] \<and> eKind e \<noteq> fKind f then False
      else if fRequestID f \<noteq> [] \<and> eRequestID e \<noteq> fRequestID f \<and> eID e \<noteq> fRequestID f \<and>
          eOriginRequestID e \<noteq> fRequestID f then False
      else if \<not> matchesTags (eTags e) (fTags f) then False
      else if fMinDurationNS f > 0 \<and> eDurationNS e < fMinDurationNS f then False
      else if fMaxDurationNS f > 0 \<and> eDurationNS e > fMaxDurationNS f then False
      else
        let query = to_lower (trim_space (fQuery f)) in
        if query \<noteq> [] \<and> \<not> entryContains e query then False
        else
          let meth = trim_space (fMethod f); pathContains = to_lower (trim_space (fPathContains f)) in
          if meth = [] \<and> pathContains = [] \<and> fStatus f = 0 then True
          else if eKind e \<noteq> KindRequest then False
          else case decRequestHead (eData e) of
            None \<Rightarrow> False
          | Some (rmethod, rpath, rstatus) \<Rightarrow>
              if meth \<noteq> [] \<and> \<not> equal_fold meth rmethod then False
              else if pathContains \<noteq> [] \<and> \<not> contains (to_lower rpath) pathContains then False
              else fStatus f = 0 \<or> fStatus f = rstatus)"

text \<open>
  \<open>scopeIDsLocked\<close>: the ids reachable from a root through \<open>ParentID\<close>, by depth-first search.
  The stack is kept top first; \<open>None\<close> is the nil map of an empty root.
\<close>

definition children_of :: "Entry list \<Rightarrow> string \<Rightarrow> string list" where
  "children_of es parent =
     map eID (filter (\<lambda>e. eParentID e \<noteq> [] \<and> eID e \<noteq> eParentID e \<and> eParentID e = parent) es)"

fun visit_children :: "string list \<Rightarrow> string list \<Rightarrow> string list \<Rightarrow> string list \<times> string list" where
  "visit_children [] ids stack = (ids, stack)"
| "visit_children (c # cs) ids stack =
     (if c \<in> set ids then visit_children cs ids stack
      else visit_children cs (c # ids) (c # stack))"

definition scope_room :: "Entry list \<Rightarrow> string list \<Rightarrow> nat" where
  "scope_room es ids = card (eID ` set es - set ids)"

lemma visit_children_measure:
  assumes "set cs \<subseteq> eID ` set es" "visit_children cs ids stack = (ids', stack')"
  shows "2 * scope_room es ids' + length stack' \<le> 2 * scope_room es ids + length stack"
  using assms
proof (induction cs arbitrary: ids stack)
  case Nil
  then show ?case by simp
next
  case (Cons c cs)
  show ?case
  proof (cases "c \<in> set ids")
    case True
    with Cons show ?thesis by simp
  next
    case False
    with Cons.prems have rec: "visit_children cs (c # ids) (c # stack) = (ids', stack')" by simp
    have c: "c \<in> eID ` set es - set ids" using Cons.prems(1) False by simp
    have "scope_room es (c # ids) < scope_room es ids"
      unfolding scope_room_def using c by (intro psubset_card_mono) auto
    moreover have "2 * scope_room es ids' + length stack' \<le> 2 * scope_room es (c # ids) + length (c # stack)"
      using Cons.IH [OF _ rec] Cons.prems(1) by simp
    ultimately show ?thesis by simp
  qed
qed

lemma children_of_subset: "set (children_of es p) \<subseteq> eID ` set es"
  by (auto simp: children_of_def)

function scope_loop :: "Entry list \<Rightarrow> string list \<Rightarrow> string list \<Rightarrow> string list" where
  "scope_loop es ids [] = ids"
| "scope_loop es ids (parent # stack) =
     (case visit_children (children_of es parent) ids stack of
        (ids', stack') \<Rightarrow> scope_loop es ids' stack')"
  by pat_completeness auto
termination
proof (relation "measure (\<lambda>(es, ids, stack). 2 * scope_room es ids + length stack)", goal_cases)
  case (2 es ids parent stack)
  then show ?case
    using visit_children_measure [OF children_of_subset 2 [symmetric]]
    by (simp add: 2 [symmetric])
qed simp

definition scopeIDs :: "string \<Rightarrow> 'x entryStore \<Rightarrow> string list option" where
  "scopeIDs rootID s =
     (let rootID = trim_space rootID in
      if rootID = [] then None else Some (scope_loop (map snd (sEntries s)) [rootID] [rootID]))"

text \<open>
  The loop of \<open>listBeforeFiltered\<close> over the positions below \<open>n\<close>, newest first, with the
  result and the number of scanned entries so far.
\<close>

fun list_scan :: "'x entryStore \<Rightarrow> eventFilters \<Rightarrow> string list option \<Rightarrow> nat \<Rightarrow> nat \<Rightarrow>
    Entry list \<Rightarrow> nat \<Rightarrow> Entry list \<times> nat" where
  "list_scan s f scope limit 0 acc scanned = (acc, scanned)"
| "list_scan s f scope limit (Suc n) acc scanned =
     (if length acc < limit then
        let e = lookup_entry s (order_at (sOrder s) (int n)) in
        if fAfter f > 0 \<and> eCursor e \<le> fAfter f then list_scan s f scope limit n acc scanned
        else if fBefore f > 0 \<and> eCursor e \<ge> fBefore f then list_scan s f scope limit n acc scanned
        else if (case scope of None \<Rightarrow> False | Some ids \<Rightarrow> eID e \<notin> set ids)
          then list_scan s f scope limit n acc (scanned + 1)
        else if \<not> matchesEventFilters e f then list_scan s f scope limit n acc (scanned + 1)
        else list_scan s f scope limit n (acc @ [e]) (scanned + 1)
      else (acc, scanned))"

definition list_limit :: "int \<Rightarrow> nat" where
  "list_limit limit = (if limit \<le> 0 \<or> limit > 1001 then 200 else nat limit)"

definition listBeforeFiltered :: "instant \<Rightarrow> eventFilters \<Rightarrow> int \<Rightarrow> 'x entryStore \<Rightarrow>
    'x entryStore \<times> storageBatch \<times> Entry list \<times> nat" where
  "listBeforeFiltered now f limit s =
     (let (s, batch) = purged now s;
          scope = scopeIDs (fScopeID f) s;
          (result, scanned) = list_scan s f scope (list_limit limit) (order_len (sOrder s)) [] 0
      in (s, batch, rev result, scanned))"

definition noFilters :: eventFilters where
  "noFilters = \<lparr>fKind = [], fRequestID = [], fScopeID = [], fTags = [], fQuery = [], fMethod = [],
     fPathContains = [], fStatus = 0, fMinDurationNS = 0, fMaxDurationNS = 0, fAfter = 0, fBefore = 0\<rparr>"

definition listBefore :: "instant \<Rightarrow> Kind \<Rightarrow> string \<Rightarrow> string list \<Rightarrow> nat \<Rightarrow> nat \<Rightarrow> int \<Rightarrow> 'x entryStore \<Rightarrow>
    'x entryStore \<times> storageBatch \<times> Entry list" where
  "listBefore now kind requestID ts after before limit s =
     (case listBeforeFiltered now (noFilters\<lparr>fKind := kind, fRequestID := requestID, fTags := ts,
          fAfter := after, fBefore := before\<rparr>) limit s of
        (s, batch, entries, _) \<Rightarrow> (s, batch, entries))"

definition list_entries :: "instant \<Rightarrow> Kind \<Rightarrow> string \<Rightarrow> string list \<Rightarrow> nat \<Rightarrow> int \<Rightarrow> 'x entryStore \<Rightarrow>
    'x entryStore \<times> storageBatch \<times> Entry list" where
  "list_entries now kind requestID ts after limit s = listBefore now kind requestID ts after 0 limit s"

definition get :: "instant \<Rightarrow> string \<Rightarrow> 'x entryStore \<Rightarrow> 'x entryStore \<times> storageBatch \<times> Entry \<times> bool" where
  "get now i s =
     (let (s, batch) = purged now s
      in case map_get (sEntries s) i of
           None \<Rightarrow> (s, batch, zeroEntry, False)
         | Some e \<Rightarrow> (s, batch, e, True))"

text \<open>The entries at positions \<open>0, 1, \<dots>\<close> that satisfy a test, oldest first.\<close>

definition scan_order :: "(Entry \<Rightarrow> bool) \<Rightarrow> 'x entryStore \<Rightarrow> Entry list" where
  "scan_order p s =
     filter p (map (\<lambda>i. lookup_entry s (order_at (sOrder s) (int i))) [0..<order_len (sOrder s)])"

definition requestEntries :: "instant \<Rightarrow> string \<Rightarrow> 'x entryStore \<Rightarrow>
    'x entryStore \<times> storageBatch \<times> (Entry \<times> Entry list) option" where
  "requestEntries now requestID s =
     (let (s, batch) = purged now s
      in case map_get (sEntries s) requestID of
           None \<Rightarrow> (s, batch, None)
         | Some request \<Rightarrow> (s, batch, Some (request, scan_order
             (\<lambda>e. \<not> (eID e \<noteq> requestID \<and> eRequestID e \<noteq> requestID \<and> eOriginRequestID e \<noteq> requestID)) s)))"

definition scopeEntries :: "instant \<Rightarrow> string \<Rightarrow> 'x entryStore \<Rightarrow>
    'x entryStore \<times> storageBatch \<times> (Entry \<times> Entry list) option" where
  "scopeEntries now rootID s =
     (let (s, batch) = purged now s
      in case map_get (sEntries s) rootID of
           None \<Rightarrow> (s, batch, None)
         | Some rootEntry \<Rightarrow>
             let ids = (case scopeIDs rootID s of None \<Rightarrow> [] | Some ids \<Rightarrow> ids)
             in (s, batch, Some (rootEntry, scan_order (\<lambda>e. eID e \<in> set ids) s)))"

definition stats :: "instant \<Rightarrow> 'x entryStore \<Rightarrow> 'x entryStore \<times> storageBatch \<times> Stats" where
  "stats now s =
     (let (s, batch) = purged now s
      in (s, batch,
          \<lparr>stEvents = length (sEntries s), stBytes = sBytes s, stDroppedEvents = sDropped s,
           stEvictedEvents = sEvicted s, stSubscribers = length (sSubscribers s),
           stCursor = sNextCursor s, stMaxEvents = sMaxEvents s, stMaxBytes = sMaxBytes s,
           stRetentionNS = sRetention s, stStorage = sStorageKind s,
           stStorageError = sStorageError s, stBodyLimit = sBodyLimit s,
           stSampleRate = sRequestSample s, stDisabledKinds = sDisabledKinds s,
           stSidebarKinds = sSidebarKinds s\<rparr>))"


end
