(* ===== verification/StoreFacts.thy ===== *)
theory StoreFacts
  imports Store
begin

text \<open>
  The store as a list.  \<open>view s\<close> is the list of retained entries, oldest first; the
  invariant \<open>store_inv\<close> ties the map, the circular order and the byte count of the code to
  it, and every operation is described by what it does to that list.
\<close>

subsection \<open>The retained entries as a list\<close>

definition view :: "'x entryStore \<Rightarrow> Entry list" where
  "view s = map (lookup_entry s) (order_list (sOrder s))"

definition store_inv :: "'x entryStore \<Rightarrow> bool" where
  "store_inv s \<longleftrightarrow>
     order_inv (sOrder s) \<and> go_map (sEntries s) \<and> distinct (order_list (sOrder s)) \<and>
     fst ` set (sEntries s) = set (order_list (sOrder s)) \<and>
     list_all (\<lambda>(k, e). eID e = k) (sEntries s) \<and>
     sBytes s = sum_list (map entrySize (view s))"

text \<open>Everything but the window itself and the eviction count.\<close>

definition rest :: "'x entryStore \<Rightarrow> 'x entryStore" where
  "rest s = s\<lparr>sEntries := [], sOrder := newEntryOrder 0, sBytes := 0, sEvicted := 0\<rparr>"

lemma rest_fields:
  assumes "rest s = rest t"
  shows "sNextCursor s = sNextCursor t" "sDropped s = sDropped t" "sRetention s = sRetention t"
    "sMaxEvents s = sMaxEvents t" "sMaxBytes s = sMaxBytes t" "sStreamBuffer s = sStreamBuffer t"
    "sSubscribers s = sSubscribers t" "sChannels s = sChannels t"
    "sNextSubscriber s = sNextSubscriber t" "sIsClosed s = sIsClosed t"
    "sStorageKind s = sStorageKind t" "sStoragePath s = sStoragePath t"
    "sStorageFile s = sStorageFile t" "sStorage s = sStorage t" "sStorageBytes s = sStorageBytes t"
    "sStorageError s = sStorageError t" "sStorageIssued s = sStorageIssued t"
    "sStorageDone s = sStorageDone t"
  using assms by (cases s; cases t; simp add: rest_def)+

lemma rest_window [simp]:
  "rest (s\<lparr>sEntries := a\<rparr>) = rest s" "rest (s\<lparr>sOrder := b\<rparr>) = rest s"
  "rest (s\<lparr>sBytes := c\<rparr>) = rest s" "rest (s\<lparr>sEvicted := d\<rparr>) = rest s"
  by (cases s; simp add: rest_def)+

lemma view_cong: "sEntries s = sEntries t \<Longrightarrow> sOrder s = sOrder t \<Longrightarrow> view s = view t"
  by (simp add: view_def lookup_entry_def fun_eq_iff)

lemma store_inv_cong:
  "sEntries s = sEntries t \<Longrightarrow> sOrder s = sOrder t \<Longrightarrow> sBytes s = sBytes t \<Longrightarrow>
     store_inv s = store_inv t"
  using view_cong [of s t] by (simp add: store_inv_def)

lemma map_get_lookup:
  "store_inv s \<Longrightarrow> i \<in> set (order_list (sOrder s)) \<Longrightarrow> map_get (sEntries s) i = Some (lookup_entry s i)"
  using map_get_None_iff [of "sEntries s" i] by (auto simp: store_inv_def lookup_entry_def split: option.splits)

lemma map_get_none:
  "store_inv s \<Longrightarrow> i \<notin> set (order_list (sOrder s)) \<Longrightarrow> map_get (sEntries s) i = None"
  by (simp add: map_get_None_iff store_inv_def)

lemma lookup_id:
  "store_inv s \<Longrightarrow> i \<in> set (order_list (sOrder s)) \<Longrightarrow> eID (lookup_entry s i) = i"
  using map_get_lookup [of s i] map_get_in_set [of "sEntries s" i]
  by (fastforce simp: store_inv_def list_all_iff)

lemma view_ids: "store_inv s \<Longrightarrow> map eID (view s) = order_list (sOrder s)"
  by (rule nth_equalityI) (auto simp: view_def lookup_id)

lemma view_distinct: "store_inv s \<Longrightarrow> distinct (map eID (view s))"
  by (simp add: view_ids) (simp add: store_inv_def)

lemma view_length: "length (view s) = order_len (sOrder s)"
  by (simp add: view_def)

lemma length_entries: "store_inv s \<Longrightarrow> length (sEntries s) = length (view s)"
  by (simp add: store_inv_def view_length) (metis distinct_card length_map length_order_list set_map)

lemma bytes_view: "store_inv s \<Longrightarrow> sBytes s = sum_list (map entrySize (view s))"
  by (simp add: store_inv_def)

lemma find_id_distinct:
  "distinct (map eID v) \<Longrightarrow> e \<in> set v \<Longrightarrow> find (\<lambda>x. eID x = eID e) v = Some e"
  by (induction v) (auto simp: image_iff)

lemma map_get_view: "store_inv s \<Longrightarrow> map_get (sEntries s) i = find (\<lambda>e. eID e = i) (view s)"
proof (cases "i \<in> set (order_list (sOrder s))")
  case True
  assume inv: "store_inv s"
  have "lookup_entry s i \<in> set (view s)" using True by (simp add: view_def)
  with find_id_distinct [OF view_distinct [OF inv] this] lookup_id [OF inv True]
  show ?thesis by (simp add: map_get_lookup [OF inv True])
next
  case False
  assume inv: "store_inv s"
  have "find (\<lambda>e. eID e = i) (view s) = None"
    using False by (auto simp: find_None_iff view_ids [OF inv, symmetric])
  then show ?thesis by (simp add: map_get_none [OF inv False])
qed

lemma entrySize_pos: "0 < entrySize e"
proof -
  have "0 \<le> sum_list (map (\<lambda>(k, v). int (length k + length v + 32)) (eTags e))"
    by (rule sum_list_nonneg) auto
  then show ?thesis by (simp add: entrySize_def)
qed

lemma entrySize_cursor [simp]: "entrySize (e\<lparr>eCursor := c\<rparr>) = entrySize e"
  by (simp add: entrySize_def)

subsection \<open>Removing the oldest entry\<close>

lemma lookup_entry_del:
  "j \<noteq> i \<Longrightarrow> lookup_entry (s\<lparr>sEntries := map_del i (sEntries s)\<rparr>) j = lookup_entry s j"
  by (simp add: lookup_entry_def)

lemma list_all_del: "list_all P m \<Longrightarrow> list_all P (map_del k m)"
  by (induction m) auto

lemma list_all_put: "list_all P m \<Longrightarrow> P (k, v) \<Longrightarrow> list_all P (map_put k v m)"
  by (induction m) auto

lemma removeOldest_spec:
  assumes inv: "store_inv s" and v: "view s = e # v"
  obtains s' where "removeOldest s = (s', Some (deleteRecord (eID e)))" "store_inv s'"
    "view s' = v" "rest s' = rest s" "sEvicted s' = sEvicted s"
proof -
  have q: "order_inv (sOrder s)" using inv by (simp add: store_inv_def)
  obtain ids where ol: "order_list (sOrder s) = eID e # ids"
    using view_ids [OF inv] v by (metis list.simps(9))
  have e: "lookup_entry s (eID e) = e" using v ol by (simp add: view_def)
  have dist: "eID e \<notin> set ids" "distinct ids" using inv ol by (simp_all add: store_inv_def)
  obtain d where d: "popFront (sOrder s) = (d, eID e, True)"
    using ord.pop_cons [OF q ol] by (metis prod.collapse)
  then have ol': "order_list d = ids" and q': "order_inv d"
    using ord.pop_list [OF q] ord.pop_inv [OF q] ol by simp_all
  have m: "map_get (sEntries s) (eID e) = Some e"
    using map_get_lookup [OF inv, of "eID e"] ol e by simp
  let ?s = "s\<lparr>sOrder := d, sEntries := map_del (eID e) (sEntries s), sBytes := sBytes s - entrySize e\<rparr>"
  have view': "view ?s = v"
  proof -
    have "view ?s = map (lookup_entry s) ids"
      using ol' dist by (auto simp: view_def lookup_entry_def)
    with v ol show ?thesis by (simp add: view_def)
  qed
  have "store_inv ?s"
    using inv ol ol' q' dist v view' by (auto simp: store_inv_def list_all_del)
  moreover have "removeOldest s = (?s, Some (deleteRecord (eID e)))"
    by (simp add: removeOldest_def d m)
  ultimately show ?thesis using that view' by simp
qed

subsection \<open>Purging and evicting\<close>

definition expired :: "instant \<Rightarrow> duration \<Rightarrow> Entry \<Rightarrow> bool" where
  "expired now retention e = (eRecordedAt e < now - retention)"

definition total_size :: "Entry list \<Rightarrow> int" where
  "total_size v = sum_list (map entrySize v)"

definition fits :: "int \<Rightarrow> int \<Rightarrow> Entry list \<Rightarrow> bool" where
  "fits maxE maxB v \<longleftrightarrow> int (length v) \<le> maxE \<and> total_size v \<le> maxB"

text \<open>The longest suffix within the bounds.\<close>

fun trim_window :: "int \<Rightarrow> int \<Rightarrow> Entry list \<Rightarrow> Entry list" where
  "trim_window maxE maxB [] = []"
| "trim_window maxE maxB (e # v) = (if fits maxE maxB (e # v) then e # v else trim_window maxE maxB v)"

definition deletes :: "Entry list \<Rightarrow> storeJournalRecord list" where
  "deletes v = map (\<lambda>e. deleteRecord (eID e)) v"

lemma deletes_simps [simp]: "deletes [] = []" "deletes (e # v) = deleteRecord (eID e) # deletes v"
  by (simp_all add: deletes_def)

lemma total_size_simps [simp]:
  "total_size [] = 0" "total_size (e # v) = entrySize e + total_size v"
  "total_size (v @ w) = total_size v + total_size w"
  by (simp_all add: total_size_def)

lemma total_size_nonneg: "0 \<le> total_size v"
  using entrySize_pos by (induction v) (auto intro: add_nonneg_nonneg less_imp_le)

lemma cons_opt_simps [simp]: "cons_opt None rs = rs" "cons_opt (Some r) rs = r # rs"
  by (simp_all add: cons_opt_def)

lemma store_inv_evicted [simp]: "store_inv (s\<lparr>sEvicted := n\<rparr>) = store_inv s"
  by (rule store_inv_cong) simp_all

lemma view_evicted [simp]: "view (s\<lparr>sEvicted := n\<rparr>) = view s"
  by (rule view_cong) simp_all

lemma order_len_view: "order_len (sOrder s) = length (view s)"
  by (simp add: view_length)

lemma front_view:
  assumes "store_inv s" "view s = e # v"
  shows "order_front (sOrder s) = (eID e, True)" "lookup_entry s (eID e) = e"
proof -
  have "order_list (sOrder s) = eID e # map eID v"
    using view_ids [OF assms(1)] assms(2) by simp
  with assms show "order_front (sOrder s) = (eID e, True)" "lookup_entry s (eID e) = e"
    by (simp_all add: store_inv_def order_front_list view_def)
qed

lemma purgeExpired_spec:
  assumes "store_inv s"
  shows "\<exists>s'. purgeExpired now s =
      (s', deletes (takeWhile (expired now (sRetention s)) (view s))) \<and> store_inv s' \<and>
    view s' = dropWhile (expired now (sRetention s)) (view s) \<and> rest s' = rest s \<and>
    sEvicted s' = sEvicted s + length (takeWhile (expired now (sRetention s)) (view s))"
  using assms
proof (induction "view s" arbitrary: s)
  case Nil
  then show ?case
    by (simp add: purgeExpired.simps [of now s] order_len_view del: order_len_list)
next
  case (Cons e v)
  note front = front_view [OF Cons.prems Cons.hyps(2) [symmetric]]
  have len: "order_len (sOrder s) \<noteq> 0"
    by (simp add: order_len_view Cons.hyps(2) [symmetric] del: order_len_list)
  show ?case
  proof (cases "expired now (sRetention s) e")
    case False
    with Cons.prems Cons.hyps(2) [symmetric] show ?thesis
      by (simp add: purgeExpired.simps [of now s] len front expired_def del: order_len_list)
  next
    case True
    obtain s1 where s1: "removeOldest s = (s1, Some (deleteRecord (eID e)))" "store_inv s1"
      "view s1 = v" "rest s1 = rest s" "sEvicted s1 = sEvicted s"
      using removeOldest_spec [OF Cons.prems Cons.hyps(2) [symmetric]] by blast
    have ret: "sRetention s1 = sRetention s" using rest_fields [OF s1(4)] by simp
    have step: "purgeExpired now s =
        (let (s2, rs) = purgeExpired now (s1\<lparr>sEvicted := sEvicted s1 + 1\<rparr>)
         in (s2, deleteRecord (eID e) # rs))"
      using True by (simp add: purgeExpired.simps [of now s] len front s1(1) expired_def del: order_len_list)
    from Cons.hyps(1) [of "s1\<lparr>sEvicted := sEvicted s1 + 1\<rparr>"] s1 ret True
    show ?thesis by (auto simp: step Cons.hyps(2) [symmetric])
  qed
qed

lemma evict_spec:
  assumes "store_inv s"
  shows "\<exists>s' k. evict s = (s', deletes (take k (view s))) \<and> store_inv s' \<and>
    view s' = drop k (view s) \<and> drop k (view s) = trim_window (sMaxEvents s) (sMaxBytes s) (view s) \<and>
    rest s' = rest s \<and> sEvicted s' = sEvicted s + k \<and> k \<le> length (view s)"
  using assms
proof (induction "view s" arbitrary: s)
  case Nil
  then show ?case
    by (auto simp: evict.simps [of s] order_len_view simp del: order_len_list intro!: exI [of _ "0::nat"])
next
  case (Cons e v)
  have size: "sBytes s = total_size (view s)" by (simp add: bytes_view [OF Cons.prems] total_size_def)
  have over: "int (order_len (sOrder s)) > sMaxEvents s \<or> sBytes s > sMaxBytes s \<longleftrightarrow>
      \<not> fits (sMaxEvents s) (sMaxBytes s) (view s)"
    by (auto simp: fits_def size order_len_view simp del: order_len_list)
  have len: "order_len (sOrder s) \<noteq> 0"
    by (simp add: order_len_view Cons.hyps(2) [symmetric] del: order_len_list)
  show ?case
  proof (cases "fits (sMaxEvents s) (sMaxBytes s) (view s)")
    case True
    then have "trim_window (sMaxEvents s) (sMaxBytes s) (view s) = view s"
      by (simp flip: Cons.hyps(2))
    moreover have "evict s = (s, [])" using True over by (simp add: evict.simps [of s])
    ultimately show ?thesis using Cons.prems
      by (intro exI [of _ s] exI [of _ "0::nat"]) simp
  next
    case False
    obtain s1 where s1: "removeOldest s = (s1, Some (deleteRecord (eID e)))" "store_inv s1"
      "view s1 = v" "rest s1 = rest s" "sEvicted s1 = sEvicted s"
      using removeOldest_spec [OF Cons.prems Cons.hyps(2) [symmetric]] by blast
    have cfg: "sMaxEvents s1 = sMaxEvents s" "sMaxBytes s1 = sMaxBytes s"
      using rest_fields [OF s1(4)] by simp_all
    have step: "evict s = (let (s2, rs) = evict (s1\<lparr>sEvicted := sEvicted s1 + 1\<rparr>)
         in (s2, deleteRecord (eID e) # rs))"
      using False over len by (simp add: evict.simps [of s] s1(1) del: order_len_list)
    obtain s' k where ih: "evict (s1\<lparr>sEvicted := sEvicted s1 + 1\<rparr>) = (s', deletes (take k v))"
      "store_inv s'" "view s' = drop k v" "drop k v = trim_window (sMaxEvents s) (sMaxBytes s) v"
      "rest s' = rest s" "sEvicted s' = sEvicted s + 1 + k" "k \<le> length v"
      using Cons.hyps(1) [of "s1\<lparr>sEvicted := sEvicted s1 + 1\<rparr>"] s1 cfg by auto
    have "trim_window (sMaxEvents s) (sMaxBytes s) (e # v) = drop k v"
      using False ih(4) unfolding Cons.hyps(2) [symmetric] by simp
    then show ?thesis using ih Cons.hyps(2) [symmetric]
      by (intro exI [of _ s'] exI [of _ "Suc k"]) (simp add: step)
  qed
qed

subsection \<open>Inserting\<close>

definition drop_id :: "string \<Rightarrow> Entry list \<Rightarrow> Entry list" where
  "drop_id i v = filter (\<lambda>e. eID e \<noteq> i) v"

lemma drop_id_simps [simp]:
  "drop_id i [] = []" "drop_id i (v @ w) = drop_id i v @ drop_id i w"
  "drop_id i (e # v) = (if eID e = i then drop_id i v else e # drop_id i v)"
  by (simp_all add: drop_id_def)

lemma drop_id_notin: "i \<notin> eID ` set v \<Longrightarrow> drop_id i v = v"
  by (induction v) auto

lemma map_eID_drop_id: "distinct (map eID v) \<Longrightarrow> map eID (drop_id i v) = remove1 i (map eID v)"
  by (induction v) (auto simp: drop_id_notin)

lemma total_size_drop_id:
  "distinct (map eID v) \<Longrightarrow> find (\<lambda>e. eID e = i) v = Some e \<Longrightarrow>
     total_size (drop_id i v) = total_size v - entrySize e"
  by (induction v) (auto simp: drop_id_notin split: if_splits)

lemma total_size_drop_id_le: "total_size (drop_id i v) \<le> total_size v"
  using entrySize_pos by (induction v) (auto intro: add_nonneg_nonneg add_increasing less_imp_le)

lemma length_drop_id_le: "length (drop_id i v) \<le> length v"
  by (simp add: drop_id_def)

lemma view_drop_lookup:
  assumes inv: "store_inv s"
  shows "map (lookup_entry s) (remove1 i (order_list (sOrder s))) = drop_id i (view s)"
proof -
  have "remove1 i (order_list (sOrder s)) = filter (\<lambda>j. j \<noteq> i) (order_list (sOrder s))"
    using inv by (simp add: store_inv_def distinct_remove1_removeAll removeAll_filter_not_eq neq_commute [of i])
  then show ?thesis
    using lookup_id [OF inv]
    by (auto simp: view_def drop_id_def filter_map comp_def intro!: arg_cong [of _ _ "map _"] filter_cong)
qed

lemma insert_entry_spec:
  assumes inv: "store_inv s"
  shows "store_inv (insert_entry e s)" "view (insert_entry e s) = drop_id (eID e) (view s) @ [e]"
    "rest (insert_entry e s) = rest s" "sEvicted (insert_entry e s) = sEvicted s"
proof -
  have q: "order_inv (sOrder s)" and dist: "distinct (order_list (sOrder s))"
    and gm: "go_map (sEntries s)"
    using inv by (simp_all add: store_inv_def)
  define d where "d = (case map_get (sEntries s) (eID e) of None \<Rightarrow> sOrder s
     | Some _ \<Rightarrow> fst (order_remove (sOrder s) (eID e)))"
  define b where "b = (case map_get (sEntries s) (eID e) of None \<Rightarrow> sBytes s
     | Some p \<Rightarrow> sBytes s - entrySize p)"
  have ins: "insert_entry e s = s\<lparr>sEntries := map_put (eID e) e (sEntries s),
      sOrder := pushBack d (eID e), sBytes := b + entrySize e\<rparr>"
    by (simp add: insert_entry_def d_def b_def removeOrder_def split: option.split)
  have dl: "order_list d = remove1 (eID e) (order_list (sOrder s))" and dq: "order_inv d"
    using map_get_lookup [OF inv, of "eID e"] map_get_none [OF inv, of "eID e"] q
    by (cases "eID e \<in> set (order_list (sOrder s))";
        simp add: d_def remove1_idem ord.remove_list ord.remove_inv)+
  have bt: "b = total_size (drop_id (eID e) (view s))"
  proof (cases "map_get (sEntries s) (eID e)")
    case None
    then have "eID e \<notin> set (map eID (view s))"
      unfolding view_ids [OF inv] using map_get_lookup [OF inv, of "eID e"] by auto
    then show ?thesis
      using None by (simp add: b_def bytes_view [OF inv] total_size_def drop_id_notin)
  next
    case (Some p)
    then show ?thesis
      using total_size_drop_id [OF view_distinct [OF inv], of "eID e" p]
      by (simp add: b_def bytes_view [OF inv] total_size_def map_get_view [OF inv])
  qed
  have ol: "order_list (pushBack d (eID e)) = remove1 (eID e) (order_list (sOrder s)) @ [eID e]"
    by (simp add: ord.push_list [OF dq] dl)
  have look: "lookup_entry (insert_entry e s) j = (if j = eID e then e else lookup_entry s j)" for j
    by (simp add: ins lookup_entry_def)
  have "view (insert_entry e s) =
      map (lookup_entry s) (remove1 (eID e) (order_list (sOrder s))) @ [e]"
  proof -
    have "eID e \<notin> set (remove1 (eID e) (order_list (sOrder s)))" using dist by simp
    then have "map (lookup_entry (insert_entry e s)) (remove1 (eID e) (order_list (sOrder s))) =
        map (lookup_entry s) (remove1 (eID e) (order_list (sOrder s)))"
      by (intro map_cong) (auto simp: look)
    moreover have "sOrder (insert_entry e s) = pushBack d (eID e)" by (simp add: ins)
    ultimately show ?thesis by (simp add: view_def ol look)
  qed
  then show v: "view (insert_entry e s) = drop_id (eID e) (view s) @ [e]"
    by (simp add: view_drop_lookup [OF inv])
  show "store_inv (insert_entry e s)"
    unfolding store_inv_def
  proof (intro conjI)
    show "sBytes (insert_entry e s) = sum_list (map entrySize (view (insert_entry e s)))"
      by (simp add: v) (simp add: ins bt total_size_def)
    show "fst ` set (sEntries (insert_entry e s)) = set (order_list (sOrder (insert_entry e s)))"
      using inv dist by (auto simp: ins ol store_inv_def)
    show "list_all (\<lambda>(k, e). eID e = k) (sEntries (insert_entry e s))"
      using inv by (auto simp: ins store_inv_def intro: list_all_put)
    show "order_inv (sOrder (insert_entry e s))" using ord.push_inv [OF dq] by (simp add: ins)
    show "go_map (sEntries (insert_entry e s))" using gm by (simp add: ins)
    show "distinct (order_list (sOrder (insert_entry e s)))" using dist by (simp add: ins ol)
  qed
  show "rest (insert_entry e s) = rest s" "sEvicted (insert_entry e s) = sEvicted s"
    by (simp_all add: ins)
qed

subsection \<open>Broadcasting and batching\<close>

definition core :: "'x entryStore \<Rightarrow> 'x entryStore" where
  "core s = s\<lparr>sSubscribers := [], sChannels := [], sStorageIssued := 0\<rparr>"

lemma core_fields:
  assumes "core s = core t"
  shows "sEntries s = sEntries t" "sOrder s = sOrder t" "sBytes s = sBytes t"
    "sNextCursor s = sNextCursor t" "sDropped s = sDropped t" "sEvicted s = sEvicted t"
    "sRetention s = sRetention t" "sMaxEvents s = sMaxEvents t" "sMaxBytes s = sMaxBytes t"
    "sStreamBuffer s = sStreamBuffer t" "sIsClosed s = sIsClosed t"
    "sStorageKind s = sStorageKind t" "sStoragePath s = sStoragePath t"
    "sStorageFile s = sStorageFile t" "sStorage s = sStorage t"
    "sStorageBytes s = sStorageBytes t" "sStorageError s = sStorageError t"
    "sStorageDone s = sStorageDone t"
  using assms by (cases s; cases t; simp add: core_def)+

lemma core_view: "core s = core t \<Longrightarrow> view s = view t \<and> store_inv s = store_inv t"
  using view_cong [of s t] store_inv_cong [of s t] core_fields [of s t] by simp

lemma core_offer [simp]: "core (offer m i s) = core s"
  by (cases s) (simp add: offer_def core_def split: option.split)

lemma core_fold: "(\<And>x t. core (f x t) = core t) \<Longrightarrow> core (fold f xs s) = core s"
  by (induction xs arbitrary: s) auto

lemma core_broadcast [simp]: "core (broadcast m s) = core s"
  by (simp add: broadcast_def core_fold)

lemma core_batch [simp]: "core (fst (storageBatchLocked rs s)) = core s"
  by (cases s) (simp add: storageBatchLocked_def core_def Let_def)

lemma core_drop_subscriber [simp]: "core (drop_subscriber i s) = core s"
  by (cases s) (simp add: drop_subscriber_def core_def split: option.split)

subsection \<open>The critical sections\<close>

definition storing :: "'x entryStore \<Rightarrow> bool" where
  "storing s \<longleftrightarrow> sStorageKind s \<noteq> storageKindMemory \<and>
     (if sStorageKind s = storageKindJournal then sStorageFile s \<noteq> NoFile else sStorage s \<noteq> None)"

definition noBatch :: storageBatch where
  "noBatch = \<lparr>sbSequence = 0, sbRecords = []\<rparr>"

lemma storageBatch_eq:
  "storageBatchLocked rs s =
     (if storing s \<and> rs \<noteq> []
      then (s\<lparr>sStorageIssued := sStorageIssued s + 1\<rparr>,
            \<lparr>sbSequence = sStorageIssued s + 1, sbRecords = rs\<rparr>)
      else (s, noBatch))"
  by (auto simp: storageBatchLocked_def storing_def noBatch_def Let_def)

text \<open>The fields no critical section of a recording or a query changes.\<close>

definition conf where
  "conf s = (sRetention s, sMaxEvents s, sMaxBytes s, sStreamBuffer s, sIsClosed s, sStorageKind s,
     sStoragePath s, sStorageFile s, sStorage s, sStorageBytes s, sStorageError s, sStorageDone s)"

lemma conf_rest: "rest s = rest t \<Longrightarrow> conf s = conf t"
  using rest_fields [of s t] by (simp add: conf_def)

lemma conf_core: "core s = core t \<Longrightarrow> conf s = conf t"
  using core_fields [of s t] by (simp add: conf_def)

lemma conf_storing: "conf s = conf t \<Longrightarrow> storing s = storing t"
  by (simp add: conf_def storing_def)

lemma conf_bounds:
  "conf s = conf t \<Longrightarrow> sMaxEvents s = sMaxEvents t \<and> sMaxBytes s = sMaxBytes t \<and>
     sRetention s = sRetention t \<and> sIsClosed s = sIsClosed t"
  by (simp add: conf_def)

lemma conf_cursor [simp]:
  "conf (s\<lparr>sNextCursor := n\<rparr>) = conf s" "conf (s\<lparr>sDropped := n\<rparr>) = conf s"
  "conf (s\<lparr>sStorageIssued := n\<rparr>) = conf s" "conf (s\<lparr>sEvicted := n\<rparr>) = conf s"
  by (simp_all add: conf_def)

lemma inv_cursor [simp]:
  "store_inv (s\<lparr>sNextCursor := n\<rparr>) = store_inv s" "store_inv (s\<lparr>sDropped := n\<rparr>) = store_inv s"
  "store_inv (s\<lparr>sStorageIssued := n\<rparr>) = store_inv s"
  by (rule store_inv_cong; simp)+

lemma view_cursor [simp]:
  "view (s\<lparr>sNextCursor := n\<rparr>) = view s" "view (s\<lparr>sDropped := n\<rparr>) = view s"
  "view (s\<lparr>sStorageIssued := n\<rparr>) = view s"
  by (rule view_cong; simp)+

lemma offer_issued [simp]: "sStorageIssued (offer m i s) = sStorageIssued s"
  by (simp add: offer_def split: option.split)

lemma broadcast_issued [simp]: "sStorageIssued (broadcast m s) = sStorageIssued s"
proof -
  have "sStorageIssued (fold (offer m) xs s) = sStorageIssued s" for xs
    by (induction xs arbitrary: s) auto
  then show ?thesis by (simp add: broadcast_def)
qed

definition live :: "instant \<Rightarrow> 'x entryStore \<Rightarrow> Entry list" where
  "live now s = dropWhile (expired now (sRetention s)) (view s)"

definition stale :: "instant \<Rightarrow> 'x entryStore \<Rightarrow> Entry list" where
  "stale now s = takeWhile (expired now (sRetention s)) (view s)"

text \<open>The batch that leaves a critical section with the given records.\<close>

definition batch_for :: "'x entryStore \<Rightarrow> storeJournalRecord list \<Rightarrow> storageBatch" where
  "batch_for s rs =
     (if storing s \<and> rs \<noteq> [] then \<lparr>sbSequence = sStorageIssued s + 1, sbRecords = rs\<rparr> else noBatch)"

definition issued_after :: "'x entryStore \<Rightarrow> storeJournalRecord list \<Rightarrow> nat" where
  "issued_after s rs = (if storing s \<and> rs \<noteq> [] then sStorageIssued s + 1 else sStorageIssued s)"

lemma storageBatch_spec:
  assumes "conf t = conf s" "sStorageIssued t = sStorageIssued s"
  obtains s' where "storageBatchLocked rs t = (s', batch_for s rs)" "core s' = core t"
    "sStorageIssued s' = issued_after s rs" "sSubscribers s' = sSubscribers t" "sChannels s' = sChannels t"
proof -
  have "storing t = storing s" using conf_storing [OF assms(1)] .
  then have "storageBatchLocked rs t = (fst (storageBatchLocked rs t), batch_for s rs)"
    "sStorageIssued (fst (storageBatchLocked rs t)) = issued_after s rs"
    "sSubscribers (fst (storageBatchLocked rs t)) = sSubscribers t"
    "sChannels (fst (storageBatchLocked rs t)) = sChannels t"
    by (simp_all add: storageBatch_eq batch_for_def issued_after_def assms(2))
  with that core_batch [of rs t] show ?thesis by metis
qed

lemma purge_spec:
  assumes "store_inv s"
  obtains s' where "purgeExpired now s = (s', deletes (stale now s))" "store_inv s'"
    "view s' = live now s" "rest s' = rest s"
    "sEvicted s' = sEvicted s + length (stale now s)"
  using purgeExpired_spec [OF assms, of now] by (auto simp: live_def stale_def)

lemma purged_spec:
  assumes "store_inv s"
  obtains s' where "purged now s = (s', batch_for s (deletes (stale now s)))" "store_inv s'"
    "view s' = live now s" "conf s' = conf s" "sNextCursor s' = sNextCursor s"
    "sDropped s' = sDropped s" "sEvicted s' = sEvicted s + length (stale now s)"
    "sSubscribers s' = sSubscribers s" "sChannels s' = sChannels s"
    "sNextSubscriber s' = sNextSubscriber s"
    "sStorageIssued s' = issued_after s (deletes (stale now s))"
proof -
  obtain s1 where s1: "purgeExpired now s = (s1, deletes (stale now s))" "store_inv s1"
    "view s1 = live now s" "rest s1 = rest s" "sEvicted s1 = sEvicted s + length (stale now s)"
    using purge_spec [OF assms] by blast
  obtain s2 where s2: "storageBatchLocked (deletes (stale now s)) s1 = (s2, batch_for s (deletes (stale now s)))"
    "core s2 = core s1" "sStorageIssued s2 = issued_after s (deletes (stale now s))"
    "sSubscribers s2 = sSubscribers s1" "sChannels s2 = sChannels s1"
    using storageBatch_spec [OF conf_rest [OF s1(4)]] rest_fields(17) [OF s1(4)] by blast
  have "purged now s = (s2, batch_for s (deletes (stale now s)))"
    by (simp add: purged_def s1(1) s2(1))
  moreover have "sNextSubscriber s2 = sNextSubscriber s"
    using s2(1) rest_fields [OF s1(4)] by (auto simp: storageBatch_eq split: if_splits)
  ultimately show ?thesis
    using that core_view [OF s2(2)] core_fields [OF s2(2)] rest_fields [OF s1(4)] s1 s2(3-)
      conf_core [OF s2(2)] conf_rest [OF s1(4)] by simp
qed

definition window :: "Entry \<Rightarrow> instant \<Rightarrow> 'x entryStore \<Rightarrow> Entry list" where
  "window e now s = drop_id (eID e) (live now s) @ [e\<lparr>eCursor := sNextCursor s + 1\<rparr>]"

lemma put_closed: "sIsClosed s \<Longrightarrow> put now e s = (s, noBatch, False)"
  by (simp add: put_def noBatch_def)

lemma put_rejected_spec:
  assumes inv: "store_inv s" and op: "\<not> sIsClosed s" and big: "entrySize e > sMaxBytes s"
  obtains s' where "put now e s = (s', batch_for s (deletes (stale now s)), False)" "store_inv s'"
    "view s' = live now s" "conf s' = conf s" "sNextCursor s' = sNextCursor s"
    "sDropped s' = sDropped s + 1" "sEvicted s' = sEvicted s + length (stale now s)"
    "sStorageIssued s' = issued_after s (deletes (stale now s))"
proof -
  obtain s1 where s1: "purgeExpired now s = (s1, deletes (stale now s))" "store_inv s1"
    "view s1 = live now s" "rest s1 = rest s" "sEvicted s1 = sEvicted s + length (stale now s)"
    using purge_spec [OF inv] by blast
  note f1 = rest_fields [OF s1(4)] and c1 = conf_rest [OF s1(4)]
  define s2 where "s2 = broadcast (droppedMessage (sDropped s + 1)) (s1\<lparr>sDropped := sDropped s + 1\<rparr>)"
  have core2: "core s2 = core (s1\<lparr>sDropped := sDropped s + 1\<rparr>)" by (simp add: s2_def)
  note f2 = core_fields [OF core2]
  have c2: "conf s2 = conf s" using conf_core [OF core2] c1 by simp
  have i2: "sStorageIssued s2 = sStorageIssued s" using f1 by (simp add: s2_def)
  obtain s3 where s3: "storageBatchLocked (deletes (stale now s)) s2 = (s3, batch_for s (deletes (stale now s)))"
    "core s3 = core s2" "sStorageIssued s3 = issued_after s (deletes (stale now s))"
    using storageBatch_spec [OF c2 i2] by metis
  have v3: "view s3 = live now s \<and> store_inv s3"
    using core_view [OF s3(2)] core_view [OF core2] s1 by simp
  show ?thesis
  proof (rule that [of s3])
    show "put now e s = (s3, batch_for s (deletes (stale now s)), False)"
      using op big f1 s3(1) by (simp add: put_def s1(1) Let_def s2_def)
  qed (use v3 c2 conf_core [OF s3(2)] core_fields [OF s3(2)] f2 f1 s1 s3 in simp_all)
qed

lemma put_accepted_spec:
  assumes inv: "store_inv s" and op: "\<not> sIsClosed s" and small: "\<not> entrySize e > sMaxBytes s"
  obtains s' k rs where "put now e s = (s', batch_for s rs, True)"
    "rs = deletes (stale now s) @ deletes (take k (window e now s)) @
       [putRecord (e\<lparr>eCursor := sNextCursor s + 1\<rparr>) (sNextCursor s + 1)]"
    "store_inv s'" "view s' = drop k (window e now s)"
    "drop k (window e now s) = trim_window (sMaxEvents s) (sMaxBytes s) (window e now s)"
    "conf s' = conf s" "sNextCursor s' = sNextCursor s + 1" "sDropped s' = sDropped s"
    "sEvicted s' = sEvicted s + length (stale now s) + k" "k \<le> length (window e now s)"
    "sStorageIssued s' = issued_after s rs"
proof -
  obtain s1 where s1: "purgeExpired now s = (s1, deletes (stale now s))" "store_inv s1"
    "view s1 = live now s" "rest s1 = rest s" "sEvicted s1 = sEvicted s + length (stale now s)"
    using purge_spec [OF inv] by blast
  note f1 = rest_fields [OF s1(4)] and c1 = conf_rest [OF s1(4)]
  let ?e = "e\<lparr>eCursor := sNextCursor s + 1\<rparr>"
  let ?s1 = "s1\<lparr>sNextCursor := sNextCursor s + 1\<rparr>"
  define s2 where "s2 = insert_entry ?e ?s1"
  have inv1: "store_inv ?s1" using s1 by simp
  note ins = insert_entry_spec [OF inv1, of ?e, folded s2_def]
  have f2: "conf s2 = conf s" "sNextCursor s2 = sNextCursor s + 1" "sDropped s2 = sDropped s"
    "sStorageIssued s2 = sStorageIssued s"
    using conf_rest [OF ins(3)] c1 rest_fields [OF ins(3)] f1 by simp_all
  have v2: "view s2 = window e now s" using ins(2) s1(3) by (simp add: window_def)
  obtain s3 k where s3: "evict s2 = (s3, deletes (take k (view s2)))" "store_inv s3"
    "view s3 = drop k (view s2)"
    "drop k (view s2) = trim_window (sMaxEvents s2) (sMaxBytes s2) (view s2)"
    "rest s3 = rest s2" "sEvicted s3 = sEvicted s2 + k" "k \<le> length (view s2)"
    using evict_spec [OF ins(1)] by blast
  note f3 = rest_fields [OF s3(5)] and c3 = conf_rest [OF s3(5)]
  define rs where "rs = deletes (stale now s) @ deletes (take k (window e now s)) @
       [putRecord ?e (sNextCursor s + 1)]"
  define mt where "mt = (case map_get (sEntries s1) (eID e) of
      None \<Rightarrow> ''event.created'' | Some _ \<Rightarrow> ''event.updated'')"
  define s4 where "s4 = broadcast (eventMessage mt ?e) s3"
  have core4: "core s4 = core s3" by (simp add: s4_def)
  have c4: "conf s4 = conf s" using conf_core [OF core4] c3 f2 by simp
  have i4: "sStorageIssued s4 = sStorageIssued s" using f3 f2 by (simp add: s4_def)
  obtain s5 where s5: "storageBatchLocked rs s4 = (s5, batch_for s rs)" "core s5 = core s4"
    "sStorageIssued s5 = issued_after s rs"
    using storageBatch_spec [OF c4 i4] by metis
  have v5: "view s5 = view s3 \<and> store_inv s5"
    using core_view [OF s5(2)] core_view [OF core4] s3 by simp
  have put: "put now e s = (s5, batch_for s rs, True)"
    using op small f1 s3(1) s5(1) f3(1) f2(2) v2
    by (simp add: put_def s1(1) Let_def s2_def s4_def rs_def mt_def)
  show ?thesis
  proof (rule that [OF put rs_def])
    show "sEvicted s5 = sEvicted s + length (stale now s) + k"
      using core_fields [OF s5(2)] core_fields [OF core4] s3(6) ins(4) s1(5) by simp
  qed (use v5 s3 v2 conf_core [OF s5(2)] c4 core_fields [OF s5(2)] core_fields [OF core4] f3 f2 s5
       conf_bounds [OF f2(1)] in simp_all)
qed

lemma clear_spec:
  assumes inv: "store_inv s"
  obtains s' where "clear s = (s', batch_for s [clearRecord (sNextCursor s + 1)])" "store_inv s'"
    "view s' = []" "conf s' = conf s" "sNextCursor s' = sNextCursor s + 1"
    "sDropped s' = sDropped s" "sEvicted s' = sEvicted s"
    "sStorageIssued s' = issued_after s [clearRecord (sNextCursor s + 1)]"
proof -
  have q: "order_inv (sOrder s)" using inv by (simp add: store_inv_def)
  define s1 where "s1 = s\<lparr>sEntries := [], sOrder := order_reset (sOrder s), sBytes := 0,
      sNextCursor := sNextCursor s + 1\<rparr>"
  define s2 where "s2 = broadcast (clearedMessage (sNextCursor s + 1)) s1"
  have v1: "view s1 = []" by (simp add: view_def s1_def)
  then have inv1: "store_inv s1" by (simp add: store_inv_def) (simp add: s1_def)
  have c1: "conf s1 = conf s" by (simp add: s1_def conf_def)
  have core2: "core s2 = core s1" by (simp add: s2_def)
  have c2: "conf s2 = conf s" "sStorageIssued s2 = sStorageIssued s"
    using conf_core [OF core2] c1 by (simp_all add: s2_def s1_def)
  obtain s3 where s3: "storageBatchLocked [clearRecord (sNextCursor s + 1)] s2 =
      (s3, batch_for s [clearRecord (sNextCursor s + 1)])" "core s3 = core s2"
    "sStorageIssued s3 = issued_after s [clearRecord (sNextCursor s + 1)]"
    using storageBatch_spec [OF c2] by metis
  show ?thesis
  proof (rule that [of s3])
    show "clear s = (s3, batch_for s [clearRecord (sNextCursor s + 1)])"
      using s3(1) core_fields(4) [OF core2] by (simp add: clear_def Let_def s2_def s1_def)
    show "sEvicted s3 = sEvicted s" "sDropped s3 = sDropped s" "sNextCursor s3 = sNextCursor s + 1"
      using core_fields [OF s3(2)] core_fields [OF core2] by (simp_all add: s1_def)
  qed (use core_view [OF s3(2)] core_view [OF core2] v1 inv1 conf_core [OF s3(2)] c2 s3 in simp_all)
qed

subsection \<open>The window of retained entries\<close>

lemma trim_window_suffix: "suffix (trim_window a b v) v"
  by (induction v) (auto simp: suffix_ConsI)

lemma trim_window_fits: "0 \<le> a \<Longrightarrow> 0 \<le> b \<Longrightarrow> fits a b (trim_window a b v)"
  by (induction v) (auto simp: fits_def)

lemma fits_suffix:
  assumes "suffix w v" "fits a b v"
  shows "fits a b w"
proof -
  obtain u where "v = u @ w" using assms(1) by (auto simp: suffix_def)
  then show ?thesis using assms(2) total_size_nonneg [of u] by (simp add: fits_def)
qed

lemma trim_window_id: "fits a b v \<Longrightarrow> trim_window a b v = v"
  by (cases v) auto

lemma trim_window_longest: "suffix w v \<Longrightarrow> fits a b w \<Longrightarrow> suffix w (trim_window a b v)"
  by (induction v) (auto simp: suffix_Cons)

lemma trim_window_last:
  assumes "1 \<le> a" "entrySize e \<le> b"
  shows "\<exists>w. trim_window a b (v @ [e]) = w @ [e]"
proof -
  have "fits a b [e]" using assms by (simp add: fits_def)
  then have "suffix [e] (trim_window a b (v @ [e]))"
    by (intro trim_window_longest) (auto simp: suffix_def)
  then show ?thesis by (auto simp: suffix_def)
qed

lemma suffix_live: "suffix (live now s) (view s)"
  by (simp add: live_def suffix_dropWhile)

lemma fits_drop_id: "fits a b v \<Longrightarrow> fits a b (drop_id i v)"
  using total_size_drop_id_le [of i v] length_drop_id_le [of i v] by (simp add: fits_def)

text \<open>Cursors grow strictly from the oldest entry to the newest and never pass the counter.\<close>

definition cursors_ok :: "nat \<Rightarrow> Entry list \<Rightarrow> bool" where
  "cursors_ok n v \<longleftrightarrow> sorted_wrt (<) (map eCursor v) \<and> list_all (\<lambda>e. 0 < eCursor e \<and> eCursor e \<le> n) v"

lemma cursors_ok_suffix: "cursors_ok n v \<Longrightarrow> suffix w v \<Longrightarrow> cursors_ok n w"
  by (auto simp: cursors_ok_def suffix_def sorted_wrt_append)

lemma cursors_ok_drop_id: "cursors_ok n v \<Longrightarrow> cursors_ok n (drop_id i v)"
  by (auto simp: cursors_ok_def drop_id_def sorted_wrt_map sorted_wrt_filter list_all_iff)

lemma cursors_ok_snoc: "cursors_ok n v \<Longrightarrow> eCursor e = n + 1 \<Longrightarrow> cursors_ok (n + 1) (v @ [e])"
  by (fastforce simp: cursors_ok_def sorted_wrt_append list_all_iff)

lemma cursors_ok_mono: "cursors_ok n v \<Longrightarrow> n \<le> m \<Longrightarrow> cursors_ok m v"
  by (fastforce simp: cursors_ok_def list_all_iff)

definition store_ok :: "'x entryStore \<Rightarrow> bool" where
  "store_ok s \<longleftrightarrow> store_inv s \<and> cursors_ok (sNextCursor s) (view s) \<and>
     fits (sMaxEvents s) (sMaxBytes s) (view s) \<and> 1 \<le> sMaxEvents s \<and> 1 \<le> sMaxBytes s"

lemma store_ok_inv: "store_ok s \<Longrightarrow> store_inv s"
  by (simp add: store_ok_def)

lemma store_ok_conf:
  "conf s' = conf s \<Longrightarrow> store_ok s \<Longrightarrow> store_inv s' \<Longrightarrow> cursors_ok (sNextCursor s') (view s') \<Longrightarrow>
     fits (sMaxEvents s) (sMaxBytes s) (view s') \<Longrightarrow> store_ok s'"
  using conf_bounds [of s' s] by (simp add: store_ok_def)

lemma put_ok [inv_intros]:
  assumes ok: "store_ok s"
  shows "store_ok (fst (put now e s))"
proof -
  have inv: "store_inv s" and cur: "cursors_ok (sNextCursor s) (view s)"
    and fit: "fits (sMaxEvents s) (sMaxBytes s) (view s)"
    and pos: "1 \<le> sMaxEvents s" "1 \<le> sMaxBytes s"
    using ok by (simp_all add: store_ok_def)
  have live: "cursors_ok (sNextCursor s) (live now s)" "fits (sMaxEvents s) (sMaxBytes s) (live now s)"
    using cursors_ok_suffix [OF cur suffix_live] fits_suffix [OF suffix_live fit] by auto
  consider "sIsClosed s" | "\<not> sIsClosed s" "entrySize e > sMaxBytes s"
    | "\<not> sIsClosed s" "\<not> entrySize e > sMaxBytes s" by blast
  then show ?thesis
  proof cases
    case 1
    then show ?thesis using ok by (simp add: put_closed)
  next
    case 2
    then show ?thesis
      using put_rejected_spec [OF inv 2, of now] live by (metis fst_conv ok store_ok_conf)
  next
    case 3
    let ?w = "window e now s"
    have w: "cursors_ok (sNextCursor s + 1) ?w"
      unfolding window_def by (intro cursors_ok_snoc cursors_ok_drop_id live) simp
    have t: "fits (sMaxEvents s) (sMaxBytes s) (trim_window (sMaxEvents s) (sMaxBytes s) ?w)"
      using pos by (simp add: trim_window_fits)
    have c: "cursors_ok (sNextCursor s + 1) (trim_window (sMaxEvents s) (sMaxBytes s) ?w)"
      using w trim_window_suffix cursors_ok_suffix by blast
    show ?thesis
      using put_accepted_spec [OF inv 3, of now] c t by (metis fst_conv ok store_ok_conf)
  qed
qed

lemma purged_ok [inv_intros]:
  assumes ok: "store_ok s"
  shows "store_ok (fst (purged now s))"
proof -
  have inv: "store_inv s" and cur: "cursors_ok (sNextCursor s) (view s)"
    and fit: "fits (sMaxEvents s) (sMaxBytes s) (view s)"
    using ok by (simp_all add: store_ok_def)
  obtain s' where "fst (purged now s) = s'" "store_inv s'" "view s' = live now s"
    "conf s' = conf s" "sNextCursor s' = sNextCursor s"
    using purged_spec [OF inv, of now] by (metis fst_conv)
  then show ?thesis
    using store_ok_conf [OF _ ok] cursors_ok_suffix [OF cur suffix_live] fits_suffix [OF suffix_live fit]
    by simp
qed

lemma clear_ok [inv_intros]:
  assumes ok: "store_ok s"
  shows "store_ok (fst (clear s))"
proof -
  obtain s' where "fst (clear s) = s'" "store_inv s'" "view s' = []" "conf s' = conf s"
    using clear_spec [OF store_ok_inv [OF ok]] by (metis fst_conv)
  moreover have "0 \<le> sMaxEvents s \<and> 0 \<le> sMaxBytes s" using ok by (simp add: store_ok_def)
  ultimately show ?thesis
    using store_ok_conf [OF _ ok] by (simp add: cursors_ok_def fits_def)
qed


end
