(* ===== verification/StoreQueries.thy ===== *)
theory StoreQueries
  imports StoreFacts
begin

text \<open>
  The queries of the store in terms of the list of retained entries: the filtered listing is
  the newest part of the matching entries, a scope is the set of ids reachable from its root
  through \<open>ParentID\<close>, and the other queries are filters of the list.
\<close>

subsection \<open>Scopes\<close>

definition parent_rel :: "Entry list \<Rightarrow> (string \<times> string) set" where
  "parent_rel es = {(p, c). c \<in> set (children_of es p)}"

lemma parent_rel_iff:
  "(p, c) \<in> parent_rel es \<longleftrightarrow> (\<exists>e \<in> set es. eParentID e = p \<and> eID e = c \<and> p \<noteq> [] \<and> c \<noteq> p)"
  by (auto simp: parent_rel_def children_of_def)

lemma visit_children_spec:
  "visit_children cs ids stack = (ids', stack') \<Longrightarrow>
     set ids' = set ids \<union> set cs \<and> set stack' = set stack \<union> (set cs - set ids)"
proof (induction cs arbitrary: ids stack)
  case Nil
  then show ?case by simp
next
  case (Cons c cs)
  show ?case
  proof (cases "c \<in> set ids")
    case True
    with Cons show ?thesis by fastforce
  next
    case False
    with Cons.prems have "visit_children cs (c # ids) (c # stack) = (ids', stack')" by simp
    from Cons.IH [OF this] False show ?thesis by auto
  qed
qed

lemma scope_loop_spec:
  assumes "set stack \<subseteq> set ids" "\<forall>x \<in> set ids - set stack. set (children_of es x) \<subseteq> set ids"
  shows "set ids \<subseteq> set (scope_loop es ids stack) \<and>
    (\<forall>x \<in> set (scope_loop es ids stack). set (children_of es x) \<subseteq> set (scope_loop es ids stack)) \<and>
    set (scope_loop es ids stack) \<subseteq> (parent_rel es)\<^sup>* `` set ids"
  using assms
proof (induction es ids stack rule: scope_loop.induct)
  case (1 es ids)
  then show ?case by auto
next
  case (2 es ids parent stack)
  obtain ids' stack' where v: "visit_children (children_of es parent) ids stack = (ids', stack')"
    by (meson surj_pair)
  have sub: "set stack \<subseteq> set ids" "parent \<in> set ids" using "2.prems"(1) by auto
  note sp = visit_children_spec [OF v]
  have closed: "\<forall>x \<in> set ids' - set stack'. set (children_of es x) \<subseteq> set ids'"
  proof
    fix x assume x: "x \<in> set ids' - set stack'"
    then have "x \<in> set ids" "x \<notin> set stack" using sp by auto
    then show "set (children_of es x) \<subseteq> set ids'"
      using "2.prems"(2) sp by (cases "x = parent") auto
  qed
  have stk: "set stack' \<subseteq> set ids'" using sp sub(1) by auto
  have ih: "set ids' \<subseteq> set (scope_loop es ids' stack') \<and>
    (\<forall>x \<in> set (scope_loop es ids' stack'). set (children_of es x) \<subseteq> set (scope_loop es ids' stack')) \<and>
    set (scope_loop es ids' stack') \<subseteq> (parent_rel es)\<^sup>* `` set ids'"
    using "2.IH" [OF v [symmetric] stk closed] .
  have "(parent_rel es)\<^sup>* `` set ids' \<subseteq> (parent_rel es)\<^sup>* `` set ids"
  proof
    fix y assume "y \<in> (parent_rel es)\<^sup>* `` set ids'"
    then obtain x where x: "x \<in> set ids'" "(x, y) \<in> (parent_rel es)\<^sup>*" by auto
    show "y \<in> (parent_rel es)\<^sup>* `` set ids"
    proof (cases "x \<in> set ids")
      case False
      then have "(parent, x) \<in> parent_rel es" using x sp by (auto simp: parent_rel_def)
      with x sub show ?thesis by (meson Image_iff converse_rtrancl_into_rtrancl)
    qed (use x in auto)
  qed
  then have "set (scope_loop es ids' stack') \<subseteq> (parent_rel es)\<^sup>* `` set ids"
    using ih by blast
  moreover have "set ids \<subseteq> set (scope_loop es ids' stack')" using ih sp by blast
  ultimately show ?case using ih v by simp
qed

lemma scope_loop_reach:
  "set (scope_loop es [r] [r]) = (parent_rel es)\<^sup>* `` {r}"
proof
  have sp: "r \<in> set (scope_loop es [r] [r])"
    "\<And>x. x \<in> set (scope_loop es [r] [r]) \<Longrightarrow> set (children_of es x) \<subseteq> set (scope_loop es [r] [r])"
    "set (scope_loop es [r] [r]) \<subseteq> (parent_rel es)\<^sup>* `` {r}"
    using scope_loop_spec [of "[r]" "[r]" es] by auto
  then show "set (scope_loop es [r] [r]) \<subseteq> (parent_rel es)\<^sup>* `` {r}" by simp
  have "x \<in> set (scope_loop es [r] [r])" if "(r, x) \<in> (parent_rel es)\<^sup>*" for x
    using that
  proof (induction rule: rtrancl_induct)
    case base
    then show ?case by (rule sp)
  next
    case (step y z)
    then show ?case using sp(2) [of y] by (auto simp: parent_rel_def)
  qed
  then show "(parent_rel es)\<^sup>* `` {r} \<subseteq> set (scope_loop es [r] [r])" by auto
qed

lemma set_entries_view: "store_inv s \<Longrightarrow> set (map snd (sEntries s)) = set (view s)"
proof (intro equalityI subsetI)
  fix e assume inv: "store_inv s" and e: "e \<in> set (map snd (sEntries s))"
  then obtain k where k: "(k, e) \<in> set (sEntries s)" by auto
  then have "map_get (sEntries s) k = Some e" using inv by (auto simp: store_inv_def intro: in_set_map_get)
  then show "e \<in> set (view s)"
    by (auto simp: map_get_view [OF inv] find_Some_iff)
next
  fix e assume inv: "store_inv s" and e: "e \<in> set (view s)"
  then have "map_get (sEntries s) (eID e) = Some e"
    using find_id_distinct [OF view_distinct [OF inv]] by (simp add: map_get_view)
  then show "e \<in> set (map snd (sEntries s))" by (force dest: map_get_in_set)
qed

lemma parent_rel_cong: "set es = set fs \<Longrightarrow> parent_rel es = parent_rel fs"
  by (rule set_eqI) (auto simp: parent_rel_iff)

lemma scopeIDs_reach:
  assumes "store_inv s" "trim_space r \<noteq> []"
  shows "\<exists>ids. scopeIDs r s = Some ids \<and> set ids = (parent_rel (view s))\<^sup>* `` {trim_space r}"
  using assms(2) parent_rel_cong [OF set_entries_view [OF assms(1)]]
  by (simp add: scopeIDs_def Let_def scope_loop_reach del: scope_loop.simps)

subsection \<open>Listing\<close>

definition eligible :: "eventFilters \<Rightarrow> Entry \<Rightarrow> bool" where
  "eligible f e \<longleftrightarrow> (fAfter f > 0 \<longrightarrow> fAfter f < eCursor e) \<and> (fBefore f > 0 \<longrightarrow> eCursor e < fBefore f)"

definition selected :: "eventFilters \<Rightarrow> string list option \<Rightarrow> Entry \<Rightarrow> bool" where
  "selected f scope e \<longleftrightarrow> eligible f e \<and>
     (case scope of None \<Rightarrow> True | Some ids \<Rightarrow> eID e \<in> set ids) \<and> matchesEventFilters e f"

lemma list_scan_step:
  assumes "length acc < limit"
  shows "list_scan s f scope limit (Suc n) acc sc =
    (let e = lookup_entry s (order_at (sOrder s) (int n)) in
     list_scan s f scope limit n (if selected f scope e then acc @ [e] else acc)
       (if eligible f e then sc + 1 else sc))"
  using assms by (auto simp: selected_def eligible_def Let_def split: option.splits)

lemma list_scan_full: "length acc \<ge> limit \<Longrightarrow> list_scan s f scope limit n acc sc = (acc, sc)"
  by (cases n) simp_all

lemma list_scan_spec:
  assumes "n \<le> length (view s)"
  shows "fst (list_scan s f scope limit n acc sc) =
      acc @ take (limit - length acc) (filter (selected f scope) (rev (take n (view s)))) \<and>
    sc \<le> snd (list_scan s f scope limit n acc sc) \<and>
    snd (list_scan s f scope limit n acc sc) \<le> sc + length (filter (eligible f) (take n (view s))) \<and>
    (length (fst (list_scan s f scope limit n acc sc)) < limit \<longrightarrow>
       snd (list_scan s f scope limit n acc sc) = sc + length (filter (eligible f) (take n (view s))))"
  using assms
proof (induction n arbitrary: acc sc)
  case 0
  then show ?case by simp
next
  case (Suc n)
  have n: "n < length (view s)" using Suc.prems by simp
  define e where "e = view s ! n"
  have e: "lookup_entry s (order_at (sOrder s) (int n)) = e"
    using n by (simp add: e_def view_def)
  have tk: "take (Suc n) (view s) = take n (view s) @ [e]"
    using n by (simp add: take_Suc_conv_app_nth e_def)
  show ?case
  proof (cases "length acc < limit")
    case False
    then show ?thesis by (simp add: list_scan_full del: list_scan.simps)
  next
    case True
    let ?acc = "if selected f scope e then acc @ [e] else acc"
    let ?sc = "if eligible f e then sc + 1 else sc"
    have "list_scan s f scope limit (Suc n) acc sc = list_scan s f scope limit n ?acc ?sc"
      using list_scan_step [OF True, of s f scope n sc] by (simp add: e Let_def)
    moreover have "take (limit - length acc) (filter (selected f scope) (rev (take (Suc n) (view s)))) =
        (if selected f scope e then e # take (limit - length (acc @ [e])) (filter (selected f scope) (rev (take n (view s))))
         else take (limit - length acc) (filter (selected f scope) (rev (take n (view s)))))"
      using True by (simp add: tk Suc_diff_Suc [symmetric] take_Suc_Cons del: Suc_diff_Suc)
    moreover note Suc.IH [of ?acc ?sc]
    ultimately show ?thesis using n
      by (simp add: tk del: list_scan.simps split: if_splits) linarith?
  qed
qed

end
