(* ===== verification/StorePersist.thy ===== *)
theory StorePersist
  imports StoreFacts
begin

text \<open>
  Persistence of the event store: opening and replaying a back end, writing batches to the
  append-only journal or to an external \<open>EntryStorage\<close>, compacting the journal, and closing.

  The journal file is the list of its lines.  What the operating system answers to each call
  is an argument (\<open>None\<close> for success, otherwise the error text); a write that fails after some
  bytes leaves a \<open>Torn\<close> line, which stops the decoder at the next start.
\<close>

subsection \<open>Answers of the operating system\<close>

record journalIO =
  ioWrite :: "(nat \<times> string) option"
  ioTmpOpen :: "string option"
  ioTmpWrite :: "string option"
  ioTmpSync :: "string option"
  ioTmpClose :: "string option"
  ioOldClose :: "string option"
  ioRename :: "string option"
  ioReopen :: "string option"
  ioStat :: "string option"

definition io_ok :: journalIO where
  "io_ok = \<lparr>ioWrite = None, ioTmpOpen = None, ioTmpWrite = None, ioTmpSync = None,
     ioTmpClose = None, ioOldClose = None, ioRename = None, ioReopen = None, ioStat = None\<rparr>"

record openIO =
  ooMkdir :: "string option"
  ooOpen :: "string option"
  ooChmod :: "string option"
  ooDecode :: string
  ooTruncate :: "string option"
  ooSeek :: "string option"

definition open_ok :: openIO where
  "open_ok = \<lparr>ooMkdir = None, ooOpen = None, ooChmod = None, ooDecode = ''unexpected EOF'',
     ooTruncate = None, ooSeek = None\<rparr>"

type_synonym journal = "journalLine list"

definition enc_record :: "storeJournalRecord \<Rightarrow> json" where
  "enc_record r = JObj ([(''operation'', JStr (jrOperation r))] @
     om_ptr ''entry'' enc_entry (jrEntry r) @ om_int ''cursor'' (int (jrCursor r)))"

definition record_size :: "storeJournalRecord \<Rightarrow> nat" where
  "record_size r = length (json_text (enc_record r)) + 1"

definition line_size :: "journalLine \<Rightarrow> nat" where
  "line_size l = (case l of Line r \<Rightarrow> record_size r | Torn n \<Rightarrow> n)"

definition journal_size :: "journal \<Rightarrow> nat" where
  "journal_size ls = sum_list (map line_size ls)"

subsection \<open>Writing\<close>

definition join_errors :: "string option \<Rightarrow> string option \<Rightarrow> string option" where
  "join_errors a b = (case a of None \<Rightarrow> b
     | Some x \<Rightarrow> (case b of None \<Rightarrow> a | Some y \<Rightarrow> Some (x @ [CHR 0x0A] @ y)))"

definition setStorageError :: "string option \<Rightarrow> 'x entryStore \<Rightarrow> 'x entryStore" where
  "setStorageError err s =
     (case err of None \<Rightarrow> s
      | Some e \<Rightarrow> if sStorageError s = [] then s\<lparr>sStorageError := e\<rparr> else s)"

definition compactRecord :: "Entry \<Rightarrow> storeJournalRecord" where
  "compactRecord e = \<lparr>jrOperation = ''put'', jrEntry = Some e, jrCursor = 0\<rparr>"

definition snapshot :: "'x entryStore \<Rightarrow> Entry list" where
  "snapshot s = map (\<lambda>i. lookup_entry s (order_at (sOrder s) (int i))) [0..<order_len (sOrder s)]"

definition closed_error :: "string \<Rightarrow> 'x entryStore \<Rightarrow> string" where
  "closed_error operation s = operation @ '' '' @ sStoragePath s @ '': file already closed''"

definition compactJournal :: "journalIO \<Rightarrow> 'x entryStore \<Rightarrow> journal \<Rightarrow>
    'x entryStore \<times> journal \<times> string option" where
  "compactJournal io s disk =
     (if sStorageFile s = NoFile then (s, disk, None)
      else
        let entries = snapshot s in
        if ioTmpOpen io \<noteq> None then (s, disk, ioTmpOpen io)
        else if ioTmpWrite io \<noteq> None then (s, disk, ioTmpWrite io)
        else if ioTmpSync io \<noteq> None then (s, disk, ioTmpSync io)
        else if ioTmpClose io \<noteq> None then (s, disk, ioTmpClose io)
        else if sStorageFile s = ClosedFile then (s, disk, Some (closed_error ''close'' s))
        else
          let s = s\<lparr>sStorageFile := ClosedFile\<rparr> in
          if ioOldClose io \<noteq> None then (s, disk, ioOldClose io)
          else if ioRename io \<noteq> None then (s, disk, ioRename io)
          else
            let disk = map (\<lambda>e. Line (compactRecord e)) entries in
            if ioReopen io \<noteq> None then (s\<lparr>sStorageFile := NoFile\<rparr>, disk, ioReopen io)
            else
              let s = s\<lparr>sStorageFile := OpenFile\<rparr> in
              if ioStat io = None then (s\<lparr>sStorageBytes := int (journal_size disk)\<rparr>, disk, None)
              else (s, disk, None))"

text \<open>A write cut short by the final newline alone still leaves a readable record.\<close>

definition appendJournal :: "journalIO \<Rightarrow> storeJournalRecord \<Rightarrow> 'x entryStore \<Rightarrow> journal \<Rightarrow>
    'x entryStore \<times> journal \<times> string option" where
  "appendJournal io r s disk =
     (case sStorageFile s of
        NoFile \<Rightarrow> (s, disk, None)
      | ClosedFile \<Rightarrow> (s, disk, Some (closed_error ''write'' s))
      | OpenFile \<Rightarrow>
          (case ioWrite io of
             Some (written, err) \<Rightarrow>
               (s\<lparr>sStorageBytes := sStorageBytes s + int written\<rparr>,
                disk @ (if written = 0 then [] else if written + 1 \<ge> record_size r then [Line r] else [Torn written]),
                Some err)
           | None \<Rightarrow>
               let s = s\<lparr>sStorageBytes := sStorageBytes s + int (record_size r)\<rparr>;
                   disk = disk @ [Line r];
                   threshold = max (sMaxBytes s * 2) (2 ^ 20)
               in if sStorageBytes s > threshold then compactJournal io s disk
                  else (s, disk, None)))"

definition persistRecord :: "'x EntryStorage \<Rightarrow> journalIO \<Rightarrow> storeJournalRecord \<Rightarrow> 'x entryStore \<Rightarrow>
    journal \<Rightarrow> 'x entryStore \<times> journal \<times> string option" where
  "persistRecord es io r s disk =
     (if sStorageKind s = storageKindJournal then
        (case appendJournal io r s disk of
           (s, disk, Some err) \<Rightarrow> (s, disk, Some err)
         | (s, disk, None) \<Rightarrow>
             if jrOperation r = ''clear'' then compactJournal io s disk else (s, disk, None))
      else
        (case sStorage s of
           None \<Rightarrow> (s, disk, None)
         | Some x \<Rightarrow>
             if jrOperation r = ''put'' then
               (case jrEntry r of
                  None \<Rightarrow> (s, disk, None)
                | Some e \<Rightarrow> (case esPut es x e (jrCursor r) of (x, err) \<Rightarrow> (s\<lparr>sStorage := Some x\<rparr>, disk, err)))
             else if jrOperation r = ''delete'' then
               (case jrEntry r of
                  None \<Rightarrow> (s, disk, None)
                | Some e \<Rightarrow> (case esDelete es x (eID e) of (x, err) \<Rightarrow> (s\<lparr>sStorage := Some x\<rparr>, disk, err)))
             else if jrOperation r = ''clear'' then
               (case esClear es x (jrCursor r) of (x, err) \<Rightarrow> (s\<lparr>sStorage := Some x\<rparr>, disk, err))
             else (s, disk, None)))"

text \<open>The loop of \<open>persist\<close>: every record is tried, the errors are joined.\<close>

fun persist_records :: "'x EntryStorage \<Rightarrow> journalIO list \<Rightarrow> storeJournalRecord list \<Rightarrow> 'x entryStore \<Rightarrow>
    journal \<Rightarrow> string option \<Rightarrow> 'x entryStore \<times> journal \<times> string option" where
  "persist_records es ios [] s disk err = (s, disk, err)"
| "persist_records es ios (r # rs) s disk err =
     (case persistRecord es (case ios of [] \<Rightarrow> io_ok | io # _ \<Rightarrow> io) r s disk of
        (s, disk, e) \<Rightarrow> persist_records es (tl ios) rs s disk (join_errors err e))"

text \<open>
  \<open>persist\<close> once it holds \<open>storageMu\<close> and its turn has come; \<open>None\<close> while it must wait.
\<close>

definition persist :: "'x EntryStorage \<Rightarrow> journalIO list \<Rightarrow> storageBatch \<Rightarrow> 'x entryStore \<Rightarrow> journal \<Rightarrow>
    ('x entryStore \<times> journal) option" where
  "persist es ios batch s disk =
     (if sbSequence batch = 0 then Some (s, disk)
      else if sbSequence batch \<noteq> sStorageDone s + 1 then None
      else case persist_records es ios (sbRecords batch) s disk None of
        (s, disk, err) \<Rightarrow>
          Some (setStorageError err (s\<lparr>sStorageDone := sbSequence batch\<rparr>), disk))"

subsection \<open>Opening\<close>

definition replayRecord :: "storeJournalRecord \<Rightarrow> 'x entryStore \<Rightarrow> 'x entryStore" where
  "replayRecord r s =
     (if jrOperation r = ''clear'' then
        s\<lparr>sEntries := [], sOrder := order_reset (sOrder s), sBytes := 0\<rparr>
      else case jrEntry r of
        None \<Rightarrow> s
      | Some e \<Rightarrow>
          if jrOperation r = ''delete'' then removeMemory (eID e) s
          else if jrOperation r \<noteq> ''put'' \<or> eID e = [] then s
          else
            let s = insert_entry e s
            in if eCursor e > sNextCursor s then s\<lparr>sNextCursor := eCursor e\<rparr> else s)"

text \<open>Replays the readable lines; also returns them and whether an unreadable one follows.\<close>

fun replay_journal :: "journal \<Rightarrow> 'x entryStore \<Rightarrow> journal \<Rightarrow> 'x entryStore \<times> journal \<times> bool" where
  "replay_journal [] s good = (s, good, False)"
| "replay_journal (Torn n # ls) s good = (s, good, True)"
| "replay_journal (Line r # ls) s good = replay_journal ls (replayRecord r s) (good @ [Line r])"

definition openJournalStorage :: "openIO \<Rightarrow> instant \<Rightarrow> 'x entryStore \<Rightarrow> journal \<Rightarrow> 'x entryStore \<times> journal" where
  "openJournalStorage io now s disk =
     (case ooMkdir io of Some err \<Rightarrow> (s\<lparr>sStorageError := err\<rparr>, disk) | None \<Rightarrow>
      case ooOpen io of Some err \<Rightarrow> (s\<lparr>sStorageError := err\<rparr>, disk) | None \<Rightarrow>
      case ooChmod io of Some err \<Rightarrow> (s\<lparr>sStorageError := err\<rparr>, disk) | None \<Rightarrow>
      let (s, good, torn) = replay_journal disk s [];
          s = (if torn then s\<lparr>sStorageError := ''could not fully replay storage journal: '' @ ooDecode io @
                 (case ooTruncate io of None \<Rightarrow> [] | Some err \<Rightarrow> ''; could not repair journal: '' @ err)\<rparr>
               else s);
          disk = (if torn \<and> ooTruncate io = None then good else disk);
          s = fst (purgeExpired now s);
          s = fst (evict s)
      in case ooSeek io of
           Some err \<Rightarrow> (s\<lparr>sStorageError := err\<rparr>, disk)
         | None \<Rightarrow> (s\<lparr>sStorageFile := OpenFile, sStorageBytes := int (journal_size disk)\<rparr>, disk))"

text \<open>The loop over the records an external storage must drop at the start.\<close>

fun drop_records :: "'x EntryStorage \<Rightarrow> storeJournalRecord list \<Rightarrow> 'x entryStore \<Rightarrow> journal \<Rightarrow> 'x entryStore \<times> journal" where
  "drop_records es [] s disk = (s, disk)"
| "drop_records es (r # rs) s disk =
     (case persistRecord es io_ok r s disk of
        (s, disk, err) \<Rightarrow>
          drop_records es rs (case err of None \<Rightarrow> s | Some e \<Rightarrow> s\<lparr>sStorageError := e\<rparr>) disk)"

definition openExternalStorage :: "'x EntryStorage \<Rightarrow> 'x \<Rightarrow> instant \<Rightarrow> 'x entryStore \<Rightarrow> journal \<Rightarrow> 'x entryStore \<times> journal" where
  "openExternalStorage es x now s disk =
     (let (entries, cursor, err) = esLoad es x;
          s = fold (\<lambda>e. replayRecord \<lparr>jrOperation = ''put'', jrEntry = Some e, jrCursor = 0\<rparr>) entries s;
          s = (if cursor > sNextCursor s then s\<lparr>sNextCursor := cursor\<rparr> else s);
          s = (case err of None \<Rightarrow> s | Some e \<Rightarrow> s\<lparr>sStorageError := e\<rparr>);
          (s, records) = purgeExpired now s;
          (s, evictions) = evict s
      in drop_records es (records @ evictions) s disk)"

definition openStorage :: "'x EntryStorage \<Rightarrow> openIO \<Rightarrow> instant \<Rightarrow> 'x entryStore \<Rightarrow> journal \<Rightarrow> 'x entryStore \<times> journal" where
  "openStorage es io now s disk =
     (if sStorageKind s = storageKindMemory then (s, disk)
      else case sStorage s of
        Some x \<Rightarrow> openExternalStorage es x now s disk
      | None \<Rightarrow> if sStoragePath s = [] then (s, disk) else openJournalStorage io now s disk)"

definition emptyStore :: "('w, 'x) config \<Rightarrow> 'x entryStore" where
  "emptyStore c = \<lparr>sEntries = [], sOrder = newEntryOrder (cMaxEvents c), sBytes = 0, sNextCursor = 0,
     sDropped = 0, sEvicted = 0, sRetention = cRetention c, sMaxEvents = cMaxEvents c,
     sMaxBytes = cMaxBytes c, sStreamBuffer = nat (cStreamBuffer c), sSubscribers = [],
     sChannels = [], sNextSubscriber = 0, sIsClosed = False, sStorageKind = cStorageKind c,
     sStoragePath = cStoragePath c, sStorageFile = NoFile, sStorage = cStorage c, sStorageBytes = 0,
     sStorageError = [], sBodyLimit = cBodyLimit c, sRequestSample = cRequestSample c,
     sDisabledKinds = sort (cDisabledKinds c), sSidebarKinds = cSidebarKinds c,
     sStorageIssued = 0, sStorageDone = 0\<rparr>"

definition newEntryStore :: "'x EntryStorage \<Rightarrow> openIO \<Rightarrow> instant \<Rightarrow> ('w, 'x) config \<Rightarrow> journal \<Rightarrow> 'x entryStore \<times> journal" where
  "newEntryStore es io now c disk = openStorage es io now (emptyStore c) disk"

text \<open>The second half of \<open>close\<close>, once \<open>storageDone\<close> has caught up.\<close>

definition close_backend :: "'x EntryStorage \<Rightarrow> string option \<Rightarrow> string option \<Rightarrow> 'x entryStore \<Rightarrow> 'x entryStore" where
  "close_backend es syncErr closeErr s =
     (let (s, err) =
            (case sStorageFile s of
               NoFile \<Rightarrow> (s, None)
             | ClosedFile \<Rightarrow> (s\<lparr>sStorageFile := NoFile\<rparr>,
                 join_errors (Some (closed_error ''sync'' s)) (Some (closed_error ''close'' s)))
             | OpenFile \<Rightarrow> (s\<lparr>sStorageFile := NoFile\<rparr>, join_errors syncErr closeErr));
          (s, err) =
            (case sStorage s of
               None \<Rightarrow> (s, err)
             | Some x \<Rightarrow> (s\<lparr>sStorage := None\<rparr>, join_errors err (snd (esClose es x))))
      in setStorageError err s)"

end
