(* ===== verification/StoreJournal.thy ===== *)
theory StoreJournal
  imports StorePersist
begin

text \<open>
  The journal as a log of list operations.  \<open>apply_record\<close> is what a record means on the list of
  retained entries; replaying a record on the store implements it, and the records that
  leave a critical section lead from the list before it to the list after it.  Applying a
  log again to the list it produced changes nothing, which is what makes compaction safe
  while later batches are still waiting to be written.
\<close>

subsection \<open>Records as operations on the list\<close>

definition apply_record :: "storeJournalRecord \<Rightarrow> Entry list \<Rightarrow> Entry list" where
  "apply_record r v =
     (if jrOperation r = ''clear'' then []
      else case jrEntry r of
        None \<Rightarrow> v
      | Some e \<Rightarrow>
          if jrOperation r = ''delete'' then drop_id (eID e) v
          else if jrOperation r \<noteq> ''put'' \<or> eID e = [] then v
          else drop_id (eID e) v @ [e])"

abbreviation apply_records :: "storeJournalRecord list \<Rightarrow> Entry list \<Rightarrow> Entry list" where
  "apply_records rs v \<equiv> fold apply_record rs v"

lemma apply_record_simps [simp]:
  "apply_record (deleteRecord i) v = drop_id i v"
  "apply_record (clearRecord c) v = []"
  "eID e \<noteq> [] \<Longrightarrow> apply_record (putRecord e c) v = drop_id (eID e) v @ [e]"
  "eID e \<noteq> [] \<Longrightarrow> apply_record (compactRecord e) v = drop_id (eID e) v @ [e]"
  by (simp_all add: apply_record_def deleteRecord_def clearRecord_def putRecord_def compactRecord_def
      zeroEntry_def)

definition ids_ok :: "Entry list \<Rightarrow> bool" where
  "ids_ok v \<longleftrightarrow> distinct (map eID v) \<and> [] \<notin> eID ` set v"

lemma drop_id_subset: "set (drop_id i v) \<subseteq> set v"
  by (auto simp: drop_id_def)

lemma distinct_drop_id: "distinct (map eID v) \<Longrightarrow> distinct (map eID (drop_id i v))"
  by (simp add: drop_id_def distinct_map_filter)

lemma apply_record_ids: "ids_ok v \<Longrightarrow> ids_ok (apply_record r v)"
  using drop_id_subset by (fastforce simp: apply_record_def ids_ok_def distinct_drop_id image_iff
    drop_id_def [of _ v] distinct_map_filter split: option.split)

lemma apply_records_ids: "ids_ok v \<Longrightarrow> ids_ok (apply_records rs v)"
  by (induction rs arbitrary: v) (simp_all add: apply_record_ids)

lemma apply_deletes: "apply_records (deletes u) v = filter (\<lambda>x. eID x \<notin> eID ` set u) v"
proof (induction u arbitrary: v)
  case (Cons e u)
  then show ?case by (auto simp: drop_id_def intro!: filter_cong)
qed simp

lemma filter_not_take:
  "distinct (map eID w) \<Longrightarrow> filter (\<lambda>x. eID x \<notin> eID ` set (take k w)) w = drop k w"
proof (induction w arbitrary: k)
  case (Cons e w)
  show ?case
  proof (cases k)
    case 0
    then show ?thesis by simp
  next
    case (Suc j)
    have "filter (\<lambda>x. eID x \<notin> insert (eID e) (eID ` set (take j w))) w =
        filter (\<lambda>x. eID x \<notin> eID ` set (take j w)) w"
      using Cons.prems by (intro filter_cong) (auto simp: image_iff)
    with Suc Cons show ?thesis by simp
  qed
qed simp

subsection \<open>Applying a log twice\<close>

text \<open>The entries of the start that survive a log: those no record after the last clear mentions.\<close>

definition touches :: "storeJournalRecord \<Rightarrow> string \<Rightarrow> bool" where
  "touches r i \<longleftrightarrow> jrOperation r = ''clear'' \<or>
     (case jrEntry r of None \<Rightarrow> False
      | Some e \<Rightarrow> eID e = i \<and> (jrOperation r = ''delete'' \<or> jrOperation r = ''put'' \<and> i \<noteq> []))"

definition untouched :: "storeJournalRecord list \<Rightarrow> Entry \<Rightarrow> bool" where
  "untouched rs e \<longleftrightarrow> list_all (\<lambda>r. \<not> touches r (eID e)) rs"

lemma apply_record_split:
  "apply_record r v = filter (\<lambda>e. \<not> touches r (eID e)) v @ apply_record r []"
  by (auto simp: apply_record_def touches_def drop_id_def split: option.split intro!: filter_cong)

lemma apply_record_new: "e \<in> set (apply_record r []) \<Longrightarrow> touches r (eID e)"
  by (auto simp: apply_record_def touches_def drop_id_def split: option.splits if_splits)

lemma apply_records_split:
  "apply_records rs v = filter (untouched rs) v @ apply_records rs []"
proof (induction rs arbitrary: v)
  case Nil
  then show ?case by (simp add: untouched_def)
next
  case (Cons r rs)
  have "apply_records (r # rs) v =
      filter (untouched rs) (filter (\<lambda>e. \<not> touches r (eID e)) v @ apply_record r []) @ apply_records rs []"
    using Cons.IH [of "apply_record r v"] apply_record_split [of r v] by simp
  moreover have "apply_records (r # rs) [] = filter (untouched rs) (apply_record r []) @ apply_records rs []"
    using Cons.IH [of "apply_record r []"] by simp
  ultimately show ?case by (simp add: untouched_def conj_commute)
qed

lemma apply_records_new: "e \<in> set (apply_records rs []) \<Longrightarrow> \<not> untouched rs e"
proof (induction rs)
  case (Cons r rs)
  have "apply_records (r # rs) [] = filter (untouched rs) (apply_record r []) @ apply_records rs []"
    using apply_records_split [of rs "apply_record r []"] by simp
  with Cons apply_record_new [of e r] show ?case by (auto simp: untouched_def)
qed simp

lemma apply_records_idem: "apply_records rs (apply_records rs v) = apply_records rs v"
proof -
  have "filter (untouched rs) (apply_records rs []) = []"
    using apply_records_new by (auto simp: filter_empty_conv)
  then show ?thesis
    by (subst (1 2) apply_records_split, subst apply_records_split) simp
qed

lemma apply_compact: "ids_ok v \<Longrightarrow> apply_records (map compactRecord v) [] = v"
proof (induction v rule: rev_induct)
  case (snoc e v)
  then have "ids_ok v" "eID e \<noteq> []" "eID e \<notin> eID ` set v"
    by (auto simp: ids_ok_def)
  with snoc.IH show ?case by (simp add: drop_id_notin)
qed simp

subsection \<open>Replaying on the store\<close>

lemma view_snapshot: "store_inv s \<Longrightarrow> snapshot s = view s"
proof -
  assume inv: "store_inv s"
  then have "map (\<lambda>i. order_at (sOrder s) (int i)) [0..<order_len (sOrder s)] = order_list (sOrder s)"
    by (intro ord.scan) (simp add: store_inv_def)
  then have "map (lookup_entry s) (map (\<lambda>i. order_at (sOrder s) (int i)) [0..<order_len (sOrder s)]) = view s"
    by (simp only: view_def)
  then show ?thesis by (simp only: snapshot_def map_map comp_def)
qed

lemma removeMemory_spec:
  assumes inv: "store_inv s"
  shows "store_inv (removeMemory i s) \<and> view (removeMemory i s) = drop_id i (view s) \<and>
    rest (removeMemory i s) = rest s"
proof (cases "map_get (sEntries s) i")
  case None
  then have "i \<notin> eID ` set (view s)"
    using map_get_lookup [OF inv, of i] by (auto simp flip: set_map simp: view_ids [OF inv])
  with None inv show ?thesis by (simp add: removeMemory_def drop_id_notin)
next
  case (Some e)
  let ?s = "removeMemory i s"
  have q: "order_inv (sOrder s)" and dist: "distinct (order_list (sOrder s))"
    using inv by (simp_all add: store_inv_def)
  have s': "?s = s\<lparr>sEntries := map_del i (sEntries s), sBytes := sBytes s - entrySize e,
      sOrder := fst (order_remove (sOrder s) i)\<rparr>"
    by (simp add: removeMemory_def removeOrder_def Some)
  have ol: "order_list (sOrder ?s) = remove1 i (order_list (sOrder s))"
    by (simp add: s' ord.remove_list [OF q])
  have "view ?s = map (lookup_entry s) (remove1 i (order_list (sOrder s)))"
    unfolding view_def ol using dist by (intro map_cong) (auto simp: lookup_entry_def s')
  then have v: "view ?s = drop_id i (view s)" by (simp add: view_drop_lookup [OF inv])
  have "sBytes ?s = total_size (view ?s)"
    using total_size_drop_id [OF view_distinct [OF inv], of i e] Some
    by (simp add: v map_get_view [OF inv] flip: total_size_def)
      (simp add: s' bytes_view [OF inv] total_size_def)
  moreover have "list_all (\<lambda>(k, e). eID e = k) (sEntries ?s)"
    using inv by (simp add: s' store_inv_def list_all_del)
  ultimately have "store_inv ?s"
    using inv dist ol by (simp add: store_inv_def total_size_def s' ord.remove_inv [OF q] set_remove1_distinct)
  with v show ?thesis by (simp add: s')
qed

lemma reset_spec:
  assumes "store_inv s"
  shows "store_inv (s\<lparr>sEntries := [], sOrder := order_reset (sOrder s), sBytes := 0\<rparr>)"
    "view (s\<lparr>sEntries := [], sOrder := order_reset (sOrder s), sBytes := 0\<rparr>) = []"
  using assms by (simp_all add: store_inv_def view_def)

lemma replayRecord_spec:
  assumes inv: "store_inv s"
  shows "store_inv (replayRecord r s) \<and> view (replayRecord r s) = apply_record r (view s) \<and>
    conf (replayRecord r s) = conf s \<and> sNextCursor s \<le> sNextCursor (replayRecord r s)"
proof (cases "jrOperation r = ''clear''")
  case True
  then show ?thesis
    using reset_spec [OF inv] by (simp add: replayRecord_def apply_record_def conf_def)
next
  case False
  show ?thesis
  proof (cases "jrEntry r")
    case None
    with False inv show ?thesis by (simp add: replayRecord_def apply_record_def)
  next
    case (Some e)
    note ins = insert_entry_spec [OF inv, of e] and rem = removeMemory_spec [OF inv, of "eID e"]
    from False Some show ?thesis
      using inv ins rem conf_rest [OF ins(3)] rest_fields(1) [OF ins(3)]
        rest_fields(1) [of "removeMemory (eID e) s" s] conf_rest [of "removeMemory (eID e) s" s]
      by (simp add: replayRecord_def apply_record_def Let_def)
  qed
qed

definition good_records :: "journal \<Rightarrow> storeJournalRecord list" where
  "good_records disk = concat (map (\<lambda>l. case l of Line r \<Rightarrow> [r] | Torn _ \<Rightarrow> [])
     (takeWhile (\<lambda>l. case l of Line _ \<Rightarrow> True | Torn _ \<Rightarrow> False) disk))"

lemma good_records_lines [simp]: "good_records (map Line rs) = rs"
  by (induction rs) (simp_all add: good_records_def)

lemma good_records_simps [simp]:
  "good_records [] = []" "good_records (Line r # ls) = r # good_records ls"
  "good_records (Torn n # ls) = []"
  by (simp_all add: good_records_def)

lemma replay_journal_spec:
  "store_inv s \<Longrightarrow> \<exists>s'. replay_journal disk s good =
      (s', good @ map Line (good_records disk), \<not> list_all (\<lambda>l. \<exists>r. l = Line r) disk) \<and>
    store_inv s' \<and> view s' = apply_records (good_records disk) (view s) \<and> conf s' = conf s"
proof (induction disk s good rule: replay_journal.induct)
  case (3 r ls s good)
  note rr = replayRecord_spec [OF "3.prems", of r]
  from "3.IH" rr show ?case by auto
qed auto

subsection \<open>What a critical section logs\<close>

lemma purge_log: "store_inv s \<Longrightarrow> apply_records (deletes (stale now s)) (view s) = live now s"
proof -
  assume inv: "store_inv s"
  have "view s = stale now s @ live now s" by (simp add: stale_def live_def)
  then have "stale now s = take (length (stale now s)) (view s)"
    "live now s = drop (length (stale now s)) (view s)"
    by (metis append_eq_conv_conj)+
  then show ?thesis
    using filter_not_take [OF view_distinct [OF inv], of "length (stale now s)"]
    by (simp add: apply_deletes)
qed

lemma put_log:
  assumes inv: "store_inv s" and pos: "1 \<le> sMaxEvents s" and ide: "eID e \<noteq> []"
    and small: "\<not> entrySize e > sMaxBytes s"
    and k: "drop k (window e now s) = trim_window (sMaxEvents s) (sMaxBytes s) (window e now s)"
      "k \<le> length (window e now s)"
  shows "apply_records (deletes (stale now s) @ deletes (take k (window e now s)) @
      [putRecord (e\<lparr>eCursor := sNextCursor s + 1\<rparr>) (sNextCursor s + 1)]) (view s) =
    drop k (window e now s)"
proof -
  let ?e = "e\<lparr>eCursor := sNextCursor s + 1\<rparr>"
  let ?w = "drop_id (eID e) (live now s)"
  have dist: "distinct (map eID (live now s))"
    using view_distinct [OF inv] suffix_live [of now s] by (auto simp: suffix_def)
  note purge_log [OF inv, of now]
  moreover have lt: "k \<le> length ?w"
  proof (rule ccontr)
    assume "\<not> k \<le> length ?w"
    then have "drop k (window e now s) = []" by (simp add: window_def)
    moreover obtain u where "trim_window (sMaxEvents s) (sMaxBytes s) (window e now s) = u @ [?e]"
      using trim_window_last [of "sMaxEvents s" ?e "sMaxBytes s" ?w] pos small
      by (auto simp: window_def)
    ultimately show False using k(1) by simp
  qed
  moreover have "take k (window e now s) = take k ?w" using lt by (simp add: window_def)
  moreover have "drop_id (eID e) (filter (\<lambda>x. eID x \<notin> eID ` set (take k ?w)) (live now s)) = drop k ?w"
    using filter_not_take [OF distinct_drop_id [OF dist, of "eID e"], of k]
    by (simp add: drop_id_def filter_filter conj_commute)
  ultimately show ?thesis using ide by (simp add: apply_deletes window_def)
qed

end
