(* ===== verification/StoreSystem.thy ===== *)
theory StoreSystem
  imports StoreJournal
begin

text \<open>
  The store under concurrency.  Critical sections under \<open>mu\<close> run one at a time and enqueue a
  numbered batch; batches are taken in the order of their numbers under \<open>storageMu\<close>, record by
  record, while further critical sections run.  A state of the system is the store, the
  journal file, the batches not yet taken and the batch being written.
\<close>

subsection \<open>Critical sections\<close>

datatype memOp = MPut instant Entry | MClear | MQuery instant | MSubscribe
  | MUnsubscribe nat | MReceive nat | MClose

fun mem_step :: "memOp \<Rightarrow> 'x entryStore \<Rightarrow> 'x entryStore \<times> storageBatch" where
  "mem_step (MPut now e) s = (case put now e s of (s, b, _) \<Rightarrow> (s, b))"
| "mem_step MClear s = clear s"
| "mem_step (MQuery now) s = purged now s"
| "mem_step MSubscribe s = (fst (subscribe s), noBatch)"
| "mem_step (MUnsubscribe i) s = (unsubscribe i s, noBatch)"
| "mem_step (MReceive i) s = (case receive i s of None \<Rightarrow> s | Some (s, _) \<Rightarrow> s, noBatch)"
| "mem_step MClose s = (close_store s, noBatch)"

text \<open>The profiler gives every entry it records an id.\<close>

fun op_ok :: "memOp \<Rightarrow> bool" where
  "op_ok (MPut now e) = (eID e \<noteq> [])"
| "op_ok _ = True"

definition backend where
  "backend s = (sStorageKind s, sStorageFile s, sStorage s, sStorageDone s, sMaxEvents s, sMaxBytes s,
     sStoragePath s, sStorageBytes s, sStorageError s)"

lemma backend_conf: "conf s = conf t \<Longrightarrow> backend s = backend t"
  by (simp add: conf_def backend_def)

lemma backend_storing: "backend s = backend t \<Longrightarrow> storing s = storing t"
  by (simp add: backend_def storing_def)

lemma same_window:
  assumes "sEntries s' = sEntries s" "sOrder s' = sOrder s" "sBytes s' = sBytes s"
    "sNextCursor s' = sNextCursor s" "backend s' = backend s"
  shows "view s' = view s \<and> store_inv s' = store_inv s \<and> store_ok s' = store_ok s"
  using view_cong [of s' s] store_inv_cong [of s' s] assms by (simp add: store_ok_def backend_def)

text \<open>A critical section that leaves the window alone.\<close>

definition quiet :: "'x entryStore \<Rightarrow> 'x entryStore \<Rightarrow> bool" where
  "quiet s s' \<longleftrightarrow> sEntries s' = sEntries s \<and> sOrder s' = sOrder s \<and> sBytes s' = sBytes s \<and>
     sNextCursor s' = sNextCursor s \<and> backend s' = backend s \<and> sStorageIssued s' = sStorageIssued s"

lemma quiet_refl [simp]: "quiet s s"
  by (simp add: quiet_def)

lemma quiet_trans: "quiet s t \<Longrightarrow> quiet t u \<Longrightarrow> quiet s u"
  by (simp add: quiet_def)

lemma quiet_drop [simp]: "quiet s (drop_subscriber i s)"
  by (simp add: quiet_def drop_subscriber_def backend_def split: option.split)

lemma quiet_fold: "(\<And>x t. quiet t (f x t)) \<Longrightarrow> quiet s (fold f xs s)"
  by (induction xs arbitrary: s) (auto intro: quiet_trans)

lemma quiet_ops:
  "quiet s (fst (mem_step MSubscribe s))" "quiet s (fst (mem_step (MUnsubscribe i) s))"
  "quiet s (fst (mem_step (MReceive i) s))" "quiet s (fst (mem_step MClose s))"
proof -
  show "quiet s (fst (mem_step MSubscribe s))"
    by (simp add: quiet_def subscribe_def backend_def Let_def)
  show "quiet s (fst (mem_step (MUnsubscribe i) s))"
    by (simp add: unsubscribe_def)
  show "quiet s (fst (mem_step (MReceive i) s))"
    by (simp add: receive_def quiet_def backend_def split: option.split list.split)
  have "quiet s (s\<lparr>sIsClosed := True\<rparr>)" by (simp add: quiet_def backend_def)
  moreover have "quiet (s\<lparr>sIsClosed := True\<rparr>) (close_subscribers (s\<lparr>sIsClosed := True\<rparr>))"
    unfolding close_subscribers_def by (rule quiet_fold) simp
  ultimately show "quiet s (fst (mem_step MClose s))"
    using quiet_trans by (auto simp: close_store_def)
qed

text \<open>What every critical section does to the window and, when the store persists, to the log.\<close>

definition logged :: "'x entryStore \<Rightarrow> 'x entryStore \<Rightarrow> storageBatch \<Rightarrow> bool" where
  "logged s s' b \<longleftrightarrow> store_ok s' \<and> backend s' = backend s \<and>
     (storing s \<longrightarrow> view s' = apply_records (sbRecords b) (view s)) \<and>
     (if sbSequence b = 0 then sbRecords b = [] \<and> sStorageIssued s' = sStorageIssued s
      else sbSequence b = sStorageIssued s + 1 \<and> sStorageIssued s' = sStorageIssued s + 1)"

lemma quiet_logged: "store_ok s \<Longrightarrow> quiet s s' \<Longrightarrow> logged s s' noBatch"
  using same_window [of s' s] by (simp add: logged_def quiet_def noBatch_def)

lemma logged_batch:
  assumes "store_ok s'" "conf s' = conf s" "view s' = apply_records rs (view s)"
    "sStorageIssued s' = issued_after s rs"
  shows "logged s s' (batch_for s rs)"
  using assms backend_conf [of s' s] by (simp add: logged_def batch_for_def issued_after_def noBatch_def)

lemma put_logged:
  assumes ok: "store_ok s" and ide: "eID e \<noteq> []"
  shows "case put now e s of (s', b, _) \<Rightarrow> logged s s' b"
proof -
  have inv: "store_inv s" and pos: "1 \<le> sMaxEvents s" using ok by (simp_all add: store_ok_def)
  have ok': "store_ok (fst (put now e s))" by (rule put_ok [OF ok])
  consider "sIsClosed s" | "\<not> sIsClosed s" "entrySize e > sMaxBytes s"
    | "\<not> sIsClosed s" "\<not> entrySize e > sMaxBytes s" by blast
  then show ?thesis
  proof cases
    case 1
    then show ?thesis using quiet_logged [OF ok quiet_refl] by (simp add: put_closed)
  next
    case 2
    obtain s' where s': "put now e s = (s', batch_for s (deletes (stale now s)), False)"
      "view s' = live now s" "conf s' = conf s" "sStorageIssued s' = issued_after s (deletes (stale now s))"
      using put_rejected_spec [OF inv 2, of now] by metis
    then show ?thesis using logged_batch [of s' s "deletes (stale now s)"] ok' purge_log [OF inv, of now] by simp
  next
    case 3
    obtain s' k rs where s': "put now e s = (s', batch_for s rs, True)"
      "rs = deletes (stale now s) @ deletes (take k (window e now s)) @
         [putRecord (e\<lparr>eCursor := sNextCursor s + 1\<rparr>) (sNextCursor s + 1)]"
      "view s' = drop k (window e now s)"
      "drop k (window e now s) = trim_window (sMaxEvents s) (sMaxBytes s) (window e now s)"
      "conf s' = conf s" "k \<le> length (window e now s)" "sStorageIssued s' = issued_after s rs"
      using put_accepted_spec [OF inv 3, of now] by metis
    have "apply_records rs (view s) = drop k (window e now s)"
      unfolding s'(2) by (rule put_log [OF inv pos ide 3(2) s'(4) s'(6)])
    then show ?thesis using logged_batch [of s' s rs] ok' s' by simp
  qed
qed

lemma mem_step_logged:
  assumes ok: "store_ok s" and op: "op_ok m"
  shows "case mem_step m s of (s', b) \<Rightarrow> logged s s' b"
proof (cases m)
  case (MPut now e)
  with put_logged [OF ok, of e now] op show ?thesis by (auto split: prod.split)
next
  case MClear
  obtain s' where s': "clear s = (s', batch_for s [clearRecord (sNextCursor s + 1)])"
    "view s' = []" "conf s' = conf s"
    "sStorageIssued s' = issued_after s [clearRecord (sNextCursor s + 1)]"
    using clear_spec [OF store_ok_inv [OF ok]] by metis
  then show ?thesis
    using MClear logged_batch [of s' s "[clearRecord (sNextCursor s + 1)]"] clear_ok [OF ok] by simp
next
  case (MQuery now)
  obtain s' where s': "purged now s = (s', batch_for s (deletes (stale now s)))"
    "view s' = live now s" "conf s' = conf s" "sStorageIssued s' = issued_after s (deletes (stale now s))"
    using purged_spec [OF store_ok_inv [OF ok], of now] by metis
  then show ?thesis
    using MQuery logged_batch [of s' s "deletes (stale now s)"] purged_ok [OF ok, of now]
      purge_log [OF store_ok_inv [OF ok], of now] by simp
qed (simp_all add: quiet_logged [OF ok] quiet_ops [simplified])

subsection \<open>The system\<close>

datatype 'x sys = Sys "'x entryStore" journal "storageBatch list"
  "(nat \<times> storeJournalRecord list \<times> string option) option"

text \<open>\<open>P\<close> restricts the answers of the operating system to the writes.\<close>

inductive sys_step :: "'x EntryStorage \<Rightarrow> (journalIO \<Rightarrow> bool) \<Rightarrow> 'x sys \<Rightarrow> 'x sys \<Rightarrow> bool"
  for es P where
  critical: "op_ok m \<Longrightarrow> mem_step m s = (s', b) \<Longrightarrow>
    sys_step es P (Sys s d p a) (Sys s' d (if sbSequence b = 0 then p else p @ [b]) a)"
| take_turn: "b \<in> set p \<Longrightarrow> sbSequence b = sStorageDone s + 1 \<Longrightarrow>
    sys_step es P (Sys s d p None) (Sys s d (remove1 b p) (Some (sbSequence b, sbRecords b, None)))"
| write_record: "P io \<Longrightarrow> persistRecord es io r s d = (s', d', e) \<Longrightarrow>
    sys_step es P (Sys s d p (Some (n, r # rs, err))) (Sys s' d' p (Some (n, rs, join_errors err e)))"
| finish: "sys_step es P (Sys s d p (Some (n, [], err)))
    (Sys (setStorageError err (s\<lparr>sStorageDone := n\<rparr>)) d p None)"

inductive_cases sys_step_cases: "sys_step es P (Sys s d p a) t"

inductive sys_reach :: "'x EntryStorage \<Rightarrow> (journalIO \<Rightarrow> bool) \<Rightarrow> 'x sys \<Rightarrow> 'x sys \<Rightarrow> bool"
  for es P x where
  start: "sys_reach es P x x"
| step: "sys_reach es P x y \<Longrightarrow> sys_step es P y z \<Longrightarrow> sys_reach es P x z"

definition numbering_ok :: "'x sys \<Rightarrow> bool" where
  "numbering_ok x = (case x of Sys s d p a \<Rightarrow>
     store_ok s \<and>
     (case a of
        None \<Rightarrow> map sbSequence p = [sStorageDone s + 1..<sStorageIssued s + 1] \<and>
          sStorageDone s \<le> sStorageIssued s
      | Some (n, rs, err) \<Rightarrow> n = sStorageDone s + 1 \<and> n \<le> sStorageIssued s \<and>
          map sbSequence p = [n + 1..<sStorageIssued s + 1]))"

text \<open>Writing changes nothing but the back end.\<close>

definition front where
  "front s = s\<lparr>sStorageFile := NoFile, sStorage := None, sStorageBytes := 0, sStorageError := [],
     sStorageDone := 0\<rparr>"

lemma front_fields:
  assumes "front s = front t"
  shows "sEntries s = sEntries t" "sOrder s = sOrder t" "sBytes s = sBytes t"
    "sNextCursor s = sNextCursor t" "sMaxEvents s = sMaxEvents t" "sMaxBytes s = sMaxBytes t"
    "sStorageKind s = sStorageKind t" "sStoragePath s = sStoragePath t"
    "sStorageIssued s = sStorageIssued t" "sIsClosed s = sIsClosed t"
  using assms by (cases s; cases t; simp add: front_def)+

lemma front_window:
  "front s = front t \<Longrightarrow> view s = view t \<and> store_inv s = store_inv t \<and> store_ok s = store_ok t"
  using view_cong [of s t] store_inv_cong [of s t] front_fields [of s t] by (simp add: store_ok_def)

lemma front_updates [simp]:
  "front (s\<lparr>sStorageFile := f\<rparr>) = front s" "front (s\<lparr>sStorage := x\<rparr>) = front s"
  "front (s\<lparr>sStorageBytes := n\<rparr>) = front s" "front (s\<lparr>sStorageError := e\<rparr>) = front s"
  "front (s\<lparr>sStorageDone := m\<rparr>) = front s"
  by (cases s; simp add: front_def)+

lemma compactJournal_front:
  "compactJournal io s d = (s', d', e) \<Longrightarrow> front s' = front s \<and> sStorageDone s' = sStorageDone s"
  by (auto simp: compactJournal_def Let_def split: if_splits)

lemma appendJournal_front:
  "appendJournal io r s d = (s', d', e) \<Longrightarrow> front s' = front s \<and> sStorageDone s' = sStorageDone s"
  by (auto simp: appendJournal_def Let_def split: fileHandle.splits option.splits if_splits prod.splits
      dest!: compactJournal_front)

lemma persistRecord_front:
  assumes "persistRecord es io r s d = (s', d', e)"
  shows "front s' = front s \<and> sStorageDone s' = sStorageDone s"
proof (cases "sStorageKind s = storageKindJournal")
  case True
  obtain s1 d1 e1 where ap: "appendJournal io r s d = (s1, d1, e1)" by (meson prod_cases3)
  with assms True show ?thesis
    using appendJournal_front [OF ap]
    by (auto simp: persistRecord_def split: option.splits if_splits dest!: compactJournal_front)
next
  case False
  with assms show ?thesis
    by (auto simp: persistRecord_def split: option.splits if_splits prod.splits)
qed

lemma setStorageError_front [simp]:
  "front (setStorageError err s) = front s" "sStorageDone (setStorageError err s) = sStorageDone s"
  "sStorageFile (setStorageError err s) = sStorageFile s"
  by (simp_all add: setStorageError_def split: option.split)

lemma pending_head:
  assumes "map sbSequence p = [k..<n]" "b \<in> set p" "sbSequence b = k"
  shows "p = b # remove1 b p \<and> map sbSequence (remove1 b p) = [Suc k..<n] \<and> k < n"
proof (cases p)
  case (Cons b' q)
  have "[k..<n] = sbSequence b' # map sbSequence q" using assms(1) Cons by simp
  then have q: "k < n" "sbSequence b' = k" "map sbSequence q = [Suc k..<n]"
    by (auto simp: upt_eq_Cons_conv)
  then have "k \<notin> set (map sbSequence q)" by simp
  then have "b \<notin> set q" using assms(3) by (metis image_eqI list.set_map)
  with assms(2) Cons q show ?thesis by auto
qed (use assms in simp)

lemma numbering_step:
  assumes "sys_step es P x y" "numbering_ok x"
  shows "numbering_ok y"
  using assms
proof (induction rule: sys_step.induct)
  case (critical m s s' b d p a)
  have lg: "logged s s' b"
    using mem_step_logged [of s m] critical by (auto simp: numbering_ok_def split: option.splits)
  then have done_same: "sStorageDone s' = sStorageDone s" and ok: "store_ok s'"
    by (simp_all add: logged_def backend_def)
  show ?case
  proof (cases "sbSequence b = 0")
    case True
    with lg critical.prems done_same ok show ?thesis
      by (auto simp: numbering_ok_def logged_def split: option.splits)
  next
    case False
    then have "sbSequence b = sStorageIssued s + 1" "sStorageIssued s' = sStorageIssued s + 1"
      using lg by (simp_all add: logged_def)
    with False critical.prems done_same ok show ?thesis
      by (auto simp: numbering_ok_def split: option.splits)
  qed
next
  case (take_turn b p s d)
  then have seqs: "map sbSequence p = [sStorageDone s + 1..<sStorageIssued s + 1]"
    "sStorageDone s \<le> sStorageIssued s" "store_ok s" by (simp_all add: numbering_ok_def)
  with pending_head [OF seqs(1) take_turn.hyps] take_turn.hyps show ?case
    by (simp add: numbering_ok_def)
next
  case (write_record io r s d s' d' e p n rs err)
  note f = persistRecord_front [OF write_record.hyps(2)]
  with write_record.prems front_window [of s' s] front_fields [of s' s] show ?case
    by (simp add: numbering_ok_def)
next
  case (finish s d p n err)
  let ?s = "setStorageError err (s\<lparr>sStorageDone := n\<rparr>)"
  have "front ?s = front s" by simp
  from finish front_window [OF this] front_fields [OF this] show ?case
    by (simp add: numbering_ok_def del: front_updates)
qed

lemma numbering_reach: "sys_reach es P x y \<Longrightarrow> numbering_ok x \<Longrightarrow> numbering_ok y"
  by (induction rule: sys_reach.induct) (auto intro: numbering_step)

subsection \<open>The journal under concurrency\<close>

definition active_records :: "(nat \<times> storeJournalRecord list \<times> string option) option \<Rightarrow> storeJournalRecord list" where
  "active_records a = (case a of None \<Rightarrow> [] | Some (n, rs, err) \<Rightarrow> rs)"

definition outstanding :: "'x sys \<Rightarrow> storeJournalRecord list" where
  "outstanding x = (case x of Sys s d p a \<Rightarrow> active_records a @ concat (map sbRecords p))"

definition journal_ok :: "'x sys \<Rightarrow> bool" where
  "journal_ok x = (case x of Sys s d p a \<Rightarrow>
     sStorageKind s = storageKindJournal \<and> sStorageFile s = OpenFile \<and>
     list_all (\<lambda>l. \<exists>r. l = Line r) d \<and>
     apply_records (outstanding x) (apply_records (good_records d) []) = view s)"

lemma compactJournal_ok:
  assumes "store_inv s" "sStorageFile s = OpenFile"
  shows "\<exists>s'. compactJournal io_ok s d = (s', map (\<lambda>e. Line (compactRecord e)) (view s), None) \<and>
    sStorageFile s' = OpenFile"
  using assms by (simp add: compactJournal_def io_ok_def view_snapshot Let_def)

lemma appendJournal_ok:
  assumes "store_inv s" "sStorageFile s = OpenFile"
  shows "\<exists>s' d'. appendJournal io_ok r s d = (s', d', None) \<and> sStorageFile s' = OpenFile \<and>
    (d' = d @ [Line r] \<or> d' = map (\<lambda>e. Line (compactRecord e)) (view s))"
proof -
  let ?s = "s\<lparr>sStorageBytes := sStorageBytes s + int (record_size r)\<rparr>"
  have "front ?s = front s" by simp
  then have "store_inv ?s" "view ?s = view s" using assms(1) front_window by blast+
  then show ?thesis
    using compactJournal_ok [of ?s "d @ [Line r]"] assms(2)
    by (auto simp: appendJournal_def Let_def io_ok_def [THEN arg_cong [of _ _ ioWrite]])
qed

lemma persistRecord_ok:
  assumes inv: "store_inv s" and hnd: "sStorageFile s = OpenFile"
    and kind: "sStorageKind s = storageKindJournal"
  shows "\<exists>s' d'. persistRecord es io_ok r s d = (s', d', None) \<and> sStorageFile s' = OpenFile \<and>
    (d' = d @ [Line r] \<or> d' = map (\<lambda>e. Line (compactRecord e)) (view s))"
proof -
  obtain s1 d1 where ap: "appendJournal io_ok r s d = (s1, d1, None)" "sStorageFile s1 = OpenFile"
    "d1 = d @ [Line r] \<or> d1 = map (\<lambda>e. Line (compactRecord e)) (view s)"
    using appendJournal_ok [OF inv hnd, of r d] by blast
  have "store_inv s1" "view s1 = view s"
    using appendJournal_front [OF ap(1)] front_window [of s1 s] inv by blast+
  with compactJournal_ok [of s1 d1] ap kind show ?thesis
    by (auto simp: persistRecord_def)
qed

lemma good_records_append:
  "list_all (\<lambda>l. \<exists>r. l = Line r) d \<Longrightarrow> good_records (d @ [Line r]) = good_records d @ [r]"
  by (induction d) auto

lemma good_records_compact [simp]: "good_records (map (\<lambda>e. Line (compactRecord e)) v) = map compactRecord v"
  using good_records_lines [of "map compactRecord v"] by (simp add: comp_def)

lemma ids_ok_Nil [simp]: "ids_ok []"
  by (simp add: ids_ok_def)

lemma journal_step:
  assumes "sys_step es ((=) io_ok) x y" "numbering_ok x" "journal_ok x"
  shows "journal_ok y"
  using assms
proof (induction rule: sys_step.induct)
  case (critical m s s' b d p a)
  have lg: "logged s s' b"
    using mem_step_logged [of s m] critical by (auto simp: numbering_ok_def split: option.splits)
  have st: "storing s" using critical.prems by (simp add: journal_ok_def storing_def)
  have v: "view s' = apply_records (sbRecords b) (view s)" using lg st by (simp add: logged_def)
  have "outstanding (Sys s' d (if sbSequence b = 0 then p else p @ [b]) a) =
      outstanding (Sys s d p a) @ sbRecords b"
    using lg by (auto simp: outstanding_def logged_def)
  with v critical.prems lg show ?case by (simp add: journal_ok_def logged_def backend_def)
next
  case (take_turn b p s d)
  have "map sbSequence p = [sStorageDone s + 1..<sStorageIssued s + 1]"
    using take_turn.prems by (simp add: numbering_ok_def)
  from pending_head [OF this take_turn.hyps] have "p = b # remove1 b p" by blast
  then have "outstanding (Sys s d (remove1 b p) (Some (sbSequence b, sbRecords b, None))) =
      outstanding (Sys s d p None)"
    by (simp add: outstanding_def active_records_def) (metis concat.simps(2) list.simps(9))
  with take_turn.prems show ?case by (simp add: journal_ok_def)
next
  case (write_record io r s d s' d' e p n rs err)
  let ?rest = "rs @ concat (map sbRecords p)"
  have inv: "store_inv s" using write_record.prems by (simp add: numbering_ok_def store_ok_def)
  have j: "sStorageKind s = storageKindJournal" "sStorageFile s = OpenFile"
    "list_all (\<lambda>l. \<exists>r. l = Line r) d"
    "apply_records (r # ?rest) (apply_records (good_records d) []) = view s"
    using write_record.prems by (simp_all add: journal_ok_def outstanding_def active_records_def)
  have s': "sStorageFile s' = OpenFile"
    and d': "d' = d @ [Line r] \<or> d' = map (\<lambda>e. Line (compactRecord e)) (view s)"
    using persistRecord_ok [OF inv j(2,1), of es r d] write_record.hyps by auto
  have f: "front s' = front s" using persistRecord_front [OF write_record.hyps(2)] by simp
  have v: "view s' = view s" using front_window [OF f] by simp
  have "apply_records ?rest (apply_records (good_records d') []) = view s"
  proof (cases "d' = d @ [Line r]")
    case True
    then show ?thesis using j(3,4) by (simp add: good_records_append)
  next
    case False
    then have d2: "d' = map (\<lambda>e. Line (compactRecord e)) (view s)" using d' by blast
    have "ids_ok (view s)"
      unfolding j(4) [symmetric] by (intro apply_records_ids) simp
    then have "apply_records (good_records d') [] = view s"
      unfolding d2 good_records_compact by (rule apply_compact)
    moreover have "apply_records ?rest (view s) = view s"
      using apply_records_idem [of ?rest "apply_record r (apply_records (good_records d) [])"] j(4)
      by simp
    ultimately show ?thesis by simp
  qed
  moreover have "list_all (\<lambda>l. \<exists>r. l = Line r) d'" using d' j(3) by (auto simp: list_all_iff)
  ultimately show ?case
    using s' v j(1) front_fields [OF f]
    by (simp add: journal_ok_def outstanding_def active_records_def)
next
  case (finish s d p n err)
  let ?s = "setStorageError err (s\<lparr>sStorageDone := n\<rparr>)"
  have "front ?s = front s" by simp
  from finish front_window [OF this] front_fields [OF this] show ?case
    by (simp add: journal_ok_def outstanding_def active_records_def del: front_updates)
qed

lemma journal_reach:
  "sys_reach es ((=) io_ok) x y \<Longrightarrow> numbering_ok x \<Longrightarrow> journal_ok x \<Longrightarrow> journal_ok y \<and> numbering_ok y"
  by (induction rule: sys_reach.induct) (auto intro: journal_step numbering_step)


end
