(* ===== verification/StoreProps.thy ===== *)
theory StoreProps
  imports StoreQueries StoreSystem
begin

text \<open>
  The properties of the event store: bounds and bookkeeping over any run, what a recording
  keeps, what the queries return, and what a restart finds in the journal.
\<close>

subsection \<open>Runs\<close>

lemma emptyStore_ok: "config_ok c \<Longrightarrow> store_ok (emptyStore c)"
proof -
  assume c: "config_ok c"
  have v: "view (emptyStore c) = []" by (simp add: emptyStore_def view_def)
  have "store_inv (emptyStore c)"
    by (simp add: store_inv_def v) (simp add: emptyStore_def)
  with c v show ?thesis by (simp add: store_ok_def cursors_ok_def fits_def config_ok_def emptyStore_def)
qed

definition run :: "memOp list \<Rightarrow> 'x entryStore \<Rightarrow> 'x entryStore" where
  "run ms s = fold (\<lambda>m s. fst (mem_step m s)) ms s"

lemma quiet_frame: "store_ok s \<Longrightarrow> quiet s s' \<Longrightarrow> store_ok s' \<and> backend s' = backend s"
  using same_window [of s' s] by (simp add: quiet_def)

lemma put_conf: "store_ok s \<Longrightarrow> conf (fst (put now e s)) = conf s"
proof -
  assume "store_ok s"
  then have inv: "store_inv s" by (rule store_ok_inv)
  consider "sIsClosed s" | "\<not> sIsClosed s" "entrySize e > sMaxBytes s"
    | "\<not> sIsClosed s" "\<not> entrySize e > sMaxBytes s" by blast
  then show ?thesis
  proof cases
    case 1
    then show ?thesis by (simp add: put_closed)
  next
    case 2
    then show ?thesis using put_rejected_spec [OF inv, of e now] by (metis fst_conv)
  next
    case 3
    then show ?thesis using put_accepted_spec [OF inv, of e now] by (metis fst_conv)
  qed
qed

lemma mem_step_frame:
  assumes "store_ok s"
  shows "store_ok (fst (mem_step m s)) \<and> backend (fst (mem_step m s)) = backend s"
proof (cases m)
  case (MPut now e)
  then have "fst (mem_step m s) = fst (put now e s)" by (simp split: prod.split)
  then show ?thesis using put_ok [OF assms] backend_conf [OF put_conf [OF assms]] by metis
next
  case MClear
  obtain s' where "fst (clear s) = s'" "conf s' = conf s"
    using clear_spec [OF store_ok_inv [OF assms]] by (metis fst_conv)
  with MClear clear_ok [OF assms] backend_conf show ?thesis by (metis mem_step.simps(2))
next
  case (MQuery now)
  obtain s' where "fst (purged now s) = s'" "conf s' = conf s"
    using purged_spec [OF store_ok_inv [OF assms], of now] by (metis fst_conv)
  with MQuery purged_ok [OF assms] backend_conf show ?thesis by (metis mem_step.simps(3))
qed (use quiet_frame [OF assms] quiet_ops in blast)+

lemma run_ok: "store_ok s \<Longrightarrow> store_ok (run ms s)"
  by (induction ms arbitrary: s) (simp_all add: run_def mem_step_frame)

lemma run_backend: "store_ok s \<Longrightarrow> backend (run ms s) = backend s"
  by (induction ms arbitrary: s) (simp_all add: run_def mem_step_frame)

text \<open>
  C2. Whatever options configure it and whatever sequence of recordings, clears, queries,
  subscriptions and closes it then goes through, the store keeps at most \<open>maxEvents\<close> entries
  of together at most \<open>maxBytes\<close> bytes; its byte counter is the exact total of their sizes,
  the map and the order hold the same ids without duplicates, each entry lies under its own
  id, and the cursors grow strictly from the oldest entry to the newest, never passing the
  counter from which the next one is taken.
\<close>
theorem store_bounded:
  "let s = run ms (emptyStore (configured opts)) :: 'x entryStore;
       v = map (\<lambda>i. the (map_get (sEntries s) i)) (order_list (sOrder s))
   in int (length (sEntries s)) \<le> cMaxEvents (configured opts :: ('w, 'x) config) \<and>
      sBytes s \<le> cMaxBytes (configured opts :: ('w, 'x) config) \<and>
      sBytes s = sum_list (map entrySize v) \<and>
      distinct (order_list (sOrder s)) \<and> set (order_list (sOrder s)) = fst ` set (sEntries s) \<and>
      map eID v = order_list (sOrder s) \<and>
      sorted_wrt (<) (map eCursor v) \<and> list_all (\<lambda>e. eCursor e \<le> sNextCursor s) v"
proof -
  let ?c = "configured opts :: ('w, 'x) config"
  let ?s = "run ms (emptyStore ?c) :: 'x entryStore"
  have ok: "store_ok ?s" by (intro run_ok emptyStore_ok configured_ok)
  have inv: "store_inv ?s" by (rule store_ok_inv [OF ok])
  have b: "sMaxEvents ?s = cMaxEvents ?c" "sMaxBytes ?s = cMaxBytes ?c"
    using run_backend [OF emptyStore_ok [OF configured_ok [of opts]], of ms]
    by (simp_all add: backend_def emptyStore_def)
  have v: "map (\<lambda>i. the (map_get (sEntries ?s) i)) (order_list (sOrder ?s)) = view ?s"
    using map_get_lookup [OF inv] by (simp add: view_def)
  show ?thesis
    unfolding Let_def v
    using ok inv b view_ids [OF inv] length_entries [OF inv]
    by (auto simp: store_ok_def store_inv_def fits_def cursors_ok_def total_size_def list_all_iff)
qed

subsection \<open>Recording\<close>

definition reached :: "memOp list \<Rightarrow> ('w, 'x) Opt list \<Rightarrow> 'x entryStore" where
  "reached ms opts = run ms (emptyStore (configured opts))"

lemma reached_ok: "store_ok (reached ms opts)"
  unfolding reached_def by (intro run_ok emptyStore_ok configured_ok)

lemma reached_inv: "store_inv (reached ms opts)"
  by (rule store_ok_inv [OF reached_ok])

lemma find_append_last: "find P v = None \<Longrightarrow> P e \<Longrightarrow> find P (v @ [e]) = Some e"
  by (induction v) (auto split: if_splits)

lemma put_last_get:
  assumes inv: "store_inv s'" and v: "view s' = w @ [e]"
  shows "map_get (sEntries s') (eID e) = Some e"
proof -
  have "e \<in> set (view s')" using v by simp
  from find_id_distinct [OF view_distinct [OF inv] this] show ?thesis
    by (simp add: map_get_view [OF inv])
qed

text \<open>
  C3. Recording an entry in any reachable store.  A closed store refuses it and stays as it
  is.  An entry larger than the byte limit is refused and counted as dropped, after the
  expired entries have left.  Every other entry is accepted: it gets the next cursor, any
  earlier entry with its id is replaced, and what remains is the longest run of the newest
  entries within the event and byte limits, which always includes the new entry, found
  under its id.  Nothing else is lost: the eviction count grows by exactly the entries that
  expired or were pushed out.
\<close>
theorem put_outcome:
  "let s = reached ms opts; (s', batch, ok) = put now e s;
       fresh = dropWhile (\<lambda>x. eRecordedAt x < now - sRetention s) (view s);
       candidates = filter (\<lambda>x. eID x \<noteq> eID e) fresh @ [e\<lparr>eCursor := sNextCursor s + 1\<rparr>]
   in if sIsClosed s then s' = s \<and> \<not> ok
      else if entrySize e > sMaxBytes s then
        \<not> ok \<and> view s' = fresh \<and> sDropped s' = sDropped s + 1 \<and> sNextCursor s' = sNextCursor s
      else
        ok \<and> view s' = trim_window (sMaxEvents s) (sMaxBytes s) candidates \<and>
        map_get (sEntries s') (eID e) = Some (e\<lparr>eCursor := sNextCursor s + 1\<rparr>) \<and>
        sNextCursor s' = sNextCursor s + 1 \<and> sDropped s' = sDropped s \<and>
        sEvicted s' = sEvicted s + (length (view s) - length fresh) + (length candidates - length (view s'))"
proof -
  let ?s = "reached ms opts"
  have inv: "store_inv ?s" and pos: "1 \<le> sMaxEvents ?s"
    using reached_ok [of ms opts] by (simp_all add: store_ok_def)
  have fresh: "dropWhile (\<lambda>x. eRecordedAt x < now - sRetention ?s) (view ?s) = live now ?s"
    by (simp add: live_def expired_def [abs_def])
  have len: "length (stale now ?s) = length (view ?s) - length (live now ?s)"
    by (metis (no_types, lifting) add_diff_cancel_right' length_append live_def stale_def takeWhile_dropWhile_id)
  have cand: "filter (\<lambda>x. eID x \<noteq> eID e) (live now ?s) @ [e\<lparr>eCursor := sNextCursor ?s + 1\<rparr>] = window e now ?s"
    by (simp add: window_def drop_id_def)
  consider "sIsClosed ?s" | "\<not> sIsClosed ?s" "entrySize e > sMaxBytes ?s"
    | "\<not> sIsClosed ?s" "\<not> entrySize e > sMaxBytes ?s" by blast
  then show ?thesis
  proof cases
    case 1
    then show ?thesis by (simp add: put_closed)
  next
    case 2
    obtain s' b where "put now e ?s = (s', b, False)" "view s' = live now ?s"
      "sDropped s' = sDropped ?s + 1" "sNextCursor s' = sNextCursor ?s"
      using put_rejected_spec [OF inv 2, of now] by metis
    with 2 fresh show ?thesis by simp
  next
    case 3
    obtain s' b k where s': "put now e ?s = (s', b, True)" "store_inv s'"
      "view s' = drop k (window e now ?s)" "sDropped s' = sDropped ?s"
      "drop k (window e now ?s) = trim_window (sMaxEvents ?s) (sMaxBytes ?s) (window e now ?s)"
      "sNextCursor s' = sNextCursor ?s + 1" "k \<le> length (window e now ?s)"
      "sEvicted s' = sEvicted ?s + length (stale now ?s) + k"
      using put_accepted_spec [OF inv 3, of now] by metis
    obtain w where "view s' = w @ [e\<lparr>eCursor := sNextCursor ?s + 1\<rparr>]"
      using trim_window_last [of "sMaxEvents ?s" "e\<lparr>eCursor := sNextCursor ?s + 1\<rparr>" "sMaxBytes ?s"
        "drop_id (eID e) (live now ?s)"] pos 3 s'(3,5) by (auto simp: window_def)
    from put_last_get [OF s'(2) this]
    have "map_get (sEntries s') (eID e) = Some (e\<lparr>eCursor := sNextCursor ?s + 1\<rparr>)" by simp
    moreover have "length (window e now ?s) - length (view s') = k" using s'(3,7) by simp
    moreover have "view s' = trim_window (sMaxEvents ?s) (sMaxBytes ?s) (window e now ?s)"
      using s'(3,5) by simp
    ultimately show ?thesis
      unfolding Let_def s'(1) prod.case fresh cand len [symmetric] using 3 s'(4,6,8) by simp
  qed
qed

subsection \<open>Queries\<close>

text \<open>
  C5. A filtered listing of any reachable store returns, oldest first, the newest entries that
  satisfy the filters among those not expired: all of them when there are at most as many
  as the limit allows, otherwise exactly the limit's worth of the newest.  The limit is 200
  unless a value from 1 to 1001 is given.  The scanned count never exceeds the number of
  entries inside the cursor bounds, and equals it when the page is not full.
\<close>
theorem listing_newest_page:
  "let s = reached ms opts; fresh = fst (purged now s);
       (s', batch, entries, scanned) = listBeforeFiltered now f limit s;
       wanted = filter (selected f (scopeIDs (fScopeID f) fresh)) (view fresh);
       n = (if 1 \<le> limit \<and> limit \<le> 1001 then nat limit else 200);
       inside = length (filter (eligible f) (view fresh))
   in s' = fresh \<and> entries = drop (length wanted - n) wanted \<and>
      sorted_wrt (<) (map eCursor entries) \<and> scanned \<le> inside \<and>
      (if length entries < n then scanned = inside else True)"
proof -
  let ?s = "fst (purged now (reached ms opts))"
  let ?scope = "scopeIDs (fScopeID f) ?s"
  let ?n = "list_limit limit"
  let ?r = "list_scan ?s f ?scope ?n (order_len (sOrder ?s)) [] 0"
  have ok: "store_ok ?s" by (rule purged_ok [OF reached_ok])
  have n: "(if 1 \<le> limit \<and> limit \<le> 1001 then nat limit else 200) = ?n"
    by (auto simp: list_limit_def)
  obtain es sc where r: "?r = (es, sc)" by (meson surj_pair)
  have len: "order_len (sOrder ?s) = length (view ?s)" by (simp add: view_length)
  have sp: "es = take ?n (filter (selected f ?scope) (rev (view ?s)))"
    "sc \<le> length (filter (eligible f) (view ?s))"
    "length es < ?n \<longrightarrow> sc = length (filter (eligible f) (view ?s))"
    using list_scan_spec [OF order_refl, of ?s f ?scope ?n "[]" 0] r [unfolded len] by simp_all
  have page: "rev es = drop (length (filter (selected f ?scope) (view ?s)) - ?n) (filter (selected f ?scope) (view ?s))"
    using sp(1) by (simp add: rev_filter [symmetric] rev_take)
  have "sorted_wrt (<) (map eCursor (view ?s))"
    using ok by (simp add: store_ok_def cursors_ok_def)
  then have sorted: "sorted_wrt (<) (map eCursor (rev es))"
    unfolding page drop_map [symmetric]
    by (intro sorted_wrt_drop) (simp add: sorted_wrt_map sorted_wrt_filter)
  have run: "listBeforeFiltered now f limit (reached ms opts) =
      (?s, snd (purged now (reached ms opts)), rev es, sc)"
    using r by (simp add: listBeforeFiltered_def Let_def case_prod_beta)
  show ?thesis
    unfolding Let_def run n prod.case
    by (intro conjI refl page sorted sp(2)) (use sp(3) in simp)
qed

lemma scan_order_view: "store_inv s \<Longrightarrow> scan_order p s = filter p (view s)"
  using view_snapshot [of s] by (simp add: scan_order_def snapshot_def)

text \<open>
  C6. An execution scope of any reachable store holds exactly the retained entries whose id
  can be reached from the root by following \<open>ParentID\<close> links downwards, oldest first, the root
  included; links through an entry that names itself as its parent are ignored and cycles
  among the entries do not keep the search from ending.  An unknown root has no scope, and
  the entries of a request are those that are it, belong to it or originate from it.
\<close>
theorem scope_is_reachability:
  "let s = reached ms opts; fresh = fst (purged now s);
       linked = {(p, c). \<exists>e. e \<in> set (view fresh) \<and> eParentID e = p \<and> eID e = c \<and> p \<noteq> [] \<and> c \<noteq> p}
   in snd (snd (scopeEntries now rootID s)) =
        (if trim_space rootID \<noteq> [] then
           map_option (\<lambda>r. (r, filter (\<lambda>e. (trim_space rootID, eID e) \<in> linked\<^sup>*) (view fresh)))
             (find (\<lambda>e. eID e = rootID) (view fresh))
         else map_option (\<lambda>r. (r, [])) (find (\<lambda>e. eID e = rootID) (view fresh))) \<and>
      snd (snd (requestEntries now rootID s)) =
        map_option (\<lambda>r. (r, filter (\<lambda>e. eID e = rootID \<or> eRequestID e = rootID \<or> eOriginRequestID e = rootID) (view fresh)))
          (find (\<lambda>e. eID e = rootID) (view fresh))"
proof -
  let ?s = "fst (purged now (reached ms opts))"
  have inv: "store_inv ?s" by (rule store_ok_inv [OF purged_ok [OF reached_ok]])
  have rel: "{(p, c). \<exists>e. e \<in> set (view ?s) \<and> eParentID e = p \<and> eID e = c \<and> p \<noteq> [] \<and> c \<noteq> p} =
      parent_rel (view ?s)"
    by (auto simp: parent_rel_iff)
  have ids: "scopeIDs rootID ?s = None" if "trim_space rootID = []"
    using that by (simp add: scopeIDs_def)
  have req: "snd (snd (requestEntries now rootID (reached ms opts))) =
      map_option (\<lambda>r. (r, filter (\<lambda>e. eID e = rootID \<or> eRequestID e = rootID \<or> eOriginRequestID e = rootID) (view ?s)))
        (find (\<lambda>e. eID e = rootID) (view ?s))"
    by (simp add: requestEntries_def Let_def case_prod_beta scan_order_view [OF inv]
        map_get_view [OF inv] split: option.split)
  have scope: "snd (snd (scopeEntries now rootID (reached ms opts))) =
      map_option (\<lambda>r. (r, filter (\<lambda>e. eID e \<in> set (case scopeIDs rootID ?s of None \<Rightarrow> [] | Some ids \<Rightarrow> ids)) (view ?s)))
        (find (\<lambda>e. eID e = rootID) (view ?s))"
    by (simp add: scopeEntries_def Let_def case_prod_beta scan_order_view [OF inv]
        map_get_view [OF inv] split: option.split)
  show ?thesis
  proof (cases "trim_space rootID = []")
    case True
    then show ?thesis unfolding Let_def rel scope req by (simp add: ids)
  next
    case False
    obtain idl where "scopeIDs rootID ?s = Some idl" "set idl = (parent_rel (view ?s))\<^sup>* `` {trim_space rootID}"
      using scopeIDs_reach [OF inv False] by blast
    with False show ?thesis unfolding Let_def rel scope req by (simp add: Image_singleton)
  qed
qed


end
