(* ===== verification/StoreSubscribers.thy ===== *)
theory StoreSubscribers
  imports StoreProps
begin

text \<open>
  Subscribers of the store.  Sending on a closed channel and closing a channel twice are panics
  in Go; the invariant \<open>sub_ok\<close> excludes both: the channels of the subscribers are open, every
  other channel has been closed exactly once, and no buffer exceeds its capacity.
\<close>

definition chan_ok :: "nat set \<Rightarrow> nat \<Rightarrow> nat \<Rightarrow> nat \<Rightarrow> chan \<Rightarrow> bool" where
  "chan_ok S cap n i c \<longleftrightarrow> chCloses c = (if i \<in> S then 0 else 1) \<and>
     length (chBuf c) \<le> chCap c \<and> chCap c = cap \<and> i \<le> n"

text \<open>The heap of channels against the set of subscribers.\<close>

definition heap_ok :: "nat set \<Rightarrow> nat \<Rightarrow> nat \<Rightarrow> (nat \<times> chan) list \<Rightarrow> bool" where
  "heap_ok S cap n m \<longleftrightarrow> go_map m \<and> (\<forall>i c. map_get m i = Some c \<longrightarrow> chan_ok S cap n i c) \<and>
     (\<forall>i \<in> S. map_get m i \<noteq> None)"

definition sub_ok :: "'x entryStore \<Rightarrow> bool" where
  "sub_ok s \<longleftrightarrow> heap_ok (set (sSubscribers s)) (sStreamBuffer s) (sNextSubscriber s) (sChannels s) \<and>
     distinct (sSubscribers s) \<and> (if sIsClosed s then sSubscribers s = [] else True)"

definition subs where
  "subs s = (sSubscribers s, sChannels s, sNextSubscriber s, sStreamBuffer s, sIsClosed s)"

lemma sub_ok_cong: "subs s = subs t \<Longrightarrow> sub_ok s = sub_ok t"
  by (simp add: subs_def sub_ok_def)

lemma subs_rest: "rest s = rest t \<Longrightarrow> subs s = subs t"
  using rest_fields [of s t] by (simp add: subs_def)

lemma heap_put: "heap_ok S cap n m \<Longrightarrow> chan_ok S cap n i c \<Longrightarrow> heap_ok S cap n (map_put i c m)"
  by (simp add: heap_ok_def)

lemma heap_close:
  "heap_ok S cap n m \<Longrightarrow> map_get m i = Some c \<Longrightarrow> i \<in> S \<Longrightarrow>
     heap_ok (S - {i}) cap n (map_put i (chan_close c) m)"
  by (auto simp: heap_ok_def chan_ok_def chan_close_def)

lemma heap_new:
  "heap_ok S cap n m \<Longrightarrow> heap_ok (insert (n + 1) S) cap (n + 1)
     (map_put (n + 1) \<lparr>chBuf = [], chCap = cap, chCloses = 0\<rparr> m)"
  by (fastforce simp: heap_ok_def chan_ok_def)

lemma subscriber_chan:
  assumes "sub_ok s" "i \<in> set (sSubscribers s)"
  obtains c where "map_get (sChannels s) i = Some c"
    "chan_ok (set (sSubscribers s)) (sStreamBuffer s) (sNextSubscriber s) i c"
  using assms by (fastforce simp: sub_ok_def heap_ok_def)

lemma drop_subscriber_ok:
  assumes "sub_ok s" "i \<in> set (sSubscribers s)"
  shows "sub_ok (drop_subscriber i s)"
proof -
  obtain c where "map_get (sChannels s) i = Some c" using subscriber_chan [OF assms] .
  then show ?thesis
    using assms heap_close [of _ _ _ "sChannels s" i c]
    by (auto simp: drop_subscriber_def sub_ok_def set_removeAll distinct_removeAll)
qed

lemma offer_ok:
  assumes "sub_ok s" "i \<in> set (sSubscribers s)"
  shows "sub_ok (offer m i s)"
proof -
  obtain c where c: "map_get (sChannels s) i = Some c"
    "chan_ok (set (sSubscribers s)) (sStreamBuffer s) (sNextSubscriber s) i c"
    using subscriber_chan [OF assms] .
  show ?thesis
  proof (cases "length (chBuf c) < chCap c")
    case True
    have "chan_ok (set (sSubscribers s)) (sStreamBuffer s) (sNextSubscriber s) i (chan_send m c)"
      using c(2) True by (simp add: chan_ok_def chan_send_def)
    with True assms c(1) show ?thesis by (simp add: offer_def sub_ok_def heap_put)
  next
    case False
    then have "offer m i s = drop_subscriber i s" using c by (simp add: offer_def drop_subscriber_def)
    with drop_subscriber_ok [OF assms] show ?thesis by simp
  qed
qed

lemma offer_other: "j \<noteq> i \<Longrightarrow> j \<in> set (sSubscribers s) \<Longrightarrow> j \<in> set (sSubscribers (offer m i s))"
  by (simp add: offer_def split: option.split)

lemma fold_offer_ok:
  "sub_ok s \<Longrightarrow> distinct xs \<Longrightarrow> set xs \<subseteq> set (sSubscribers s) \<Longrightarrow> sub_ok (fold (offer m) xs s)"
proof (induction xs arbitrary: s)
  case (Cons i xs)
  have "set xs \<subseteq> set (sSubscribers (offer m i s))"
    using Cons.prems by (intro subsetI offer_other) auto
  with Cons offer_ok [of s i m] show ?case by simp
qed simp

lemma broadcast_sub: "sub_ok s \<Longrightarrow> sub_ok (broadcast m s)"
  using fold_offer_ok [of s "sSubscribers s" m] by (simp add: broadcast_def sub_ok_def)

lemma subscribe_sub:
  assumes "sub_ok s"
  shows "sub_ok (fst (subscribe s))"
proof (cases "sIsClosed s")
  case False
  have "sNextSubscriber s + 1 \<notin> set (sSubscribers s)"
  proof
    assume "sNextSubscriber s + 1 \<in> set (sSubscribers s)"
    from subscriber_chan [OF assms this] show False by (auto simp: chan_ok_def)
  qed
  with False assms heap_new [of "set (sSubscribers s)" "sStreamBuffer s" "sNextSubscriber s" "sChannels s"]
  show ?thesis by (simp add: subscribe_def sub_ok_def Let_def)
qed (use assms in \<open>simp add: subscribe_def\<close>)

lemma receive_sub:
  assumes "sub_ok s" "receive i s = Some (s', m)"
  shows "sub_ok s'"
proof -
  obtain c where c: "map_get (sChannels s) i = Some c"
    using assms(2) by (auto simp: receive_def split: option.splits)
  then have ok: "chan_ok (set (sSubscribers s)) (sStreamBuffer s) (sNextSubscriber s) i c"
    using assms(1) by (simp add: sub_ok_def heap_ok_def)
  show ?thesis
  proof (cases "chBuf c")
    case Nil
    with assms c show ?thesis by (auto simp: receive_def split: if_splits)
  next
    case (Cons y ys)
    then have "chan_ok (set (sSubscribers s)) (sStreamBuffer s) (sNextSubscriber s) i (c\<lparr>chBuf := ys\<rparr>)"
      using ok by (simp add: chan_ok_def)
    with Cons assms c show ?thesis by (auto simp: receive_def sub_ok_def heap_put)
  qed
qed

lemma drop_other: "j \<noteq> i \<Longrightarrow> j \<in> set (sSubscribers s) \<Longrightarrow> j \<in> set (sSubscribers (drop_subscriber i s))"
  by (simp add: drop_subscriber_def split: option.split)

lemma fold_drop_ok:
  "sub_ok s \<Longrightarrow> distinct xs \<Longrightarrow> set xs \<subseteq> set (sSubscribers s) \<Longrightarrow> sub_ok (fold drop_subscriber xs s)"
proof (induction xs arbitrary: s)
  case (Cons i xs)
  have "set xs \<subseteq> set (sSubscribers (drop_subscriber i s))"
    using Cons.prems by (intro subsetI drop_other) auto
  with Cons drop_subscriber_ok [of s i] show ?case by simp
qed simp

lemma fold_drop_all:
  "sub_ok s \<Longrightarrow> distinct xs \<Longrightarrow> set xs \<subseteq> set (sSubscribers s) \<Longrightarrow>
     set (sSubscribers (fold drop_subscriber xs s)) = set (sSubscribers s) - set xs"
proof (induction xs arbitrary: s)
  case (Cons i xs)
  obtain c where "map_get (sChannels s) i = Some c"
    using subscriber_chan [of s i] Cons.prems by auto
  then have "set (sSubscribers (drop_subscriber i s)) = set (sSubscribers s) - {i}"
    by (simp add: drop_subscriber_def)
  moreover have "set xs \<subseteq> set (sSubscribers (drop_subscriber i s))"
    using Cons.prems by (intro subsetI drop_other) auto
  moreover have "sub_ok (drop_subscriber i s)" using drop_subscriber_ok [of s i] Cons.prems by simp
  ultimately show ?case using Cons.IH [of "drop_subscriber i s"] Cons.prems by auto
qed simp

lemma drop_fields [simp]:
  "sIsClosed (drop_subscriber i s) = sIsClosed s"
  by (simp add: drop_subscriber_def split: option.split)

lemma fold_drop_closed [simp]: "sIsClosed (fold drop_subscriber xs s) = sIsClosed s"
  by (induction xs arbitrary: s) auto

subsection \<open>Every critical section\<close>

lemma subs_updates [simp]:
  "subs (s\<lparr>sDropped := n\<rparr>) = subs s" "subs (s\<lparr>sNextCursor := n\<rparr>) = subs s"
  "subs (s\<lparr>sStorageIssued := n\<rparr>) = subs s" "subs (s\<lparr>sEntries := a\<rparr>) = subs s"
  "subs (s\<lparr>sOrder := b\<rparr>) = subs s" "subs (s\<lparr>sBytes := c\<rparr>) = subs s"
  by (simp_all add: subs_def)

lemma subs_batch [simp]: "subs (fst (storageBatchLocked rs s)) = subs s"
  by (simp add: storageBatch_eq)

lemma batch_sub: "sub_ok s \<Longrightarrow> sub_ok (fst (storageBatchLocked rs s))"
  using sub_ok_cong [OF subs_batch] by blast

lemma purge_subs: "store_inv s \<Longrightarrow> subs (fst (purgeExpired now s)) = subs s"
  using purge_spec [of s now] subs_rest by (metis fst_conv)

lemma put_sub:
  assumes ok: "sub_ok s" and inv: "store_inv s"
  shows "sub_ok (fst (put now e s))"
proof (cases "sIsClosed s")
  case True
  then show ?thesis using ok by (simp add: put_closed)
next
  case False
  obtain s1 where s1: "purgeExpired now s = (s1, deletes (stale now s))" "store_inv s1" "rest s1 = rest s"
    using purge_spec [OF inv, of now] by metis
  have ok1: "sub_ok s1" using ok sub_ok_cong [OF subs_rest [OF s1(3)]] by simp
  show ?thesis
  proof (cases "entrySize e > sMaxBytes s1")
    case True
    have "sub_ok (s1\<lparr>sDropped := sDropped s1 + 1\<rparr>)"
      using ok1 sub_ok_cong [OF subs_updates(1)] by blast
    from batch_sub [OF broadcast_sub [OF this]] show ?thesis
      using False True s1(1) by (simp add: put_def Let_def case_prod_beta)
  next
    case small: False
    let ?e = "e\<lparr>eCursor := sNextCursor s1 + 1\<rparr>"
    let ?s1 = "s1\<lparr>sNextCursor := sNextCursor s1 + 1\<rparr>"
    have "store_inv ?s1" using s1(2) by simp
    note ins = insert_entry_spec [OF this, of ?e]
    obtain s3 k where s3: "evict (insert_entry ?e ?s1) = (s3, deletes (take k (view (insert_entry ?e ?s1))))"
      "rest s3 = rest (insert_entry ?e ?s1)"
      using evict_spec [OF ins(1)] by blast
    have "subs s3 = subs s1"
      using subs_rest [OF s3(2)] subs_rest [OF ins(3)] by simp
    then have "sub_ok s3" using ok1 sub_ok_cong by blast
    from batch_sub [OF broadcast_sub [OF this]] show ?thesis
      using False small s1(1) s3(1) by (simp add: put_def Let_def case_prod_beta)
  qed
qed

lemma drop_mark_closed:
  "drop_subscriber i (t\<lparr>sIsClosed := True\<rparr>) = (drop_subscriber i t)\<lparr>sIsClosed := True\<rparr>"
  by (cases t) (simp add: drop_subscriber_def split: option.split)

lemma mem_step_sub:
  assumes ok: "sub_ok s" and inv: "store_inv s"
  shows "sub_ok (fst (mem_step m s))"
proof (cases m)
  case (MPut now e)
  then show ?thesis using put_sub [OF ok inv, of now e] by (simp add: case_prod_beta)
next
  case MClear
  let ?s = "s\<lparr>sEntries := [], sOrder := order_reset (sOrder s), sBytes := 0, sNextCursor := sNextCursor s + 1\<rparr>"
  have "subs ?s = subs s" by simp
  then have "sub_ok ?s" using ok sub_ok_cong by blast
  from batch_sub [OF broadcast_sub [OF this]] show ?thesis
    using MClear by (simp add: clear_def Let_def)
next
  case (MQuery now)
  have "sub_ok (fst (purgeExpired now s))" using ok sub_ok_cong [OF purge_subs [OF inv]] by blast
  from batch_sub [OF this] show ?thesis using MQuery by (simp add: purged_def case_prod_beta)
next
  case MSubscribe
  then show ?thesis using subscribe_sub [OF ok] by simp
next
  case (MUnsubscribe i)
  then show ?thesis using drop_subscriber_ok [OF ok] ok by (simp add: unsubscribe_def)
next
  case (MReceive i)
  then show ?thesis using receive_sub [OF ok] ok by (auto split: option.splits)
next
  case MClose
  show ?thesis
  proof (cases "sIsClosed s")
    case True
    then show ?thesis using MClose ok by (simp add: close_store_def)
  next
    case False
    have d: "distinct (sSubscribers s)" using ok by (simp add: sub_ok_def)
    have "sub_ok (fold drop_subscriber (sSubscribers s) s)"
      "set (sSubscribers (fold drop_subscriber (sSubscribers s) s)) = {}"
      using fold_drop_ok [OF ok d] fold_drop_all [OF ok d] by simp_all
    moreover have "fold drop_subscriber xs (t\<lparr>sIsClosed := True\<rparr>) = (fold drop_subscriber xs t)\<lparr>sIsClosed := True\<rparr>"
      for xs and t :: "'a entryStore"
      by (induction xs arbitrary: t) (simp_all add: drop_mark_closed)
    ultimately show ?thesis
      using False MClose by (simp add: close_store_def close_subscribers_def sub_ok_def)
  qed
qed

lemma run_sub: "sub_ok s \<Longrightarrow> store_ok s \<Longrightarrow> sub_ok (run ms s)"
proof (induction ms arbitrary: s)
  case (Cons m ms)
  then show ?case
    using mem_step_sub [of s m] store_ok_inv [of s] mem_step_frame [of s m] by (simp add: run_def)
qed (simp add: run_def)

lemma reached_sub: "sub_ok (reached ms opts)"
  unfolding reached_def
  by (intro run_sub emptyStore_ok configured_ok)
    (simp add: emptyStore_def sub_ok_def heap_ok_def)

text \<open>
  C10. After any run of the store, no subscriber channel has been closed twice and no subscriber
  holds a closed one: the channel of every current subscriber is open, the channel of every
  former subscriber has been closed exactly once, no buffer holds more messages than its
  capacity, and a closed store has no subscribers.
\<close>
theorem subscriber_channels_safe:
  "let s = reached ms opts
   in list_all (\<lambda>(i, c). chCloses c = (if i \<in> set (sSubscribers s) then 0 else 1) \<and>
        length (chBuf c) \<le> chCap c) (sChannels s) \<and>
      distinct (sSubscribers s) \<and> set (sSubscribers s) \<subseteq> fst ` set (sChannels s) \<and>
      (if sIsClosed s then sSubscribers s = [] else True)"
proof -
  let ?s = "reached ms opts"
  have ok: "heap_ok (set (sSubscribers ?s)) (sStreamBuffer ?s) (sNextSubscriber ?s) (sChannels ?s)"
    "distinct (sSubscribers ?s)" "if sIsClosed ?s then sSubscribers ?s = [] else True"
    using reached_sub [of ms opts] by (simp_all add: sub_ok_def)
  have gm: "go_map (sChannels ?s)" using ok(1) by (simp add: heap_ok_def)
  have "chCloses c = (if i \<in> set (sSubscribers ?s) then 0 else 1) \<and> length (chBuf c) \<le> chCap c"
    if "(i, c) \<in> set (sChannels ?s)" for i c
  proof -
    have "chan_ok (set (sSubscribers ?s)) (sStreamBuffer ?s) (sNextSubscriber ?s) i c"
      using ok(1) in_set_map_get [OF gm that] by (simp add: heap_ok_def)
    then show ?thesis by (simp add: chan_ok_def)
  qed
  moreover have "set (sSubscribers ?s) \<subseteq> fst ` set (sChannels ?s)"
    using ok(1) map_get_Some_iff [of "sChannels ?s"] by (auto simp: heap_ok_def)
  ultimately show ?thesis using ok(2,3) by (auto simp: Let_def list_all_iff)
qed

lemma offer_get:
  "map_get (sChannels s) i = Some c \<Longrightarrow>
     map_get (sChannels (offer m i s)) j =
       (if j = i then Some (if length (chBuf c) < chCap c then chan_send m c else chan_close c)
        else map_get (sChannels s) j)"
  by (simp add: offer_def)

lemma offer_keeps:
  "map_get (sChannels s) i = Some c \<Longrightarrow> j \<noteq> i \<Longrightarrow> j \<in> set (sSubscribers (offer m i s)) \<longleftrightarrow> j \<in> set (sSubscribers s)"
  by (simp add: offer_def)

lemma offer_self:
  "map_get (sChannels s) i = Some c \<Longrightarrow> i \<in> set (sSubscribers s) \<Longrightarrow>
     i \<in> set (sSubscribers (offer m i s)) \<longleftrightarrow> length (chBuf c) < chCap c"
  by (simp add: offer_def)

lemma fold_offer_notin:
  "j \<notin> set xs \<Longrightarrow> map_get (sChannels (fold (offer m) xs s)) j = map_get (sChannels s) j \<and>
     (j \<in> set (sSubscribers (fold (offer m) xs s)) \<longleftrightarrow> j \<in> set (sSubscribers s))"
proof (induction xs arbitrary: s)
  case (Cons i xs)
  then show ?case by (simp add: offer_def split: option.split)
qed simp

lemma fold_offer_in:
  "j \<in> set xs \<Longrightarrow> distinct xs \<Longrightarrow> map_get (sChannels s) j = Some c \<Longrightarrow> j \<in> set (sSubscribers s) \<Longrightarrow>
     map_get (sChannels (fold (offer m) xs s)) j =
       Some (if length (chBuf c) < chCap c then chan_send m c else chan_close c) \<and>
     (j \<in> set (sSubscribers (fold (offer m) xs s)) \<longleftrightarrow> length (chBuf c) < chCap c)"
proof (induction xs arbitrary: s)
  case (Cons i xs)
  show ?case
  proof (cases "j = i")
    case True
    then have "j \<notin> set xs" using Cons.prems by simp
    from fold_offer_notin [OF this, of m "offer m i s"] Cons.prems True show ?thesis
      by (simp add: offer_get offer_self)
  next
    case False
    then have "map_get (sChannels (offer m i s)) j = Some c" "j \<in> set (sSubscribers (offer m i s))"
      using Cons.prems by (simp_all add: offer_def split: option.split)
    with Cons False show ?thesis by simp
  qed
qed simp

text \<open>
  A broadcast in any reachable store treats each subscriber on its own: one whose buffer
  has room receives the message as the last one buffered and stays subscribed, one whose
  buffer is full is unsubscribed and its channel closed with the buffered messages still in
  it, and every channel of a former subscriber stays as it is.  No subscriber can slow down
  or lose messages of another.
\<close>
theorem broadcast_isolates_subscribers:
  "let s = reached ms opts; s' = broadcast m s
   in map (\<lambda>i. (map_get (sChannels s') i, i \<in> set (sSubscribers s'))) (map fst (sChannels s)) =
      map (\<lambda>(i, c). if i \<in> set (sSubscribers s)
             then (if length (chBuf c) < chCap c then (Some (c\<lparr>chBuf := chBuf c @ [m]\<rparr>), True)
                   else (Some (c\<lparr>chCloses := 1\<rparr>), False))
             else (Some c, False)) (sChannels s)"
proof -
  let ?s = "reached ms opts"
  have ok: "sub_ok ?s" by (rule reached_sub)
  have gm: "go_map (sChannels ?s)" and d: "distinct (sSubscribers ?s)"
    using ok by (simp_all add: sub_ok_def heap_ok_def)
  have "(map_get (sChannels (broadcast m ?s)) i, i \<in> set (sSubscribers (broadcast m ?s))) =
      (if i \<in> set (sSubscribers ?s)
       then (if length (chBuf c) < chCap c then (Some (c\<lparr>chBuf := chBuf c @ [m]\<rparr>), True)
             else (Some (c\<lparr>chCloses := 1\<rparr>), False))
       else (Some c, False))"
    if p: "(i, c) \<in> set (sChannels ?s)" for i c
  proof -
    have g: "map_get (sChannels ?s) i = Some c" by (rule in_set_map_get [OF gm p])
    show ?thesis
    proof (cases "i \<in> set (sSubscribers ?s)")
      case True
      then have "chCloses c = 0" using ok g by (simp add: sub_ok_def heap_ok_def chan_ok_def)
      then show ?thesis using fold_offer_in [OF True d g True, of m] True
        by (simp add: broadcast_def chan_send_def chan_close_def)
    next
      case False
      then show ?thesis using fold_offer_notin [OF False, of m ?s] g by (simp add: broadcast_def)
    qed
  qed
  then show ?thesis by (auto simp: Let_def)
qed


end
