(* ===== verification/StoreRestart.thy ===== *)
theory StoreRestart
  imports StoreSubscribers
begin

text \<open>
  What a restart finds: the journal of a store that runs under concurrency, a journal whose
  last line was cut short, and the two ways an external storage or a cursor is lost.
\<close>

subsection \<open>A fresh journal\<close>

definition journalConfig :: "string \<Rightarrow> ('w, 'x) Opt list \<Rightarrow> ('w, 'x) config" where
  "journalConfig path opts = configured (opts @ [OStoragePath path])"

lemma journalConfig_fields:
  "trim_space path \<noteq> [] \<Longrightarrow> cStorage (journalConfig path opts) = None \<and>
     cStoragePath (journalConfig path opts) = trim_space path \<and>
     cStorageKind (journalConfig path opts) = storageKindJournal"
  by (simp add: journalConfig_def configured_def WithStoragePath_def Let_def)

lemma emptyStore_inv: "store_inv (emptyStore c)" "view (emptyStore c) = []"
proof -
  show v: "view (emptyStore c) = []" by (simp add: emptyStore_def view_def)
  show "store_inv (emptyStore c)"
    by (simp add: store_inv_def v) (simp add: emptyStore_def)
qed

lemma purge_nothing: "store_inv s \<Longrightarrow> view s = [] \<Longrightarrow> purgeExpired now s = (s, [])"
  by (simp add: purgeExpired.simps [of now s] order_len_view del: order_len_list)

lemma evict_nothing: "fits (sMaxEvents s) (sMaxBytes s) (view s) \<Longrightarrow> store_inv s \<Longrightarrow> evict s = (s, [])"
  by (simp add: evict.simps [of s] order_len_view fits_def bytes_view total_size_def del: order_len_list)

lemma new_journal:
  assumes "trim_space path \<noteq> []"
  shows "newEntryStore es open_ok now (journalConfig path opts) [] =
    ((emptyStore (journalConfig path opts))\<lparr>sStorageFile := OpenFile\<rparr>, [])"
proof -
  let ?c = "journalConfig path opts" and ?s = "emptyStore (journalConfig path opts)"
  note c = journalConfig_fields [OF assms, of opts]
  have ok: "store_ok ?s" unfolding journalConfig_def by (intro emptyStore_ok configured_ok)
  then have "fits (sMaxEvents ?s) (sMaxBytes ?s) (view ?s)" by (simp add: store_ok_def)
  then have ev: "evict ?s = (?s, [])" by (intro evict_nothing emptyStore_inv)
  have pu: "purgeExpired now ?s = (?s, [])" by (intro purge_nothing emptyStore_inv)
  have "sStorageBytes ?s = 0" "sStorageKind ?s = storageKindJournal" "sStorage ?s = None" "sStoragePath ?s = trim_space path"
    using c by (simp_all add: emptyStore_def)
  then show ?thesis
    using assms by (simp add: newEntryStore_def openStorage_def openJournalStorage_def open_ok_def pu ev
        journal_size_def)
qed

lemma new_journal_ok:
  assumes "trim_space path \<noteq> []"
  shows "numbering_ok (Sys ((emptyStore (journalConfig path opts))\<lparr>sStorageFile := OpenFile\<rparr>) [] [] None)"
    "journal_ok (Sys ((emptyStore (journalConfig path opts))\<lparr>sStorageFile := OpenFile\<rparr>) [] [] None)"
proof -
  let ?s = "emptyStore (journalConfig path opts)"
  let ?t = "?s\<lparr>sStorageFile := OpenFile\<rparr>"
  note c = journalConfig_fields [OF assms, of opts]
  have ok: "store_ok ?s" unfolding journalConfig_def by (intro emptyStore_ok configured_ok)
  have f: "front ?t = front ?s" by simp
  have v: "store_ok ?t" "view ?t = []"
    using front_window [OF f] ok emptyStore_inv(2) by simp_all
  show "numbering_ok (Sys ?t [] [] None)"
    using v by (simp add: numbering_ok_def) (simp add: emptyStore_def)
  show "journal_ok (Sys ?t [] [] None)"
    using v c by (simp add: journal_ok_def outstanding_def active_records_def) (simp add: emptyStore_def)
qed

lemma replay_empty: "view (fst (replay_journal d (emptyStore c) [])) = apply_records (good_records d) []"
  using replay_journal_spec [OF emptyStore_inv(1), of d c "[]"] emptyStore_inv(2) [of c] by auto

text \<open>
  C1. Crash consistency of the journal.  Start a store on a fresh journal and let recordings,
  clears, queries and subscriptions interleave in any way with the writing of the numbered
  batches, including compactions that take their snapshot while later batches still wait.
  As long as writes succeed, at every moment the entries a restart would replay from the file,
  followed by the records not yet written, are exactly the retained entries, in their order;
  once nothing is waiting, the replay alone gives them.
\<close>
theorem journal_recovers:
  assumes "trim_space path \<noteq> []"
    and "newEntryStore es open_ok now (journalConfig path opts) [] = (s0, d0)"
    and "sys_reach es ((=) io_ok) (Sys s0 d0 [] None) (Sys s d p a)"
  shows "apply_records (active_records a @ concat (map sbRecords p))
      (view (fst (replay_journal d (emptyStore (journalConfig path opts)) []))) = view s"
proof -
  have "s0 = (emptyStore (journalConfig path opts))\<lparr>sStorageFile := OpenFile\<rparr>" "d0 = []"
    using assms(2) new_journal [OF assms(1), of es now opts] by simp_all
  with journal_reach [OF assms(3)] new_journal_ok [OF assms(1), of opts]
  have "journal_ok (Sys s d p a)" by simp
  then show ?thesis unfolding replay_empty by (simp add: journal_ok_def outstanding_def)
qed

definition idleStorage :: "unit EntryStorage" where
  "idleStorage = \<lparr>esName = (\<lambda>_. ''idle''), esLoad = (\<lambda>_. ([], 0, None)),
     esPut = (\<lambda>x _ _. (x, None)), esDelete = (\<lambda>x _. (x, None)), esClear = (\<lambda>x _. (x, None)),
     esClose = (\<lambda>x. (x, None))\<rparr>"

lemma trim_example: "trim_space ''w.log'' \<noteq> []"
  by (simp add: trim_space_def trim_by_def is_space_def byte_def)

lemma journal_recovers_witness:
  "\<exists>s b. sys_reach idleStorage ((=) io_ok)
      (Sys ((emptyStore (journalConfig ''w.log'' ([] :: (unit, unit) Opt list)))\<lparr>sStorageFile := OpenFile\<rparr>) [] [] None)
      (Sys s [] [b] None) \<and>
    sbRecords b = [clearRecord 1] \<and>
    apply_records (active_records None @ concat (map sbRecords [b]))
      (view (fst (replay_journal [] (emptyStore (journalConfig ''w.log'' ([] :: (unit, unit) Opt list))) []))) = view s"
proof -
  let ?c = "journalConfig ''w.log'' ([] :: (unit, unit) Opt list)"
  let ?s = "(emptyStore ?c)\<lparr>sStorageFile := OpenFile\<rparr>"
  note new = new_journal [OF trim_example, of idleStorage 0 "[] :: (unit, unit) Opt list"]
  have ok: "store_ok ?s" using new_journal_ok(1) [OF trim_example, of "[] :: (unit, unit) Opt list"] by (simp add: numbering_ok_def)
  have st: "storing ?s" "sNextCursor ?s = 0"
    using journalConfig_fields [OF trim_example, of "[] :: (unit, unit) Opt list"]
    by (simp_all add: storing_def emptyStore_def)
  obtain s' where s': "clear ?s = (s', batch_for ?s [clearRecord (sNextCursor ?s + 1)])"
    using clear_spec [OF store_ok_inv [OF ok]] by metis
  define b where "b = batch_for ?s [clearRecord 1]"
  have b: "sbRecords b = [clearRecord 1]" "sbSequence b \<noteq> 0" using st by (simp_all add: b_def batch_for_def)
  have "sys_step idleStorage ((=) io_ok) (Sys ?s [] [] None)
      (Sys s' [] (if sbSequence b = 0 then [] else [] @ [b]) None)"
    by (rule sys_step.critical [of MClear]) (use s' st in \<open>simp_all add: b_def\<close>)
  then have r: "sys_reach idleStorage ((=) io_ok) (Sys ?s [] [] None) (Sys s' [] [b] None)"
    using b(2) by (auto intro: sys_reach.intros)
  from journal_recovers [OF trim_example new r] r b(1) show ?thesis by blast
qed

subsection \<open>A line cut short\<close>

text \<open>
  C9. A journal whose writing was interrupted inside a line, at the end of the file or followed
  by anything, is repaired at the next start: the file is truncated to the readable records
  before the damage, the store holds what these records give once expired entries and those
  over the limits have left, the journal is open for writing, and the damage is reported in
  the storage error.
\<close>
theorem torn_journal_repaired:
  "let c = journalConfig ''w.log'' opts;
       (s, d) = openJournalStorage open_ok now (emptyStore c) (map Line rs @ Torn n # junk);
       replayed = apply_records rs []
   in d = map Line rs \<and> sStorageFile s = OpenFile \<and>
      view s = trim_window (cMaxEvents c) (cMaxBytes c)
        (dropWhile (\<lambda>e. eRecordedAt e < now - cRetention c) replayed) \<and>
      sStorageError s = ''could not fully replay storage journal: unexpected EOF''"
proof -
  let ?c = "journalConfig ''w.log'' opts"
  let ?d = "map Line rs @ Torn n # junk"
  have good: "good_records ?d = rs"
    by (induction rs) (simp_all add: good_records_def)
  obtain s1 where s1: "replay_journal ?d (emptyStore ?c) [] = (s1, map Line rs, True)"
    "store_inv s1" "view s1 = apply_records rs []" "conf s1 = conf (emptyStore ?c)"
    using replay_journal_spec [OF emptyStore_inv(1), of ?d ?c "[]"] good emptyStore_inv(2) [of ?c]
    by (auto simp: list_all_iff)
  define s2 where "s2 = s1\<lparr>sStorageError := ''could not fully replay storage journal: unexpected EOF''\<rparr>"
  have f2: "front s2 = front s1" by (simp add: s2_def)
  have inv2: "store_inv s2" "view s2 = apply_records rs []"
    using front_window [OF f2] s1 by simp_all
  have cf: "sRetention s2 = cRetention ?c" "sMaxEvents s2 = cMaxEvents ?c" "sMaxBytes s2 = cMaxBytes ?c"
    using s1(4) by (simp_all add: s2_def conf_def emptyStore_def)
  obtain s3 where s3: "purgeExpired now s2 = (s3, deletes (stale now s2))" "store_inv s3"
    "view s3 = live now s2" "rest s3 = rest s2"
    using purge_spec [OF inv2(1), of now] by metis
  obtain s4 k where s4: "evict s3 = (s4, deletes (take k (view s3)))" "view s4 = drop k (view s3)"
    "drop k (view s3) = trim_window (sMaxEvents s3) (sMaxBytes s3) (view s3)" "rest s4 = rest s3"
    using evict_spec [OF s3(2)] by blast
  have r4: "sStorageError s4 = sStorageError s2" "sMaxEvents s3 = cMaxEvents ?c" "sMaxBytes s3 = cMaxBytes ?c"
    using rest_fields [OF s4(4)] rest_fields [OF s3(4)] cf by simp_all
  have "openJournalStorage open_ok now (emptyStore ?c) ?d =
      (s4\<lparr>sStorageFile := OpenFile, sStorageBytes := int (journal_size (map Line rs))\<rparr>, map Line rs)"
    using s1(1) s3(1) s4(1) by (simp add: openJournalStorage_def open_ok_def Let_def s2_def)
  moreover have "view (s4\<lparr>sStorageFile := OpenFile, sStorageBytes := int (journal_size (map Line rs))\<rparr>) = view s4"
    by (rule view_cong) simp_all
  moreover have "view s4 = trim_window (cMaxEvents ?c) (cMaxBytes ?c)
        (dropWhile (\<lambda>e. eRecordedAt e < now - cRetention ?c) (apply_records rs []))"
    using s4(2,3) s3(3) inv2(2) cf(1) r4 by (simp add: live_def expired_def [abs_def])
  ultimately show ?thesis using r4(1) by (simp add: Let_def s2_def)
qed

subsection \<open>Draining\<close>

lemma sys_reach_trans: "sys_reach es P y z \<Longrightarrow> sys_reach es P x y \<Longrightarrow> sys_reach es P x z"
  by (induction rule: sys_reach.induct) (auto intro: sys_reach.step)

lemma sys_reach_one: "sys_step es P x y \<Longrightarrow> sys_reach es P x y"
  by (auto intro: sys_reach.intros)

lemma drain_active:
  assumes "P io"
  shows "\<exists>t d'. sys_reach es P (Sys s d p (Some (n, rs, err))) (Sys t d' p None) \<and>
    front t = front s \<and> sStorageDone t = n"
proof (induction rs arbitrary: s d err)
  case Nil
  have "sys_step es P (Sys s d p (Some (n, [], err))) (Sys (setStorageError err (s\<lparr>sStorageDone := n\<rparr>)) d p None)"
    by (rule sys_step.finish)
  then show ?case by (intro exI conjI, rule sys_reach_one) simp_all
next
  case (Cons r rs)
  obtain s1 d1 e where w: "persistRecord es io r s d = (s1, d1, e)" by (meson prod_cases3)
  then have st: "sys_step es P (Sys s d p (Some (n, r # rs, err))) (Sys s1 d1 p (Some (n, rs, join_errors err e)))"
    using assms by (intro sys_step.write_record)
  obtain t d' where t: "sys_reach es P (Sys s1 d1 p (Some (n, rs, join_errors err e))) (Sys t d' p None)"
    "front t = front s1" "sStorageDone t = n"
    using Cons.IH by blast
  with sys_reach_trans [OF t(1) sys_reach_one [OF st]] persistRecord_front [OF w] show ?case
    by auto
qed

lemma drain_pending:
  assumes "P io"
  shows "numbering_ok (Sys s d p None) \<Longrightarrow> \<exists>t d'. sys_reach es P (Sys s d p None) (Sys t d' [] None) \<and>
    front t = front s \<and> sStorageDone t = sStorageIssued s"
proof (induction p arbitrary: s d)
  case Nil
  then have "sStorageDone s = sStorageIssued s" by (auto simp: numbering_ok_def split: if_splits)
  then show ?case using sys_reach.start by blast
next
  case (Cons b p)
  have "sbSequence b = sStorageDone s + 1"
  proof -
    have "[sStorageDone s + 1..<sStorageIssued s + 1] = sbSequence b # map sbSequence p"
      using Cons.prems by (simp add: numbering_ok_def)
    then show ?thesis by (simp add: upt_eq_Cons_conv del: upt_Suc)
  qed
  then have st: "sys_step es P (Sys s d (b # p) None) (Sys s d p (Some (sbSequence b, sbRecords b, None)))"
    using sys_step.take_turn [of b "b # p" s es P d] by simp
  obtain t d' where t: "sys_reach es P (Sys s d p (Some (sbSequence b, sbRecords b, None))) (Sys t d' p None)"
    "front t = front s" "sStorageDone t = sbSequence b"
    using drain_active [of P io, OF assms] by blast
  have reach: "sys_reach es P (Sys s d (b # p) None) (Sys t d' p None)"
    using sys_reach_trans [OF t(1) sys_reach_one [OF st]] .
  have "numbering_ok (Sys t d' p None)" by (rule numbering_reach [OF reach Cons.prems])
  from Cons.IH [OF this] obtain u d'' where "sys_reach es P (Sys t d' p None) (Sys u d'' [] None)"
    "front u = front t" "sStorageDone u = sStorageIssued t" by blast
  then show ?case
    using sys_reach_trans [OF _ reach] t(2) front_fields(9) [OF t(2)] by metis
qed

text \<open>
  C8. Shutting down cannot hang on storage.  In every reachable state of a journalled store,
  whatever the writes answer, errors included, the waiting batches carry the numbers that
  follow the last finished one without a gap, so the writers can always go on by themselves
  to a state in which nothing waits and the finished number has caught up with the issued
  one, which is what \<open>close\<close> waits for; the retained entries are the same there.
\<close>
theorem storage_drains:
  assumes "trim_space path \<noteq> []" and "P io"
    and "newEntryStore es open_ok now (journalConfig path opts) [] = (s0, d0)"
    and "sys_reach es P (Sys s0 d0 [] None) (Sys s d p a)"
  shows "\<exists>t d'. sys_reach es P (Sys s d p a) (Sys t d' [] None) \<and>
    sStorageDone t = sStorageIssued s \<and> view t = view s"
proof -
  have "s0 = (emptyStore (journalConfig path opts))\<lparr>sStorageFile := OpenFile\<rparr>" "d0 = []"
    using assms(3) new_journal [OF assms(1), of es now opts] by simp_all
  then have num: "numbering_ok (Sys s d p a)"
    using numbering_reach [OF assms(4)] new_journal_ok(1) [OF assms(1), of opts] by simp
  show ?thesis
  proof (cases a)
    case None
    then show ?thesis
      using drain_pending [of P io s d p es, OF assms(2)] num front_window by blast
  next
    case (Some act)
    obtain n rs err where act: "act = (n, rs, err)" by (metis prod_cases3)
    obtain t d' where t: "sys_reach es P (Sys s d p a) (Sys t d' p None)" "front t = front s"
      using drain_active [of P io es s d p n rs err, OF assms(2)] Some act by blast
    obtain u d'' where "sys_reach es P (Sys t d' p None) (Sys u d'' [] None)" "front u = front t"
      "sStorageDone u = sStorageIssued t"
      using drain_pending [of P io t d' p es, OF assms(2) numbering_reach [OF t(1) num]] by blast
    then show ?thesis
      using sys_reach_trans [OF _ t(1)] t(2) front_fields(9) [OF t(2)] front_window by metis
  qed
qed

lemma storage_drains_witness:
  "\<exists>t d'. sys_reach idleStorage (\<lambda>_. True)
      (Sys ((emptyStore (journalConfig ''w.log'' ([] :: (unit, unit) Opt list)))\<lparr>sStorageFile := OpenFile\<rparr>) [] [] None)
      (Sys t d' [] None) \<and>
    sStorageDone t = sStorageIssued ((emptyStore (journalConfig ''w.log'' ([] :: (unit, unit) Opt list)))\<lparr>sStorageFile := OpenFile\<rparr>) \<and>
    view t = view ((emptyStore (journalConfig ''w.log'' ([] :: (unit, unit) Opt list)))\<lparr>sStorageFile := OpenFile\<rparr>)"
  by (rule storage_drains [OF trim_example TrueI
      new_journal [OF trim_example, of idleStorage 0 "[] :: (unit, unit) Opt list"] sys_reach.start])

subsection \<open>Two gaps\<close>

text \<open>
  Clearing a journalled store loses its cursor.  In any reachable state with an open
  journal and nothing waiting, clearing advances the cursor and writing the batch leaves an
  empty file; a store started on that file begins again with cursor zero, although the
  running one has moved on.
\<close>
theorem cleared_journal_forgets_cursor:
  "let c = journalConfig ''w.log'' opts; s = (run ms (emptyStore c))\<lparr>sStorageFile := OpenFile\<rparr>;
       (s1, batch) = clear s
   in case persist es [] (batch\<lparr>sbSequence := sStorageDone s1 + 1\<rparr>) s1 d of
        None \<Rightarrow> False
      | Some (s2, d2) \<Rightarrow> d2 = [] \<and> sNextCursor s2 = sNextCursor s + 1 \<and>
          sNextCursor (fst (newEntryStore es open_ok now c d2)) = 0"
proof -
  let ?c = "journalConfig ''w.log'' opts"
  let ?r = "run ms (emptyStore ?c)"
  let ?s = "?r\<lparr>sStorageFile := OpenFile\<rparr>"
  have ok0: "store_ok (emptyStore ?c)" unfolding journalConfig_def by (intro emptyStore_ok configured_ok)
  have kind: "sStorageKind ?s = storageKindJournal"
    using run_backend [OF ok0, of ms] journalConfig_fields [OF trim_example, of opts]
    by (simp add: backend_def emptyStore_def)
  have f: "front ?s = front ?r" by simp
  have ok: "store_ok ?s" using front_window [OF f] run_ok [OF ok0, of ms] by blast
  have st: "storing ?s" using kind by (simp add: storing_def)
  obtain s1 where s1: "clear ?s = (s1, batch_for ?s [clearRecord (sNextCursor ?s + 1)])"
    "store_inv s1" "view s1 = []" "conf s1 = conf ?s" "sNextCursor s1 = sNextCursor ?s + 1"
    using clear_spec [OF store_ok_inv [OF ok]] by metis
  have b: "batch_for ?s [clearRecord (sNextCursor ?s + 1)] =
      \<lparr>sbSequence = sStorageIssued ?s + 1, sbRecords = [clearRecord (sNextCursor ?s + 1)]\<rparr>"
    using st by (simp add: batch_for_def)
  have main: "(batch_for ?s [clearRecord (sNextCursor ?s + 1)])\<lparr>sbSequence := sStorageDone s1 + 1\<rparr> =
      \<lparr>sbSequence = sStorageDone s1 + 1, sbRecords = [clearRecord (sNextCursor ?s + 1)]\<rparr>"
    unfolding b by simp
  have c1: "sStorageFile s1 = OpenFile" "sStorageKind s1 = storageKindJournal"
    using s1(4) kind by (simp_all add: conf_def)
  obtain s2 d2 where ap: "appendJournal io_ok (clearRecord (sNextCursor ?s + 1)) s1 d = (s2, d2, None)"
    "sStorageFile s2 = OpenFile"
    using appendJournal_ok [OF s1(2) c1(1), of "clearRecord (sNextCursor ?s + 1)" d] by blast
  have f2: "front s2 = front s1" using appendJournal_front [OF ap(1)] by simp
  have "store_inv s2" "view s2 = []" using front_window [OF f2] s1(2,3) by simp_all
  then obtain s3 where s3: "compactJournal io_ok s2 d2 = (s3, [], None)"
    using compactJournal_ok [of s2 d2] ap(2) by auto
  have f3: "front s3 = front s2" using compactJournal_front [OF s3] by simp
  have "sNextCursor s3 = sNextCursor ?s + 1"
    using front_fields(4) [OF f3] front_fields(4) [OF f2] s1(5) by simp
  moreover have "persist es [] (\<lparr>sbSequence = sStorageDone s1 + 1, sbRecords = [clearRecord (sNextCursor ?s + 1)]\<rparr>) s1 d =
      Some (setStorageError None (s3\<lparr>sStorageDone := sStorageDone s1 + 1\<rparr>), [])"
    using ap(1) s3 c1 by (simp add: persist_def persistRecord_def clearRecord_def join_errors_def)
  moreover have "sNextCursor (fst (newEntryStore es open_ok now ?c [])) = 0"
    unfolding new_journal [OF trim_example] by (simp add: emptyStore_def)
  ultimately show ?thesis
    unfolding Let_def s1(1) prod.case main by (simp add: setStorageError_def)
qed


end
