(* ===== verification/Capture.thy ===== *)
theory Capture
  imports StoreRestart
begin

text \<open>
  Recording: \<open>profiler.go\<close>, \<open>context.go\<close>, \<open>request.go\<close>, \<open>query_callsite.go\<close> and the filters of
  \<open>capture_rules.go\<close>.

  What the program obtains from outside (random ids, the clock, random samples, the call
  stack) comes from streams indexed by a counter that every use advances.  A
  \<open>RequestCapture\<close> is shared by reference, so captures live in a heap of the profiler and a
  context refers to one by its number.  A context is the chain of the values the program
  itself puts into it.  The batches the store issues are collected in \<open>pBatches\<close>, in the
  order they were issued; StoreSystem describes how they are written.
\<close>

subsection \<open>State\<close>

record RequestCapture =
  rcRequest :: Request
  rcBound :: bool
  rcFinished :: bool

record rawFrame =
  rfFunction :: string
  rfFile :: string
  rfLine :: int

record ('w, 'x) Profiler =
  pConfig :: "('w, 'x) config"
  pStore :: "'x entryStore"
  pIsDefault :: bool
  pBatches :: "storageBatch list"
  pRemaining :: int
  pCaptures :: "(nat \<times> RequestCapture) list"
  pNextCapture :: nat
  pIDs :: "nat \<Rightarrow> string"
  pClock :: "nat \<Rightarrow> instant"
  pSamples :: "nat \<Rightarrow> nat option"
  pStack :: "nat \<Rightarrow> rawFrame list"
  pTick :: nat

definition tick :: "('w, 'x) Profiler \<Rightarrow> ('w, 'x) Profiler" where
  "tick p = p\<lparr>pTick := pTick p + 1\<rparr>"

definition newID :: "('w, 'x) Profiler \<Rightarrow> ('w, 'x) Profiler \<times> string" where
  "newID p = (tick p, pIDs p (pTick p))"

definition clock_now :: "('w, 'x) Profiler \<Rightarrow> ('w, 'x) Profiler \<times> instant" where
  "clock_now p = (tick p, pClock p (pTick p))"

subsection \<open>Tags\<close>

definition mergeTags :: "tags \<Rightarrow> tags \<Rightarrow> tags" where
  "mergeTags base override =
     (if base = [] \<and> override = [] then []
      else fold (\<lambda>(k, v) m. map_put k v m) override (fold (\<lambda>(k, v) m. map_put k v m) base []))"

subsection \<open>Contexts\<close>

datatype goContext = Background | Uncorrelated goContext | ValRequest nat goContext
  | ValTags tags goContext | ValParent string goContext | ValDisabled goContext

text \<open>The value under each key; an uncorrelated context answers nil for the first two.\<close>

fun ctx_request :: "goContext \<Rightarrow> nat option" where
  "ctx_request Background = None"
| "ctx_request (Uncorrelated c) = None"
| "ctx_request (ValRequest i c) = Some i"
| "ctx_request (ValTags t c) = ctx_request c"
| "ctx_request (ValParent s c) = ctx_request c"
| "ctx_request (ValDisabled c) = ctx_request c"

fun ctx_parent :: "goContext \<Rightarrow> string" where
  "ctx_parent Background = []"
| "ctx_parent (Uncorrelated c) = []"
| "ctx_parent (ValRequest i c) = ctx_parent c"
| "ctx_parent (ValTags t c) = ctx_parent c"
| "ctx_parent (ValParent s c) = s"
| "ctx_parent (ValDisabled c) = ctx_parent c"

fun ctx_tags :: "goContext \<Rightarrow> tags" where
  "ctx_tags Background = []"
| "ctx_tags (Uncorrelated c) = ctx_tags c"
| "ctx_tags (ValRequest i c) = ctx_tags c"
| "ctx_tags (ValTags t c) = t"
| "ctx_tags (ValParent s c) = ctx_tags c"
| "ctx_tags (ValDisabled c) = ctx_tags c"

fun ctx_disabled :: "goContext \<Rightarrow> bool" where
  "ctx_disabled Background = False"
| "ctx_disabled (Uncorrelated c) = ctx_disabled c"
| "ctx_disabled (ValRequest i c) = ctx_disabled c"
| "ctx_disabled (ValTags t c) = ctx_disabled c"
| "ctx_disabled (ValParent s c) = ctx_disabled c"
| "ctx_disabled (ValDisabled c) = True"

text \<open>A nil context is \<open>None\<close>.\<close>

definition or_background :: "goContext option \<Rightarrow> goContext" where
  "or_background ctx = (case ctx of None \<Rightarrow> Background | Some c \<Rightarrow> c)"

definition WithoutCorrelation :: "goContext option \<Rightarrow> goContext" where
  "WithoutCorrelation ctx = Uncorrelated (or_background ctx)"

definition WithParentEntry :: "goContext option \<Rightarrow> string \<Rightarrow> goContext" where
  "WithParentEntry ctx entryID =
     (let c = or_background ctx in if entryID = [] then c else ValParent entryID c)"

definition ParentEntryIDFromContext :: "goContext option \<Rightarrow> string" where
  "ParentEntryIDFromContext ctx = (case ctx of None \<Rightarrow> [] | Some c \<Rightarrow> ctx_parent c)"

definition TagsFromContext :: "goContext option \<Rightarrow> tags" where
  "TagsFromContext ctx = (case ctx of None \<Rightarrow> [] | Some c \<Rightarrow> ctx_tags c)"

definition WithoutRecording :: "goContext \<Rightarrow> goContext" where
  "WithoutRecording c = ValDisabled c"

definition RecordingEnabled :: "goContext option \<Rightarrow> bool" where
  "RecordingEnabled ctx = (case ctx of None \<Rightarrow> True | Some c \<Rightarrow> \<not> ctx_disabled c)"

definition RequestFromContext :: "goContext option \<Rightarrow> nat option" where
  "RequestFromContext ctx = (case ctx of None \<Rightarrow> None | Some c \<Rightarrow> ctx_request c)"

definition WithRequest :: "goContext \<Rightarrow> nat option \<Rightarrow> goContext" where
  "WithRequest c capture = (case capture of None \<Rightarrow> c | Some i \<Rightarrow> ValRequest i c)"

definition inheritContextMeta :: "goContext option \<Rightarrow> 'a Meta_scheme \<Rightarrow> 'a Meta_scheme" where
  "inheritContextMeta ctx m =
     (let m = m\<lparr>mTags := mergeTags (TagsFromContext ctx) (mTags m)\<rparr>
      in if mParentID m = [] then m\<lparr>mParentID := ParentEntryIDFromContext ctx\<rparr> else m)"

definition attachRequest :: "string \<Rightarrow> tags \<Rightarrow> 'a Meta_scheme \<Rightarrow> 'a Meta_scheme" where
  "attachRequest requestID ts m =
     (let m = (if mRequestID m = [] then m\<lparr>mRequestID := requestID\<rparr> else m)
      in m\<lparr>mTags := mergeTags ts (mTags m)\<rparr>)"

subsection \<open>Callsites\<close>

definition pathWebpprof :: string where "pathWebpprof = ''github.com/levskiy0/webpprof''"

definition isCallsiteInfrastructureFrame :: "Kind \<Rightarrow> string \<Rightarrow> bool" where
  "isCallsiteInfrastructureFrame kind function =
     (if function = [] \<or> has_prefix function ''runtime.'' then True
      else if (case index_of function (pathWebpprof @ ''/profiler/'') of
          None \<Rightarrow> False
        | Some marker \<Rightarrow>
            let packageFunction = drop (marker + length (pathWebpprof @ ''/profiler/'')) function;
                symbol = (case index_of packageFunction ''.'' of
                    None \<Rightarrow> packageFunction | Some separator \<Rightarrow> drop (separator + 1) packageFunction);
                lowerSymbol = to_lower symbol;
                isProfiledReceiver = has_prefix lowerSymbol ''(*'' \<and>
                  (contains lowerSymbol ''profiler'' \<or> contains lowerSymbol ''profiled'')
            in has_prefix lowerSymbol ''profiler'' \<or> isProfiledReceiver) then True
      else if kind = KindQuery \<and> list_ex (has_prefix function)
          [''database/sql.'', ''github.com/jackc/pgx/'', ''github.com/uptrace/bun.'', ''gorm.io/gorm.''] then True
      else list_ex (\<lambda>suf. has_prefix function (pathWebpprof @ suf))
        [''.CaptureCallsite'', ''.(*Profiler).CaptureCallsite'', ''.CaptureQueryCallsite'',
         ''.(*Profiler).CaptureQueryCallsite'', ''.(*Profiler).prepareCallsite'',
         ''.(*Profiler).prepareQuery'', ''.(*TaskSpan).'', ''.startTask'', ''.StartTask'',
         ''.measureTask'', ''.MeasureTask'', ''.(*Profiler).StartTask'', ''.(*Profiler).MeasureTask'',
         ''.(*Profiler).Log'', ''.Log'', ''.withDefault''])"

definition callsiteDepth :: nat where "callsiteDepth = 16"

fun callsite_frames :: "Kind \<Rightarrow> rawFrame list \<Rightarrow> SourceFrame list \<Rightarrow> SourceFrame list" where
  "callsite_frames kind [] result = result"
| "callsite_frames kind (f # fs) result =
     (if \<not> isCallsiteInfrastructureFrame kind (rfFunction f) \<and> rfFile f \<noteq> [] \<and> rfLine f > 0 then
        (let result = result @ [\<lparr>sfFunction = rfFunction f, sfFile = rfFile f, sfLine = rfLine f, sfURL = []\<rparr>]
         in if length result = callsiteDepth then result else callsite_frames kind fs result)
      else callsite_frames kind fs result)"

text \<open>\<open>CaptureCallsite\<close>: at most 48 program counters are read.\<close>

definition CaptureCallsite :: "Kind \<Rightarrow> ('w, 'x) Profiler \<Rightarrow> ('w, 'x) Profiler \<times> SourceFrame list" where
  "CaptureCallsite kind p = (tick p, callsite_frames kind (take 48 (pStack p (pTick p))) [])"

definition capturesCallsite :: "('w, 'x) Profiler \<Rightarrow> Kind \<Rightarrow> bool" where
  "capturesCallsite p kind =
     (if \<not> supportsCallsite kind then False else kind \<in> set (cCallsiteKinds (pConfig p)))"

definition prepareCallsite :: "Kind \<Rightarrow> ('w, 'x) Profiler \<Rightarrow> SourceFrame list \<Rightarrow>
    ('w, 'x) Profiler \<times> SourceFrame list" where
  "prepareCallsite kind p callsite =
     (let (p, callsite) =
            (if callsite = [] \<and> capturesCallsite p kind then CaptureCallsite kind p else (p, callsite))
      in (p, case cSourceLink (pConfig p) of
               None \<Rightarrow> callsite
             | Some link \<Rightarrow> map (\<lambda>f. if sfURL f = [] then f\<lparr>sfURL := link f\<rparr> else f) callsite))"

subsection \<open>Recording an entity\<close>

text \<open>
  \<open>record\<close>.  The id and start time it fills in go into the entry; the document was
  encoded from the value as it was passed.
\<close>

definition record_entry :: "Kind \<Rightarrow> 'a Meta_scheme \<Rightarrow> anyval \<Rightarrow> ('w, 'x) Profiler \<Rightarrow> ('w, 'x) Profiler" where
  "record_entry kind meta val p =
     (if kind \<in> set (cDisabledKinds (pConfig p)) then p
      else
        let (p, eid) = (if mID meta = [] then newID p else (p, mID meta));
            (p, startedAt) = (if mStartedAt meta = 0 then clock_now p else (p, mStartedAt meta))
        in case marshalRedacted val of
             None \<Rightarrow> p
           | Some doc \<Rightarrow>
               let (p, recordedAt) = clock_now p;
                   (p, now) = clock_now p;
                   entry = \<lparr>eCursor = 0, eID = eid, eKind = kind, eRequestID = mRequestID meta,
                     eParentID = mParentID meta, eOriginRequestID = mOriginRequestID meta,
                     eProcess = mProcess meta, eInstance = mInstance meta, eStartedAt = startedAt,
                     eRecordedAt = recordedAt, eDurationNS = mDuration meta, eTags = mTags meta, eData = doc\<rparr>;
                   (s, batch, _) = put now entry (pStore p)
               in p\<lparr>pStore := s, pBatches := pBatches p @ (if sbSequence batch = 0 then [] else [batch])\<rparr>)"

definition LogQuery :: "Query \<Rightarrow> ('w, 'x) Profiler \<Rightarrow> ('w, 'x) Profiler" where
  "LogQuery v p =
     (let (p, callsite) = prepareCallsite KindQuery p (qCallsite v); v = v\<lparr>qCallsite := callsite\<rparr>
      in record_entry KindQuery v (Some (enc_query v)) p)"

definition LogEmail :: "Email \<Rightarrow> ('w, 'x) Profiler \<Rightarrow> ('w, 'x) Profiler" where
  "LogEmail v p =
     (let (p, callsite) = prepareCallsite KindEmail p (emCallsite v); v = v\<lparr>emCallsite := callsite\<rparr>
      in record_entry KindEmail v (Some (enc_email v)) p)"

definition LogCache :: "Cache \<Rightarrow> ('w, 'x) Profiler \<Rightarrow> ('w, 'x) Profiler" where
  "LogCache v p =
     (let (p, callsite) = prepareCallsite KindCache p (caCallsite v); v = v\<lparr>caCallsite := callsite\<rparr>
      in record_entry KindCache v (Some (enc_cache v)) p)"

definition LogJob :: "Job \<Rightarrow> ('w, 'x) Profiler \<Rightarrow> ('w, 'x) Profiler" where
  "LogJob v p =
     (let (p, callsite) = prepareCallsite KindJob p (joCallsite v); v = v\<lparr>joCallsite := callsite\<rparr>
      in record_entry KindJob v (Some (enc_job v)) p)"

definition LogLog :: "Log \<Rightarrow> ('w, 'x) Profiler \<Rightarrow> ('w, 'x) Profiler" where
  "LogLog v p = record_entry KindLog v (enc_log v) p"

definition LogHTTPCall :: "HTTPCall \<Rightarrow> ('w, 'x) Profiler \<Rightarrow> ('w, 'x) Profiler" where
  "LogHTTPCall v p =
     (let (p, callsite) = prepareCallsite KindHTTPCall p (hcCallsite v); v = v\<lparr>hcCallsite := callsite\<rparr>
      in record_entry KindHTTPCall v (Some (enc_call v)) p)"

definition LogSchedule :: "Schedule \<Rightarrow> ('w, 'x) Profiler \<Rightarrow> ('w, 'x) Profiler" where
  "LogSchedule v p =
     (let (p, callsite) = prepareCallsite KindSchedule p (scCallsite v); v = v\<lparr>scCallsite := callsite\<rparr>
      in record_entry KindSchedule v (enc_schedule v) p)"

definition LogCallable :: "Callable \<Rightarrow> ('w, 'x) Profiler \<Rightarrow> ('w, 'x) Profiler" where
  "LogCallable v p =
     (let (p, callsite) = prepareCallsite KindCallable p (clCallsite v); v = v\<lparr>clCallsite := callsite\<rparr>
      in record_entry KindCallable v (enc_callable v) p)"

definition LogTask :: "Task \<Rightarrow> ('w, 'x) Profiler \<Rightarrow> ('w, 'x) Profiler" where
  "LogTask v p =
     (let (p, callsite) = prepareCallsite KindTask p (taCallsite v); v = v\<lparr>taCallsite := callsite\<rparr>
      in record_entry KindTask v (enc_task v) p)"

definition LogException :: "Exception \<Rightarrow> ('w, 'x) Profiler \<Rightarrow> ('w, 'x) Profiler" where
  "LogException v p = record_entry KindException v (Some (enc_exception v)) p"

definition LogEvent :: "Event \<Rightarrow> ('w, 'x) Profiler \<Rightarrow> ('w, 'x) Profiler" where
  "LogEvent v p = record_entry KindEvent v (enc_event v) p"

definition LogMiddleware :: "Middleware \<Rightarrow> ('w, 'x) Profiler \<Rightarrow> ('w, 'x) Profiler" where
  "LogMiddleware v p = record_entry KindMiddleware v (Some (enc_middleware v)) p"

subsection \<open>Requests\<close>

definition shouldRetainRequest :: "('w, 'x) Profiler \<Rightarrow> Request \<Rightarrow> bool" where
  "shouldRetainRequest p r = list_all (\<lambda>f. f r) (cRetentionFilters (pConfig p))"

definition takeRequestCaptureSlot :: "('w, 'x) Profiler \<Rightarrow> ('w, 'x) Profiler \<times> bool" where
  "takeRequestCaptureSlot p =
     (if cRequestLimit (pConfig p) < 0 then (p, True)
      else if pRemaining p \<le> 0 then (p, False)
      else (p\<lparr>pRemaining := pRemaining p - 1\<rparr>, True))"

text \<open>
  The random sample is a 64-bit number, \<open>None\<close> when the system's random source fails; the
  quotient is compared exactly.
\<close>

definition ShouldCaptureRequest :: "httpRequest option \<Rightarrow> ('w, 'x) Profiler \<Rightarrow> ('w, 'x) Profiler \<times> bool" where
  "ShouldCaptureRequest request p =
     (case request of
        None \<Rightarrow> (p, False)
      | Some r \<Rightarrow>
          let c = pConfig p in
          if list_ex (\<lambda>e. pattern_matches e r) (cExcluded c) then (p, False)
          else if \<not> list_all (\<lambda>f. f r) (cRequestFilters c) then (p, False)
          else if cRequestSample c \<le> 0 then (p, False)
          else if cRequestSample c < 1 then
            (case pSamples p (pTick p) of
               None \<Rightarrow> (tick p, False)
             | Some n \<Rightarrow>
                 if of_nat n / (2 ^ 64 - 1) \<ge> cRequestSample c then (tick p, False)
                 else takeRequestCaptureSlot (tick p))
          else takeRequestCaptureSlot p)"

text \<open>One loop of \<open>LogRequest\<close>: attach each entity to the request and log it.\<close>

definition log_attached :: "('a Meta_scheme \<Rightarrow> ('w, 'x) Profiler \<Rightarrow> ('w, 'x) Profiler) \<Rightarrow> string \<Rightarrow> tags \<Rightarrow>
    'a Meta_scheme list \<Rightarrow> ('w, 'x) Profiler \<Rightarrow> ('w, 'x) Profiler" where
  "log_attached record_one requestID ts vs p = fold (\<lambda>v p. record_one (attachRequest requestID ts v) p) vs p"

definition LogRequest :: "Request \<Rightarrow> ('w, 'x) Profiler \<Rightarrow> ('w, 'x) Profiler" where
  "LogRequest r p =
     (if \<not> shouldRetainRequest p r then p
      else
        let (p, requestID) = (if mID r = [] then newID p else (p, mID r));
            r = r\<lparr>mID := requestID\<rparr>;
            p = log_attached LogQuery requestID (mTags r) (rqQueries r) p;
            p = log_attached LogEmail requestID (mTags r) (rqEmails r) p;
            p = log_attached LogCache requestID (mTags r) (rqCache r) p;
            p = log_attached LogJob requestID (mTags r) (rqJobs r) p;
            p = log_attached LogLog requestID (mTags r) (rqLogs r) p;
            p = log_attached LogHTTPCall requestID (mTags r) (rqHTTPCalls r) p;
            p = log_attached LogSchedule requestID (mTags r) (rqSchedules r) p;
            p = log_attached LogException requestID (mTags r) (rqExceptions r) p;
            p = log_attached LogEvent requestID (mTags r) (rqEvents r) p;
            p = log_attached LogMiddleware requestID (mTags r) (rqMiddlewares r) p;
            r = r\<lparr>rqQueries := [], rqEmails := [], rqCache := [], rqJobs := [], rqLogs := [],
              rqHTTPCalls := [], rqSchedules := [], rqExceptions := [], rqEvents := [],
              rqMiddlewares := [], mRequestID := requestID\<rparr>
        in record_entry KindRequest r (enc_request r) p)"

definition BeginRequest :: "Request \<Rightarrow> bool \<Rightarrow> ('w, 'x) Profiler \<Rightarrow> ('w, 'x) Profiler \<times> nat" where
  "BeginRequest r bound p =
     (let (p, rid) = (if mID r = [] then newID p else (p, mID r));
          (p, startedAt) = (if mStartedAt r = 0 then clock_now p else (p, mStartedAt r));
          i = pNextCapture p;
          capture = \<lparr>rcRequest = r\<lparr>mID := rid, mStartedAt := startedAt\<rparr>, rcBound = bound, rcFinished = False\<rparr>
      in (p\<lparr>pCaptures := map_put i capture (pCaptures p), pNextCapture := i + 1\<rparr>, i))"

text \<open>\<open>append\<close> on a capture: refused once the capture is finished; an unknown reference is nil.\<close>

definition capture_append :: "nat \<Rightarrow> (Request \<Rightarrow> Request) \<Rightarrow> ('w, 'x) Profiler \<Rightarrow> ('w, 'x) Profiler \<times> bool" where
  "capture_append i add p =
     (case map_get (pCaptures p) i of
        None \<Rightarrow> (p, False)
      | Some c \<Rightarrow>
          if rcFinished c then (p, False)
          else (p\<lparr>pCaptures := map_put i (c\<lparr>rcRequest := add (rcRequest c)\<rparr>) (pCaptures p)\<rparr>, True))"

definition capture_ID :: "nat \<Rightarrow> ('w, 'x) Profiler \<Rightarrow> string" where
  "capture_ID i p = (case map_get (pCaptures p) i of None \<Rightarrow> [] | Some c \<Rightarrow> mID (rcRequest c))"

definition AddTags :: "nat \<Rightarrow> tags \<Rightarrow> ('w, 'x) Profiler \<Rightarrow> ('w, 'x) Profiler" where
  "AddTags i ts p =
     (if ts = [] then p else fst (capture_append i (\<lambda>r. r\<lparr>mTags := mergeTags (mTags r) ts\<rparr>) p))"

definition SetRoute :: "nat \<Rightarrow> string \<Rightarrow> ('w, 'x) Profiler \<Rightarrow> ('w, 'x) Profiler" where
  "SetRoute i route p = (if route = [] then p else fst (capture_append i (\<lambda>r. r\<lparr>rqRoute := route\<rparr>) p))"

definition WithTags :: "goContext option \<Rightarrow> tags \<Rightarrow> ('w, 'x) Profiler \<Rightarrow> ('w, 'x) Profiler \<times> goContext" where
  "WithTags ctx ts p =
     (let c = or_background ctx; merged = mergeTags (TagsFromContext (Some c)) ts;
          p = (case RequestFromContext (Some c) of None \<Rightarrow> p | Some i \<Rightarrow> AddTags i ts p)
      in (p, ValTags merged c))"

definition Finish :: "nat \<Rightarrow> RequestResult \<Rightarrow> ('w, 'x) Profiler \<Rightarrow> ('w, 'x) Profiler" where
  "Finish i result p =
     (case map_get (pCaptures p) i of
        None \<Rightarrow> p
      | Some c \<Rightarrow>
          if rcFinished c then p
          else
            let (p, now) = clock_now p;
                r = (rcRequest c)\<lparr>mDuration := now - mStartedAt (rcRequest c), rqStatus := rrStatus result,
                  rqResponseSize := rrResponseSize result, rqResponse := rrResponse result,
                  rqError := rrError result\<rparr>;
                p = p\<lparr>pCaptures := map_put i (c\<lparr>rcRequest := r, rcFinished := True\<rparr>) (pCaptures p)\<rparr>
            in if rcBound c \<or> pIsDefault p then LogRequest r p else p)"

subsection \<open>Buffering under a capture\<close>

definition bufferQuery :: "Query \<Rightarrow> Request \<Rightarrow> Request" where
  "bufferQuery v r = r\<lparr>rqQueries := rqQueries r @ [v\<lparr>mTags := mergeTags (mTags r) (mTags v)\<rparr>]\<rparr>"

definition bufferEmail :: "Email \<Rightarrow> Request \<Rightarrow> Request" where
  "bufferEmail v r = r\<lparr>rqEmails := rqEmails r @ [v\<lparr>mTags := mergeTags (mTags r) (mTags v)\<rparr>]\<rparr>"

definition bufferCache :: "Cache \<Rightarrow> Request \<Rightarrow> Request" where
  "bufferCache v r = r\<lparr>rqCache := rqCache r @ [v\<lparr>mTags := mergeTags (mTags r) (mTags v)\<rparr>]\<rparr>"

definition bufferJob :: "Job \<Rightarrow> Request \<Rightarrow> Request" where
  "bufferJob v r = r\<lparr>rqJobs := rqJobs r @ [v\<lparr>mTags := mergeTags (mTags r) (mTags v)\<rparr>]\<rparr>"

definition bufferLog :: "Log \<Rightarrow> Request \<Rightarrow> Request" where
  "bufferLog v r = r\<lparr>rqLogs := rqLogs r @ [v\<lparr>mTags := mergeTags (mTags r) (mTags v)\<rparr>]\<rparr>"

definition bufferHTTPCall :: "HTTPCall \<Rightarrow> Request \<Rightarrow> Request" where
  "bufferHTTPCall v r = r\<lparr>rqHTTPCalls := rqHTTPCalls r @ [v\<lparr>mTags := mergeTags (mTags r) (mTags v)\<rparr>]\<rparr>"

definition bufferSchedule :: "Schedule \<Rightarrow> Request \<Rightarrow> Request" where
  "bufferSchedule v r = r\<lparr>rqSchedules := rqSchedules r @ [v\<lparr>mTags := mergeTags (mTags r) (mTags v)\<rparr>]\<rparr>"

definition bufferException :: "Exception \<Rightarrow> Request \<Rightarrow> Request" where
  "bufferException v r = r\<lparr>rqExceptions := rqExceptions r @ [v\<lparr>mTags := mergeTags (mTags r) (mTags v)\<rparr>]\<rparr>"

definition bufferEvent :: "Event \<Rightarrow> Request \<Rightarrow> Request" where
  "bufferEvent v r = r\<lparr>rqEvents := rqEvents r @ [v\<lparr>mTags := mergeTags (mTags r) (mTags v)\<rparr>]\<rparr>"

definition bufferMiddleware :: "Middleware \<Rightarrow> Request \<Rightarrow> Request" where
  "bufferMiddleware v r = r\<lparr>rqMiddlewares := rqMiddlewares r @ [v\<lparr>mTags := mergeTags (mTags r) (mTags v)\<rparr>]\<rparr>"

definition captureLogQuery :: "nat \<Rightarrow> Query \<Rightarrow> ('w, 'x) Profiler \<Rightarrow> ('w, 'x) Profiler" where
  "captureLogQuery i v p = fst (capture_append i (bufferQuery v) p)"

definition captureLogEmail :: "nat \<Rightarrow> Email \<Rightarrow> ('w, 'x) Profiler \<Rightarrow> ('w, 'x) Profiler" where
  "captureLogEmail i v p = fst (capture_append i (bufferEmail v) p)"

definition captureLogCache :: "nat \<Rightarrow> Cache \<Rightarrow> ('w, 'x) Profiler \<Rightarrow> ('w, 'x) Profiler" where
  "captureLogCache i v p = fst (capture_append i (bufferCache v) p)"

definition captureLogJob :: "nat \<Rightarrow> Job \<Rightarrow> ('w, 'x) Profiler \<Rightarrow> ('w, 'x) Profiler" where
  "captureLogJob i v p = fst (capture_append i (bufferJob v) p)"

definition captureLogLog :: "nat \<Rightarrow> Log \<Rightarrow> ('w, 'x) Profiler \<Rightarrow> ('w, 'x) Profiler" where
  "captureLogLog i v p = fst (capture_append i (bufferLog v) p)"

definition captureLogHTTPCall :: "nat \<Rightarrow> HTTPCall \<Rightarrow> ('w, 'x) Profiler \<Rightarrow> ('w, 'x) Profiler" where
  "captureLogHTTPCall i v p = fst (capture_append i (bufferHTTPCall v) p)"

definition captureLogSchedule :: "nat \<Rightarrow> Schedule \<Rightarrow> ('w, 'x) Profiler \<Rightarrow> ('w, 'x) Profiler" where
  "captureLogSchedule i v p = fst (capture_append i (bufferSchedule v) p)"

definition captureLogException :: "nat \<Rightarrow> Exception \<Rightarrow> ('w, 'x) Profiler \<Rightarrow> ('w, 'x) Profiler" where
  "captureLogException i v p = fst (capture_append i (bufferException v) p)"

definition captureLogEvent :: "nat \<Rightarrow> Event \<Rightarrow> ('w, 'x) Profiler \<Rightarrow> ('w, 'x) Profiler" where
  "captureLogEvent i v p = fst (capture_append i (bufferEvent v) p)"

definition captureLogMiddleware :: "nat \<Rightarrow> Middleware \<Rightarrow> ('w, 'x) Profiler \<Rightarrow> ('w, 'x) Profiler" where
  "captureLogMiddleware i v p = fst (capture_append i (bufferMiddleware v) p)"

subsection \<open>Logging with a context\<close>

definition LogQueryContext :: "goContext option \<Rightarrow> Query \<Rightarrow> ('w, 'x) Profiler \<Rightarrow> ('w, 'x) Profiler" where
  "LogQueryContext ctx v p =
     (if \<not> RecordingEnabled ctx then p
      else
        let (p, callsite) = prepareCallsite KindQuery p (qCallsite v);
            v = inheritContextMeta ctx (v\<lparr>qCallsite := callsite\<rparr>)
        in case RequestFromContext ctx of
             None \<Rightarrow> LogQuery v p
           | Some i \<Rightarrow>
               let v = v\<lparr>mRequestID := capture_ID i p\<rparr>;
                   (p, buffered) = capture_append i (bufferQuery v) p
               in if buffered then p else LogQuery v p)"

definition LogEmailContext :: "goContext option \<Rightarrow> Email \<Rightarrow> ('w, 'x) Profiler \<Rightarrow> ('w, 'x) Profiler" where
  "LogEmailContext ctx v p =
     (if \<not> RecordingEnabled ctx then p
      else
        let (p, callsite) = prepareCallsite KindEmail p (emCallsite v);
            v = inheritContextMeta ctx (v\<lparr>emCallsite := callsite\<rparr>)
        in case RequestFromContext ctx of
             None \<Rightarrow> LogEmail v p
           | Some i \<Rightarrow>
               let v = v\<lparr>mRequestID := capture_ID i p\<rparr>;
                   (p, buffered) = capture_append i (bufferEmail v) p
               in if buffered then p else LogEmail v p)"

definition LogCacheContext :: "goContext option \<Rightarrow> Cache \<Rightarrow> ('w, 'x) Profiler \<Rightarrow> ('w, 'x) Profiler" where
  "LogCacheContext ctx v p =
     (if \<not> RecordingEnabled ctx then p
      else
        let (p, callsite) = prepareCallsite KindCache p (caCallsite v);
            v = inheritContextMeta ctx (v\<lparr>caCallsite := callsite\<rparr>)
        in case RequestFromContext ctx of
             None \<Rightarrow> LogCache v p
           | Some i \<Rightarrow>
               let v = v\<lparr>mRequestID := capture_ID i p\<rparr>;
                   (p, buffered) = capture_append i (bufferCache v) p
               in if buffered then p else LogCache v p)"

definition LogJobContext :: "goContext option \<Rightarrow> Job \<Rightarrow> ('w, 'x) Profiler \<Rightarrow> ('w, 'x) Profiler" where
  "LogJobContext ctx v p =
     (if \<not> RecordingEnabled ctx then p
      else
        let (p, callsite) = prepareCallsite KindJob p (joCallsite v);
            v = inheritContextMeta ctx (v\<lparr>joCallsite := callsite\<rparr>)
        in case RequestFromContext ctx of
             None \<Rightarrow> LogJob v p
           | Some i \<Rightarrow>
               let v = v\<lparr>mRequestID := capture_ID i p\<rparr>;
                   (p, buffered) = capture_append i (bufferJob v) p
               in if buffered then p else LogJob v p)"

definition LogLogContext :: "goContext option \<Rightarrow> Log \<Rightarrow> ('w, 'x) Profiler \<Rightarrow> ('w, 'x) Profiler" where
  "LogLogContext ctx v p =
     (if \<not> RecordingEnabled ctx then p
      else
        let v = inheritContextMeta ctx v
        in case RequestFromContext ctx of
             None \<Rightarrow> LogLog v p
           | Some i \<Rightarrow>
               let v = v\<lparr>mRequestID := capture_ID i p\<rparr>;
                   (p, buffered) = capture_append i (bufferLog v) p
               in if buffered then p else LogLog v p)"

definition LogHTTPCallContext :: "goContext option \<Rightarrow> HTTPCall \<Rightarrow> ('w, 'x) Profiler \<Rightarrow> ('w, 'x) Profiler" where
  "LogHTTPCallContext ctx v p =
     (if \<not> RecordingEnabled ctx then p
      else
        let (p, callsite) = prepareCallsite KindHTTPCall p (hcCallsite v);
            v = inheritContextMeta ctx (v\<lparr>hcCallsite := callsite\<rparr>)
        in case RequestFromContext ctx of
             None \<Rightarrow> LogHTTPCall v p
           | Some i \<Rightarrow>
               let v = v\<lparr>mRequestID := capture_ID i p\<rparr>;
                   (p, buffered) = capture_append i (bufferHTTPCall v) p
               in if buffered then p else LogHTTPCall v p)"

definition LogScheduleContext :: "goContext option \<Rightarrow> Schedule \<Rightarrow> ('w, 'x) Profiler \<Rightarrow> ('w, 'x) Profiler" where
  "LogScheduleContext ctx v p =
     (if \<not> RecordingEnabled ctx then p
      else
        let rootCtx = WithoutCorrelation ctx;
            (p, callsite) = prepareCallsite KindSchedule p (scCallsite v);
            v = inheritContextMeta (Some rootCtx) (v\<lparr>scCallsite := callsite\<rparr>)
        in LogSchedule v p)"

definition LogCallableContext :: "goContext option \<Rightarrow> Callable \<Rightarrow> ('w, 'x) Profiler \<Rightarrow> ('w, 'x) Profiler" where
  "LogCallableContext ctx v p =
     (if \<not> RecordingEnabled ctx then p
      else
        let rootCtx = WithoutCorrelation ctx;
            (p, callsite) = prepareCallsite KindCallable p (clCallsite v);
            v = inheritContextMeta (Some rootCtx) (v\<lparr>clCallsite := callsite\<rparr>)
        in LogCallable v p)"

definition LogTaskContext :: "goContext option \<Rightarrow> Task \<Rightarrow> ('w, 'x) Profiler \<Rightarrow> ('w, 'x) Profiler" where
  "LogTaskContext ctx v p =
     (if \<not> RecordingEnabled ctx then p
      else
        let rootCtx = WithoutCorrelation ctx;
            (p, callsite) = prepareCallsite KindTask p (taCallsite v);
            v = inheritContextMeta (Some rootCtx) (v\<lparr>taCallsite := callsite\<rparr>)
        in LogTask v p)"

definition LogExceptionContext :: "goContext option \<Rightarrow> Exception \<Rightarrow> ('w, 'x) Profiler \<Rightarrow> ('w, 'x) Profiler" where
  "LogExceptionContext ctx v p =
     (if \<not> RecordingEnabled ctx then p
      else
        let v = inheritContextMeta ctx v
        in case RequestFromContext ctx of
             None \<Rightarrow> LogException v p
           | Some i \<Rightarrow>
               let v = v\<lparr>mRequestID := capture_ID i p\<rparr>;
                   (p, buffered) = capture_append i (bufferException v) p
               in if buffered then p else LogException v p)"

definition LogEventContext :: "goContext option \<Rightarrow> Event \<Rightarrow> ('w, 'x) Profiler \<Rightarrow> ('w, 'x) Profiler" where
  "LogEventContext ctx v p =
     (if \<not> RecordingEnabled ctx then p
      else
        let v = inheritContextMeta ctx v
        in case RequestFromContext ctx of
             None \<Rightarrow> LogEvent v p
           | Some i \<Rightarrow>
               let v = v\<lparr>mRequestID := capture_ID i p\<rparr>;
                   (p, buffered) = capture_append i (bufferEvent v) p
               in if buffered then p else LogEvent v p)"

definition LogMiddlewareContext :: "goContext option \<Rightarrow> Middleware \<Rightarrow> ('w, 'x) Profiler \<Rightarrow> ('w, 'x) Profiler" where
  "LogMiddlewareContext ctx v p =
     (if \<not> RecordingEnabled ctx then p
      else
        let v = inheritContextMeta ctx v
        in case RequestFromContext ctx of
             None \<Rightarrow> LogMiddleware v p
           | Some i \<Rightarrow>
               let v = v\<lparr>mRequestID := capture_ID i p\<rparr>;
                   (p, buffered) = capture_append i (bufferMiddleware v) p
               in if buffered then p else LogMiddleware v p)"

end
