(* ===== verification/CaptureFacts.thy ===== *)
theory CaptureFacts
  imports Capture
begin

text \<open>
  What any use of the recording interface guarantees: \<open>apiCall\<close> lists the calls an application
  or an integration can make, and \<open>prof_ok\<close> is the invariant they all preserve.
\<close>

subsection \<open>The invariant\<close>

definition entry_ok :: "('w, 'x) config \<Rightarrow> Entry \<Rightarrow> bool" where
  "entry_ok c e \<longleftrightarrow> redact (eData e) = eData e \<and> eKind e \<notin> set (cDisabledKinds c)"

definition prof_ok :: "('w, 'x) config \<Rightarrow> ('w, 'x) Profiler \<Rightarrow> bool" where
  "prof_ok c p \<longleftrightarrow> pConfig p = c \<and> store_ok (pStore p) \<and> list_all (entry_ok c) (view (pStore p))"

lemma entry_ok_cursor [simp]: "entry_ok c (e\<lparr>eCursor := n\<rparr>) = entry_ok c e"
  by (simp add: entry_ok_def)

lemma list_all_suffix: "suffix w v \<Longrightarrow> list_all Q v \<Longrightarrow> list_all Q w"
  by (auto simp: suffix_def)

lemma put_entries:
  assumes ok: "store_ok s" and all: "list_all Q (view s)" and e: "\<And>n. Q (e\<lparr>eCursor := n\<rparr>)"
  shows "list_all Q (view (fst (put now e s)))"
proof -
  have inv: "store_inv s" by (rule store_ok_inv [OF ok])
  have live: "list_all Q (live now s)" by (rule list_all_suffix [OF suffix_live all])
  consider "sIsClosed s" | "\<not> sIsClosed s" "entrySize e > sMaxBytes s"
    | "\<not> sIsClosed s" "\<not> entrySize e > sMaxBytes s" by blast
  then show ?thesis
  proof cases
    case 1
    then show ?thesis using all by (simp add: put_closed)
  next
    case 2
    then show ?thesis using put_rejected_spec [OF inv 2, of now] live by (metis fst_conv)
  next
    case 3
    have w: "list_all Q (window e now s)"
      using live e by (simp add: window_def drop_id_def list_all_iff)
    obtain s' where "fst (put now e s) = s'"
      "view s' = trim_window (sMaxEvents s) (sMaxBytes s) (window e now s)"
      using put_accepted_spec [OF inv 3, of now] by (metis fst_conv)
    then show ?thesis using list_all_suffix [OF trim_window_suffix w] by simp
  qed
qed

text \<open>A step that touches neither the store nor the configuration.\<close>

definition idle :: "('w, 'x) Profiler \<Rightarrow> ('w, 'x) Profiler \<Rightarrow> bool" where
  "idle p p' \<longleftrightarrow> pStore p' = pStore p \<and> pConfig p' = pConfig p"

lemma idle_refl [simp]: "idle p p"
  by (simp add: idle_def)

lemma idle_trans: "idle p q \<Longrightarrow> idle q r \<Longrightarrow> idle p r"
  by (simp add: idle_def)

lemma idle_ok: "idle p p' \<Longrightarrow> prof_ok c p \<Longrightarrow> prof_ok c p'"
  by (simp add: idle_def prof_ok_def)

lemma idle_tick [simp]: "idle p (tick p)"
  by (simp add: idle_def tick_def)

lemma idle_sources [simp]:
  "idle p (fst (newID p))" "idle p (fst (clock_now p))" "idle p (fst (CaptureCallsite k p))"
  by (simp_all add: newID_def clock_now_def CaptureCallsite_def)

lemma idle_prepare [simp]: "idle p (fst (prepareCallsite k p cs))"
  by (simp add: prepareCallsite_def CaptureCallsite_def)

lemma idle_append [simp]: "idle p (fst (capture_append i f p))"
  by (simp add: capture_append_def idle_def split: option.split)

lemma idle_slot [simp]: "idle p (fst (takeRequestCaptureSlot p))"
  by (simp add: takeRequestCaptureSlot_def idle_def)

lemma idle_should [simp]: "idle p (fst (ShouldCaptureRequest r p))"
proof -
  have "idle p (fst (takeRequestCaptureSlot (tick p)))"
    using idle_trans [OF idle_tick idle_slot] .
  then show ?thesis by (simp add: ShouldCaptureRequest_def Let_def split: option.split)
qed

lemma idle_addtags [simp]: "idle p (AddTags i ts p)"
  by (simp add: AddTags_def)

lemma idle_setroute [simp]: "idle p (SetRoute i r p)"
  by (simp add: SetRoute_def)

lemma idle_withtags [simp]: "idle p (fst (WithTags ctx ts p))"
  by (simp add: WithTags_def Let_def split: option.split)

lemma idle_begin [simp]: "idle p (fst (BeginRequest r b p))"
  by (simp add: Let_def BeginRequest_def newID_def clock_now_def idle_def tick_def)

lemma marshalRedacted_redacted: "marshalRedacted v = Some d \<Longrightarrow> redact d = d"
  by (auto simp: marshalRedacted_def redact_idem split: option.splits)

text \<open>A store whose retained entries all satisfy \<open>Q\<close>, under the configuration \<open>c\<close>.\<close>

definition prof_all :: "(Entry \<Rightarrow> bool) \<Rightarrow> ('w, 'x) config \<Rightarrow> ('w, 'x) Profiler \<Rightarrow> bool" where
  "prof_all Q c p \<longleftrightarrow> pConfig p = c \<and> store_ok (pStore p) \<and> list_all Q (view (pStore p))"

lemma prof_ok_all: "prof_ok c = prof_all (entry_ok c) c"
  by (simp add: prof_ok_def prof_all_def fun_eq_iff)

lemma prof_all_idle: "idle p p' \<Longrightarrow> prof_all Q c p \<Longrightarrow> prof_all Q c p'"
  by (simp add: idle_def prof_all_def)

lemma prof_put:
  assumes "prof_all Q c p" "\<And>n. Q (e\<lparr>eCursor := n\<rparr>)"
  shows "prof_all Q c (p\<lparr>pStore := fst (put now e (pStore p)), pBatches := bs, pTick := n\<rparr>)"
  using assms put_ok [of "pStore p" now e] put_entries [of "pStore p" Q e now]
  by (simp add: prof_all_def)

lemma prof_all_cong: "pStore p = pStore q \<Longrightarrow> pConfig p = pConfig q \<Longrightarrow> prof_all Q c p = prof_all Q c q"
  by (simp add: prof_all_def)

lemma prof_ok_cong: "pStore p = pStore q \<Longrightarrow> pConfig p = pConfig q \<Longrightarrow> prof_ok c p = prof_ok c q"
  by (simp add: prof_ok_def)

text \<open>The entry that recording a value produces.\<close>

definition entry_of :: "Kind \<Rightarrow> 'a Meta_scheme \<Rightarrow> string \<Rightarrow> instant \<Rightarrow> instant \<Rightarrow> json \<Rightarrow> Entry" where
  "entry_of kind m eid st recorded d = \<lparr>eCursor = 0, eID = eid, eKind = kind, eRequestID = mRequestID m,
     eParentID = mParentID m, eOriginRequestID = mOriginRequestID m, eProcess = mProcess m,
     eInstance = mInstance m, eStartedAt = st, eRecordedAt = recorded,
     eDurationNS = mDuration m, eTags = mTags m, eData = d\<rparr>"

lemma record_entry_all:
  assumes ok: "prof_all Q c p"
    and Q: "\<And>eid st recorded d n. kind \<notin> set (cDisabledKinds c) \<Longrightarrow> marshalRedacted v = Some d \<Longrightarrow>
        Q ((entry_of kind m eid st recorded d)\<lparr>eCursor := n\<rparr>)"
  shows "prof_all Q c (record_entry kind m v p)"
proof (cases "kind \<in> set (cDisabledKinds c)")
  case True
  then show ?thesis using ok by (simp add: record_entry_def prof_all_def)
next
  case False
  obtain p1 eid where p1: "(if mID m = [] then newID p else (p, mID m)) = (p1, eid)" by fastforce
  obtain p2 st where p2: "(if mStartedAt m = 0 then clock_now p1 else (p1, mStartedAt m)) = (p2, st)" by fastforce
  have idle: "idle p p2"
    using p1 p2 idle_sources idle_trans idle_refl by (metis fst_conv)
  have ok2: "prof_all Q c p2" by (rule prof_all_idle [OF idle ok])
  have kind: "\<not> kind \<in> set (cDisabledKinds (pConfig p))" using False ok by (simp add: prof_all_def)
  show ?thesis
  proof (cases "marshalRedacted v")
    case None
    then show ?thesis using kind ok2 by (simp add: record_entry_def p1 p2)
  next
    case (Some d)
    define e where "e = entry_of kind m eid st (pClock p2 (pTick p2)) d"
    have e: "Q (e\<lparr>eCursor := n\<rparr>)" for n unfolding e_def by (rule Q [OF False Some])
    obtain s b k where s: "put (pClock p2 (pTick p2 + 1)) e (pStore p2) = (s, b, k)" by (metis prod_cases3)
    have "prof_all Q c (p2\<lparr>pStore := s, pBatches := bs, pTick := n\<rparr>)" for bs n
      using prof_put [OF ok2 e, where now = "pClock p2 (pTick p2 + 1)" and bs = bs and n = n] s by simp
    then have main: "prof_all Q c q" if "pStore q = s" "pConfig q = pConfig p2" for q
      using prof_all_cong [of q "p2\<lparr>pStore := s, pBatches := [], pTick := 0\<rparr>" Q c] that by simp
    have "record_entry kind m v p = (tick (tick p2))\<lparr>pStore := s,
        pBatches := pBatches p2 @ (if sbSequence b = 0 then [] else [b])\<rparr>"
      using kind Some s by (simp add: record_entry_def p1 p2 clock_now_def tick_def e_def entry_of_def)
    then show ?thesis by (auto intro!: main simp: tick_def)
  qed
qed

lemma record_entry_ok: "prof_ok c p \<Longrightarrow> prof_ok c (record_entry kind m v p)"
  unfolding prof_ok_all
  by (rule record_entry_all) (simp_all add: entry_ok_def entry_of_def marshalRedacted_redacted)

lemma record_entry_frame:
  "pCaptures (record_entry kind m v p) = pCaptures p"
  "pNextCapture (record_entry kind m v p) = pNextCapture p"
  "pRemaining (record_entry kind m v p) = pRemaining p"
  "pConfig (record_entry kind m v p) = pConfig p"
  "pIsDefault (record_entry kind m v p) = pIsDefault p"
  by (simp_all add: record_entry_def newID_def clock_now_def tick_def Let_def case_prod_beta split: option.split)

lemma prepare_frame:
  "pCaptures (fst (prepareCallsite k p cs)) = pCaptures p"
  "pNextCapture (fst (prepareCallsite k p cs)) = pNextCapture p"
  "pRemaining (fst (prepareCallsite k p cs)) = pRemaining p"
  "pConfig (fst (prepareCallsite k p cs)) = pConfig p"
  "pIsDefault (fst (prepareCallsite k p cs)) = pIsDefault p"
  by (simp_all add: prepareCallsite_def CaptureCallsite_def tick_def)

lemma LogQuery_ok: "prof_ok c p \<Longrightarrow> prof_ok c (LogQuery v p)"
  by (simp add: idle_ok [OF idle_prepare] LogQuery_def record_entry_ok case_prod_beta Let_def)

lemma LogEmail_ok: "prof_ok c p \<Longrightarrow> prof_ok c (LogEmail v p)"
  by (simp add: idle_ok [OF idle_prepare] LogEmail_def record_entry_ok case_prod_beta Let_def)

lemma LogCache_ok: "prof_ok c p \<Longrightarrow> prof_ok c (LogCache v p)"
  by (simp add: idle_ok [OF idle_prepare] LogCache_def record_entry_ok case_prod_beta Let_def)

lemma LogJob_ok: "prof_ok c p \<Longrightarrow> prof_ok c (LogJob v p)"
  by (simp add: idle_ok [OF idle_prepare] LogJob_def record_entry_ok case_prod_beta Let_def)

lemma LogLog_ok: "prof_ok c p \<Longrightarrow> prof_ok c (LogLog v p)"
  by (simp add: LogLog_def record_entry_ok)

lemma LogHTTPCall_ok: "prof_ok c p \<Longrightarrow> prof_ok c (LogHTTPCall v p)"
  by (simp add: idle_ok [OF idle_prepare] LogHTTPCall_def record_entry_ok case_prod_beta Let_def)

lemma LogSchedule_ok: "prof_ok c p \<Longrightarrow> prof_ok c (LogSchedule v p)"
  by (simp add: idle_ok [OF idle_prepare] LogSchedule_def record_entry_ok case_prod_beta Let_def)

lemma LogCallable_ok: "prof_ok c p \<Longrightarrow> prof_ok c (LogCallable v p)"
  by (simp add: idle_ok [OF idle_prepare] LogCallable_def record_entry_ok case_prod_beta Let_def)

lemma LogTask_ok: "prof_ok c p \<Longrightarrow> prof_ok c (LogTask v p)"
  by (simp add: idle_ok [OF idle_prepare] LogTask_def record_entry_ok case_prod_beta Let_def)

lemma LogException_ok: "prof_ok c p \<Longrightarrow> prof_ok c (LogException v p)"
  by (simp add: LogException_def record_entry_ok)

lemma LogEvent_ok: "prof_ok c p \<Longrightarrow> prof_ok c (LogEvent v p)"
  by (simp add: LogEvent_def record_entry_ok)

lemma LogMiddleware_ok: "prof_ok c p \<Longrightarrow> prof_ok c (LogMiddleware v p)"
  by (simp add: LogMiddleware_def record_entry_ok)

lemma LogQuery_all:
  assumes "prof_all Q c p" "\<And>e. eRequestID e = mRequestID v \<Longrightarrow> Q e"
  shows "prof_all Q c (LogQuery v p)"
  using assms unfolding LogQuery_def Let_def case_prod_beta
  by (intro record_entry_all prof_all_idle [OF idle_prepare]) (simp_all add: entry_of_def)

lemma LogEmail_all:
  assumes "prof_all Q c p" "\<And>e. eRequestID e = mRequestID v \<Longrightarrow> Q e"
  shows "prof_all Q c (LogEmail v p)"
  using assms unfolding LogEmail_def Let_def case_prod_beta
  by (intro record_entry_all prof_all_idle [OF idle_prepare]) (simp_all add: entry_of_def)

lemma LogCache_all:
  assumes "prof_all Q c p" "\<And>e. eRequestID e = mRequestID v \<Longrightarrow> Q e"
  shows "prof_all Q c (LogCache v p)"
  using assms unfolding LogCache_def Let_def case_prod_beta
  by (intro record_entry_all prof_all_idle [OF idle_prepare]) (simp_all add: entry_of_def)

lemma LogJob_all:
  assumes "prof_all Q c p" "\<And>e. eRequestID e = mRequestID v \<Longrightarrow> Q e"
  shows "prof_all Q c (LogJob v p)"
  using assms unfolding LogJob_def Let_def case_prod_beta
  by (intro record_entry_all prof_all_idle [OF idle_prepare]) (simp_all add: entry_of_def)

lemma LogLog_all:
  assumes "prof_all Q c p" "\<And>e. eRequestID e = mRequestID v \<Longrightarrow> Q e"
  shows "prof_all Q c (LogLog v p)"
  using assms unfolding LogLog_def by (intro record_entry_all) (simp_all add: entry_of_def)

lemma LogHTTPCall_all:
  assumes "prof_all Q c p" "\<And>e. eRequestID e = mRequestID v \<Longrightarrow> Q e"
  shows "prof_all Q c (LogHTTPCall v p)"
  using assms unfolding LogHTTPCall_def Let_def case_prod_beta
  by (intro record_entry_all prof_all_idle [OF idle_prepare]) (simp_all add: entry_of_def)

lemma LogSchedule_all:
  assumes "prof_all Q c p" "\<And>e. eRequestID e = mRequestID v \<Longrightarrow> Q e"
  shows "prof_all Q c (LogSchedule v p)"
  using assms unfolding LogSchedule_def Let_def case_prod_beta
  by (intro record_entry_all prof_all_idle [OF idle_prepare]) (simp_all add: entry_of_def)

lemma LogCallable_all:
  assumes "prof_all Q c p" "\<And>e. eRequestID e = mRequestID v \<Longrightarrow> Q e"
  shows "prof_all Q c (LogCallable v p)"
  using assms unfolding LogCallable_def Let_def case_prod_beta
  by (intro record_entry_all prof_all_idle [OF idle_prepare]) (simp_all add: entry_of_def)

lemma LogTask_all:
  assumes "prof_all Q c p" "\<And>e. eRequestID e = mRequestID v \<Longrightarrow> Q e"
  shows "prof_all Q c (LogTask v p)"
  using assms unfolding LogTask_def Let_def case_prod_beta
  by (intro record_entry_all prof_all_idle [OF idle_prepare]) (simp_all add: entry_of_def)

lemma LogException_all:
  assumes "prof_all Q c p" "\<And>e. eRequestID e = mRequestID v \<Longrightarrow> Q e"
  shows "prof_all Q c (LogException v p)"
  using assms unfolding LogException_def by (intro record_entry_all) (simp_all add: entry_of_def)

lemma LogEvent_all:
  assumes "prof_all Q c p" "\<And>e. eRequestID e = mRequestID v \<Longrightarrow> Q e"
  shows "prof_all Q c (LogEvent v p)"
  using assms unfolding LogEvent_def by (intro record_entry_all) (simp_all add: entry_of_def)

lemma LogMiddleware_all:
  assumes "prof_all Q c p" "\<And>e. eRequestID e = mRequestID v \<Longrightarrow> Q e"
  shows "prof_all Q c (LogMiddleware v p)"
  using assms unfolding LogMiddleware_def by (intro record_entry_all) (simp_all add: entry_of_def)

lemma LogQuery_frame:
  "pCaptures (LogQuery v p) = pCaptures p" "pNextCapture (LogQuery v p) = pNextCapture p"
  "pRemaining (LogQuery v p) = pRemaining p" "pConfig (LogQuery v p) = pConfig p" "pIsDefault (LogQuery v p) = pIsDefault p"
  by (simp_all add: LogQuery_def record_entry_frame prepare_frame case_prod_beta Let_def)

lemma LogEmail_frame:
  "pCaptures (LogEmail v p) = pCaptures p" "pNextCapture (LogEmail v p) = pNextCapture p"
  "pRemaining (LogEmail v p) = pRemaining p" "pConfig (LogEmail v p) = pConfig p" "pIsDefault (LogEmail v p) = pIsDefault p"
  by (simp_all add: LogEmail_def record_entry_frame prepare_frame case_prod_beta Let_def)

lemma LogCache_frame:
  "pCaptures (LogCache v p) = pCaptures p" "pNextCapture (LogCache v p) = pNextCapture p"
  "pRemaining (LogCache v p) = pRemaining p" "pConfig (LogCache v p) = pConfig p" "pIsDefault (LogCache v p) = pIsDefault p"
  by (simp_all add: LogCache_def record_entry_frame prepare_frame case_prod_beta Let_def)

lemma LogJob_frame:
  "pCaptures (LogJob v p) = pCaptures p" "pNextCapture (LogJob v p) = pNextCapture p"
  "pRemaining (LogJob v p) = pRemaining p" "pConfig (LogJob v p) = pConfig p" "pIsDefault (LogJob v p) = pIsDefault p"
  by (simp_all add: LogJob_def record_entry_frame prepare_frame case_prod_beta Let_def)

lemma LogLog_frame:
  "pCaptures (LogLog v p) = pCaptures p" "pNextCapture (LogLog v p) = pNextCapture p"
  "pRemaining (LogLog v p) = pRemaining p" "pConfig (LogLog v p) = pConfig p" "pIsDefault (LogLog v p) = pIsDefault p"
  by (simp_all add: LogLog_def record_entry_frame)

lemma LogHTTPCall_frame:
  "pCaptures (LogHTTPCall v p) = pCaptures p" "pNextCapture (LogHTTPCall v p) = pNextCapture p"
  "pRemaining (LogHTTPCall v p) = pRemaining p" "pConfig (LogHTTPCall v p) = pConfig p" "pIsDefault (LogHTTPCall v p) = pIsDefault p"
  by (simp_all add: LogHTTPCall_def record_entry_frame prepare_frame case_prod_beta Let_def)

lemma LogSchedule_frame:
  "pCaptures (LogSchedule v p) = pCaptures p" "pNextCapture (LogSchedule v p) = pNextCapture p"
  "pRemaining (LogSchedule v p) = pRemaining p" "pConfig (LogSchedule v p) = pConfig p" "pIsDefault (LogSchedule v p) = pIsDefault p"
  by (simp_all add: LogSchedule_def record_entry_frame prepare_frame case_prod_beta Let_def)

lemma LogCallable_frame:
  "pCaptures (LogCallable v p) = pCaptures p" "pNextCapture (LogCallable v p) = pNextCapture p"
  "pRemaining (LogCallable v p) = pRemaining p" "pConfig (LogCallable v p) = pConfig p" "pIsDefault (LogCallable v p) = pIsDefault p"
  by (simp_all add: LogCallable_def record_entry_frame prepare_frame case_prod_beta Let_def)

lemma LogTask_frame:
  "pCaptures (LogTask v p) = pCaptures p" "pNextCapture (LogTask v p) = pNextCapture p"
  "pRemaining (LogTask v p) = pRemaining p" "pConfig (LogTask v p) = pConfig p" "pIsDefault (LogTask v p) = pIsDefault p"
  by (simp_all add: LogTask_def record_entry_frame prepare_frame case_prod_beta Let_def)

lemma LogException_frame:
  "pCaptures (LogException v p) = pCaptures p" "pNextCapture (LogException v p) = pNextCapture p"
  "pRemaining (LogException v p) = pRemaining p" "pConfig (LogException v p) = pConfig p" "pIsDefault (LogException v p) = pIsDefault p"
  by (simp_all add: LogException_def record_entry_frame)

lemma LogEvent_frame:
  "pCaptures (LogEvent v p) = pCaptures p" "pNextCapture (LogEvent v p) = pNextCapture p"
  "pRemaining (LogEvent v p) = pRemaining p" "pConfig (LogEvent v p) = pConfig p" "pIsDefault (LogEvent v p) = pIsDefault p"
  by (simp_all add: LogEvent_def record_entry_frame)

lemma LogMiddleware_frame:
  "pCaptures (LogMiddleware v p) = pCaptures p" "pNextCapture (LogMiddleware v p) = pNextCapture p"
  "pRemaining (LogMiddleware v p) = pRemaining p" "pConfig (LogMiddleware v p) = pConfig p" "pIsDefault (LogMiddleware v p) = pIsDefault p"
  by (simp_all add: LogMiddleware_def record_entry_frame)

lemmas log_frame = LogQuery_frame LogEmail_frame LogCache_frame LogJob_frame LogLog_frame LogHTTPCall_frame LogSchedule_frame LogCallable_frame LogTask_frame LogException_frame LogEvent_frame LogMiddleware_frame

lemmas log_all = LogQuery_all LogEmail_all LogCache_all LogJob_all LogLog_all LogHTTPCall_all LogSchedule_all LogCallable_all LogTask_all LogException_all LogEvent_all LogMiddleware_all

lemmas log_ok = LogQuery_ok LogEmail_ok LogCache_ok LogJob_ok LogLog_ok LogHTTPCall_ok LogSchedule_ok LogCallable_ok LogTask_ok LogException_ok LogEvent_ok LogMiddleware_ok

lemma log_attached_ok:
  "(\<And>v p. prof_ok c p \<Longrightarrow> prof_ok c (f v p)) \<Longrightarrow> prof_ok c p \<Longrightarrow> prof_ok c (log_attached f i ts vs p)"
proof (induction vs arbitrary: p)
  case (Cons v vs)
  then show ?case by (simp add: log_attached_def)
qed (simp add: log_attached_def)

lemma LogRequest_ok: "prof_ok c p \<Longrightarrow> prof_ok c (LogRequest r p)"
proof -
  assume ok: "prof_ok c p"
  obtain p1 rid where p1: "(if mID r = [] then newID p else (p, mID r)) = (p1, rid)" by fastforce
  have "idle p p1" using p1 by (metis fst_conv idle_refl idle_sources(1))
  then have "prof_ok c p1" using ok idle_ok by blast
  then show ?thesis
    using ok by (simp add: LogRequest_def p1 Let_def record_entry_ok log_attached_ok log_ok)
qed

lemma Finish_ok: "prof_ok c p \<Longrightarrow> prof_ok c (Finish i res p)"
proof -
  assume ok: "prof_ok c p"
  have "prof_ok c ((tick p)\<lparr>pCaptures := x\<rparr>)" for x
    using idle_ok [OF idle_tick ok] prof_ok_cong [of "(tick p)\<lparr>pCaptures := x\<rparr>" "tick p" c] by simp
  then show ?thesis
    using ok by (simp add: Finish_def clock_now_def Let_def LogRequest_ok split: option.split)
qed

lemma LogQueryContext_ok: "prof_ok c p \<Longrightarrow> prof_ok c (LogQueryContext ctx v p)"
  by (simp add: idle_ok [OF idle_prepare] idle_ok [OF idle_append] LogQueryContext_def LogQuery_ok case_prod_beta Let_def split: option.split)

lemma LogEmailContext_ok: "prof_ok c p \<Longrightarrow> prof_ok c (LogEmailContext ctx v p)"
  by (simp add: idle_ok [OF idle_prepare] idle_ok [OF idle_append] LogEmailContext_def LogEmail_ok case_prod_beta Let_def split: option.split)

lemma LogCacheContext_ok: "prof_ok c p \<Longrightarrow> prof_ok c (LogCacheContext ctx v p)"
  by (simp add: idle_ok [OF idle_prepare] idle_ok [OF idle_append] LogCacheContext_def LogCache_ok case_prod_beta Let_def split: option.split)

lemma LogJobContext_ok: "prof_ok c p \<Longrightarrow> prof_ok c (LogJobContext ctx v p)"
  by (simp add: idle_ok [OF idle_prepare] idle_ok [OF idle_append] LogJobContext_def LogJob_ok case_prod_beta Let_def split: option.split)

lemma LogLogContext_ok: "prof_ok c p \<Longrightarrow> prof_ok c (LogLogContext ctx v p)"
  by (simp add: idle_ok [OF idle_append] LogLogContext_def LogLog_ok case_prod_beta Let_def split: option.split)

lemma LogHTTPCallContext_ok: "prof_ok c p \<Longrightarrow> prof_ok c (LogHTTPCallContext ctx v p)"
  by (simp add: idle_ok [OF idle_prepare] idle_ok [OF idle_append] LogHTTPCallContext_def LogHTTPCall_ok case_prod_beta Let_def split: option.split)

lemma LogScheduleContext_ok: "prof_ok c p \<Longrightarrow> prof_ok c (LogScheduleContext ctx v p)"
  by (simp add: idle_ok [OF idle_prepare] LogScheduleContext_def LogSchedule_ok case_prod_beta Let_def)

lemma LogCallableContext_ok: "prof_ok c p \<Longrightarrow> prof_ok c (LogCallableContext ctx v p)"
  by (simp add: idle_ok [OF idle_prepare] LogCallableContext_def LogCallable_ok case_prod_beta Let_def)

lemma LogTaskContext_ok: "prof_ok c p \<Longrightarrow> prof_ok c (LogTaskContext ctx v p)"
  by (simp add: idle_ok [OF idle_prepare] LogTaskContext_def LogTask_ok case_prod_beta Let_def)

lemma LogExceptionContext_ok: "prof_ok c p \<Longrightarrow> prof_ok c (LogExceptionContext ctx v p)"
  by (simp add: idle_ok [OF idle_append] LogExceptionContext_def LogException_ok case_prod_beta Let_def split: option.split)

lemma LogEventContext_ok: "prof_ok c p \<Longrightarrow> prof_ok c (LogEventContext ctx v p)"
  by (simp add: idle_ok [OF idle_append] LogEventContext_def LogEvent_ok case_prod_beta Let_def split: option.split)

lemma LogMiddlewareContext_ok: "prof_ok c p \<Longrightarrow> prof_ok c (LogMiddlewareContext ctx v p)"
  by (simp add: idle_ok [OF idle_append] LogMiddlewareContext_def LogMiddleware_ok case_prod_beta Let_def split: option.split)

lemmas log_context_ok = LogQueryContext_ok LogEmailContext_ok LogCacheContext_ok LogJobContext_ok LogLogContext_ok LogHTTPCallContext_ok LogScheduleContext_ok LogCallableContext_ok LogTaskContext_ok LogExceptionContext_ok LogEventContext_ok LogMiddlewareContext_ok

subsection \<open>Any use of the interface\<close>

datatype apiCall =
    ApiQuery Query
  | ApiEmail Email
  | ApiCache Cache
  | ApiJob Job
  | ApiLog Log
  | ApiHTTPCall HTTPCall
  | ApiSchedule Schedule
  | ApiCallable Callable
  | ApiTask Task
  | ApiException Exception
  | ApiEvent Event
  | ApiMiddleware Middleware
  | ApiQueryContext "goContext option" Query
  | ApiEmailContext "goContext option" Email
  | ApiCacheContext "goContext option" Cache
  | ApiJobContext "goContext option" Job
  | ApiLogContext "goContext option" Log
  | ApiHTTPCallContext "goContext option" HTTPCall
  | ApiScheduleContext "goContext option" Schedule
  | ApiCallableContext "goContext option" Callable
  | ApiTaskContext "goContext option" Task
  | ApiExceptionContext "goContext option" Exception
  | ApiEventContext "goContext option" Event
  | ApiMiddlewareContext "goContext option" Middleware
  | ApiCaptureQuery nat Query
  | ApiCaptureEmail nat Email
  | ApiCaptureCache nat Cache
  | ApiCaptureJob nat Job
  | ApiCaptureLog nat Log
  | ApiCaptureHTTPCall nat HTTPCall
  | ApiCaptureSchedule nat Schedule
  | ApiCaptureException nat Exception
  | ApiCaptureEvent nat Event
  | ApiCaptureMiddleware nat Middleware
  | ApiRequest Request
  | ApiBegin Request bool
  | ApiFinish nat RequestResult
  | ApiAddTags nat tags
  | ApiSetRoute nat string
  | ApiWithTags "goContext option" tags
  | ApiShouldCapture "httpRequest option"

fun api_step :: "apiCall \<Rightarrow> ('w, 'x) Profiler \<Rightarrow> ('w, 'x) Profiler" where
  "api_step (ApiQuery v) p = LogQuery v p"
| "api_step (ApiEmail v) p = LogEmail v p"
| "api_step (ApiCache v) p = LogCache v p"
| "api_step (ApiJob v) p = LogJob v p"
| "api_step (ApiLog v) p = LogLog v p"
| "api_step (ApiHTTPCall v) p = LogHTTPCall v p"
| "api_step (ApiSchedule v) p = LogSchedule v p"
| "api_step (ApiCallable v) p = LogCallable v p"
| "api_step (ApiTask v) p = LogTask v p"
| "api_step (ApiException v) p = LogException v p"
| "api_step (ApiEvent v) p = LogEvent v p"
| "api_step (ApiMiddleware v) p = LogMiddleware v p"
| "api_step (ApiQueryContext ctx v) p = LogQueryContext ctx v p"
| "api_step (ApiEmailContext ctx v) p = LogEmailContext ctx v p"
| "api_step (ApiCacheContext ctx v) p = LogCacheContext ctx v p"
| "api_step (ApiJobContext ctx v) p = LogJobContext ctx v p"
| "api_step (ApiLogContext ctx v) p = LogLogContext ctx v p"
| "api_step (ApiHTTPCallContext ctx v) p = LogHTTPCallContext ctx v p"
| "api_step (ApiScheduleContext ctx v) p = LogScheduleContext ctx v p"
| "api_step (ApiCallableContext ctx v) p = LogCallableContext ctx v p"
| "api_step (ApiTaskContext ctx v) p = LogTaskContext ctx v p"
| "api_step (ApiExceptionContext ctx v) p = LogExceptionContext ctx v p"
| "api_step (ApiEventContext ctx v) p = LogEventContext ctx v p"
| "api_step (ApiMiddlewareContext ctx v) p = LogMiddlewareContext ctx v p"
| "api_step (ApiCaptureQuery i v) p = captureLogQuery i v p"
| "api_step (ApiCaptureEmail i v) p = captureLogEmail i v p"
| "api_step (ApiCaptureCache i v) p = captureLogCache i v p"
| "api_step (ApiCaptureJob i v) p = captureLogJob i v p"
| "api_step (ApiCaptureLog i v) p = captureLogLog i v p"
| "api_step (ApiCaptureHTTPCall i v) p = captureLogHTTPCall i v p"
| "api_step (ApiCaptureSchedule i v) p = captureLogSchedule i v p"
| "api_step (ApiCaptureException i v) p = captureLogException i v p"
| "api_step (ApiCaptureEvent i v) p = captureLogEvent i v p"
| "api_step (ApiCaptureMiddleware i v) p = captureLogMiddleware i v p"
| "api_step (ApiRequest r) p = LogRequest r p"
| "api_step (ApiBegin r b) p = fst (BeginRequest r b p)"
| "api_step (ApiFinish i res) p = Finish i res p"
| "api_step (ApiAddTags i ts) p = AddTags i ts p"
| "api_step (ApiSetRoute i r) p = SetRoute i r p"
| "api_step (ApiWithTags ctx ts) p = fst (WithTags ctx ts p)"
| "api_step (ApiShouldCapture r) p = fst (ShouldCaptureRequest r p)"

lemmas capture_defs = captureLogQuery_def captureLogEmail_def captureLogCache_def captureLogJob_def captureLogLog_def captureLogHTTPCall_def captureLogSchedule_def captureLogException_def captureLogEvent_def captureLogMiddleware_def

lemma api_step_ok: "prof_ok c p \<Longrightarrow> prof_ok c (api_step a p)"
  by (cases a) (simp_all add: log_ok log_context_ok LogRequest_ok Finish_ok capture_defs
      idle_ok [OF idle_append] idle_ok [OF idle_begin] idle_ok [OF idle_addtags]
      idle_ok [OF idle_setroute] idle_ok [OF idle_withtags] idle_ok [OF idle_should])

definition api_run :: "apiCall list \<Rightarrow> ('w, 'x) Profiler \<Rightarrow> ('w, 'x) Profiler" where
  "api_run calls p = fold api_step calls p"

lemma api_run_ok: "prof_ok c p \<Longrightarrow> prof_ok c (api_run calls p)"
  by (induction calls arbitrary: p) (simp_all add: api_run_def api_step_ok)

text \<open>A new profiler over an in-memory store.\<close>

definition newProfiler :: "('w, 'x) config \<Rightarrow> (nat \<Rightarrow> string) \<Rightarrow> (nat \<Rightarrow> instant) \<Rightarrow> (nat \<Rightarrow> nat option) \<Rightarrow>
    (nat \<Rightarrow> rawFrame list) \<Rightarrow> ('w, 'x) Profiler" where
  "newProfiler c ids clk samples stack = \<lparr>pConfig = c, pStore = emptyStore c, pIsDefault = True,
     pBatches = [], pRemaining = cRequestLimit c, pCaptures = [], pNextCapture = 0, pIDs = ids,
     pClock = clk, pSamples = samples, pStack = stack, pTick = 0\<rparr>"

lemma newProfiler_ok: "config_ok c \<Longrightarrow> prof_ok c (newProfiler c ids clk samples stack)"
  using emptyStore_ok [of c] emptyStore_inv(2) [of c] by (simp add: newProfiler_def prof_ok_def)

text \<open>
  C11. Nothing unredacted and nothing disabled is ever stored.  Whatever calls an application
  and its integrations make on a profiler (direct, buffered under a request capture, through a
  context, whole requests, in any order), every retained entry carries a document that redaction
  leaves as it is, so no scalar under a sensitive key is readable in it, and no entry is of a
  kind the configuration disables.
\<close>
theorem stored_entries_redacted:
  "let c = configured opts; p = api_run calls (newProfiler c ids clk samples stack)
   in list_all (\<lambda>e. redact (eData e) = eData e \<and>
        leaf_paths (eData e) = map (\<lambda>(path, leaf).
          (path, if list_ex isSensitiveKey path then mask_leaf leaf else leaf)) (leaf_paths (eData e)) \<and>
        eKind e \<notin> set (cDisabledKinds c)) (view (pStore p))"
proof -
  let ?c = "configured opts"
  let ?p = "api_run calls (newProfiler ?c ids clk samples stack)"
  have "prof_ok ?c ?p" by (intro api_run_ok newProfiler_ok configured_ok)
  then have all: "list_all (entry_ok ?c) (view (pStore ?p))" by (simp add: prof_ok_def)
  have "leaf_paths (eData e) = map (\<lambda>(path, leaf).
      (path, if list_ex isSensitiveKey path then mask_leaf leaf else leaf)) (leaf_paths (eData e))"
    if "redact (eData e) = eData e" for e
    using leaf_paths_redact [of "eData e"] that by simp
  with all show ?thesis by (auto simp: Let_def list_all_iff entry_ok_def)
qed

end
