(* ===== verification/CaptureProps.thy ===== *)
theory CaptureProps
  imports CaptureFacts
begin

text \<open>
  What recording promises its users: a request is recorded once and its entities carry its id,
  the configured number of captures is never exceeded, execution roots take no correlation from
  the context they start in, and a callsite is made of application frames.
\<close>

subsection \<open>Frames\<close>

lemma log_attached_frame:
  assumes "\<And>v p. pCaptures (f v p) = pCaptures p \<and> pRemaining (f v p) = pRemaining p \<and> pConfig (f v p) = pConfig p"
  shows "pCaptures (log_attached f i ts vs p) = pCaptures p"
    "pRemaining (log_attached f i ts vs p) = pRemaining p"
    "pConfig (log_attached f i ts vs p) = pConfig p"
  by (induction vs arbitrary: p) (simp_all add: log_attached_def assms)

lemma newID_frame:
  "pCaptures (fst (newID p)) = pCaptures p" "pRemaining (fst (newID p)) = pRemaining p"
  "pConfig (fst (newID p)) = pConfig p"
  by (simp_all add: newID_def tick_def)

lemma LogRequest_frame:
  "pCaptures (LogRequest r p) = pCaptures p"
  "pRemaining (LogRequest r p) = pRemaining p"
  "pConfig (LogRequest r p) = pConfig p"
  by (simp_all add: LogRequest_def Let_def case_prod_beta record_entry_frame log_attached_frame
      log_frame newID_frame)

subsection \<open>A request is recorded once\<close>

text \<open>
  Finishing a request twice records it once: after the first \<open>Finish\<close> a second one (by
  the same code, or by a deferred handler and a panic handler both) leaves the profiler exactly
  as it is, whatever its result, and everything logged under the capture from then on is
  refused, so that it is recorded on its own instead of being lost with the request.
\<close>
theorem finish_once:
  "let q = Finish i r p in Finish i r2 q = q \<and> capture_append i add q = (q, False)"
proof (cases "map_get (pCaptures p) i")
  case None
  then show ?thesis by (simp add: Finish_def capture_append_def)
next
  case (Some c)
  show ?thesis
  proof (cases "rcFinished c")
    case True
    with Some show ?thesis by (simp add: Finish_def capture_append_def)
  next
    case False
    define q where "q = Finish i r p"
    have "\<exists>c'. map_get (pCaptures q) i = Some c' \<and> rcFinished c'"
      using Some False by (simp add: q_def Finish_def clock_now_def Let_def LogRequest_frame)
    then have "Finish i r2 q = q" "capture_append i add q = (q, False)"
      by (auto simp: Finish_def capture_append_def)
    then show ?thesis by (simp add: q_def Let_def)
  qed
qed

subsection \<open>The entities of a request carry its id\<close>

lemma attachRequest_id:
  "mRequestID (attachRequest rid ts v) = (if mRequestID v = [] then rid else mRequestID v)"
  by (simp add: attachRequest_def Let_def)

lemma log_attached_all:
  assumes step: "\<And>v p. v \<in> set vs \<Longrightarrow> prof_all Q c p \<Longrightarrow> prof_all Q c (f (attachRequest rid ts v) p)"
    and ok: "prof_all Q c p"
  shows "prof_all Q c (log_attached f rid ts vs p)"
  using assms
proof (induction vs arbitrary: p)
  case (Cons v vs)
  have "prof_all Q c (f (attachRequest rid ts v) p)" by (rule Cons.prems(1)) (simp_all add: Cons.prems(2))
  then have "prof_all Q c (log_attached f rid ts vs (f (attachRequest rid ts v) p))"
    by (rule Cons.IH [rotated]) (rule Cons.prems(1), simp_all)
  then show ?case by (simp add: log_attached_def)
qed (simp add: log_attached_def)

text \<open>The request ids the entities of a request were given before they were attached to it.\<close>

definition child_ids :: "Request \<Rightarrow> string list" where
  "child_ids r = filter (\<lambda>i. i \<noteq> []) (map mRequestID (rqQueries r) @ map mRequestID (rqEmails r) @
     map mRequestID (rqCache r) @ map mRequestID (rqJobs r) @ map mRequestID (rqLogs r) @
     map mRequestID (rqHTTPCalls r) @ map mRequestID (rqSchedules r) @ map mRequestID (rqExceptions r) @
     map mRequestID (rqEvents r) @ map mRequestID (rqMiddlewares r))"

lemma LogRequest_all:
  assumes ok: "prof_all Q c p" and rid: "mID r \<noteq> []"
    and Q: "\<And>e. eRequestID e \<in> set (mID r # child_ids r) \<Longrightarrow> Q e"
  shows "prof_all Q c (LogRequest r p)"
proof (cases "shouldRetainRequest p r")
  case False
  then show ?thesis using ok by (simp add: LogRequest_def)
next
  case True
  have child: "Q e" if "mRequestID v = [] \<or> mRequestID v \<in> set (child_ids r)"
      "eRequestID e = mRequestID (attachRequest (mID r) ts v)" for e ts and v :: "'z Meta_scheme"
    using that by (intro Q) (auto simp: attachRequest_id)
  have main: "prof_all Q c (record_entry KindRequest (r'\<lparr>mRequestID := mID r\<rparr>) d p')"
    if "prof_all Q c p'" for r' :: Request and d p'
    using that by (intro record_entry_all) (simp_all add: entry_of_def Q)
  show ?thesis
    using True rid ok unfolding LogRequest_def Let_def
    apply simp
    apply (intro main log_attached_all log_all)
    apply (auto intro!: child simp: child_ids_def)
    done
qed


subsection \<open>The limit on captured requests\<close>

lemma fst_frames:
  "pRemaining (fst (capture_append i f p)) = pRemaining p" "pConfig (fst (capture_append i f p)) = pConfig p"
  "pRemaining (fst (BeginRequest r b p)) = pRemaining p" "pConfig (fst (BeginRequest r b p)) = pConfig p"
  "pRemaining (AddTags i ts p) = pRemaining p" "pConfig (AddTags i ts p) = pConfig p"
  "pRemaining (SetRoute i rt p) = pRemaining p" "pConfig (SetRoute i rt p) = pConfig p"
  "pRemaining (fst (WithTags ctx ts p)) = pRemaining p" "pConfig (fst (WithTags ctx ts p)) = pConfig p"
  "pRemaining (Finish i res p) = pRemaining p" "pConfig (Finish i res p) = pConfig p"
  by (simp_all add: capture_append_def BeginRequest_def AddTags_def SetRoute_def WithTags_def Finish_def
      newID_def clock_now_def tick_def Let_def LogRequest_frame split: option.split)

lemmas log_context_defs = LogQueryContext_def LogEmailContext_def LogCacheContext_def LogJobContext_def
  LogLogContext_def LogHTTPCallContext_def LogScheduleContext_def LogCallableContext_def
  LogTaskContext_def LogExceptionContext_def LogEventContext_def LogMiddlewareContext_def

lemma log_context_frame:
  "pRemaining (LogQueryContext ctx q p) = pRemaining p" "pConfig (LogQueryContext ctx q p) = pConfig p"
  "pRemaining (LogEmailContext ctx em p) = pRemaining p" "pConfig (LogEmailContext ctx em p) = pConfig p"
  "pRemaining (LogCacheContext ctx ca p) = pRemaining p" "pConfig (LogCacheContext ctx ca p) = pConfig p"
  "pRemaining (LogJobContext ctx j p) = pRemaining p" "pConfig (LogJobContext ctx j p) = pConfig p"
  "pRemaining (LogLogContext ctx l p) = pRemaining p" "pConfig (LogLogContext ctx l p) = pConfig p"
  "pRemaining (LogHTTPCallContext ctx h p) = pRemaining p" "pConfig (LogHTTPCallContext ctx h p) = pConfig p"
  "pRemaining (LogScheduleContext ctx sc p) = pRemaining p" "pConfig (LogScheduleContext ctx sc p) = pConfig p"
  "pRemaining (LogCallableContext ctx cl p) = pRemaining p" "pConfig (LogCallableContext ctx cl p) = pConfig p"
  "pRemaining (LogTaskContext ctx t p) = pRemaining p" "pConfig (LogTaskContext ctx t p) = pConfig p"
  "pRemaining (LogExceptionContext ctx ex p) = pRemaining p" "pConfig (LogExceptionContext ctx ex p) = pConfig p"
  "pRemaining (LogEventContext ctx ev p) = pRemaining p" "pConfig (LogEventContext ctx ev p) = pConfig p"
  "pRemaining (LogMiddlewareContext ctx m p) = pRemaining p" "pConfig (LogMiddlewareContext ctx m p) = pConfig p"
  by (simp_all add: log_context_defs Let_def case_prod_beta prepare_frame fst_frames log_frame split: option.split)

fun slot_call :: "apiCall \<Rightarrow> httpRequest option" where
  "slot_call (ApiShouldCapture r) = r"
| "slot_call _ = None"

lemma api_step_config: "pConfig (api_step a p) = pConfig p"
proof (cases "\<exists>r. a = ApiShouldCapture r")
  case True
  then show ?thesis by (auto simp: idle_should [unfolded idle_def])
next
  case False
  then show ?thesis
    by (cases a) (simp_all add: log_frame log_context_frame fst_frames LogRequest_frame capture_defs)
qed

lemma should_capture_slot:
  assumes "0 \<le> cRequestLimit (pConfig p)" "0 \<le> pRemaining p"
  shows "pRemaining (fst (ShouldCaptureRequest r p)) =
      pRemaining p - (if snd (ShouldCaptureRequest r p) then 1 else 0) \<and>
    0 \<le> pRemaining (fst (ShouldCaptureRequest r p))"
  using assms by (auto simp: ShouldCaptureRequest_def takeRequestCaptureSlot_def Let_def tick_def
      split: option.split)

text \<open>How many capture decisions of a run were positive.\<close>

fun granted :: "apiCall list \<Rightarrow> ('w, 'x) Profiler \<Rightarrow> nat" where
  "granted [] p = 0"
| "granted (a # calls) p =
     (if snd (ShouldCaptureRequest (slot_call a) p) then 1 else 0) + granted calls (api_step a p)"

lemma api_step_slots:
  assumes "0 \<le> cRequestLimit (pConfig p)" "0 \<le> pRemaining p"
  shows "pRemaining (api_step a p) =
      pRemaining p - (if snd (ShouldCaptureRequest (slot_call a) p) then 1 else 0) \<and>
    0 \<le> pRemaining (api_step a p)"
proof (cases "\<exists>r. a = ApiShouldCapture r")
  case True
  then obtain r where r: "a = ApiShouldCapture r" by blast
  show ?thesis using should_capture_slot [OF assms, of r] unfolding r by simp
next
  case False
  then have "slot_call a = None" by (cases a) simp_all
  with False show ?thesis
    using assms by (cases a) (simp_all add: log_frame log_context_frame fst_frames LogRequest_frame
        capture_defs ShouldCaptureRequest_def)
qed

lemma granted_slots:
  assumes "0 \<le> cRequestLimit (pConfig p)" "0 \<le> pRemaining p"
  shows "int (granted calls p) + pRemaining (api_run calls p) = pRemaining p \<and>
    0 \<le> pRemaining (api_run calls p)"
  using assms
proof (induction calls arbitrary: p)
  case (Cons a calls)
  note step = api_step_slots [OF Cons.prems, of a]
  have "int (granted calls (api_step a p)) + pRemaining (api_run calls (api_step a p)) =
      pRemaining (api_step a p) \<and> 0 \<le> pRemaining (api_run calls (api_step a p))"
    using Cons.prems step by (intro Cons.IH) (simp_all add: api_step_config)
  with step show ?case by (simp add: api_run_def split: if_splits)
qed (simp add: api_run_def)

text \<open>
  C24. \<open>WithNextRequests n\<close> captures at most \<open>n\<close> requests.  However the capture decisions are
  interleaved with other calls, the number of requests admitted so far and the number of slots
  left add up to the configured count (a negative count being none), and the slots never go
  below zero; a request rejected by an exclusion, a filter or the sample uses no slot.
\<close>
theorem capture_quota:
  "let p = newProfiler (configured (opts @ [ONextRequests n])) ids clk samples stack
   in int (granted calls p) + pRemaining (api_run calls p) = max 0 n \<and> 0 \<le> pRemaining (api_run calls p)"
proof -
  define p where "p = newProfiler (configured (opts @ [ONextRequests n])) ids clk samples stack"
  have limit: "cRequestLimit (configured (opts @ [ONextRequests n])) = max 0 n"
    by (simp add: configured_def WithNextRequests_def)
  then have "0 \<le> cRequestLimit (pConfig p)" "pRemaining p = max 0 n"
    by (simp_all add: p_def newProfiler_def)
  then show ?thesis using granted_slots [of p calls] by (simp add: p_def [symmetric])
qed

subsection \<open>Execution roots\<close>

text \<open>A context without the correlation it carries.\<close>

fun uncorrelate :: "goContext \<Rightarrow> goContext" where
  "uncorrelate Background = Background"
| "uncorrelate (Uncorrelated c) = uncorrelate c"
| "uncorrelate (ValRequest i c) = uncorrelate c"
| "uncorrelate (ValTags t c) = ValTags t (uncorrelate c)"
| "uncorrelate (ValParent s c) = uncorrelate c"
| "uncorrelate (ValDisabled c) = ValDisabled (uncorrelate c)"

lemma uncorrelate_tags [simp]: "ctx_tags (uncorrelate c) = ctx_tags c"
  by (induction c) simp_all

lemma uncorrelate_disabled [simp]: "ctx_disabled (uncorrelate c) = ctx_disabled c"
  by (induction c) simp_all

lemma uncorrelate_none [simp]: "ctx_request (uncorrelate c) = None" "ctx_parent (uncorrelate c) = []"
  by (induction c) simp_all

lemma inherit_uncorrelated:
  "inheritContextMeta (Some (WithoutCorrelation (Some c))) m = inheritContextMeta (Some (uncorrelate c)) m"
  by (simp add: inheritContextMeta_def WithoutCorrelation_def or_background_def TagsFromContext_def
      ParentEntryIDFromContext_def Let_def)

lemma uncorrelate_idem [simp]: "uncorrelate (uncorrelate c) = uncorrelate c"
  by (induction c) simp_all

text \<open>
  Schedules, callables and tasks are execution roots.  Recording one through a context gives
  the same profiler as recording it through the context stripped of its request and parent, so
  neither the request being served nor the surrounding operation shows up in the entry, while
  the tags of the context do; and it is never buffered under the request's capture.
\<close>
theorem execution_roots:
  "LogScheduleContext (Some c) sc p = LogScheduleContext (Some (uncorrelate c)) sc p \<and>
   LogCallableContext (Some c) cl p = LogCallableContext (Some (uncorrelate c)) cl p \<and>
   LogTaskContext (Some c) t p = LogTaskContext (Some (uncorrelate c)) t p \<and>
   pCaptures (LogScheduleContext (Some c) sc p) = pCaptures p \<and>
   pCaptures (LogCallableContext (Some c) cl p) = pCaptures p \<and>
   pCaptures (LogTaskContext (Some c) t p) = pCaptures p"
  by (simp add: LogScheduleContext_def LogCallableContext_def LogTaskContext_def Let_def case_prod_beta
      RecordingEnabled_def inherit_uncorrelated log_frame prepare_frame)

subsection \<open>Callsites\<close>

definition application_frame :: "Kind \<Rightarrow> rawFrame \<Rightarrow> bool" where
  "application_frame kind f \<longleftrightarrow> \<not> isCallsiteInfrastructureFrame kind (rfFunction f) \<and> rfFile f \<noteq> [] \<and> rfLine f > 0"

definition frame_of :: "rawFrame \<Rightarrow> SourceFrame" where
  "frame_of f = \<lparr>sfFunction = rfFunction f, sfFile = rfFile f, sfLine = rfLine f, sfURL = []\<rparr>"

lemma callsite_frames_step:
  "callsite_frames kind (f # fs) acc =
     (if application_frame kind f then
        (if Suc (length acc) = callsiteDepth then acc @ [frame_of f]
         else callsite_frames kind fs (acc @ [frame_of f]))
      else callsite_frames kind fs acc)"
  by (simp add: application_frame_def frame_of_def Let_def)

lemma callsite_frames_spec:
  "length acc < callsiteDepth \<Longrightarrow>
   callsite_frames kind fs acc =
     acc @ map frame_of (take (callsiteDepth - length acc) (filter (application_frame kind) fs))"
proof (induction fs arbitrary: acc)
  case (Cons f fs)
  obtain k where k: "callsiteDepth = Suc (length acc + k)"
    using Cons.prems less_iff_Suc_add by auto
  then have n: "callsiteDepth - length acc = Suc k" "callsiteDepth - Suc (length acc) = k"
    "(Suc (length acc) = callsiteDepth) = (k = 0)" by presburger+
  show ?case
    using Cons.IH [of acc] Cons.IH [of "acc @ [frame_of f]"] Cons.prems n
    by (cases k) (simp_all add: callsite_frames_step del: callsite_frames.simps)
qed simp

text \<open>
  A captured callsite consists of the first sixteen application frames of the call stack.
  The loop that walks the stack and stops early computes exactly: of the first 48 frames, those
  that are not the profiler's own or the runtime's and have a position in a file, in order, and
  of these at most sixteen.
\<close>
theorem callsite_is_application_frames:
  "snd (CaptureCallsite kind p) =
     map frame_of (take 16 (filter (application_frame kind) (take 48 (pStack p (pTick p)))))"
  by (simp add: CaptureCallsite_def callsite_frames_spec callsiteDepth_def)

end
