(* ===== verification/GoNumbers.thy ===== *)
theory GoNumbers
  imports Redact
begin

text \<open>
  Floating point and durations as text: the nearest \<open>float64\<close> to a rational (53 significant
  bits, ties to even; the quantities of the program are far from overflow and from the
  subnormal range), \<open>%.nf\<close> formatting, and \<open>time.Duration.String\<close>.  Also \<open>url.Parse\<close>, as far as it
  decides the host of a URL.
\<close>

subsection \<open>Rounding\<close>

definition round_half_even :: "nat \<Rightarrow> nat \<Rightarrow> nat" where
  "round_half_even n d =
     (let q = n div d; r = n mod d in if 2 * r > d \<or> 2 * r = d \<and> odd q then q + 1 else q)"

text \<open>\<open>n / d\<close> lies between two powers of two with a factor of four between them.\<close>

definition float64_pos :: "nat \<Rightarrow> nat \<Rightarrow> rat" where
  "float64_pos n d =
     (let s0 = 53 - (int (bit_len n) - int (bit_len d));
          scaled = (\<lambda>s. (n * 2 ^ nat s, d * 2 ^ nat (- s)));
          s = (if fst (scaled s0) div snd (scaled s0) \<ge> 2 ^ 53 then s0 - 1 else s0)
      in rat_of_nat (round_half_even (fst (scaled s)) (snd (scaled s)) * 2 ^ nat (- s)) / 2 ^ nat s)"

definition float64 :: "rat \<Rightarrow> rat" where
  "float64 q =
     (let (n, d) = quotient_of q
      in if n = 0 then 0
         else if n < 0 then - float64_pos (nat (- n)) (nat d)
         else float64_pos (nat n) (nat d))"

definition fdiv :: "rat \<Rightarrow> rat \<Rightarrow> rat" where
  "fdiv a b = float64 (a / b)"

definition fmul :: "rat \<Rightarrow> rat \<Rightarrow> rat" where
  "fmul a b = float64 (a * b)"

definition float_of_int :: "int \<Rightarrow> rat" where
  "float_of_int i = float64 (rat_of_int i)"

text \<open>\<open>math.Round\<close>: to the nearest integer, halves away from zero.\<close>

definition math_round :: "rat \<Rightarrow> int" where
  "math_round q = (if q < 0 then - \<lfloor>- q + 1 / 2\<rfloor> else \<lfloor>q + 1 / 2\<rfloor>)"

text \<open>\<open>int(math.Round(float64(part) / float64(whole) * 100))\<close>.\<close>

definition percent :: "int \<Rightarrow> int \<Rightarrow> int" where
  "percent part whole = math_round (fmul (fdiv (float_of_int part) (float_of_int whole)) 100)"

subsection \<open>Decimal text\<close>

definition format_fixed :: "nat \<Rightarrow> rat \<Rightarrow> string" where
  "format_fixed k q =
     (let (n, d) = quotient_of q;
          v = round_half_even (nat \<bar>n\<bar> * 10 ^ k) (nat d)
      in (if n < 0 then ''-'' else []) @ show_nat (v div 10 ^ k) @
         (if k = 0 then [] else ''.'' @ pad_nat k (v mod 10 ^ k)))"

text \<open>\<open>fmtFrac\<close>: the decimal fraction of \<open>v / 10^k\<close> without its trailing zeros.\<close>

definition fmt_frac :: "nat \<Rightarrow> nat \<Rightarrow> string" where
  "fmt_frac k v =
     (let digits = rev (dropWhile (\<lambda>c. c = CHR ''0'') (rev (pad_nat k (v mod 10 ^ k))))
      in show_nat (v div 10 ^ k) @ (if v mod 10 ^ k = 0 then [] else ''.'' @ digits))"

definition micro_sign :: string where "micro_sign = [CHR 0xC2, CHR 0xB5]"

definition duration_abs_string :: "nat \<Rightarrow> string" where
  "duration_abs_string u =
     (if u = 0 then ''0s''
      else if u < 1000 then show_nat u @ ''ns''
      else if u < 1000000 then fmt_frac 3 u @ micro_sign @ ''s''
      else if u < 1000000000 then fmt_frac 6 u @ ''ms''
      else
        let sec = u div 1000000000; frac = u mod 1000000000; m = sec div 60; h = m div 60
        in (if h > 0 then show_nat h @ ''h'' else []) @ (if m > 0 then show_nat (m mod 60) @ ''m'' else []) @
           fmt_frac 9 ((sec mod 60) * 1000000000 + frac) @ ''s'')"

definition duration_string :: "duration \<Rightarrow> string" where
  "duration_string d = (if d < 0 then ''-'' @ duration_abs_string (nat (- d)) else duration_abs_string (nat d))"

subsection \<open>The host of a URL\<close>

definition is_hex :: "char \<Rightarrow> bool" where
  "is_hex c \<longleftrightarrow> is_digit c \<or> 65 \<le> byte c \<and> byte c \<le> 70 \<or> 97 \<le> byte c \<and> byte c \<le> 102"

definition hex_val :: "char \<Rightarrow> nat" where
  "hex_val c = (if is_digit c then byte c - 48 else if byte c \<le> 70 then byte c - 55 else byte c - 87)"

text \<open>Every percent sign introduces two hexadecimal digits.\<close>

fun percent_ok :: "string \<Rightarrow> bool" where
  "percent_ok [] = True"
| "percent_ok (c # s) =
     (if c = CHR ''%'' then
        (case s of a # b # t \<Rightarrow> is_hex a \<and> is_hex b \<and> percent_ok t | _ \<Rightarrow> False)
      else percent_ok s)"

text \<open>\<open>getScheme\<close>: \<open>None\<close> when the text starts with a colon.\<close>

fun get_scheme :: "string \<Rightarrow> string \<Rightarrow> (string \<times> string) option" where
  "get_scheme seen [] = Some ([], rev seen)"
| "get_scheme seen (c # s) =
     (if is_alpha c then get_scheme (c # seen) s
      else if is_digit c \<or> c = CHR ''+'' \<or> c = CHR ''-'' \<or> c = CHR ''.'' then
        (if seen = [] then Some ([], c # s) else get_scheme (c # seen) s)
      else if c = CHR '':'' then (if seen = [] then None else Some (rev seen, s))
      else Some ([], rev seen @ c # s))"

definition host_char :: "char \<Rightarrow> bool" where
  "host_char c \<longleftrightarrow> byte c \<ge> 128 \<or> is_alpha c \<or> is_digit c \<or> c \<in> set ''-_.~!$&()*+,;=:[]<>'' \<or>
     c = CHR 0x27 \<or> c = CHR 0x22"

text \<open>\<open>unescape\<close> of a host: only bytes from 128 up, and the percent sign, may be escaped.\<close>

fun unescape_host :: "string \<Rightarrow> string option" where
  "unescape_host [] = Some []"
| "unescape_host (c # s) =
     (if c = CHR ''%'' then
        (case s of
           a # b # t \<Rightarrow>
             if is_hex a \<and> is_hex b \<and> (hex_val a \<ge> 8 \<or> hex_val a = 2 \<and> b = CHR ''5'') then
               map_option (Cons (char_of (16 * hex_val a + hex_val b))) (unescape_host t)
             else None
         | _ \<Rightarrow> None)
      else if host_char c then map_option (Cons c) (unescape_host s)
      else None)"

definition valid_port :: "string \<Rightarrow> bool" where
  "valid_port s \<longleftrightarrow> (case s of [] \<Rightarrow> True | c # t \<Rightarrow> c = CHR '':'' \<and> list_all is_digit t)"

definition last_index :: "char \<Rightarrow> string \<Rightarrow> nat option" where
  "last_index c s =
     (let t = dropWhile (\<lambda>d. d \<noteq> c) (rev s) in if t = [] then None else Some (length t - 1))"

text \<open>\<open>parseHost\<close>; an address between brackets is taken to be well-formed.\<close>

definition parse_host :: "string \<Rightarrow> string option" where
  "parse_host h =
     (case last_index (CHR ''['') h of
        Some _ \<Rightarrow>
          (case last_index (CHR '']'') h of
             None \<Rightarrow> None
           | Some j \<Rightarrow> if valid_port (drop (j + 1) h) then Some h else None)
      | None \<Rightarrow>
          (case last_index (CHR '':'') h of
             Some i \<Rightarrow> if valid_port (drop i h) then unescape_host h else None
           | None \<Rightarrow> unescape_host h))"

definition userinfo_char :: "char \<Rightarrow> bool" where
  "userinfo_char c \<longleftrightarrow> is_alpha c \<or> is_digit c \<or> c \<in> set ''-._:~!$&()*+,;=%@'' \<or> c = CHR 0x27"

definition parse_authority :: "string \<Rightarrow> string option" where
  "parse_authority a =
     (case last_index (CHR ''@'') a of
        None \<Rightarrow> parse_host a
      | Some i \<Rightarrow>
          if list_all userinfo_char (take i a) \<and> percent_ok (take i a) then parse_host (drop (i + 1) a)
          else None)"

definition url_host :: "string \<Rightarrow> string option" where
  "url_host raw =
     (let (u, frag, _) = cut raw ''#'' in
      if list_ex (\<lambda>c. byte c < 32 \<or> byte c = 127) u \<or> \<not> percent_ok frag then None
      else case get_scheme [] u of
        None \<Rightarrow> None
      | Some (scheme, rest0) \<Rightarrow>
          let (rest, _, _) = cut rest0 ''?'' in
          if \<not> has_prefix rest ''/'' \<and> scheme \<noteq> [] then Some []
          else if \<not> has_prefix rest ''/'' \<and> contains (fst (cut rest ''/'')) '':'' then None
          else if (scheme \<noteq> [] \<or> \<not> has_prefix rest ''///'') \<and> has_prefix rest ''//'' then
            (let (authority, path, found) = cut (drop 2 rest) ''/''
             in if percent_ok path then parse_authority authority else None)
          else if percent_ok rest then Some [] else None)"

end
