(* ===== verification/QueryPlanIssues.thy ===== *)
theory QueryPlanIssues
  imports Contracts
begin

text \<open>
  \<open>query_plan.go\<close>: reading performance signals out of an \<open>EXPLAIN\<close> plan.  The four regular
  expressions are written out as matchers; each is deterministic up to the optional
  \<open>table\<close> of the SQLite pattern, whose backtracking is the second alternative below.
\<close>

abbreviation IssueFullScan :: string where "IssueFullScan \<equiv> ''full_scan''"
abbreviation IssueTemporarySort :: string where "IssueTemporarySort \<equiv> ''temporary_sort''"
abbreviation IssueLargeEstimate :: string where "IssueLargeEstimate \<equiv> ''large_estimate''"

definition queryPlanLargeEstimateMinimum :: nat where
  "queryPlanLargeEstimateMinimum = 10000"

subsection \<open>Matchers\<close>

text \<open>Character classes \<open>\s\<close>, \<open>\w\<close> and \<open>[\w."`]\<close> of the pattern language.\<close>

definition re_space :: "char \<Rightarrow> bool" where
  "re_space c \<longleftrightarrow> byte c = 32 \<or> byte c = 9 \<or> byte c = 10 \<or> byte c = 12 \<or> byte c = 13"

definition re_word :: "char \<Rightarrow> bool" where
  "re_word c \<longleftrightarrow> is_alpha c \<or> is_digit c \<or> c = CHR ''_''"

definition re_ident :: "char \<Rightarrow> bool" where
  "re_ident c \<longleftrightarrow> re_word c \<or> c = CHR ''.'' \<or> c = CHR 0x22 \<or> c = CHR 0x60"

definition boundary :: "char option \<Rightarrow> bool" where
  "boundary previous = (case previous of None \<Rightarrow> True | Some c \<Rightarrow> \<not> re_word c)"

text \<open>A literal, ignoring case: the rest after it.\<close>

definition lit :: "string \<Rightarrow> string \<Rightarrow> string option" where
  "lit p s = (if to_lower (take (length p) s) = p then Some (drop (length p) s) else None)"

definition spaces1 :: "string \<Rightarrow> string option" where
  "spaces1 s = (case s of [] \<Rightarrow> None | c # t \<Rightarrow> if re_space c then Some (dropWhile re_space t) else None)"

definition run1 :: "(char \<Rightarrow> bool) \<Rightarrow> string \<Rightarrow> (string \<times> string) option" where
  "run1 p s = (if takeWhile p s = [] then None else Some (takeWhile p s, dropWhile p s))"

text \<open>The leftmost match of a pattern that begins at a word boundary.\<close>

fun find_first :: "(string \<Rightarrow> string option) \<Rightarrow> char option \<Rightarrow> string \<Rightarrow> string option" where
  "find_first m previous [] = None"
| "find_first m previous (c # s) =
     (case (if boundary previous then m (c # s) else None) of
        Some x \<Rightarrow> Some x
      | None \<Rightarrow> find_first m (Some c) s)"

definition postgresSequentialScan :: "string \<Rightarrow> string option" where
  "postgresSequentialScan line = find_first (\<lambda>s.
     do { r \<leftarrow> lit ''seq scan on'' s; r \<leftarrow> spaces1 r; (w, _) \<leftarrow> run1 re_ident r; Some w }) None line"

definition sqliteScan :: "string \<Rightarrow> string option" where
  "sqliteScan line = find_first (\<lambda>s.
     do { r \<leftarrow> lit ''scan'' s; r \<leftarrow> spaces1 r;
          case do { r \<leftarrow> lit ''table'' r; r \<leftarrow> spaces1 r; run1 re_ident r } of
            Some (w, _) \<Rightarrow> Some w
          | None \<Rightarrow> do { (w, _) \<leftarrow> run1 re_ident r; Some w } }) None line"

text \<open>All non-overlapping matches of \<open>\brows=(\d+)\<close>.\<close>

function (sequential) postgresRows :: "char option \<Rightarrow> string \<Rightarrow> string list" where
  "postgresRows previous [] = []"
| "postgresRows previous (c # s) =
     (case (if boundary previous then lit ''rows='' (c # s) else None) of
        Some r \<Rightarrow>
          let digits = takeWhile is_digit r in
          if digits = [] then postgresRows (Some c) s
          else digits # postgresRows (Some (last digits)) (drop (length digits) (drop 4 s))
      | None \<Rightarrow> postgresRows (Some c) s)"
  by pat_completeness auto
termination by (relation "measure (length \<circ> snd)") auto

text \<open>
  All non-overlapping matches of \<open>(?:^|\s)rows=(\d+)(?:\s|$)\<close>; the flag says that the
  position is the start of the line.  A match consumes the white space on both sides.
\<close>

definition mysqlRowsAt :: "string \<Rightarrow> (string \<times> string) option" where
  "mysqlRowsAt s = do {
     r \<leftarrow> lit ''rows='' s; (digits, r) \<leftarrow> run1 is_digit r;
     case r of [] \<Rightarrow> Some (digits, []) | c # t \<Rightarrow> if re_space c then Some (digits, t) else None }"

lemma lit_shorter: "lit p s = Some r \<Longrightarrow> p \<noteq> [] \<Longrightarrow> length r < length s"
  by (cases s) (auto simp: lit_def to_lower_def split: if_splits)

lemma mysqlRowsAt_shorter: "mysqlRowsAt s = Some (d, r) \<Longrightarrow> length r < length s"
proof -
  assume "mysqlRowsAt s = Some (d, r)"
  then obtain t where t: "lit ''rows='' s = Some t" "length r \<le> length (dropWhile is_digit t)"
    by (auto simp: mysqlRowsAt_def run1_def Option.bind_eq_Some_conv split: if_splits list.splits)
  then show "length r < length s"
    using length_dropWhile_le [of is_digit t] lit_shorter [OF t(1)] by simp
qed

function (sequential) mysqlRows :: "bool \<Rightarrow> string \<Rightarrow> string list" where
  "mysqlRows start [] = []"
| "mysqlRows start (c # s) =
     (case (if start then mysqlRowsAt (c # s) else None) of
        Some (digits, r) \<Rightarrow> digits # mysqlRows False r
      | None \<Rightarrow>
          (case (if re_space c then mysqlRowsAt s else None) of
             Some (digits, r) \<Rightarrow> digits # mysqlRows False r
           | None \<Rightarrow> mysqlRows False s))"
  by pat_completeness auto
termination
  by (relation "measure (length \<circ> snd)")
    (auto split: if_splits dest!: mysqlRowsAt_shorter)

subsection \<open>Issues\<close>

definition trimPlanIdentifier :: "string \<Rightarrow> string" where
  "trimPlanIdentifier value = trim_by (\<lambda>c. c = CHR 0x60 \<or> c = CHR 0x22) value"

definition planField :: "string \<Rightarrow> string \<Rightarrow> string" where
  "planField line name =
     (let prefix = to_lower name @ ''='' in
      case find (\<lambda>field. has_prefix (to_lower field) prefix) (GoText.fields line) of
        None \<Rightarrow> []
      | Some field \<Rightarrow> trimPlanIdentifier (drop (length prefix) field))"

type_synonym issueState = "QueryPlanIssue list \<times> string list"

definition nul :: string where "nul = [CHR 0x00]"

definition plan_issue :: "string \<Rightarrow> string \<Rightarrow> int \<Rightarrow> string \<Rightarrow> QueryPlanIssue" where
  "plan_issue code relation rows detail =
     \<lparr>qiCode = code, qiRelation = relation, qiEstimatedRows = rows, qiDetail = detail\<rparr>"

definition add_issue :: "QueryPlanIssue \<Rightarrow> issueState \<Rightarrow> issueState" where
  "add_issue issue st =
     (let (issues, seen) = st; key = qiCode issue @ nul @ qiRelation issue @ nul @ qiDetail issue
      in if key \<in> set seen then st else (issues @ [issue], key # seen))"

definition addLargePlanEstimate :: "string list \<Rightarrow> string \<Rightarrow> issueState \<Rightarrow> issueState" where
  "addLargePlanEstimate matches detail st = fold (\<lambda>digits (issues, seen).
     let rows = digits_val digits; key = IssueLargeEstimate @ nul @ show_nat rows in
     if rows > 2 ^ 63 - 1 \<or> rows < queryPlanLargeEstimateMinimum then (issues, seen)
     else if key \<in> set seen then (issues, seen)
     else (issues @ [plan_issue IssueLargeEstimate [] (int rows) detail], key # seen)) matches st"

definition sqlite_line :: "string \<Rightarrow> issueState \<Rightarrow> issueState" where
  "sqlite_line line st =
     (let lower = to_lower line;
          st = (case sqliteScan line of
                  Some relation \<Rightarrow>
                    if \<not> contains lower ''using index'' \<and> \<not> contains lower ''using covering index''
                    then add_issue (plan_issue IssueFullScan (trimPlanIdentifier relation) 0 line) st else st
                | None \<Rightarrow> st)
      in if contains lower ''use temp b-tree'' then add_issue (plan_issue IssueTemporarySort [] 0 line) st else st)"

definition postgres_line :: "string \<Rightarrow> issueState \<Rightarrow> issueState" where
  "postgres_line line st =
     (let lower = to_lower line;
          st = (case postgresSequentialScan line of
                  Some relation \<Rightarrow> add_issue (plan_issue IssueFullScan (trimPlanIdentifier relation) 0 line) st
                | None \<Rightarrow> st);
          st = (if contains lower ''sort method:'' \<and> (contains lower ''disk'' \<or> contains lower ''external'')
                then add_issue (plan_issue IssueTemporarySort [] 0 line) st else st)
      in addLargePlanEstimate (postgresRows None line) line st)"

definition mysql_line :: "string \<Rightarrow> issueState \<Rightarrow> issueState" where
  "mysql_line line st =
     (let lower = to_lower line;
          st = (if contains lower ''type=all''
                then add_issue (plan_issue IssueFullScan (planField line ''table'') 0 line) st else st);
          st = (if contains lower ''using filesort'' \<or> contains lower ''using temporary''
                then add_issue (plan_issue IssueTemporarySort [] 0 line) st else st)
      in addLargePlanEstimate (mysqlRows True line) line st)"

definition plan_line :: "string \<Rightarrow> string \<Rightarrow> issueState \<Rightarrow> issueState" where
  "plan_line driver rawLine st =
     (let line = trim_space rawLine in
      if line = [] then st
      else if driver = ''sqlite'' \<or> driver = ''sqlite3'' then sqlite_line line st
      else if driver = ''postgres'' \<or> driver = ''postgresql'' \<or> driver = ''pgx'' then postgres_line line st
      else if driver = ''mysql'' \<or> driver = ''mariadb'' then mysql_line line st
      else st)"

definition DetectQueryPlanIssues :: "string \<Rightarrow> string \<Rightarrow> QueryPlanIssue list" where
  "DetectQueryPlanIssues driverName planText =
     (let driver = to_lower (trim_space driverName)
      in fst (fold (plan_line driver) (split_on (CHR 0x0A) planText) ([], [])))"

end
