(* ===== verification/Analysis.thy ===== *)
theory Analysis
  imports Store GoNumbers QueryPlanIssues "HOL-Library.Product_Lexorder"
begin

text \<open>
  \<open>analysis.go\<close>: the findings drawn from the entries of one execution.  Each finder is a
  function of the decoded operations, in the order the code calls them.  Durations and
  instants are unbounded here; percentages go through \<open>float64\<close> as in the code.  A
  comparison sort by start and cursor is a sort by the pair, since the cursors of a store
  differ.
\<close>

subsection \<open>Thresholds, in nanoseconds\<close>

abbreviation millisecond :: duration where "millisecond \<equiv> 1000000"

definition analysisNPlusOneMinimum :: nat where "analysisNPlusOneMinimum = 3"
definition analysisSQLShareMinimum :: int where "analysisSQLShareMinimum = 50"
definition analysisSequentialHTTPMinimum :: nat where "analysisSequentialHTTPMinimum = 3"
definition analysisSequentialHTTPMaxGap :: duration where "analysisSequentialHTTPMaxGap = 100 * millisecond"
definition analysisCacheBurstMinimum :: nat where "analysisCacheBurstMinimum = 3"
definition analysisCacheQueryMaxGap :: duration where "analysisCacheQueryMaxGap = 100 * millisecond"
definition analysisCacheMissRateMinimum :: nat where "analysisCacheMissRateMinimum = 5"
definition analysisSlowRequest :: duration where "analysisSlowRequest = 500 * millisecond"
definition analysisSlowSchedule :: duration where "analysisSlowSchedule = 500 * millisecond"
definition analysisSlowCallable :: duration where "analysisSlowCallable = 500 * millisecond"
definition analysisSlowTask :: duration where "analysisSlowTask = 1000 * millisecond"
definition analysisBottleneckQuery :: duration where "analysisBottleneckQuery = 50 * millisecond"
definition analysisSlowQuery :: duration where "analysisSlowQuery = 100 * millisecond"
definition analysisVerySlowQuery :: duration where "analysisVerySlowQuery = 500 * millisecond"
definition analysisSlowCache :: duration where "analysisSlowCache = 50 * millisecond"
definition analysisSlowHTTPCall :: duration where "analysisSlowHTTPCall = 500 * millisecond"
definition analysisSlowMiddleware :: duration where "analysisSlowMiddleware = 100 * millisecond"
definition analysisSlowEvent :: duration where "analysisSlowEvent = 500 * millisecond"
definition analysisSlowJob :: duration where "analysisSlowJob = 500 * millisecond"
definition analysisSlowEmail :: duration where "analysisSlowEmail = 500 * millisecond"
definition analysisBottleneckShare :: int where "analysisBottleneckShare = 50"

subsection \<open>Findings\<close>

type_synonym FindingCode = string

abbreviation FindingPossibleNPlusOne :: FindingCode where "FindingPossibleNPlusOne \<equiv> ''possible_n_plus_one''"
abbreviation FindingSQLDominatesRequest :: FindingCode where "FindingSQLDominatesRequest \<equiv> ''sql_dominates_request''"
abbreviation FindingSQLDominatesSchedule :: FindingCode where "FindingSQLDominatesSchedule \<equiv> ''sql_dominates_schedule''"
abbreviation FindingSQLDominatesCallable :: FindingCode where "FindingSQLDominatesCallable \<equiv> ''sql_dominates_callable''"
abbreviation FindingSQLDominatesTask :: FindingCode where "FindingSQLDominatesTask \<equiv> ''sql_dominates_task''"
abbreviation FindingSequentialHTTPCalls :: FindingCode where "FindingSequentialHTTPCalls \<equiv> ''sequential_http_calls''"
abbreviation FindingCacheMissQueryBurst :: FindingCode where "FindingCacheMissQueryBurst \<equiv> ''cache_miss_query_burst''"
abbreviation FindingSlowMiddleware :: FindingCode where "FindingSlowMiddleware \<equiv> ''slow_middleware''"
abbreviation FindingSlowRequest :: FindingCode where "FindingSlowRequest \<equiv> ''slow_request''"
abbreviation FindingSlowSchedule :: FindingCode where "FindingSlowSchedule \<equiv> ''slow_schedule''"
abbreviation FindingSlowCallable :: FindingCode where "FindingSlowCallable \<equiv> ''slow_callable''"
abbreviation FindingSlowTask :: FindingCode where "FindingSlowTask \<equiv> ''slow_task''"
abbreviation FindingSlowQuery :: FindingCode where "FindingSlowQuery \<equiv> ''slow_query''"
abbreviation FindingSlowHTTPCall :: FindingCode where "FindingSlowHTTPCall \<equiv> ''slow_http_call''"
abbreviation FindingSlowEvent :: FindingCode where "FindingSlowEvent \<equiv> ''slow_event''"
abbreviation FindingExecutionBottleneck :: FindingCode where "FindingExecutionBottleneck \<equiv> ''execution_bottleneck''"
abbreviation FindingQueryPlanIssue :: FindingCode where "FindingQueryPlanIssue \<equiv> ''query_plan_issue''"
abbreviation FindingFailedOperation :: FindingCode where "FindingFailedOperation \<equiv> ''failed_operation''"
abbreviation FindingHighCacheMissRate :: FindingCode where "FindingHighCacheMissRate \<equiv> ''high_cache_miss_rate''"

datatype FindingSeverity = FindingSeverityInfo | FindingSeverityWarning | FindingSeverityDanger

record Finding =
  fCode :: FindingCode
  fSeverity :: FindingSeverity
  fTitle :: string
  fDetail :: string
  fSuggestion :: string
  fEntryID :: string
  fRelatedEntryIDs :: "string list"

record analyzedQuery =
  aqEntry :: Entry
  aqQuery :: Query
  aqFingerprint :: string

record analyzedCache =
  acEntry :: Entry
  acCache :: Cache

record analyzedHTTPCall =
  ahEntry :: Entry
  ahCall :: HTTPCall
  ahHost :: string

record analyzedMiddleware =
  amEntry :: Entry
  amMiddleware :: Middleware

record analyzedEvent =
  aeEntry :: Entry
  aeEvent :: Event

subsection \<open>Text\<close>

definition ellipsis :: string where "ellipsis = [CHR 0xE2, CHR 0x80, CHR 0xA6]"
definition middle_dot :: string where "middle_dot = [CHR 0xC2, CHR 0xB7]"

definition compactFindingText :: "string \<Rightarrow> nat \<Rightarrow> string" where
  "compactFindingText value limit =
     (let v = join '' '' (GoText.fields value) in
      if length v \<le> limit then v else trim_space (take (limit - 1) v) @ ellipsis)"

definition findingDuration :: "duration \<Rightarrow> string" where
  "findingDuration v =
     (if v \<ge> 1000 * millisecond then format_fixed 2 (fdiv (float_of_int v) 1000000000) @ '' s''
      else if v \<ge> millisecond then
        let ms = fdiv (float_of_int v) 1000000 in
        (if ms = rat_of_int \<lfloor>ms\<rfloor> then format_fixed 0 ms else format_fixed 1 ms) @ '' ms''
      else if v \<ge> 1000 then format_fixed 0 (fdiv (float_of_int v) 1000) @ '' '' @ micro_sign @ ''s''
      else duration_string v)"

text \<open>\<open>%q\<close>, for keys whose bytes from 128 up are printable characters in UTF-8.\<close>

definition quote_char :: "char \<Rightarrow> string" where
  "quote_char c =
     (if c = CHR 0x22 \<or> c = CHR 0x5C then [CHR 0x5C, c]
      else if byte c = 7 then [CHR 0x5C, CHR ''a''] else if byte c = 8 then [CHR 0x5C, CHR ''b'']
      else if byte c = 12 then [CHR 0x5C, CHR ''f''] else if byte c = 10 then [CHR 0x5C, CHR ''n'']
      else if byte c = 13 then [CHR 0x5C, CHR ''r''] else if byte c = 9 then [CHR 0x5C, CHR ''t'']
      else if byte c = 11 then [CHR 0x5C, CHR ''v'']
      else if byte c < 32 \<or> byte c = 127 then [CHR 0x5C, CHR ''x'', hex_digit (byte c div 16), hex_digit (byte c mod 16)]
      else [c])"

definition go_quote :: "string \<Rightarrow> string" where
  "go_quote s = [CHR 0x22] @ concat (map quote_char s) @ [CHR 0x22]"

subsection \<open>Order of operations\<close>

definition entryHappenedBefore :: "Entry \<Rightarrow> Entry \<Rightarrow> bool" where
  "entryHappenedBefore l r =
     (if eStartedAt l = eStartedAt r then eCursor l < eCursor r else eStartedAt l < eStartedAt r)"

definition happened_key :: "Entry \<Rightarrow> int \<times> nat" where
  "happened_key e = (eStartedAt e, eCursor e)"

lemma entryHappenedBefore_key: "entryHappenedBefore l r \<longleftrightarrow> happened_key l < happened_key r"
  by (auto simp: entryHappenedBefore_def happened_key_def less_prod_def)

definition sort_happened :: "('a \<Rightarrow> Entry) \<Rightarrow> 'a list \<Rightarrow> 'a list" where
  "sort_happened f xs = sort_key (\<lambda>x. happened_key (f x)) xs"

definition ended :: "Entry \<Rightarrow> instant" where
  "ended e = eStartedAt e + max (eDurationNS e) 0"

subsection \<open>The structural fingerprint of a query\<close>

text \<open>The code reads the text byte by byte and treats each byte as a Latin-1 character.\<close>

definition latin1_space :: "char \<Rightarrow> bool" where
  "latin1_space c \<longleftrightarrow> is_space c \<or> byte c = 0x85 \<or> byte c = 0xA0"

definition latin1_letter :: "char \<Rightarrow> bool" where
  "latin1_letter c \<longleftrightarrow> is_alpha c \<or> byte c \<in> {0xAA, 0xB5, 0xBA} \<or>
     0xC0 \<le> byte c \<and> byte c \<noteq> 0xD7 \<and> byte c \<noteq> 0xF7"

definition latin1_lower :: "char \<Rightarrow> nat" where
  "latin1_lower c =
     (if 65 \<le> byte c \<and> byte c \<le> 90 \<or> 0xC0 \<le> byte c \<and> byte c \<le> 0xDE \<and> byte c \<noteq> 0xD7
      then byte c + 32 else byte c)"

text \<open>\<open>WriteRune\<close> of a character below 256.\<close>

definition write_rune :: "nat \<Rightarrow> string" where
  "write_rune r = (if r < 128 then [char_of r] else [char_of (0xC0 + r div 64), char_of (0x80 + r mod 64)])"

abbreviation quote_mark :: char where "quote_mark \<equiv> CHR 0x27"

definition isSQLNumberStart :: "char option \<Rightarrow> char \<Rightarrow> bool" where
  "isSQLNumberStart previous c =
     (if \<not> is_digit c then False
      else case previous of
        None \<Rightarrow> True
      | Some p \<Rightarrow> \<not> latin1_letter p \<and> \<not> is_digit p \<and> p \<noteq> CHR ''_'')"

text \<open>The text after a string literal whose opening quote has been read.\<close>

fun skip_literal :: "string \<Rightarrow> string" where
  "skip_literal [] = []"
| "skip_literal [c] = []"
| "skip_literal (c # d # s) =
     (if c \<noteq> quote_mark then skip_literal (d # s)
      else if d = quote_mark then skip_literal s
      else d # s)"

lemma length_skip_literal: "length (skip_literal s) \<le> length s"
proof (induction s rule: skip_literal.induct)
  case (3 c d s)
  then show ?case by (cases "c = quote_mark"; cases "d = quote_mark") simp_all
qed simp_all

definition number_char :: "char \<Rightarrow> bool" where
  "number_char c \<longleftrightarrow> is_digit c \<or> c = CHR ''.''"

definition flush_space :: "bool \<Rightarrow> string \<Rightarrow> string" where
  "flush_space spacePending result = (if spacePending then result @ '' '' else result)"

function (sequential) fingerprint_loop :: "char option \<Rightarrow> string \<Rightarrow> bool \<Rightarrow> string \<Rightarrow> string" where
  "fingerprint_loop previous result spacePending [] = result"
| "fingerprint_loop previous result spacePending (c # s) =
     (if latin1_space c then fingerprint_loop (Some c) result (result \<noteq> []) s
      else
        let result = flush_space spacePending result in
        if c = quote_mark then fingerprint_loop (Some quote_mark) (result @ ''?'') False (skip_literal s)
        else if isSQLNumberStart previous c then
          fingerprint_loop (Some (last (c # takeWhile number_char s))) (result @ ''?'') False
            (dropWhile number_char s)
        else fingerprint_loop (Some c) (result @ write_rune (latin1_lower c)) False s)"
  by pat_completeness auto
termination
  by (relation "measure (\<lambda>(p, r, b, s). length s)")
    (simp_all add: less_Suc_eq_le length_skip_literal length_dropWhile_le)

definition queryFingerprint :: "string \<Rightarrow> string" where
  "queryFingerprint sql = trim_space (trim_suffix (fingerprint_loop None [] False sql) '';'')"

definition sqlStatementOperation :: "string \<Rightarrow> string" where
  "sqlStatementOperation sql = (case GoText.fields sql of [] \<Rightarrow> [] | w # ws \<Rightarrow> to_upper w)"

definition queryNPlusOneGroup :: "analyzedQuery \<Rightarrow> string" where
  "queryNPlusOneGroup q =
     (let query = aqQuery q;
          operation = to_upper (trim_space (qOperation query));
          operation = (if operation = [] then sqlStatementOperation (qSQL query) else operation)
      in if operation \<noteq> ''SELECT'' \<and> operation \<noteq> ''WITH'' \<or> aqFingerprint q = [] then []
         else
           let locality = (case qCallsite query of
                 [] \<Rightarrow> eParentID (aqEntry q)
               | frame # frames \<Rightarrow> sfFile frame @ '':'' @ show_int (sfLine frame) @ '':'' @ sfFunction frame)
           in to_lower (qConnection query) @ nul @ to_lower (qDatabase query) @ nul @ locality @ nul @
              aqFingerprint q)"

subsection \<open>Repeated queries\<close>

definition queryEntryIDs :: "analyzedQuery list \<Rightarrow> string list" where
  "queryEntryIDs qs = map (\<lambda>q. eID (aqEntry q)) qs"

text \<open>Adding a query to the list under its key of a map of lists.\<close>

definition push_group :: "'k \<Rightarrow> 'a \<Rightarrow> ('k \<times> 'a list) list \<Rightarrow> ('k \<times> 'a list) list" where
  "push_group k x m = map_put k ((case map_get m k of None \<Rightarrow> [] | Some xs \<Rightarrow> xs) @ [x]) m"

definition nPlusOneGroups :: "analyzedQuery list \<Rightarrow> string list \<Rightarrow> (string \<times> analyzedQuery list) list" where
  "nPlusOneGroups queries excluded = fold (\<lambda>q m.
     let group = queryNPlusOneGroup q in
     if group = [] then m
     else if eID (aqEntry q) \<in> set excluded then m
     else push_group group q m) queries []"

definition group_of :: "('k \<times> 'a list) list \<Rightarrow> 'k \<Rightarrow> 'a list" where
  "group_of m k = (case map_get m k of None \<Rightarrow> [] | Some xs \<Rightarrow> xs)"

definition nPlusOneFinding :: "analyzedQuery list \<Rightarrow> Finding" where
  "nPlusOneFinding repeated =
     \<lparr>fCode = FindingPossibleNPlusOne, fSeverity = FindingSeverityWarning,
      fTitle = ''Possible N+1: query repeated '' @ show_nat (length repeated) @ '' times'',
      fDetail = compactFindingText (qSQL (aqQuery (hd repeated))) 180,
      fSuggestion = ''Load the related records in one query or batch the lookup.'',
      fEntryID = eID (aqEntry (hd repeated)), fRelatedEntryIDs = queryEntryIDs repeated\<rparr>"

definition nPlusOneFindings :: "analyzedQuery list \<Rightarrow> string list \<Rightarrow> Finding list" where
  "nPlusOneFindings queries excluded =
     (let groups = nPlusOneGroups queries excluded;
          fingerprints = map fst (filter (\<lambda>(k, repeated). length repeated \<ge> analysisNPlusOneMinimum) groups);
          fingerprints = sort_key (\<lambda>k. (- int (length (group_of groups k)), k)) fingerprints
      in map (\<lambda>k. nPlusOneFinding (group_of groups k)) fingerprints)"

subsection \<open>The share of the database\<close>

type_synonym interval = "instant \<times> instant"

text \<open>The part of a query inside the execution, when there is any.\<close>

definition query_interval :: "instant \<Rightarrow> duration \<Rightarrow> analyzedQuery \<Rightarrow> interval option" where
  "query_interval executionStartedAt executionDuration q =
     (let duration = max (eDurationNS (aqEntry q)) 0; start = eStartedAt (aqEntry q) in
      if duration \<le> 0 \<or> start = 0 then None
      else
        let stop = start + duration;
            (start, stop) =
              (if executionStartedAt \<noteq> 0 then
                 (max start executionStartedAt, min stop (executionStartedAt + executionDuration))
               else (start, stop))
        in if stop > start then Some (start, stop) else None)"

fun slowest_query :: "analyzedQuery option \<Rightarrow> analyzedQuery list \<Rightarrow> analyzedQuery option" where
  "slowest_query best [] = best"
| "slowest_query best (q # qs) =
     slowest_query
       (if eDurationNS (aqEntry q) > (case best of None \<Rightarrow> 0 | Some b \<Rightarrow> eDurationNS (aqEntry b))
        then Some q else best) qs"

fun merge_intervals :: "duration \<Rightarrow> instant \<Rightarrow> interval list \<Rightarrow> duration" where
  "merge_intervals tot coveredUntil [] = tot"
| "merge_intervals tot coveredUntil ((start, stop) # rest) =
     (if start \<le> coveredUntil then
        (if stop > coveredUntil then merge_intervals (tot + (stop - coveredUntil)) stop rest
         else merge_intervals tot coveredUntil rest)
      else merge_intervals (tot + (stop - start)) stop rest)"

definition sql_coverage :: "interval list \<Rightarrow> duration" where
  "sql_coverage intervals =
     (case sort_key fst intervals of
        [] \<Rightarrow> 0
      | (start, stop) # others \<Rightarrow> merge_intervals (stop - start) stop others)"

definition sqlShareFinding :: "analyzedQuery list \<Rightarrow> instant \<Rightarrow> duration \<Rightarrow> string \<Rightarrow> FindingCode \<Rightarrow> Finding option" where
  "sqlShareFinding queries executionStartedAt executionDuration executionLabel code =
     (if executionDuration \<le> 0 \<or> queries = [] then None
      else
        let contributing = filter (\<lambda>q. query_interval executionStartedAt executionDuration q \<noteq> None) queries;
            intervals = List.map_filter (query_interval executionStartedAt executionDuration) queries;
            slowest = slowest_query None contributing
        in if intervals = [] then None
           else
             let tot = sql_coverage intervals;
                 percentage = min (percent tot executionDuration) 100
             in if percentage < analysisSQLShareMinimum then None
                else Some \<lparr>fCode = code, fSeverity = FindingSeverityWarning,
                  fTitle = ''SQL consumed '' @ show_int percentage @ ''% of '' @ executionLabel,
                  fDetail = findingDuration tot @ '' wall-clock coverage across '' @
                    show_nat (length contributing) @ '' queries'',
                  fSuggestion = ''Inspect the slowest query and reduce query count or execution time.'',
                  fEntryID = (case slowest of None \<Rightarrow> [] | Some q \<Rightarrow> eID (aqEntry q)),
                  fRelatedEntryIDs = queryEntryIDs contributing\<rparr>)"

subsection \<open>Cache operations\<close>

definition cacheReadOperation :: "string \<Rightarrow> bool" where
  "cacheReadOperation operation =
     (let op = to_lower (trim_space operation) in
      op = [] \<or> has_prefix op ''get_'' \<or>
      List.member [''get'', ''mget'', ''hget'', ''hmget'', ''hgetall'', ''has'', ''exists'', ''hexists'', ''pull'',
        ''remember'', ''remember_forever'', ''lock_get''] op)"

definition cacheWriteOperation :: "string \<Rightarrow> bool" where
  "cacheWriteOperation operation =
     (let op = to_lower (trim_space operation) in
      List.member [''put'', ''set'', ''setex'', ''psetex'', ''setnx'', ''mset'', ''hset'', ''hmset'', ''add'', ''forever'',
        ''increment'', ''decrement'', ''incr'', ''decr'', ''incrby'', ''decrby'', ''getset''] op)"

definition sameCacheResource :: "Cache \<Rightarrow> Cache \<Rightarrow> bool" where
  "sameCacheResource l r =
     (if trim_space (caKey l) = [] \<or> caKey l \<noteq> caKey r then False
      else caStore l = [] \<or> caStore r = [] \<or> equal_fold (caStore l) (caStore r))"

text \<open>The first later operation that fills or finds the key that was missed.\<close>

definition cacheResolutionAfter :: "nat \<Rightarrow> analyzedCache list \<Rightarrow> instant option" where
  "cacheResolutionAfter index caches =
     (let miss = acCache (caches ! index) in
      map_option (\<lambda>candidate. eStartedAt (acEntry candidate))
        (find (\<lambda>candidate.
           \<not> (\<not> sameCacheResource miss (acCache candidate) \<or> caError (acCache candidate) \<noteq> []) \<and>
           (cacheWriteOperation (caOperation (acCache candidate)) \<or>
            cacheReadOperation (caOperation (acCache candidate)) \<and> caHit (acCache candidate)))
          (drop (index + 1) caches)))"

text \<open>
  The queries that follow a miss: same fingerprint, no pause, before the key is resolved; a
  query already claimed by a later miss gives the whole burst up.
\<close>

fun burst_loop :: "instant option \<Rightarrow> string \<Rightarrow> string list \<Rightarrow> analyzedQuery list \<Rightarrow> analyzedQuery list \<Rightarrow>
    analyzedQuery list" where
  "burst_loop resolved fingerprint claimed repeated [] = repeated"
| "burst_loop resolved fingerprint claimed repeated (q # qs) =
     (if (case resolved of None \<Rightarrow> False | Some t \<Rightarrow> eStartedAt (aqEntry q) \<ge> t) then repeated
      else if aqFingerprint q \<noteq> fingerprint then repeated
      else if repeated \<noteq> [] \<and> eStartedAt (aqEntry q) - ended (aqEntry (last repeated)) > analysisCacheQueryMaxGap
      then repeated
      else if eID (aqEntry q) \<in> set claimed then []
      else burst_loop resolved fingerprint claimed (repeated @ [q]) qs)"

definition burstFinding :: "analyzedCache \<Rightarrow> analyzedQuery list \<Rightarrow> Finding" where
  "burstFinding cache repeated =
     \<lparr>fCode = FindingCacheMissQueryBurst, fSeverity = FindingSeverityWarning,
      fTitle = ''Cache miss followed by '' @ show_nat (length repeated) @ '' identical queries'',
      fDetail = ''Key '' @ go_quote (caKey (acCache cache)) @ '' '' @ middle_dot @ '' '' @
        compactFindingText (qSQL (aqQuery (hd repeated))) 140,
      fSuggestion = ''Populate the cache once and reuse the loaded value for this execution.'',
      fEntryID = eID (acEntry cache),
      fRelatedEntryIDs = eID (acEntry cache) # queryEntryIDs repeated\<rparr>"

text \<open>One miss; \<open>explained\<close> and \<open>claimedQueries\<close> of the code always receive the same ids.\<close>

definition cache_step :: "analyzedCache list \<Rightarrow> analyzedQuery list \<Rightarrow> nat \<Rightarrow> Finding list \<times> string list \<Rightarrow>
    Finding list \<times> string list" where
  "cache_step caches queries cacheIndex st =
     (let (findings, claimed) = st; cache = caches ! cacheIndex; c = acCache cache;
          following = dropWhile (\<lambda>q. eStartedAt (aqEntry q) < eStartedAt (acEntry cache)) queries
      in if \<not> cacheReadOperation (caOperation c) \<or> caHit c \<or> caError c \<noteq> [] \<or> trim_space (caKey c) = [] then st
         else case following of
           [] \<Rightarrow> st
         | first # _ \<Rightarrow>
             if aqFingerprint first = [] then st
             else if eStartedAt (aqEntry first) - eStartedAt (acEntry cache) > analysisCacheQueryMaxGap then st
             else
               let repeated = burst_loop (cacheResolutionAfter cacheIndex caches) (aqFingerprint first) claimed [] following
               in if length repeated < analysisCacheBurstMinimum then st
                  else (findings @ [burstFinding cache repeated], claimed @ queryEntryIDs repeated))"

definition cacheMissQueryFindings :: "analyzedCache list \<Rightarrow> analyzedQuery list \<Rightarrow> Finding list \<times> string list" where
  "cacheMissQueryFindings caches queries =
     (let (findings, explained) = fold (cache_step caches queries) (rev [0..<length caches]) ([], [])
      in (rev findings, explained))"

definition cacheMissRateFinding :: "analyzedCache list \<Rightarrow> Finding option" where
  "cacheMissRateFinding caches =
     (let reads = filter (\<lambda>op. cacheReadOperation (caOperation (acCache op)) \<and> caError (acCache op) = []) caches in
      if length reads < analysisCacheMissRateMinimum then None
      else
        let misses = map (\<lambda>op. eID (acEntry op)) (filter (\<lambda>op. \<not> caHit (acCache op)) reads);
            percentage = percent (int (length misses)) (int (length reads))
        in if percentage < 50 then None
           else Some \<lparr>fCode = FindingHighCacheMissRate, fSeverity = FindingSeverityWarning,
             fTitle = ''Cache miss rate is '' @ show_int percentage @ ''%'',
             fDetail = show_nat (length misses) @ '' of '' @ show_nat (length reads) @ '' cache reads missed'',
             fSuggestion = ''Review cache keys, TTLs, warming, and invalidation behavior.'',
             fEntryID = hd misses, fRelatedEntryIDs = misses\<rparr>)"

subsection \<open>Outgoing calls\<close>

definition httpCallHost :: "string \<Rightarrow> string" where
  "httpCallHost rawURL = (case url_host rawURL of None \<Rightarrow> [] | Some h \<Rightarrow> to_lower h)"

definition safeConcurrentHTTPMethod :: "string \<Rightarrow> bool" where
  "safeConcurrentHTTPMethod m = List.member [''GET'', ''HEAD'', ''OPTIONS''] (to_upper (trim_space m))"

definition callEnd :: "analyzedHTTPCall \<Rightarrow> instant" where
  "callEnd c = eStartedAt (ahEntry c) + eDurationNS (ahEntry c)"

definition follows_closely :: "analyzedHTTPCall \<Rightarrow> analyzedHTTPCall \<Rightarrow> bool" where
  "follows_closely p c =
     (let gap = eStartedAt (ahEntry c) - callEnd p
      in \<not> (gap < 0 \<or> gap > analysisSequentialHTTPMaxGap))"

text \<open>The inner loop: the calls that follow one another closely, and the others.\<close>

fun split_run :: "analyzedHTTPCall \<Rightarrow> analyzedHTTPCall list \<Rightarrow> analyzedHTTPCall list \<times> analyzedHTTPCall list" where
  "split_run p [] = ([p], [])"
| "split_run p (c # cs) =
     (if follows_closely p c then (let (run, others) = split_run c cs in (p # run, others)) else ([p], c # cs))"

lemma split_run_shorter: "length (snd (split_run p cs)) \<le> length cs"
proof (induction p cs rule: split_run.induct)
  case (2 p c cs)
  then show ?case by (cases "follows_closely p c") (simp_all add: case_prod_beta)
qed simp

function best_run :: "analyzedHTTPCall list \<Rightarrow> analyzedHTTPCall list \<Rightarrow> analyzedHTTPCall list" where
  "best_run best [] = best"
| "best_run best (c # cs) =
     (let (run, others) = split_run c cs in best_run (if length run > length best then run else best) others)"
  by pat_completeness auto
termination
proof (relation "measure (length \<circ> snd)", goal_cases)
  case (2 best c cs x xa y)
  then have "length y \<le> length cs" using split_run_shorter [of c cs] by (metis snd_conv)
  then show ?case by simp
qed simp

definition sequentialHTTPFinding :: "string \<Rightarrow> analyzedHTTPCall list \<Rightarrow> Finding" where
  "sequentialHTTPFinding host best =
     \<lparr>fCode = FindingSequentialHTTPCalls, fSeverity = FindingSeverityInfo,
      fTitle = show_nat (length best) @ '' sequential HTTP calls could run concurrently'',
      fDetail = ''Host '' @ host @ '' '' @ middle_dot @ '' '' @
        findingDuration (sum_list (map (\<lambda>c. eDurationNS (ahEntry c)) best)) @ '' combined'',
      fSuggestion = ''Run independent calls concurrently and preserve cancellation through context.'',
      fEntryID = eID (ahEntry (hd best)), fRelatedEntryIDs = map (\<lambda>c. eID (ahEntry c)) best\<rparr>"

definition concurrentCandidate :: "analyzedHTTPCall \<Rightarrow> bool" where
  "concurrentCandidate c \<longleftrightarrow>
     \<not> (ahHost c = [] \<or> \<not> safeConcurrentHTTPMethod (hcMethod (ahCall c)) \<or> eDurationNS (ahEntry c) \<le> 0 \<or>
        hcError (ahCall c) \<noteq> [] \<or> hcStatus (ahCall c) \<ge> 400)"

definition callsByHost :: "analyzedHTTPCall list \<Rightarrow> (string \<times> analyzedHTTPCall list) list" where
  "callsByHost calls = fold (\<lambda>c m. if concurrentCandidate c then push_group (ahHost c) c m else m) calls []"

definition sequentialHTTPFindings :: "analyzedHTTPCall list \<Rightarrow> Finding list" where
  "sequentialHTTPFindings calls =
     (let byHost = callsByHost calls; hosts = sort (map fst byHost)
      in List.map_filter (\<lambda>host.
        let operations = sort_happened ahEntry (group_of byHost host); best = best_run [] operations
        in if length best < analysisSequentialHTTPMinimum then None
           else Some (sequentialHTTPFinding host best)) hosts)"

subsection \<open>The hierarchy of operations\<close>

definition middlewareWorkDuration :: "Middleware \<Rightarrow> int \<Rightarrow> duration" where
  "middlewareWorkDuration m fallback =
     (case mwWorkDuration m of Some w \<Rightarrow> max w 0 | None \<Rightarrow> max fallback 0)"

definition entryBottleneckDuration :: "Entry \<Rightarrow> duration" where
  "entryBottleneckDuration e =
     (if eKind e \<noteq> KindMiddleware then max (eDurationNS e) 0
      else case dec_middleware (eData e) of
        None \<Rightarrow> max (eDurationNS e) 0
      | Some m \<Rightarrow> middlewareWorkDuration m (eDurationNS e))"

definition bottleneckCandidate :: "Kind \<Rightarrow> bool" where
  "bottleneckCandidate kind =
     List.member [KindQuery, KindCache, KindHTTPCall, KindMiddleware, KindEvent, KindJob, KindEmail] kind"

definition bottleneckMinimum :: "Kind \<Rightarrow> duration" where
  "bottleneckMinimum kind =
     (if kind = KindQuery then analysisBottleneckQuery
      else if kind = KindCache then analysisSlowCache
      else if kind = KindMiddleware then analysisSlowMiddleware
      else if kind = KindHTTPCall then analysisSlowHTTPCall
      else if kind = KindEvent then analysisSlowEvent
      else if kind = KindJob then analysisSlowJob
      else if kind = KindEmail then analysisSlowEmail
      else 2 ^ 63 - 1)"

datatype visitState = Visiting | Visited

text \<open>Durations of a subtree: over all candidates, and over those above their minimum.\<close>

record hierarchyState =
  hVisit :: "(string \<times> visitState) list"
  hMemo :: "(string \<times> duration \<times> duration) list"
  hMaxDescendant :: "(string \<times> duration) list"
  hMaxQualifying :: "(string \<times> duration) list"

definition byID :: "Entry list \<Rightarrow> (string \<times> Entry) list" where
  "byID entries = fold (\<lambda>e m. if eID e \<noteq> [] then map_put (eID e) e m else m) entries []"

definition childMap :: "(string \<times> Entry) list \<Rightarrow> (string \<times> string list) list" where
  "childMap entriesByID = fold (\<lambda>(i, e) m.
     if eParentID e = [] then m
     else if map_get entriesByID (eParentID e) \<noteq> None then push_group (eParentID e) i m else m) entriesByID []"

definition ownDuration :: "Entry \<Rightarrow> duration" where
  "ownDuration e = (if bottleneckCandidate (eKind e) then entryBottleneckDuration e else 0)"

definition leave_node :: "string \<Rightarrow> Entry \<Rightarrow> duration \<times> duration \<Rightarrow> hierarchyState \<Rightarrow>
    hierarchyState \<times> duration \<times> duration" where
  "leave_node i e below st =
     (let (all, qualifying) = below; own = ownDuration e;
          result = (max own all, if own \<ge> bottleneckMinimum (eKind e) then max own qualifying else qualifying)
      in (st\<lparr>hMaxDescendant := map_put i all (hMaxDescendant st),
             hMaxQualifying := map_put i qualifying (hMaxQualifying st),
             hMemo := map_put i result (hMemo st), hVisit := map_put i Visited (hVisit st)\<rparr>, result))"

text \<open>
  \<open>subtreeMaximum\<close> and its loop over the children.  The fuel bounds the depth of the
  recursion; \<open>None\<close> means that it ran out.
\<close>

fun subtreeMaximum :: "nat \<Rightarrow> (string \<times> Entry) list \<Rightarrow> (string \<times> string list) list \<Rightarrow> string \<Rightarrow>
      hierarchyState \<Rightarrow> (hierarchyState \<times> duration \<times> duration) option"
  and childrenMaximum :: "nat \<Rightarrow> (string \<times> Entry) list \<Rightarrow> (string \<times> string list) list \<Rightarrow> string list \<Rightarrow>
      duration \<times> duration \<Rightarrow> hierarchyState \<Rightarrow> (hierarchyState \<times> duration \<times> duration) option" where
  "subtreeMaximum 0 entries children i st = None"
| "subtreeMaximum (Suc fuel) entries children i st =
     (case map_get (hVisit st) i of
        Some Visiting \<Rightarrow> Some (st, 0, 0)
      | Some Visited \<Rightarrow> Some (st, case map_get (hMemo st) i of None \<Rightarrow> (0, 0) | Some r \<Rightarrow> r)
      | None \<Rightarrow>
          (case childrenMaximum fuel entries children (group_of children i) (0, 0)
                  (st\<lparr>hVisit := map_put i Visiting (hVisit st)\<rparr>) of
             None \<Rightarrow> None
           | Some (st', below) \<Rightarrow>
               (case map_get entries i of
                  None \<Rightarrow> Some (st', 0, 0)
                | Some e \<Rightarrow> Some (leave_node i e below st'))))"
| "childrenMaximum fuel entries children [] best st = Some (st, best)"
| "childrenMaximum fuel entries children (c # cs) best st =
     (case subtreeMaximum fuel entries children c st of
        None \<Rightarrow> None
      | Some (st', all, qualifying) \<Rightarrow>
          childrenMaximum fuel entries children cs (max (fst best) all, max (snd best) qualifying) st')"

definition emptyHierarchy :: hierarchyState where
  "emptyHierarchy = \<lparr>hVisit = [], hMemo = [], hMaxDescendant = [], hMaxQualifying = []\<rparr>"

text \<open>The range over the entries, in the order of the map.\<close>

definition hierarchy_run :: "(string \<times> Entry) list \<Rightarrow> hierarchyState option" where
  "hierarchy_run entriesByID =
     map_option fst (childrenMaximum (Suc (length entriesByID)) entriesByID (childMap entriesByID)
       (map fst entriesByID) (0, 0) emptyHierarchy)"

definition newAnalysisEntryHierarchy :: "Entry list \<Rightarrow> hierarchyState" where
  "newAnalysisEntryHierarchy entries =
     (case hierarchy_run (byID entries) of None \<Rightarrow> emptyHierarchy | Some h \<Rightarrow> h)"

definition explained_by :: "(string \<times> duration) list \<Rightarrow> string \<Rightarrow> duration \<Rightarrow> bool" where
  "explained_by m entryID d =
     (if entryID = [] \<or> d \<le> 0 then False
      else
        let descendant = (case map_get m entryID of None \<Rightarrow> 0 | Some x \<Rightarrow> x)
        in descendant > 0 \<and>
           fmul (fdiv (float_of_int descendant) (float_of_int d)) 100 \<ge> rat_of_int analysisBottleneckShare)"

definition hasExplainingDescendant :: "hierarchyState \<Rightarrow> string \<Rightarrow> duration \<Rightarrow> bool" where
  "hasExplainingDescendant h entryID d = explained_by (hMaxDescendant h) entryID d"

definition hasQualifyingExplainingDescendant :: "hierarchyState \<Rightarrow> string \<Rightarrow> duration \<Rightarrow> bool" where
  "hasQualifyingExplainingDescendant h entryID d = explained_by (hMaxQualifying h) entryID d"

subsection \<open>Slow operations\<close>

definition name_or_unnamed :: "string \<Rightarrow> string" where
  "name_or_unnamed n = (let name = trim_space n in if name = [] then ''unnamed'' else name)"

definition finding :: "FindingCode \<Rightarrow> FindingSeverity \<Rightarrow> string \<Rightarrow> string \<Rightarrow> string \<Rightarrow> string \<Rightarrow> Finding" where
  "finding code severity title detail suggestion entryID =
     \<lparr>fCode = code, fSeverity = severity, fTitle = title, fDetail = detail, fSuggestion = suggestion,
      fEntryID = entryID, fRelatedEntryIDs = [entryID]\<rparr>"

definition slowMiddlewareFindings :: "analyzedMiddleware list \<Rightarrow> hierarchyState \<Rightarrow> Finding list" where
  "slowMiddlewareFindings middlewares hierarchy = List.map_filter (\<lambda>op.
     let m = amMiddleware op; e = amEntry op; d = middlewareWorkDuration m (eDurationNS e) in
     if d < analysisSlowMiddleware then None
     else if mwWorkDuration m = None \<and> hasExplainingDescendant hierarchy (eID e) d then None
     else Some (finding FindingSlowMiddleware FindingSeverityWarning
       (''Middleware '' @ name_or_unnamed (mwName m) @ '' took '' @ findingDuration d)
       (if mwWorkDuration m = None
        then ''The middleware'' @ [CHR 0x27] @ ''s complete invocation span exceeded 100 ms; exact work timing was not available and no nested operation explained most of the span.''
        else ''Measured middleware work duration exceeded 100 ms; time delegated to the downstream handler is excluded.'')
       (''Inspect the middleware'' @ [CHR 0x27] @ ''s nested operations and work before or after the downstream handler.'')
       (eID e))) middlewares"

definition slowEventFindings :: "analyzedEvent list \<Rightarrow> Finding list" where
  "slowEventFindings events = List.map_filter (\<lambda>op.
     let d = eDurationNS (aeEntry op) in
     if d < analysisSlowEvent then None
     else Some (finding FindingSlowEvent FindingSeverityWarning
       (''Event '' @ name_or_unnamed (evName (aeEvent op)) @ '' took '' @ findingDuration d)
       ''Measured event duration exceeded 500 ms.''
       ''Inspect this operation and split or instrument its expensive stages.'' (eID (aeEntry op)))) events"

definition findingEntryLabel :: "Entry \<Rightarrow> string \<times> string" where
  "findingEntryLabel e =
     (let other = (eKind e, ''operation'') in
      if eKind e = KindEvent then
        (case dec_event (eData e) of Some v \<Rightarrow> (''event'', compactFindingText (evName v) 80) | None \<Rightarrow> other)
      else if eKind e = KindQuery then
        (case dec_query (eData e) of Some v \<Rightarrow> (''query'', compactFindingText (qSQL v) 80) | None \<Rightarrow> other)
      else if eKind e = KindHTTPCall then
        (case dec_call (eData e) of
           Some v \<Rightarrow> (''HTTP call'', compactFindingText (trim_space (hcMethod v @ '' '' @ hcURL v)) 80)
         | None \<Rightarrow> other)
      else if eKind e = KindMiddleware then
        (case dec_middleware (eData e) of
           Some v \<Rightarrow> (''middleware'', compactFindingText (mwName v) 80) | None \<Rightarrow> other)
      else other)"

definition bottleneck_step :: "string \<Rightarrow> hierarchyState \<Rightarrow> Entry \<Rightarrow> Entry option \<times> duration \<Rightarrow> Entry option \<times> duration" where
  "bottleneck_step rootID hierarchy e st =
     (let d = entryBottleneckDuration e in
      if eID e = rootID \<or> d \<le> snd st \<or> d < bottleneckMinimum (eKind e) \<or>
         hasQualifyingExplainingDescendant hierarchy (eID e) d then st
      else (Some e, d))"

definition executionBottleneckFinding :: "Entry \<Rightarrow> Entry list \<Rightarrow> hierarchyState \<Rightarrow> duration \<Rightarrow> Finding option" where
  "executionBottleneckFinding rootEntry entries hierarchy executionDuration =
     (if executionDuration \<le> 0 then None
      else
        let (bottleneck, d) = fold (bottleneck_step (eID rootEntry) hierarchy) entries (None, 0);
            share = min (percent d executionDuration) 100
        in if share < analysisBottleneckShare then None
           else case bottleneck of
             None \<Rightarrow> None
           | Some e \<Rightarrow>
               let (label, name) = findingEntryLabel e
               in Some (finding FindingExecutionBottleneck FindingSeverityWarning
                 (''Bottleneck: '' @ label @ '' '' @ name @ '' took '' @ findingDuration d)
                 (''This operation accounts for about '' @ show_int share @ ''% of the execution duration.'')
                 ''Open the operation and instrument its children to isolate the expensive work.'' (eID e)))"

subsection \<open>Stored plans\<close>

definition queryPlanIssueLabel :: "QueryPlanIssue \<Rightarrow> string" where
  "queryPlanIssueLabel issue =
     (if qiCode issue = IssueFullScan then
        (if qiRelation issue \<noteq> [] then ''full scan on '' @ qiRelation issue else ''full table scan'')
      else if qiCode issue = IssueTemporarySort then ''temporary sort''
      else if qiCode issue = IssueLargeEstimate then
        ''large estimate ('' @ show_int (qiEstimatedRows issue) @ '' rows)''
      else qiCode issue)"

definition queryPlanFindings :: "analyzedQuery list \<Rightarrow> Finding list" where
  "queryPlanFindings queries = List.map_filter (\<lambda>q.
     case qPlan (aqQuery q) of
       None \<Rightarrow> None
     | Some plan \<Rightarrow>
         if trim_space (qpText plan) = [] then None
         else
           let issues = (if qpIssues plan = [] then DetectQueryPlanIssues (qDriver (aqQuery q)) (qpText plan)
                         else qpIssues plan);
               visible = filter (\<lambda>issue. qiCode issue = IssueLargeEstimate \<or>
                   eDurationNS (aqEntry q) \<ge> analysisSlowQuery) issues
           in if visible = [] then None
              else Some (finding FindingQueryPlanIssue FindingSeverityWarning
                (''EXPLAIN: '' @ join '', '' (map queryPlanIssueLabel visible))
                (compactFindingText (qiDetail (hd visible)) 180)
                ''Review filters, indexes, join order, and estimated row counts in the stored plan.''
                (eID (aqEntry q)))) queries"

subsection \<open>Failed operations\<close>

definition failedState :: "string \<Rightarrow> bool" where
  "failedState state =
     List.member [''failed'', ''failure'', ''error'', ''panicked'', ''panic'', ''bounced''] (to_lower (trim_space state))"

definition expectedEmptyQueryResult :: "string \<Rightarrow> bool" where
  "expectedEmptyQueryResult errorText \<longleftrightarrow> trim_space errorText = ''sql: no rows in result set''"

text \<open>The label and detail of a failed operation.\<close>

definition failed_operation :: "bool \<Rightarrow> Entry \<Rightarrow> (string \<times> string) option" where
  "failed_operation includeExecutionRoots e =
     (let d = eData e; k = eKind e in
      if k = KindRequest then do {
        v \<leftarrow> dec_request d;
        if rqError v = [] \<and> rqStatus v < 500 then None
        else Some (''request'', trim_space (rqMethod v @ '' '' @ rqPath v)) }
      else if k = KindQuery then do {
        v \<leftarrow> dec_query d;
        if qError v = [] \<or> expectedEmptyQueryResult (qError v) then None else Some (''query'', qSQL v) }
      else if k = KindCache then do {
        v \<leftarrow> dec_cache d;
        if caError v = [] then None else Some (''cache operation'', trim_space (caOperation v @ '' '' @ caKey v)) }
      else if k = KindEvent then do {
        v \<leftarrow> dec_event d;
        if evError v = [] \<and> \<not> failedState (evStatus v) then None else Some (''event'', evName v) }
      else if k = KindMiddleware then do {
        v \<leftarrow> dec_middleware d;
        if mwError v = [] \<and> \<not> failedState (mwState v) then None else Some (''middleware'', mwName v) }
      else if k = KindException then do {
        v \<leftarrow> dec_exception d; Some (''exception'', trim_space (exType v @ '' '' @ exMessage v)) }
      else if k = KindJob then do {
        v \<leftarrow> dec_job d;
        if joError v = [] \<and> \<not> failedState (joState v) then None else Some (''Job'', joName v) }
      else if k = KindEmail then do {
        v \<leftarrow> dec_email d;
        if emError v = [] \<and> \<not> equal_fold (emStatus v) ''failed'' \<and> \<not> equal_fold (emStatus v) ''bounced'' then None
        else Some (''Mail'', emSubject v) }
      else if k = KindHTTPCall then do {
        v \<leftarrow> dec_call d;
        if hcError v = [] \<and> hcStatus v < 400 then None
        else Some (''HTTP call'', trim_space (hcMethod v @ '' '' @ hcURL v)) }
      else if k = KindSchedule \<and> includeExecutionRoots then do {
        v \<leftarrow> dec_schedule d;
        if scError v = [] \<and> scPanic v = [] \<and> \<not> failedState (scState v) then None
        else Some (''scheduled task'', scName v) }
      else if k = KindCallable \<and> includeExecutionRoots then do {
        v \<leftarrow> dec_callable d;
        if clError v = [] \<and> clPanic v = [] \<and> \<not> failedState (clState v) then None
        else Some (''callable'', clName v) }
      else if k = KindTask \<and> includeExecutionRoots then do {
        v \<leftarrow> dec_task d;
        if taError v = [] \<and> taPanic v = [] \<and> \<not> failedState (taState v) then None
        else Some (''task'', taName v) }
      else None)"

definition failedOperationFindings :: "Entry list \<Rightarrow> bool \<Rightarrow> Finding list" where
  "failedOperationFindings entries includeExecutionRoots = List.map_filter (\<lambda>e.
     map_option (\<lambda>(label, detail). finding FindingFailedOperation FindingSeverityDanger (''Failed '' @ label)
       (compactFindingText detail 180) ''Inspect the recorded error and retry state.'' (eID e))
     (failed_operation includeExecutionRoots e)) entries"

subsection \<open>The performance findings\<close>

definition slow_execution :: "FindingCode \<Rightarrow> FindingSeverity \<Rightarrow> string \<Rightarrow> string \<Rightarrow> duration \<Rightarrow> string \<Rightarrow>
    Entry \<Rightarrow> Finding list" where
  "slow_execution code severity title detail minimum suggestion e =
     (if eDurationNS e \<ge> minimum
      then [finding code severity (title @ findingDuration (eDurationNS e)) detail suggestion (eID e)] else [])"

definition slow_root :: "Entry \<Rightarrow> Finding list" where
  "slow_root e =
     (if eKind e = KindRequest then
        slow_execution FindingSlowRequest FindingSeverityDanger ''Slow request: ''
          ''Recorded request duration exceeded 500 ms.'' analysisSlowRequest
          ''Start with the largest related operation in the timeline.'' e
      else if eKind e = KindSchedule then
        slow_execution FindingSlowSchedule FindingSeverityWarning ''Slow schedule: ''
          ''Recorded schedule duration exceeded 500 ms.'' analysisSlowSchedule
          ''Start with the largest child operation in the execution timeline.'' e
      else if eKind e = KindCallable then
        slow_execution FindingSlowCallable FindingSeverityWarning ''Slow callable: ''
          ''Recorded callable duration exceeded 500 ms.'' analysisSlowCallable
          ''Start with the largest child operation in the execution timeline.'' e
      else if eKind e = KindTask then
        slow_execution FindingSlowTask FindingSeverityWarning ''Slow task: ''
          ''Recorded task duration exceeded 1 s.'' analysisSlowTask
          ''Start with the largest child operation in the execution timeline.'' e
      else [])"

definition slow_query_finding :: "analyzedQuery \<Rightarrow> Finding option" where
  "slow_query_finding q =
     (let d = eDurationNS (aqEntry q) in
      if d < analysisSlowQuery then None
      else
        let (severity, title) =
              (if d \<ge> analysisVerySlowQuery then (FindingSeverityDanger, ''Very slow query: '')
               else (FindingSeverityWarning, ''Slow query: ''))
        in Some (finding FindingSlowQuery severity (title @ findingDuration d)
          (compactFindingText (qSQL (aqQuery q)) 180)
          ''Inspect the query plan, indexes, and returned row count.'' (eID (aqEntry q))))"

definition slow_call_finding :: "analyzedHTTPCall \<Rightarrow> Finding option" where
  "slow_call_finding c =
     (let d = eDurationNS (ahEntry c) in
      if d < analysisSlowHTTPCall then None
      else Some (finding FindingSlowHTTPCall FindingSeverityWarning (''Slow HTTP call: '' @ findingDuration d)
        (compactFindingText (trim_space (hcMethod (ahCall c) @ '' '' @ hcURL (ahCall c))) 180)
        ''Check the upstream latency, timeout, retries, and response size.'' (eID (ahEntry c))))"

definition execution_root_kind :: "Kind \<Rightarrow> bool" where
  "execution_root_kind k \<longleftrightarrow> k = KindSchedule \<or> k = KindCallable \<or> k = KindTask"

definition option_list :: "'a option \<Rightarrow> 'a list" where
  "option_list x = (case x of None \<Rightarrow> [] | Some y \<Rightarrow> [y])"

definition legacyPerformanceFindings :: "Entry \<Rightarrow> analyzedQuery list \<Rightarrow> analyzedHTTPCall list \<Rightarrow> analyzedCache list \<Rightarrow>
    Entry list \<Rightarrow> bool \<Rightarrow> Finding list" where
  "legacyPerformanceFindings rootEntry queries calls caches entries includeCacheMissRate =
     slow_root rootEntry @ List.map_filter slow_query_finding queries @ List.map_filter slow_call_finding calls @
     failedOperationFindings entries (execution_root_kind (eKind rootEntry)) @
     (if includeCacheMissRate then option_list (cacheMissRateFinding caches) else [])"

subsection \<open>The analysis of an execution\<close>

definition collect :: "Kind \<Rightarrow> (Entry \<Rightarrow> 'a option) \<Rightarrow> Entry list \<Rightarrow> 'a list" where
  "collect kind f entries = List.map_filter (\<lambda>e. if eKind e = kind then f e else None) entries"

definition collectQueries :: "Entry list \<Rightarrow> analyzedQuery list" where
  "collectQueries entries = sort_happened aqEntry (collect KindQuery (\<lambda>e.
     map_option (\<lambda>v. \<lparr>aqEntry = e, aqQuery = v, aqFingerprint = queryFingerprint (qSQL v)\<rparr>)
       (dec_query (eData e))) entries)"

definition collectCaches :: "Entry list \<Rightarrow> analyzedCache list" where
  "collectCaches entries = sort_happened acEntry (collect KindCache (\<lambda>e.
     map_option (\<lambda>v. \<lparr>acEntry = e, acCache = v\<rparr>) (dec_cache (eData e))) entries)"

definition collectHTTPCalls :: "Entry list \<Rightarrow> analyzedHTTPCall list" where
  "collectHTTPCalls entries = sort_happened ahEntry (collect KindHTTPCall (\<lambda>e.
     map_option (\<lambda>v. \<lparr>ahEntry = e, ahCall = v, ahHost = httpCallHost (hcURL v)\<rparr>) (dec_call (eData e))) entries)"

definition collectMiddlewares :: "Entry list \<Rightarrow> analyzedMiddleware list" where
  "collectMiddlewares entries = sort_happened amEntry (collect KindMiddleware (\<lambda>e.
     map_option (\<lambda>v. \<lparr>amEntry = e, amMiddleware = v\<rparr>) (dec_middleware (eData e))) entries)"

definition collectEvents :: "Entry list \<Rightarrow> analyzedEvent list" where
  "collectEvents entries = sort_happened aeEntry (collect KindEvent (\<lambda>e.
     map_option (\<lambda>v. \<lparr>aeEntry = e, aeEvent = v\<rparr>) (dec_event (eData e))) entries)"

definition executionAnalysisDuration :: "Entry \<Rightarrow> Entry list \<Rightarrow> duration" where
  "executionAnalysisDuration rootEntry entries =
     (let d = max (eDurationNS rootEntry) 0 in
      if eStartedAt rootEntry = 0 then d
      else fold (\<lambda>e d.
        if eID e = eID rootEntry \<or> eStartedAt e = 0 \<or> eStartedAt e < eStartedAt rootEntry then d
        else if ended e - eStartedAt rootEntry > d then ended e - eStartedAt rootEntry else d) entries d)"

definition analyzeExecution :: "Entry \<Rightarrow> Entry list \<Rightarrow> string \<Rightarrow> FindingCode \<Rightarrow> duration \<times> Finding list" where
  "analyzeExecution rootEntry entries label sqlDominatesCode =
     (let queries = collectQueries entries; caches = collectCaches entries;
          httpCalls = collectHTTPCalls entries; middlewares = collectMiddlewares entries;
          events = collectEvents entries;
          effectiveDuration = executionAnalysisDuration rootEntry entries;
          hierarchy = newAnalysisEntryHierarchy entries;
          (cacheFindings, cacheExplainedQueries) = cacheMissQueryFindings caches queries
      in (effectiveDuration,
          nPlusOneFindings queries cacheExplainedQueries @
          option_list (sqlShareFinding queries (eStartedAt rootEntry) effectiveDuration label sqlDominatesCode) @
          sequentialHTTPFindings httpCalls @ cacheFindings @
          slowMiddlewareFindings middlewares hierarchy @ slowEventFindings events @
          option_list (executionBottleneckFinding rootEntry entries hierarchy effectiveDuration) @
          queryPlanFindings queries @
          legacyPerformanceFindings rootEntry queries httpCalls caches entries (cacheFindings = [])))"

definition directRequestEntries :: "string \<Rightarrow> Entry list \<Rightarrow> Entry list" where
  "directRequestEntries requestID entries = filter (\<lambda>e. eID e = requestID \<or> eRequestID e = requestID) entries"

text \<open>The four analyses differ in the name of their fields only.\<close>

record ExecutionAnalysis =
  xaID :: string
  xaDurationNS :: duration
  xaGeneratedAt :: instant
  xaFindings :: "Finding list"

definition execution_analysis :: "Entry \<Rightarrow> Entry list \<Rightarrow> string \<Rightarrow> FindingCode \<Rightarrow> instant \<Rightarrow> ExecutionAnalysis" where
  "execution_analysis e entries label code now =
     (let (d, findings) = analyzeExecution e entries label code
      in \<lparr>xaID = eID e, xaDurationNS = d, xaGeneratedAt = now, xaFindings = findings\<rparr>)"

definition analyzeRequest :: "Entry \<Rightarrow> Entry list \<Rightarrow> instant \<Rightarrow> ExecutionAnalysis" where
  "analyzeRequest e entries now =
     execution_analysis e (directRequestEntries (eID e) entries) ''request'' FindingSQLDominatesRequest now"

definition analyzeSchedule :: "Entry \<Rightarrow> Entry list \<Rightarrow> instant \<Rightarrow> ExecutionAnalysis" where
  "analyzeSchedule e entries now = execution_analysis e entries ''schedule'' FindingSQLDominatesSchedule now"

definition analyzeCallable :: "Entry \<Rightarrow> Entry list \<Rightarrow> instant \<Rightarrow> ExecutionAnalysis" where
  "analyzeCallable e entries now = execution_analysis e entries ''callable'' FindingSQLDominatesCallable now"

definition analyzeTask :: "Entry \<Rightarrow> Entry list \<Rightarrow> instant \<Rightarrow> ExecutionAnalysis" where
  "analyzeTask e entries now = execution_analysis e entries ''task'' FindingSQLDominatesTask now"

text \<open>
  The entry points.  Reading the store purges what has expired, so the store and the batch
  to write come back with the answer.
\<close>

definition analyze_with :: "(instant \<Rightarrow> string \<Rightarrow> 'x entryStore \<Rightarrow> 'x entryStore \<times> storageBatch \<times> (Entry \<times> Entry list) option) \<Rightarrow>
    Kind \<Rightarrow> (Entry \<Rightarrow> Entry list \<Rightarrow> instant \<Rightarrow> ExecutionAnalysis) \<Rightarrow> instant \<Rightarrow> instant \<Rightarrow> string \<Rightarrow> 'x entryStore \<Rightarrow>
    'x entryStore \<times> storageBatch option \<times> ExecutionAnalysis option" where
  "analyze_with lookup kind analyze now generated entryID s =
     (if entryID = [] then (s, None, None)
      else
        let (s, batch, answer) = lookup now entryID s
        in (s, Some batch, case answer of
                 None \<Rightarrow> None
               | Some (e, entries) \<Rightarrow> if eKind e \<noteq> kind then None else Some (analyze e entries generated)))"

definition AnalyzeRequest :: "instant \<Rightarrow> instant \<Rightarrow> string \<Rightarrow> 'x entryStore \<Rightarrow> 'x entryStore \<times> storageBatch option \<times> ExecutionAnalysis option" where
  "AnalyzeRequest = analyze_with requestEntries KindRequest analyzeRequest"

definition AnalyzeSchedule :: "instant \<Rightarrow> instant \<Rightarrow> string \<Rightarrow> 'x entryStore \<Rightarrow> 'x entryStore \<times> storageBatch option \<times> ExecutionAnalysis option" where
  "AnalyzeSchedule = analyze_with scopeEntries KindSchedule analyzeSchedule"

definition AnalyzeCallable :: "instant \<Rightarrow> instant \<Rightarrow> string \<Rightarrow> 'x entryStore \<Rightarrow> 'x entryStore \<times> storageBatch option \<times> ExecutionAnalysis option" where
  "AnalyzeCallable = analyze_with scopeEntries KindCallable analyzeCallable"

definition AnalyzeTask :: "instant \<Rightarrow> instant \<Rightarrow> string \<Rightarrow> 'x entryStore \<Rightarrow> 'x entryStore \<times> storageBatch option \<times> ExecutionAnalysis option" where
  "AnalyzeTask = analyze_with scopeEntries KindTask analyzeTask"

end
