(* ===== verification/FingerprintProps.thy ===== *)
theory FingerprintProps
  imports Analysis
begin

text \<open>
  The structural fingerprint that groups queries: it does not depend on the text of string
  literals, and what its byte-by-byte reading does to names outside ASCII.
\<close>

subsection \<open>Literals\<close>

definition quotes :: "string \<Rightarrow> nat" where
  "quotes p = length (filter (\<lambda>c. c = quote_mark) p)"

lemma quotes_simps [simp]:
  "quotes [] = 0"
  "quotes (c # p) = (if c = quote_mark then Suc (quotes p) else quotes p)"
  "quotes (p @ q) = quotes p + quotes q"
  by (simp_all add: quotes_def)

lemma skip_literal_Cons:
  "skip_literal (c # s) =
     (if c \<noteq> quote_mark then skip_literal s
      else case s of [] \<Rightarrow> [] | d # t \<Rightarrow> if d = quote_mark then skip_literal t else d # t)"
  by (cases s) simp_all

lemma skip_free: "quote_mark \<notin> set s \<Longrightarrow> skip_literal (s @ quote_mark # r) = skip_literal (quote_mark # r)"
  by (induction s) (auto simp: skip_literal_Cons simp del: skip_literal.simps)

abbreviation literal :: "string \<Rightarrow> string \<Rightarrow> string" where
  "literal s r \<equiv> quote_mark # s @ quote_mark # r"

text \<open>From inside a literal: either it ends before the one in question, or the rest is the same.\<close>

definition resumes :: "string \<Rightarrow> string \<Rightarrow> string \<Rightarrow> string \<Rightarrow> nat \<Rightarrow> bool" where
  "resumes s t r p n \<longleftrightarrow>
     (\<exists>p'. even (quotes p') \<and> length p' < n \<and> skip_literal (p @ literal s r) = p' @ literal s r \<and>
        skip_literal (p @ literal t r) = p' @ literal t r) \<or>
     skip_literal (p @ literal s r) = skip_literal (p @ literal t r)"

lemma resumes_step:
  assumes "resumes s t r q n" "\<And>x. skip_literal (p @ x) = skip_literal (q @ x)" "n \<le> m"
  shows "resumes s t r p m"
  using assms(1,3) unfolding resumes_def assms(2) by (meson less_le_trans)

lemma skip_inside:
  assumes "odd (quotes p)" and free: "quote_mark \<notin> set s" "quote_mark \<notin> set t"
  shows "resumes s t r p (length p)"
  using assms(1)
proof (induction p rule: length_induct)
  case (1 p)
  then obtain c p1 where p: "p = c # p1" by (cases p) auto
  show ?case
  proof (cases "c = quote_mark")
    case False
    show ?thesis
    proof (rule resumes_step)
      show "resumes s t r p1 (length p1)" using 1 p False by simp
    qed (simp_all add: p skip_literal_Cons False del: skip_literal.simps)
  next
    case c: True
    show ?thesis
    proof (cases p1)
      case Nil
      then show ?thesis
        using skip_free [OF free(1), of r] skip_free [OF free(2), of r]
        by (simp add: resumes_def p c skip_literal_Cons del: skip_literal.simps)
    next
      case (Cons d p2)
      show ?thesis
      proof (cases "d = quote_mark")
        case True
        show ?thesis
        proof (rule resumes_step)
          show "resumes s t r p2 (length p2)" using 1 p c Cons True by simp
        qed (simp_all add: p c Cons True)
      next
        case False
        then have "even (quotes p1) \<and> length p1 < length p \<and> skip_literal (p @ literal s r) = p1 @ literal s r \<and>
            skip_literal (p @ literal t r) = p1 @ literal t r"
          using 1 by (simp add: p c Cons)
        then show ?thesis unfolding resumes_def by blast
      qed
    qed
  qed
qed

lemma not_number_quote: "\<not> number_char quote_mark"
  by (simp add: number_char_def is_digit_def byte_def)

lemma quotes_dropWhile_number: "quotes (dropWhile number_char p) = quotes p"
  using not_number_quote by (induction p) auto

lemma number_prefix:
  "takeWhile number_char (p @ quote_mark # x) = takeWhile number_char p"
  "dropWhile number_char (p @ quote_mark # x) = dropWhile number_char p @ quote_mark # x"
  using not_number_quote by (induction p) auto

lemma fingerprint_outside:
  assumes "even (quotes p)" and free: "quote_mark \<notin> set s" "quote_mark \<notin> set t"
  shows "fingerprint_loop prev res pending (p @ literal s r) = fingerprint_loop prev res pending (p @ literal t r)"
  using assms(1)
proof (induction p arbitrary: prev res pending rule: length_induct)
  case (1 p)
  have IH: "fingerprint_loop pv rs sp (p' @ literal s r) = fingerprint_loop pv rs sp (p' @ literal t r)"
    if "length p' < length p" "even (quotes p')" for p' pv rs sp using 1 that by blast
  have q: "\<not> latin1_space quote_mark" by (simp add: latin1_space_def is_space_def byte_def)
  show ?case
  proof (cases p)
    case Nil
    then show ?thesis
      using q skip_free [OF free(1), of r] skip_free [OF free(2), of r] by simp
  next
    case (Cons c p1)
    consider "latin1_space c" | "\<not> latin1_space c" "c = quote_mark"
      | "\<not> latin1_space c" "c \<noteq> quote_mark" "isSQLNumberStart prev c"
      | "\<not> latin1_space c" "c \<noteq> quote_mark" "\<not> isSQLNumberStart prev c" by blast
    then show ?thesis
    proof cases
      case 1
      then have "c \<noteq> quote_mark" using q by blast
      with 1 show ?thesis using IH [of p1] "1.prems" by (simp add: Cons)
    next
      case 2
      then have "odd (quotes p1)" using "1.prems" by (simp add: Cons)
      from skip_inside [OF this free, of r] show ?thesis
        using 2 IH by (auto simp: Cons Let_def resumes_def)
    next
      case 3
      have "even (quotes (dropWhile number_char p1))"
        using "1.prems" 3(2) by (simp add: Cons quotes_dropWhile_number)
      moreover have "length (dropWhile number_char p1) < length p"
        using length_dropWhile_le [of number_char p1] by (simp add: Cons)
      ultimately show ?thesis using 3 IH [of "dropWhile number_char p1"] by (simp add: Cons Let_def number_prefix)
    next
      case 4
      then show ?thesis using IH [of p1] "1.prems" by (simp add: Cons Let_def)
    qed
  qed
qed

text \<open>
  C32. The fingerprint ignores the text of string literals.  Replacing the content of a literal
  by another, anywhere outside the literals that precede it and whatever follows (another
  quote, which makes it an escaped one, included), leaves the fingerprint as it is; so the same
  statement with other values falls into the same group.
\<close>
theorem fingerprint_ignores_literals:
  assumes "even (quotes p)" "quote_mark \<notin> set s" "quote_mark \<notin> set t"
  shows "queryFingerprint (p @ quote_mark # s @ quote_mark # r) = queryFingerprint (p @ quote_mark # t @ quote_mark # r)"
  using fingerprint_outside [OF assms, of None "[]" False r] by (simp add: queryFingerprint_def)

theorem fingerprint_ignores_literals_witness:
  "queryFingerprint (''name='' @ quote_mark # ''ann'' @ quote_mark # '' and x=1'') =
   queryFingerprint (''name='' @ quote_mark # ''BOB 7'' @ quote_mark # '' and x=1'')"
  by (rule fingerprint_ignores_literals) simp_all

subsection \<open>Names outside ASCII\<close>

text \<open>
  Names outside ASCII are mangled.  The bytes of a character are read as Latin-1
  characters of their own, so the second byte of a letter such as a-grave (C3 A0) or
  A-ring (C3 85) counts as white space: tables named by these two letters have one and the
  same fingerprint, and their queries are counted together as repetitions.
\<close>
theorem fingerprint_merges_names:
  "queryFingerprint (''select 1 from '' @ [CHR 0xC3, CHR 0xA0]) =
   queryFingerprint (''select 1 from '' @ [CHR 0xC3, CHR 0x85])"
  by (simp add: queryFingerprint_def flush_space_def latin1_space_def is_space_def isSQLNumberStart_def
      latin1_letter_def is_digit_def is_alpha_def latin1_lower_def write_rune_def byte_def number_char_def)

end
