(* ===== verification/AnalysisProps.thy ===== *)
theory AnalysisProps
  imports Analysis
begin

text \<open>
  What the findings of an analysis mean: the database share is the length of the union of the
  query intervals, a run of sequential calls is a longest one, bursts and repeated queries
  partition the queries they report, and every finding points at entries of the execution.
\<close>

subsection \<open>The covered time\<close>

definition span_set :: "interval list \<Rightarrow> int set" where
  "span_set ivs = (\<Union>i\<in>set ivs. {fst i..<snd i})"

lemma span_set_Nil [simp]: "span_set [] = {}"
  by (simp add: span_set_def)

lemma span_set_Cons [simp]: "span_set (i # ivs) = {fst i..<snd i} \<union> span_set ivs"
  by (simp add: span_set_def)

lemma finite_span_set [simp]: "finite (span_set ivs)"
  by (simp add: span_set_def)

lemma card_after:
  assumes "finite U" "(c::int) \<le> a" "a \<le> b" "V - {..<c} = {a..<b} \<union> (U - {..<b})"
  shows "int (card (V - {..<c})) = (b - a) + int (card (U - {..<b}))"
proof -
  have "card ({a..<b} \<union> (U - {..<b})) = card {a..<b} + card (U - {..<b})"
    using assms(1) by (intro card_Un_disjoint) auto
  with assms(3,4) show ?thesis by simp
qed

lemma merge_intervals_card:
  assumes "sorted (map fst ivs)" "list_all (\<lambda>i. fst i < snd i) ivs"
  shows "merge_intervals tot c ivs = tot + int (card (span_set ivs - {..<c}))"
  using assms
proof (induction tot c ivs rule: merge_intervals.induct)
  case (2 tot c a b ivs)
  let ?U = "span_set ivs" and ?V = "span_set ((a, b) # ivs)"
  have ab: "a < b" and starts: "\<And>i. i \<in> set ivs \<Longrightarrow> a \<le> fst i" using "2.prems" by auto
  have low: "x \<in> ?U \<Longrightarrow> a \<le> x" for x using starts by (fastforce simp: span_set_def)
  have IH: "merge_intervals t d ivs = t + int (card (?U - {..<d}))"
    if "t = tot + (b - c) \<and> d = b \<and> a \<le> c \<and> b > c \<or> t = tot \<and> d = c \<and> a \<le> c \<and> \<not> b > c \<or>
        t = tot + (b - a) \<and> d = b \<and> \<not> a \<le> c" for t d
    using that "2.IH" "2.prems" by (elim disjE) auto
  consider "a \<le> c" "b > c" | "a \<le> c" "\<not> b > c" | "\<not> a \<le> c" by blast
  then show ?case
  proof cases
    case 1
    have "?V - {..<c} = {c..<b} \<union> (?U - {..<b})" using 1 by auto
    from card_after [OF finite_span_set order_refl _ this] 1 IH show ?thesis by simp
  next
    case 2
    then have "?V - {..<c} = ?U - {..<c}" by auto
    with 2 IH show ?thesis by simp
  next
    case 3
    have "?V - {..<c} = {a..<b} \<union> (?U - {..<b})" using 3 low by fastforce
    from card_after [OF finite_span_set _ _ this] 3 ab IH show ?thesis by simp
  qed
qed simp

lemma span_set_cong: "set ivs = set jvs \<Longrightarrow> span_set ivs = span_set jvs"
  by (simp add: span_set_def)

lemma sql_coverage_card:
  assumes "list_all (\<lambda>i. fst i < snd i) ivs"
  shows "sql_coverage ivs = int (card (span_set ivs))"
proof (cases "sort_key fst ivs")
  case Nil
  then have "ivs = []" by (metis set_empty set_sort)
  then show ?thesis by (simp add: sql_coverage_def)
next
  case (Cons i jvs)
  obtain a b where i: "i = (a, b)" by fastforce
  have srt: "sorted (map fst (i # jvs))" using sorted_sort_key [of fst ivs] by (simp add: Cons)
  have set: "set ((a, b) # jvs) = set ivs" using set_sort [of fst ivs] by (simp add: Cons i)
  have "list_all (\<lambda>i. fst i < snd i) ((a, b) # jvs)"
    using assms unfolding list_all_iff set .
  then have ab: "a < b" and jvs: "list_all (\<lambda>i. fst i < snd i) jvs" by simp_all
  have low: "x \<in> span_set jvs \<Longrightarrow> a \<le> x" for x
    using srt by (fastforce simp: span_set_def i)
  have eq: "span_set ((a, b) # jvs) - {..<a} = {a..<b} \<union> (span_set jvs - {..<b})"
    using low by fastforce
  have all: "span_set ((a, b) # jvs) - {..<a} = span_set ((a, b) # jvs)" using low by fastforce
  have "sql_coverage ivs = (b - a) + int (card (span_set jvs - {..<b}))"
    using merge_intervals_card [of jvs "b - a" b] srt jvs by (simp add: sql_coverage_def Cons i)
  also have "\<dots> = int (card (span_set ((a, b) # jvs) - {..<a}))"
    using card_after [OF finite_span_set order_refl _ eq] ab by simp
  also have "\<dots> = int (card (span_set ivs))"
    unfolding all using span_set_cong [OF set] by simp
  finally show ?thesis .
qed

lemma query_interval_proper:
  "list_all (\<lambda>i. fst i < snd i) (List.map_filter (query_interval s d) qs)"
  by (auto simp: list_all_iff List.map_filter_def query_interval_def Let_def split: if_splits)

lemma query_interval_inside:
  assumes "s \<noteq> 0"
  shows "span_set (List.map_filter (query_interval s d) qs) \<subseteq> {s..<s + d}"
  using assms by (auto simp: span_set_def List.map_filter_def query_interval_def Let_def split: if_splits)

text \<open>
  C26. The time attributed to the database is the wall-clock time during which at least one
  query was running: however the queries overlap or nest, the merging loop yields the number of
  nanoseconds in the union of their intervals, cut to the execution.  It therefore never exceeds
  the duration of the execution when its start is known.
\<close>
theorem sql_coverage_is_union:
  "let ivs = List.map_filter (query_interval s d) qs
   in sql_coverage ivs = int (card (\<Union>(a, b)\<in>set ivs. {a..<b})) \<and>
      (if s = 0 then True else sql_coverage ivs \<le> max 0 d)"
proof -
  define ivs where "ivs = List.map_filter (query_interval s d) qs"
  have cov: "sql_coverage ivs = int (card (span_set ivs))"
    unfolding ivs_def by (rule sql_coverage_card [OF query_interval_proper])
  have "(\<Union>(a, b)\<in>set ivs. {a..<b}) = span_set ivs" by (auto simp: span_set_def)
  moreover have "sql_coverage ivs \<le> max 0 d" if "s \<noteq> 0"
  proof -
    have "card (span_set ivs) \<le> card {s..<s + d}"
      unfolding ivs_def by (intro card_mono query_interval_inside that) simp
    then show ?thesis by (simp add: cov)
  qed
  ultimately show ?thesis using cov by (simp add: ivs_def [symmetric])
qed

subsection \<open>Runs of sequential calls\<close>

abbreviation chained :: "analyzedHTTPCall list \<Rightarrow> bool" where
  "chained \<equiv> successively follows_closely"

lemma split_run_spec:
  "split_run c cs = (run, others) \<Longrightarrow>
     c # cs = run @ others \<and> run \<noteq> [] \<and> hd run = c \<and> chained run \<and>
     (others = [] \<or> \<not> follows_closely (last run) (hd others))"
proof (induction c cs arbitrary: run others rule: split_run.induct)
  case (2 p c cs)
  show ?case
  proof (cases "follows_closely p c")
    case False
    with 2 show ?thesis by auto
  next
    case True
    obtain run' where run': "split_run c cs = (run', others)" "run = p # run'"
      using 2 True by (auto split: prod.splits)
    from "2.IH" [OF True run'(1)] have
      "c # cs = run' @ others" "run' \<noteq> []" "hd run' = c" "chained run'"
      "others = [] \<or> \<not> follows_closely (last run') (hd others)" by auto
    with run'(2) True show ?thesis by (cases run') auto
  qed
qed auto

lemma chained_sublist_split:
  assumes "sublist run (xs @ ys)" "chained run" "ys = [] \<or> \<not> follows_closely (last xs) (hd ys)"
  shows "sublist run xs \<or> sublist run ys"
proof -
  consider "sublist run xs" | "sublist run ys"
    | u v where "run = u @ v" "suffix u xs" "prefix v ys"
    using assms(1) unfolding sublist_append by blast
  then show ?thesis
  proof cases
    case 3
    show ?thesis
    proof (cases "u = [] \<or> v = []")
      case True
      then show ?thesis
        using 3 suffix_imp_sublist [of u xs] prefix_imp_sublist [of v ys] by auto
    next
      case False
      then have "last u = last xs" "hd v = hd ys" "ys \<noteq> []"
        using 3 by (auto simp: suffix_def prefix_def)
      moreover have "follows_closely (last u) (hd v)"
        using assms(2) 3(1) False by (simp add: successively_append_iff)
      ultimately show ?thesis using assms(3) by simp
    qed
  qed simp_all
qed

lemma best_run_spec:
  "(\<forall>run. sublist run ops \<longrightarrow> chained run \<longrightarrow> length run \<le> length (best_run best ops)) \<and>
   length best \<le> length (best_run best ops) \<and>
   (best_run best ops = best \<or> sublist (best_run best ops) ops \<and> chained (best_run best ops))"
proof (induction best ops rule: best_run.induct)
  case (1 best)
  then show ?case by simp
next
  case (2 best c cs)
  obtain run others where s: "split_run c cs = (run, others)" by fastforce
  define best' where "best' = (if length run > length best then run else best)"
  note spec = split_run_spec [OF s]
  have eq: "best_run best (c # cs) = best_run best' others" by (simp add: s best'_def)
  have IH: "\<forall>run. sublist run others \<longrightarrow> chained run \<longrightarrow> length run \<le> length (best_run best' others)"
    "length best' \<le> length (best_run best' others)"
    "best_run best' others = best' \<or> sublist (best_run best' others) others \<and> chained (best_run best' others)"
    using "2.IH" [OF s [symmetric] refl] by (auto simp: best'_def)
  have "length r \<le> length (best_run best' others)" if "sublist r (c # cs)" "chained r" for r
  proof -
    have "sublist r run \<or> sublist r others"
      using chained_sublist_split [of r run others] that spec by auto
    then show ?thesis
    proof
      assume "sublist r run"
      then have "length r \<le> length best'" by (auto simp: best'_def dest: sublist_length_le)
      with IH(2) show ?thesis by simp
    qed (use IH(1) that in auto)
  qed
  moreover have "length best \<le> length (best_run best' others)" using IH(2) by (auto simp: best'_def split: if_splits)
  moreover have "sublist run (c # cs)" "sublist others (c # cs)" using spec by (auto intro: sublist_appendI)
  then have "best_run best' others = best \<or>
      sublist (best_run best' others) (c # cs) \<and> chained (best_run best' others)"
    using IH(3) spec unfolding best'_def by (metis sublist_order.order_trans)
  ultimately show ?case unfolding eq by blast
qed

text \<open>
  C30. The calls reported as sequential are a longest run: the single pass over the calls of a
  host finds consecutive calls each starting within 100 ms after the end of the one before, and
  no other stretch of consecutive calls with that property is longer.
\<close>
theorem longest_sequential_run:
  "let best = best_run [] ops
   in sublist best ops \<and> successively follows_closely best \<and>
      length best = Max (length ` {run. sublist run ops \<and> successively follows_closely run})"
proof -
  define best where "best = best_run [] ops"
  let ?R = "{run. sublist run ops \<and> chained run}"
  have spec: "\<forall>run. sublist run ops \<longrightarrow> chained run \<longrightarrow> length run \<le> length best"
    "sublist best ops" "chained best"
    using best_run_spec [of ops "[]"] by (auto simp: best_def)
  have "?R \<subseteq> {run. length run \<le> length ops \<and> set run \<subseteq> set ops}"
    by (auto dest: sublist_length_le set_mono_sublist)
  moreover have "finite {run. set run \<subseteq> set ops \<and> length run \<le> length ops}"
    by (rule finite_lists_length_le) simp
  ultimately have "finite ?R" by (metis (no_types, lifting) conj_commute finite_subset Collect_cong)
  then have "Max (length ` ?R) = length best" using spec by (intro Max_eqI) auto
  with spec show ?thesis by (simp add: best_def [symmetric])
qed

subsection \<open>Grouping\<close>

lemma group_of_push: "group_of (push_group k x m) g = group_of m g @ (if g = k then [x] else [])"
  by (simp add: group_of_def push_group_def)

lemma keys_push: "fst ` set (push_group k x m) = insert k (fst ` set m)"
  by (simp add: push_group_def)

lemma go_map_push: "go_map m \<Longrightarrow> go_map (push_group k x m)"
  by (simp add: push_group_def)

definition grouped :: "('a \<Rightarrow> bool) \<Rightarrow> ('a \<Rightarrow> 'k) \<Rightarrow> ('a \<Rightarrow> 'b) \<Rightarrow> 'a list \<Rightarrow> ('k \<times> 'b list) list \<Rightarrow>
    ('k \<times> 'b list) list" where
  "grouped P k v xs m = fold (\<lambda>x m. if P x then push_group (k x) (v x) m else m) xs m"

lemma group_of_grouped:
  "group_of (grouped P k v xs m) g = group_of m g @ map v (filter (\<lambda>x. P x \<and> k x = g) xs)"
  by (induction xs arbitrary: m) (auto simp: grouped_def group_of_push)

lemma keys_grouped: "fst ` set (grouped P k v xs m) = fst ` set m \<union> k ` {x \<in> set xs. P x}"
  by (induction xs arbitrary: m) (auto simp: grouped_def keys_push)

lemma go_map_grouped: "go_map m \<Longrightarrow> go_map (grouped P k v xs m)"
  by (induction xs arbitrary: m) (auto simp: grouped_def go_map_push)

lemma group_of_Nil [simp]: "group_of [] g = []"
  by (simp add: group_of_def)

lemma group_of_entry: "go_map m \<Longrightarrow> (k, xs) \<in> set m \<Longrightarrow> group_of m k = xs"
  by (simp add: group_of_def in_set_map_get)

definition repeats :: "analyzedQuery list \<Rightarrow> string list \<Rightarrow> string \<Rightarrow> analyzedQuery list" where
  "repeats qs ex g = filter (\<lambda>q. queryNPlusOneGroup q = g \<and> eID (aqEntry q) \<notin> set ex) qs"

lemma nPlusOneGroups_grouped:
  "nPlusOneGroups qs ex = grouped (\<lambda>q. queryNPlusOneGroup q \<noteq> [] \<and> eID (aqEntry q) \<notin> set ex) queryNPlusOneGroup
     (\<lambda>q. q) qs []"
  unfolding nPlusOneGroups_def grouped_def by (rule fold_cong) (simp_all add: Let_def fun_eq_iff)

lemma group_of_repeats: "g \<noteq> [] \<Longrightarrow> group_of (nPlusOneGroups qs ex) g = repeats qs ex g"
  unfolding nPlusOneGroups_grouped group_of_grouped repeats_def by (auto intro: filter_cong)

lemma go_map_groups: "go_map (nPlusOneGroups qs ex)"
  unfolding nPlusOneGroups_grouped by (rule go_map_grouped) simp

lemma group_key_ne: "(k, xs) \<in> set (nPlusOneGroups qs ex) \<Longrightarrow> k \<noteq> []"
  using keys_grouped [of "\<lambda>q. queryNPlusOneGroup q \<noteq> [] \<and> eID (aqEntry q) \<notin> set ex" queryNPlusOneGroup
      "\<lambda>q. q" qs "[]"]
  unfolding nPlusOneGroups_grouped [symmetric] by force

lemma repeated_groups:
  "\<exists>keys. nPlusOneFindings qs ex = map (\<lambda>g. nPlusOneFinding (repeats qs ex g)) keys \<and>
     distinct keys \<and> set keys = {g. g \<noteq> [] \<and> analysisNPlusOneMinimum \<le> length (repeats qs ex g)} \<and>
     sorted (map (\<lambda>g. (- int (length (repeats qs ex g)), g)) keys)"
proof -
  define m where "m = nPlusOneGroups qs ex"
  define f where "f k = (- int (length (group_of m k)), k)" for k
  define big where "big = map fst (filter (\<lambda>(k, r). length r \<ge> analysisNPlusOneMinimum) m)"
  define keys where "keys = sort_key f big"
  have go: "go_map m" unfolding m_def by (rule go_map_groups)
  have m0: "0 < analysisNPlusOneMinimum" by (simp add: analysisNPlusOneMinimum_def)
  have of_big: "k \<in> set big \<longleftrightarrow> k \<noteq> [] \<and> analysisNPlusOneMinimum \<le> length (repeats qs ex k)" for k
  proof
    assume "k \<in> set big"
    then obtain r where r: "(k, r) \<in> set m" "analysisNPlusOneMinimum \<le> length r" by (auto simp: big_def)
    have k: "k \<noteq> []" using r(1) unfolding m_def by (rule group_key_ne)
    with r show "k \<noteq> [] \<and> analysisNPlusOneMinimum \<le> length (repeats qs ex k)"
      using group_of_entry [OF go r(1)] group_of_repeats [OF k, of qs ex] by (simp add: m_def)
  next
    assume k: "k \<noteq> [] \<and> analysisNPlusOneMinimum \<le> length (repeats qs ex k)"
    then have "group_of m k = repeats qs ex k" unfolding m_def by (intro group_of_repeats) simp
    then obtain r where "map_get m k = Some r" "r = repeats qs ex k"
      using k m0 by (auto simp: group_of_def split: option.splits)
    then show "k \<in> set big" using k by (force simp: big_def dest: map_get_in_set)
  qed
  have same: "group_of m k = repeats qs ex k" if "k \<in> set keys" for k
    using that of_big [of k] unfolding m_def keys_def by (intro group_of_repeats) simp
  have "distinct big" unfolding big_def using go by (rule distinct_map_filter)
  then have "distinct keys" by (simp add: keys_def)
  moreover have "set keys = {g. g \<noteq> [] \<and> analysisNPlusOneMinimum \<le> length (repeats qs ex g)}"
    using of_big by (auto simp: keys_def)
  moreover have "sorted (map f keys)" unfolding keys_def by (rule sorted_sort_key)
  then have "sorted (map (\<lambda>g. (- int (length (repeats qs ex g)), g)) keys)"
    using same by (simp add: f_def cong: map_cong)
  moreover have "nPlusOneFindings qs ex = map (\<lambda>g. nPlusOneFinding (repeats qs ex g)) keys"
    using same by (simp add: nPlusOneFindings_def Let_def m_def [symmetric] big_def [symmetric]
        f_def [symmetric] keys_def [symmetric] cong: map_cong)
  ultimately show ?thesis by blast
qed

text \<open>
  Repeated queries are reported group by group and completely: there is one finding for
  each group of at least three structurally equal reads from the same connection and place in
  the code that no cache miss explains, it lists exactly the queries of the group in the order
  they ran, larger groups come first and groups of equal size in the order of their keys.
\<close>
theorem repeated_queries_reported:
  "\<exists>keys. nPlusOneFindings qs ex = map (\<lambda>g. nPlusOneFinding (repeats qs ex g)) keys \<and>
     distinct keys \<and> set keys = {g. g \<noteq> [] \<and> analysisNPlusOneMinimum \<le> length (repeats qs ex g)} \<and>
     sorted (map (\<lambda>g. (- int (length (repeats qs ex g)), g)) keys)"
  by (rule repeated_groups)

subsection \<open>Bursts after a cache miss\<close>

definition burst_ids :: "Finding \<Rightarrow> string list" where
  "burst_ids f = tl (fRelatedEntryIDs f)"

lemma burst_loop_unclaimed:
  "list_all (\<lambda>q. eID (aqEntry q) \<notin> set claimed) acc \<Longrightarrow>
   list_all (\<lambda>q. eID (aqEntry q) \<notin> set claimed) (burst_loop resolved fp claimed acc qs)"
  by (induction resolved fp claimed acc qs rule: burst_loop.induct) (auto split: option.split)

definition burst_inv :: "Finding list \<times> string list \<Rightarrow> bool" where
  "burst_inv st \<longleftrightarrow> snd st = concat (map burst_ids (fst st)) \<and>
     sorted_wrt (\<lambda>f g. set (burst_ids f) \<inter> set (burst_ids g) = {}) (fst st) \<and>
     list_all (\<lambda>f. analysisCacheBurstMinimum \<le> length (burst_ids f)) (fst st)"

lemma burst_ids_finding [simp]: "burst_ids (burstFinding cache qs) = queryEntryIDs qs"
  by (simp add: burst_ids_def burstFinding_def)

lemma cache_step_cases:
  obtains "cache_step caches queries i (fs, cl) = (fs, cl)"
  | cache resolved fp qs r where "r = burst_loop resolved fp cl [] qs" "analysisCacheBurstMinimum \<le> length r"
    "cache_step caches queries i (fs, cl) = (fs @ [burstFinding cache r], cl @ queryEntryIDs r)"
proof -
  define cache where "cache = caches ! i"
  define qs where "qs = dropWhile (\<lambda>q. eStartedAt (aqEntry q) < eStartedAt (acEntry cache)) queries"
  define r where "r = burst_loop (cacheResolutionAfter i caches) (aqFingerprint (hd qs)) cl [] qs"
  have "cache_step caches queries i (fs, cl) = (fs, cl) \<or>
      analysisCacheBurstMinimum \<le> length r \<and>
      cache_step caches queries i (fs, cl) = (fs @ [burstFinding cache r], cl @ queryEntryIDs r)"
    by (cases qs) (simp_all add: cache_step_def Let_def cache_def [symmetric] qs_def [symmetric] r_def
        not_less del: burst_loop.simps)
  then show ?thesis using that r_def by blast
qed

lemma cache_step_inv: "burst_inv st \<Longrightarrow> burst_inv (cache_step caches queries i st)"
proof -
  assume inv: "burst_inv st"
  obtain fs cl where st: "st = (fs, cl)" by fastforce
  show ?thesis
  proof (cases rule: cache_step_cases [of caches queries i fs cl])
    case 1
    with inv st show ?thesis by simp
  next
    case (2 cache resolved fp qs r)
    note r = 2(1,2) and step = 2(3)
    have "list_all (\<lambda>q. eID (aqEntry q) \<notin> set cl) r"
      unfolding r(1) by (rule burst_loop_unclaimed) simp
    then have "set cl \<inter> set (queryEntryIDs r) = {}" by (auto simp: queryEntryIDs_def list_all_iff)
    moreover have "set (burst_ids f) \<subseteq> set cl" if "f \<in> set fs" for f
      using inv that by (auto simp: burst_inv_def st)
    ultimately show ?thesis
      using inv r(2) unfolding st step
      by (auto simp: burst_inv_def st sorted_wrt_append queryEntryIDs_def)
  qed
qed

lemma cache_fold_inv: "burst_inv st \<Longrightarrow> burst_inv (fold (cache_step caches queries) is st)"
  by (induction "is" arbitrary: st) (simp_all add: cache_step_inv)

text \<open>
  C28. A query is blamed once.  No query belongs to the bursts of two cache misses, every
  reported burst has at least three queries, the explained queries are exactly those of the
  reported bursts, and no explained query is counted again as a repeated query.
\<close>
theorem query_blamed_once:
  "let (bursts, explained) = cacheMissQueryFindings caches queries
   in sorted_wrt (\<lambda>f g. set (burst_ids f) \<inter> set (burst_ids g) = {}) bursts \<and>
      list_all (\<lambda>f. analysisCacheBurstMinimum \<le> length (burst_ids f)) bursts \<and>
      set explained = (\<Union>f\<in>set bursts. set (burst_ids f)) \<and>
      list_all (\<lambda>f. set (fRelatedEntryIDs f) \<inter> set explained = {}) (nPlusOneFindings queries explained)"
proof -
  obtain fs ex where st: "fold (cache_step caches queries) (rev [0..<length caches]) ([], []) = (fs, ex)"
    by fastforce
  have "burst_inv ([], [])" by (simp add: burst_inv_def)
  from cache_fold_inv [OF this, of caches queries "rev [0..<length caches]"]
  have inv: "ex = concat (map burst_ids fs)"
    "sorted_wrt (\<lambda>f g. set (burst_ids f) \<inter> set (burst_ids g) = {}) fs"
    "list_all (\<lambda>f. analysisCacheBurstMinimum \<le> length (burst_ids f)) fs"
    by (simp_all add: st burst_inv_def)
  have "sorted_wrt (\<lambda>f g. set (burst_ids f) \<inter> set (burst_ids g) = {}) (rev fs)"
    using inv(2) by (simp add: sorted_wrt_rev Int_commute)
  moreover obtain keys where "nPlusOneFindings queries ex = map (\<lambda>g. nPlusOneFinding (repeats queries ex g)) keys"
    using repeated_groups [of queries ex] by blast
  then have "list_all (\<lambda>f. set (fRelatedEntryIDs f) \<inter> set ex = {}) (nPlusOneFindings queries ex)"
    by (auto simp: list_all_iff nPlusOneFinding_def queryEntryIDs_def repeats_def)
  ultimately show ?thesis
    using inv by (simp add: cacheMissQueryFindings_def st)
qed

end
