(* ===== verification/HierarchyProps.thy ===== *)
theory HierarchyProps
  imports AnalysisProps
begin

text \<open>
  The memoised search that finds, for each operation, the longest operation nested in it: it
  always returns, and when the parent links have no cycle it computes the maximum over the
  descendants.  With a cycle the result depends on the order in which the map is traversed.
\<close>

subsection \<open>The search returns\<close>

definition ids :: "(string \<times> Entry) list \<Rightarrow> string set" where
  "ids m = fst ` set m"

definition seen :: "hierarchyState \<Rightarrow> string set" where
  "seen st = fst ` set (hVisit st)"

lemma seen_put [simp]: "seen (st\<lparr>hVisit := map_put i x (hVisit st)\<rparr>) = insert i (seen st)"
  by (simp add: seen_def)

lemma seen_leave [simp]: "seen (fst (leave_node i e below st)) = insert i (seen st)"
  by (simp add: leave_node_def Let_def case_prod_beta seen_def)

lemma visit_None: "map_get (hVisit st) i = None \<longleftrightarrow> i \<notin> seen st"
  by (simp add: seen_def map_get_None_iff)

lemma childMap_grouped:
  "childMap m = grouped (\<lambda>(i, e). eParentID e \<noteq> [] \<and> map_get m (eParentID e) \<noteq> None) (\<lambda>(i, e). eParentID e) fst m []"
  unfolding childMap_def grouped_def by (rule fold_cong) (simp_all add: fun_eq_iff case_prod_beta)

lemma group_of_childMap:
  "group_of (childMap m) i = map fst (filter (\<lambda>(j, e). eParentID e \<noteq> [] \<and> eParentID e \<in> ids m \<and> eParentID e = i) m)"
  unfolding childMap_grouped group_of_grouped ids_def
  using map_get_None_iff [of m] by (auto intro!: arg_cong [of _ _ "map fst"] filter_cong)

lemma children_ids: "set (group_of (childMap m) i) \<subseteq> ids m"
  by (auto simp: group_of_childMap ids_def)

lemma less_unseen:
  assumes "i \<in> ids m" "i \<notin> seen st"
  shows "card (ids m - insert i (seen st)) < card (ids m - seen st)"
  using assms by (intro psubset_card_mono) (auto simp: ids_def)

lemma search_returns:
  shows "ch = childMap m \<Longrightarrow> i \<in> ids m \<Longrightarrow> card (ids m - seen st) < fuel \<Longrightarrow>
      \<exists>st' r. subtreeMaximum fuel m ch i st = Some (st', r) \<and> seen st \<subseteq> seen st'"
    and "ch = childMap m \<Longrightarrow> set cs \<subseteq> ids m \<Longrightarrow> card (ids m - seen st) < fuel \<Longrightarrow>
      \<exists>st' r. childrenMaximum fuel m ch cs best st = Some (st', r) \<and> seen st \<subseteq> seen st'"
proof (induction fuel m ch i st and fuel m ch cs best st rule: subtreeMaximum_childrenMaximum.induct)
  case (2 fuel m ch i st)
  show ?case
  proof (cases "map_get (hVisit st) i")
    case (Some v)
    then show ?thesis by (cases v) simp_all
  next
    case None
    then have "card (ids m - insert i (seen st)) < fuel"
      using less_unseen [of i m st] 2 by (simp add: visit_None)
    moreover have "set (group_of ch i) \<subseteq> ids m" using 2 children_ids by simp
    ultimately obtain st' r where r:
      "childrenMaximum fuel m ch (group_of ch i) (0, 0) (st\<lparr>hVisit := map_put i Visiting (hVisit st)\<rparr>) = Some (st', r)"
      "insert i (seen st) \<subseteq> seen st'"
      using 2 None by fastforce
    obtain e where e: "map_get m i = Some e" using 2 map_get_Some_iff [of m i] by (auto simp: ids_def)
    show ?thesis using None r e by (auto simp: prod_eq_iff intro: exI [of _ "leave_node i e r st'"])
  qed
next
  case (4 fuel m ch c cs best st)
  then obtain st' all qualifying where s: "subtreeMaximum fuel m ch c st = Some (st', all, qualifying)"
    "seen st \<subseteq> seen st'" by fastforce
  have "card (ids m - seen st') \<le> card (ids m - seen st)"
    using s(2) by (intro card_mono) (auto simp: ids_def)
  then obtain st'' r where "childrenMaximum fuel m ch cs (max (fst best) all, max (snd best) qualifying) st' = Some (st'', r)"
    "seen st' \<subseteq> seen st''"
    using 4 s by fastforce
  then show ?case using s by auto
qed simp_all

lemma hierarchy_run_total: "\<exists>h. hierarchy_run m = Some h"
proof -
  have "card (ids m - seen emptyHierarchy) \<le> length m"
    using card_length [of "map fst m"] by (simp add: ids_def seen_def emptyHierarchy_def)
  then have "card (ids m - seen emptyHierarchy) < Suc (length m)" by simp
  from search_returns(2) [OF refl _ this, of "map fst m" "(0, 0)"]
  show ?thesis by (auto simp: hierarchy_run_def ids_def)
qed

text \<open>
  C31. The search for nested operations always returns.  Whatever entries an execution has
  (entries that are their own parents, cycles of parents, missing parents), the recursion over
  the children is never deeper than the number of entries plus one, so the marks on the entries
  being visited are enough to make it end.
\<close>
theorem hierarchy_search_returns: "\<exists>h. hierarchy_run (byID entries) = Some h"
  by (rule hierarchy_run_total)

subsection \<open>Maxima of finite sets of durations\<close>

definition mx :: "duration set \<Rightarrow> duration" where
  "mx S = Max (insert 0 S)"

lemma mx_le: "finite S \<Longrightarrow> mx S \<le> x \<longleftrightarrow> 0 \<le> x \<and> (\<forall>s\<in>S. s \<le> x)"
  by (simp add: mx_def)

lemma mx_eqI: "(\<And>x. mx S \<le> x \<longleftrightarrow> mx T \<le> x) \<Longrightarrow> mx S = mx T"
  by (metis order_antisym order_refl)

lemma mx_nonneg [simp]: "finite S \<Longrightarrow> 0 \<le> mx S"
  using mx_le [of S "mx S"] by simp

lemma mx_insert:
  assumes "finite A"
  shows "mx (insert x A) = max (mx A) x"
proof (rule order_antisym)
  show "mx (insert x A) \<le> max (mx A) x"
    using assms mx_le [of A "mx A"] mx_nonneg [OF assms] by (auto simp: mx_le le_max_iff_disj simp del: mx_nonneg)
  show "max (mx A) x \<le> mx (insert x A)"
    using assms mx_le [of "insert x A" "mx (insert x A)"] by (simp add: mx_le)
qed

lemma foldl_max:
  fixes f g :: "'a \<Rightarrow> duration"
  assumes "finite A" "finite B"
  shows "foldl (\<lambda>b c. (max (fst b) (f c), max (snd b) (g c))) (mx A, mx B) cs =
     (mx (A \<union> f ` set cs), mx (B \<union> g ` set cs))"
  using assms
proof (induction cs arbitrary: A B)
  case (Cons c cs)
  then show ?case
    using Cons.IH [of "insert (f c) A" "insert (g c) B"] by (simp add: mx_insert)
qed simp

lemma foldl_max0:
  "foldl (\<lambda>b c. (max (fst b) (f c), max (snd b) (g c))) (0, 0) cs = (mx (f ` set cs), mx (g ` set cs))"
  for f g :: "'a \<Rightarrow> duration"
  using foldl_max [where A = "{}" and B = "{}" and f = f and g = g and cs = cs] by (simp add: mx_def)

subsection \<open>What the search computes when the parent links have no cycle\<close>

text \<open>An entry is below the entry its parent id names.\<close>

definition below :: "(string \<times> Entry) list \<Rightarrow> (string \<times> string) set" where
  "below m = {(j, i). i \<in> ids m \<and> i \<noteq> [] \<and> (\<exists>e. (j, e) \<in> set m \<and> eParentID e = i)}"

definition own :: "(string \<times> Entry) list \<Rightarrow> string \<Rightarrow> duration" where
  "own m i = (case map_get m i of None \<Rightarrow> 0 | Some e \<Rightarrow> ownDuration e)"

definition candidate :: "(string \<times> Entry) list \<Rightarrow> string \<Rightarrow> bool" where
  "candidate m i = (case map_get m i of None \<Rightarrow> False | Some e \<Rightarrow> bottleneckMinimum (eKind e) \<le> ownDuration e)"

definition descendants :: "(string \<times> Entry) list \<Rightarrow> string \<Rightarrow> string set" where
  "descendants m i = {j. (j, i) \<in> (below m)\<^sup>+}"

definition longest_below :: "(string \<times> Entry) list \<Rightarrow> string \<Rightarrow> duration" where
  "longest_below m i = mx (own m ` descendants m i)"

definition longest_candidate_below :: "(string \<times> Entry) list \<Rightarrow> string \<Rightarrow> duration" where
  "longest_candidate_below m i = mx (own m ` {j \<in> descendants m i. candidate m j})"

definition subtree :: "(string \<times> Entry) list \<Rightarrow> string \<Rightarrow> duration \<times> duration" where
  "subtree m i = (max (own m i) (longest_below m i),
     if candidate m i then max (own m i) (longest_candidate_below m i) else longest_candidate_below m i)"

lemma set_children: "set (group_of (childMap m) i) = {j. (j, i) \<in> below m}"
  by (force simp: group_of_childMap below_def)

lemma finite_descendants [simp]: "finite (descendants m i)"
proof -
  have "descendants m i \<subseteq> fst ` below m"
    unfolding descendants_def by (force dest: tranclD)
  moreover have "below m \<subseteq> ids m \<times> ids m" by (force simp: below_def ids_def)
  then have "finite (below m)" by (rule finite_subset) (simp add: ids_def)
  ultimately show ?thesis by (meson finite_imageI finite_subset)
qed

lemma descendants_children: "descendants m i = (\<Union>c\<in>{c. (c, i) \<in> below m}. insert c (descendants m c))"
proof
  show "descendants m i \<subseteq> (\<Union>c\<in>{c. (c, i) \<in> below m}. insert c (descendants m c))"
  proof
    fix j assume "j \<in> descendants m i"
    then have "(j, i) \<in> (below m)\<^sup>+" by (simp add: descendants_def)
    then obtain c where "(j, c) \<in> (below m)\<^sup>*" "(c, i) \<in> below m" by (blast dest: tranclD2)
    then show "j \<in> (\<Union>c\<in>{c. (c, i) \<in> below m}. insert c (descendants m c))"
      by (auto simp: descendants_def rtrancl_eq_or_trancl)
  qed
qed (auto simp: descendants_def)

lemma finite_children [simp]: "finite {c. (c, i) \<in> below m}"
  using set_children [of m i] by (metis finite_set)

lemma mx_UN: "finite C \<Longrightarrow> (\<And>c. finite (S c)) \<Longrightarrow> mx ((\<lambda>c. mx (S c)) ` C) = mx (\<Union>c\<in>C. S c)"
  by (rule mx_eqI) (auto simp: mx_le)

lemma subtree_sets:
  "fst (subtree m c) = mx (own m ` insert c (descendants m c))"
  "snd (subtree m c) = mx (own m ` {j \<in> insert c (descendants m c). candidate m j})"
proof -
  show "fst (subtree m c) = mx (own m ` insert c (descendants m c))"
    by (simp add: subtree_def longest_below_def mx_insert max.commute)
  have "{j \<in> insert c (descendants m c). candidate m j} =
      (if candidate m c then insert c {j \<in> descendants m c. candidate m j} else {j \<in> descendants m c. candidate m j})"
    by auto
  then show "snd (subtree m c) = mx (own m ` {j \<in> insert c (descendants m c). candidate m j})"
    by (simp add: subtree_def longest_candidate_below_def mx_insert max.commute)
qed

lemma children_maximum:
  "mx ((fst \<circ> subtree m) ` {c. (c, i) \<in> below m}) = longest_below m i"
  "mx ((snd \<circ> subtree m) ` {c. (c, i) \<in> below m}) = longest_candidate_below m i"
proof -
  have all: "own m ` descendants m i = (\<Union>c\<in>{c. (c, i) \<in> below m}. own m ` insert c (descendants m c))"
    by (subst descendants_children) blast
  have cand: "own m ` {j \<in> descendants m i. candidate m j} =
      (\<Union>c\<in>{c. (c, i) \<in> below m}. own m ` {j \<in> insert c (descendants m c). candidate m j})"
    by (subst descendants_children) blast
  show "mx ((fst \<circ> subtree m) ` {c. (c, i) \<in> below m}) = longest_below m i"
    unfolding longest_below_def all comp_def subtree_sets by (rule mx_UN) simp_all
  show "mx ((snd \<circ> subtree m) ` {c. (c, i) \<in> below m}) = longest_candidate_below m i"
    unfolding longest_candidate_below_def cand comp_def subtree_sets by (rule mx_UN) simp_all
qed

definition visiting :: "hierarchyState \<Rightarrow> string set" where
  "visiting st = {i. map_get (hVisit st) i = Some Visiting}"

definition visited :: "hierarchyState \<Rightarrow> string set" where
  "visited st = {i. map_get (hVisit st) i = Some Visited}"

definition search_ok :: "(string \<times> Entry) list \<Rightarrow> hierarchyState \<Rightarrow> bool" where
  "search_ok m st \<longleftrightarrow> (\<forall>i\<in>visited st. map_get (hMemo st) i = Some (subtree m i) \<and>
     map_get (hMaxDescendant st) i = Some (longest_below m i) \<and>
     map_get (hMaxQualifying st) i = Some (longest_candidate_below m i))"

lemma enter_sets [simp]:
  "i \<notin> visited st \<Longrightarrow> visited (st\<lparr>hVisit := map_put i Visiting (hVisit st)\<rparr>) = visited st"
  "visiting (st\<lparr>hVisit := map_put i Visiting (hVisit st)\<rparr>) = insert i (visiting st)"
  by (auto simp: visited_def visiting_def)

lemma leave_ok:
  assumes "search_ok m st" "map_get m i = Some e" "best = (longest_below m i, longest_candidate_below m i)"
  shows "search_ok m (fst (leave_node i e best st))" "snd (leave_node i e best st) = subtree m i"
    "visited (fst (leave_node i e best st)) = insert i (visited st)"
    "visiting (fst (leave_node i e best st)) = visiting st - {i}"
  using assms
  by (auto simp: leave_node_def Let_def search_ok_def visited_def visiting_def subtree_def own_def candidate_def
      split: if_splits)

lemma search_computes:
  shows "acyclic (below m) \<Longrightarrow> ch = childMap m \<Longrightarrow> i \<in> ids m \<Longrightarrow> search_ok m st \<Longrightarrow>
      (\<forall>v\<in>visiting st. (i, v) \<in> (below m)\<^sup>+) \<Longrightarrow> subtreeMaximum fuel m ch i st = Some (st', r) \<Longrightarrow>
      search_ok m st' \<and> visiting st' = visiting st \<and> insert i (visited st) \<subseteq> visited st' \<and> r = subtree m i"
    and "acyclic (below m) \<Longrightarrow> ch = childMap m \<Longrightarrow> set cs \<subseteq> ids m \<Longrightarrow> search_ok m st \<Longrightarrow>
      (\<forall>c\<in>set cs. \<forall>v\<in>visiting st. (c, v) \<in> (below m)\<^sup>+) \<Longrightarrow>
      childrenMaximum fuel m ch cs best st = Some (st', r) \<Longrightarrow>
      search_ok m st' \<and> visiting st' = visiting st \<and> set cs \<union> visited st \<subseteq> visited st' \<and>
      r = foldl (\<lambda>b c. (max (fst b) (fst (subtree m c)), max (snd b) (snd (subtree m c)))) best cs"
proof (induction fuel m ch i st and fuel m ch cs best st arbitrary: st' r and st' r
    rule: subtreeMaximum_childrenMaximum.induct)
  case (2 fuel m ch i st)
  note acyclic = "2.prems"(1) and ch = "2.prems"(2) and ok = "2.prems"(4) and anc = "2.prems"(5)
  have new: "i \<notin> visiting st"
  proof
    assume "i \<in> visiting st"
    with anc have "(i, i) \<in> (below m)\<^sup>+" by (rule bspec)
    with acyclic show False by (simp add: acyclic_def)
  qed
  show ?case
  proof (cases "map_get (hVisit st) i")
    case (Some v)
    then have "i \<in> visited st" using new by (cases v) (auto simp: visiting_def visited_def)
    moreover from this have "v = Visited" using Some by (simp add: visited_def)
    ultimately show ?thesis using 2 Some by (simp add: search_ok_def)
  next
    case None
    define st1 where "st1 = st\<lparr>hVisit := map_put i Visiting (hVisit st)\<rparr>"
    have "i \<notin> visited st" using None by (simp add: visited_def)
    then have st1: "visited st1 = visited st" "visiting st1 = insert i (visiting st)"
      unfolding st1_def by (rule enter_sets, intro enter_sets)
    obtain e where e: "map_get m i = Some e" using 2 map_get_Some_iff [of m i] by (auto simp: ids_def)
    obtain st2 b where c: "childrenMaximum fuel m ch (group_of ch i) (0, 0) st1 = Some (st2, b)"
      "leave_node i e b st2 = (st', r)"
      using "2.prems"(6) None e by (auto simp: st1_def split: option.splits)
    have "search_ok m st1" using ok by (simp add: search_ok_def st1(1)) (simp add: st1_def)
    moreover have "\<forall>c\<in>set (group_of ch i). \<forall>v\<in>visiting st1. (c, v) \<in> (below m)\<^sup>+"
      using anc unfolding ch set_children st1(2) by (auto intro: trancl_into_trancl2)
    ultimately have IH: "search_ok m st2" "visiting st2 = visiting st1" "visited st1 \<subseteq> visited st2"
      "b = foldl (\<lambda>b c. (max (fst b) (fst (subtree m c)), max (snd b) (snd (subtree m c)))) (0, 0) (group_of ch i)"
      using "2.IH" [OF None acyclic ch _ _ _ c(1) [unfolded st1_def]] children_ids [of m i] ch by (auto simp: st1_def)
    have b: "b = (longest_below m i, longest_candidate_below m i)"
      unfolding IH(4) foldl_max0 ch set_children using children_maximum [of m i] by (simp add: comp_def)
    note leave = leave_ok [OF IH(1) e b, of, unfolded c(2) fst_conv snd_conv]
    show ?thesis using leave IH st1 new by auto
  qed
next
  case (4 fuel m ch c cs best st)
  obtain st1 a q where s: "subtreeMaximum fuel m ch c st = Some (st1, a, q)"
    "childrenMaximum fuel m ch cs (max (fst best) a, max (snd best) q) st1 = Some (st', r)"
    using "4.prems"(6) by (auto split: option.splits)
  have one: "search_ok m st1" "visiting st1 = visiting st" "insert c (visited st) \<subseteq> visited st1" "(a, q) = subtree m c"
    using "4.IH"(1) [OF "4.prems"(1,2) _ "4.prems"(4) _ s(1)] "4.prems"(3,5) by auto
  have "search_ok m st' \<and> visiting st' = visiting st1 \<and> set cs \<union> visited st1 \<subseteq> visited st' \<and>
      r = foldl (\<lambda>b c. (max (fst b) (fst (subtree m c)), max (snd b) (snd (subtree m c))))
        (max (fst best) a, max (snd best) q) cs"
    using "4.IH"(2) [OF s(1) refl refl "4.prems"(1,2) _ one(1) _ s(2)] "4.prems"(3,5) one(2) by auto
  with one show ?case by (auto simp: prod_eq_iff)
qed simp_all

lemma hierarchy_values:
  assumes "acyclic (below m)" "hierarchy_run m = Some h" "i \<in> ids m"
  shows "map_get (hMaxDescendant h) i = Some (longest_below m i)"
    "map_get (hMaxQualifying h) i = Some (longest_candidate_below m i)"
proof -
  obtain r where run: "childrenMaximum (Suc (length m)) m (childMap m) (map fst m) (0, 0) emptyHierarchy = Some (h, r)"
    using assms(2) by (auto simp: hierarchy_run_def)
  have "search_ok m emptyHierarchy" "visiting emptyHierarchy = {}"
    by (simp_all add: search_ok_def visited_def visiting_def emptyHierarchy_def)
  then have "search_ok m h" "set (map fst m) \<subseteq> visited h"
    using search_computes(2) [OF assms(1) refl _ _ _ run] by (auto simp: ids_def)
  with assms(3) show "map_get (hMaxDescendant h) i = Some (longest_below m i)"
    "map_get (hMaxQualifying h) i = Some (longest_candidate_below m i)"
    by (auto simp: search_ok_def ids_def)
qed

text \<open>
  C27. The longest nested operation.  When the parent links of an execution have no cycle, the
  memoised search stores under each entry the longest operation among all its descendants, and
  the longest among those above the minimum of their kind, in whatever order the entries are
  visited.
\<close>
theorem hierarchy_longest_nested:
  assumes "acyclic (below (byID entries))"
  shows "let m = byID entries; h = newAnalysisEntryHierarchy entries in
     map (map_get (hMaxDescendant h)) (map fst m) = map (\<lambda>i. Some (longest_below m i)) (map fst m) \<and>
     map (map_get (hMaxQualifying h)) (map fst m) = map (\<lambda>i. Some (longest_candidate_below m i)) (map fst m)"
proof -
  define m where "m = byID entries"
  obtain h where h: "hierarchy_run m = Some h" using hierarchy_run_total by blast
  then have "newAnalysisEntryHierarchy entries = h" by (simp add: newAnalysisEntryHierarchy_def m_def)
  moreover note vals = hierarchy_values [OF assms [folded m_def] h]
  have "map (map_get (hMaxDescendant h)) (map fst m) = map (\<lambda>i. Some (longest_below m i)) (map fst m)"
    "map (map_get (hMaxQualifying h)) (map fst m) = map (\<lambda>i. Some (longest_candidate_below m i)) (map fst m)"
    using vals by (simp_all add: ids_def)
  ultimately show ?thesis by (simp add: m_def [symmetric] Let_def)
qed

text \<open>An event that contains a query, as entries; and two entries that are each other's parent.\<close>

definition plain_entry :: "string \<Rightarrow> Kind \<Rightarrow> string \<Rightarrow> int \<Rightarrow> Entry" where
  "plain_entry i k parent d = \<lparr>eCursor = 0, eID = i, eKind = k, eRequestID = [], eParentID = parent,
     eOriginRequestID = [], eProcess = [], eInstance = [], eStartedAt = 1, eRecordedAt = 1,
     eDurationNS = d, eTags = [], eData = JNull\<rparr>"

definition nested_entries :: "Entry list" where
  "nested_entries = [plain_entry ''e'' KindEvent [] 700, plain_entry ''q'' KindQuery ''e'' 600]"

lemma nested_acyclic: "acyclic (below (byID nested_entries))"
proof -
  have "below (byID nested_entries) \<subseteq> {(''q'', ''e'')}"
    by (auto simp: below_def byID_def nested_entries_def plain_entry_def)
  moreover have "acyclic {(''q'', ''e'')}" by (simp add: acyclic_insert) (simp add: acyclic_def)
  ultimately show ?thesis by (rule acyclic_subset [rotated])
qed

theorem hierarchy_longest_nested_witness:
  "let m = byID nested_entries; h = newAnalysisEntryHierarchy nested_entries in
     map (map_get (hMaxDescendant h)) (map fst m) = map (\<lambda>i. Some (longest_below m i)) (map fst m) \<and>
     map (map_get (hMaxQualifying h)) (map fst m) = map (\<lambda>i. Some (longest_candidate_below m i)) (map fst m)"
  by (rule hierarchy_longest_nested [OF nested_acyclic])

text \<open>
  With a cycle of parents the answer depends on the order of the map.  Two operations that
  name each other as parent get different results when the entries are visited in the other
  order, which Go leaves open; the findings drawn from them can change from one analysis of the
  same entries to the next.
\<close>
theorem cyclic_parents_depend_on_order:
  "let a = plain_entry ''a'' KindQuery ''b'' 900; b = plain_entry ''b'' KindQuery ''a'' 800;
       lookup = (\<lambda>entries. map_get (hMaxDescendant (newAnalysisEntryHierarchy entries)) ''a'')
   in lookup [a, b] = Some 800 \<and> lookup [b, a] = Some 0"
  by code_simp

end
