(* ===== verification/FindingProps.thy ===== *)
theory FindingProps
  imports HierarchyProps
begin

text \<open>
  The entries a finding names belong to the execution that was analysed, and the issues read
  out of a plan are distinct.
\<close>

subsection \<open>Findings refer to entries of the execution\<close>

definition refers :: "string set \<Rightarrow> Finding \<Rightarrow> bool" where
  "refers S f \<longleftrightarrow> fEntryID f \<in> S \<and> set (fRelatedEntryIDs f) \<subseteq> S"

lemma refers_finding [simp]: "refers S (finding code sev t d sg i) \<longleftrightarrow> i \<in> S"
  by (auto simp: refers_def finding_def)

lemma list_all_map_filter:
  "(\<And>x y. x \<in> set xs \<Longrightarrow> f x = Some y \<Longrightarrow> P y) \<Longrightarrow> list_all P (List.map_filter f xs)"
  by (auto simp: list_all_iff List.map_filter_def)

lemma set_collect:
  assumes "\<And>e y. f e = Some y \<Longrightarrow> g y = e"
  shows "g ` set (sort_happened g (collect k f entries)) \<subseteq> set entries"
  using assms by (auto simp: sort_happened_def collect_def List.map_filter_def split: if_splits)

lemma collected:
  "aqEntry ` set (collectQueries es) \<subseteq> set es" "acEntry ` set (collectCaches es) \<subseteq> set es"
  "ahEntry ` set (collectHTTPCalls es) \<subseteq> set es" "amEntry ` set (collectMiddlewares es) \<subseteq> set es"
  "aeEntry ` set (collectEvents es) \<subseteq> set es"
  unfolding collectQueries_def collectCaches_def collectHTTPCalls_def collectMiddlewares_def collectEvents_def
  by (rule set_collect, (auto)[1])+

lemma query_ids:
  assumes "(\<lambda>q. eID (aqEntry q)) ` set qs \<subseteq> S" "set r \<subseteq> set qs"
  shows "set (queryEntryIDs r) \<subseteq> S" "r \<noteq> [] \<Longrightarrow> eID (aqEntry (hd r)) \<in> S"
proof -
  show sub: "set (queryEntryIDs r) \<subseteq> S"
    unfolding queryEntryIDs_def set_map by (rule order_trans [OF image_mono [OF assms(2)] assms(1)])
  assume "r \<noteq> []"
  then show "eID (aqEntry (hd r)) \<in> S" by (intro subsetD [OF sub]) (simp add: queryEntryIDs_def)
qed

lemma refers_repeated:
  assumes "(\<lambda>q. eID (aqEntry q)) ` set qs \<subseteq> S"
  shows "list_all (refers S) (nPlusOneFindings qs ex)"
proof -
  obtain keys where f: "nPlusOneFindings qs ex = map (\<lambda>g. nPlusOneFinding (repeats qs ex g)) keys"
    and k: "set keys = {g. g \<noteq> [] \<and> analysisNPlusOneMinimum \<le> length (repeats qs ex g)}"
    using repeated_groups [of qs ex] by blast
  have "refers S (nPlusOneFinding r)" if "r \<noteq> []" "set r \<subseteq> set qs" for r
    using query_ids [OF assms that(2)] that(1) by (simp add: refers_def nPlusOneFinding_def)
  moreover have "repeats qs ex g \<noteq> []" if "g \<in> set keys" for g
  proof -
    have "3 \<le> length (repeats qs ex g)"
      using that unfolding k analysisNPlusOneMinimum_def mem_Collect_eq by (rule conjunct2)
    then show ?thesis by (cases "repeats qs ex g") simp_all
  qed
  moreover have "set (repeats qs ex g) \<subseteq> set qs" for g by (auto simp: repeats_def)
  ultimately show ?thesis by (auto simp: f list_all_iff)
qed

lemma slowest_query_mem: "slowest_query b qs = Some q \<Longrightarrow> q \<in> set qs \<or> b = Some q"
  by (induction b qs rule: slowest_query.induct) (auto split: if_splits)

lemma slowest_query_Some: "\<exists>q'. slowest_query (Some q) qs = Some q'"
  by (induction "Some q" qs arbitrary: q rule: slowest_query.induct) auto

lemma slowest_query_found:
  assumes "qs \<noteq> []" "\<And>q. q \<in> set qs \<Longrightarrow> 0 < eDurationNS (aqEntry q)"
  shows "\<exists>q\<in>set qs. slowest_query None qs = Some q"
proof -
  obtain q rs where qs: "qs = q # rs" using assms(1) by (cases qs) auto
  then have "slowest_query None qs = slowest_query (Some q) rs" using assms(2) by simp
  then obtain q' where "slowest_query None qs = Some q'" using slowest_query_Some [of q rs] by auto
  then show ?thesis using slowest_query_mem by fastforce
qed

lemma refers_share:
  assumes "(\<lambda>q. eID (aqEntry q)) ` set qs \<subseteq> S"
  shows "list_all (refers S) (option_list (sqlShareFinding qs s d label code))"
proof (cases "sqlShareFinding qs s d label code")
  case (Some f)
  define cs where "cs = filter (\<lambda>q. query_interval s d q \<noteq> None) qs"
  have pos: "0 < eDurationNS (aqEntry q)" if "q \<in> set cs" for q
    using that by (auto simp: cs_def query_interval_def Let_def split: if_splits)
  have "cs \<noteq> []"
    using Some by (auto simp: sqlShareFinding_def Let_def cs_def List.map_filter_def filter_empty_conv split: if_splits)
  then obtain q where "q \<in> set cs" "slowest_query None cs = Some q" using slowest_query_found pos by blast
  moreover have "fEntryID f = (case slowest_query None cs of None \<Rightarrow> [] | Some q \<Rightarrow> eID (aqEntry q))"
    "fRelatedEntryIDs f = queryEntryIDs cs"
    using Some by (auto simp: sqlShareFinding_def Let_def cs_def split: if_splits)
  moreover have "set cs \<subseteq> set qs" by (auto simp: cs_def)
  ultimately show ?thesis using Some assms by (auto simp: option_list_def refers_def queryEntryIDs_def)
qed (simp add: option_list_def)

lemma set_grouped: "set (group_of (callsByHost calls) h) \<subseteq> set calls"
proof -
  have "callsByHost calls = grouped concurrentCandidate ahHost (\<lambda>c. c) calls []"
    by (simp add: callsByHost_def grouped_def)
  then show ?thesis by (auto simp: group_of_grouped)
qed

lemma refers_sequential:
  assumes "(\<lambda>c. eID (ahEntry c)) ` set calls \<subseteq> S"
  shows "list_all (refers S) (sequentialHTTPFindings calls)"
proof -
  have "refers S (sequentialHTTPFinding h best)"
    if "best = best_run [] (sort_happened ahEntry (group_of (callsByHost calls) h))"
      "\<not> length best < analysisSequentialHTTPMinimum" for h best
  proof -
    have ne: "best \<noteq> []" using that(2) by (auto simp: analysisSequentialHTTPMinimum_def)
    have "sublist best (sort_happened ahEntry (group_of (callsByHost calls) h))"
      using best_run_spec [of "sort_happened ahEntry (group_of (callsByHost calls) h)" "[]"] that(1) by auto
    then have "set best \<subseteq> set (sort_happened ahEntry (group_of (callsByHost calls) h))"
      by (rule set_mono_sublist)
    also have "\<dots> = set (group_of (callsByHost calls) h)" by (simp add: sort_happened_def)
    also note set_grouped
    finally have "(\<lambda>c. eID (ahEntry c)) ` set best \<subseteq> S" using assms by (meson image_mono order_trans)
    moreover have "eID (ahEntry (hd best)) \<in> (\<lambda>c. eID (ahEntry c)) ` set best" using ne by simp
    ultimately show ?thesis by (simp add: refers_def sequentialHTTPFinding_def) blast
  qed
  then show ?thesis
    unfolding sequentialHTTPFindings_def Let_def by (intro list_all_map_filter) (auto split: if_splits)
qed

lemma burst_loop_subset: "set (burst_loop resolved fp claimed acc qs) \<subseteq> set acc \<union> set qs"
  by (induction resolved fp claimed acc qs rule: burst_loop.induct) (auto split: option.split)

lemma refers_bursts:
  assumes "(\<lambda>q. eID (aqEntry q)) ` set queries \<subseteq> S" "(\<lambda>c. eID (acEntry c)) ` set caches \<subseteq> S"
  shows "list_all (refers S) (fst (cacheMissQueryFindings caches queries))"
proof -
  have step: "list_all (refers S) (fst (cache_step caches queries i st))"
    if "list_all (refers S) (fst st)" "i < length caches" for i st
  proof -
    define following where
      "following = dropWhile (\<lambda>q. eStartedAt (aqEntry q) < eStartedAt (acEntry (caches ! i))) queries"
    have "set (burst_loop resolved fp cl [] following) \<subseteq> set queries" for resolved fp cl
      using burst_loop_subset [of resolved fp cl "[]" following]
      by (auto simp: following_def dest: set_dropWhileD)
    from query_ids(1) [OF assms(1) this]
    have "set (queryEntryIDs (burst_loop resolved fp cl [] following)) \<subseteq> S" for resolved fp cl .
    moreover have "eID (acEntry (caches ! i)) \<in> S" using assms(2) that(2) by (simp add: image_subset_iff)
    ultimately have "refers S (burstFinding (caches ! i) (burst_loop resolved fp cl [] following))" for resolved fp cl
      by (simp add: refers_def burstFinding_def)
    then show ?thesis
      using that(1)
      by (cases st; cases following)
        (simp_all add: cache_step_def Let_def following_def [symmetric] del: burst_loop.simps)
  qed
  have "list_all (refers S) (fst (fold (cache_step caches queries) is st))"
    if "list_all (refers S) (fst st)" "set is \<subseteq> {..<length caches}" for "is" st
    using that by (induction "is" arbitrary: st) (simp_all add: step)
  from this [of "([], [])" "rev [0..<length caches]"] show ?thesis
    by (simp add: cacheMissQueryFindings_def case_prod_beta atLeast0LessThan)
qed

lemma refers_bottleneck:
  assumes "eID ` set entries \<subseteq> S"
  shows "list_all (refers S) (option_list (executionBottleneckFinding e entries h d))"
proof -
  have step: "fst (bottleneck_step i h a st) = fst st \<or> fst (bottleneck_step i h a st) = Some a" for i a st
    by (simp add: bottleneck_step_def Let_def)
  have "fst (fold (bottleneck_step i h) es st) = Some b \<Longrightarrow> b \<in> set es \<or> fst st = Some b" for i es st b
  proof (induction es arbitrary: st)
    case (Cons a es)
    have "b \<in> set es \<or> fst (bottleneck_step i h a st) = Some b"
      by (rule Cons.IH) (use Cons.prems in simp)
    with step [of i a st] show ?case by auto
  qed simp
  from this [of "eID e" entries "(None, 0)"] show ?thesis
    using assms
    by (auto simp: executionBottleneckFinding_def Let_def option_list_def case_prod_beta split: option.splits if_splits)
qed

lemma refers_missrate:
  assumes "(\<lambda>c. eID (acEntry c)) ` set caches \<subseteq> S"
  shows "list_all (refers S) (option_list (cacheMissRateFinding caches))"
proof (cases "cacheMissRateFinding caches")
  case (Some f)
  define reads where "reads = filter (\<lambda>op. cacheReadOperation (caOperation (acCache op)) \<and> caError (acCache op) = []) caches"
  define misses where "misses = map (\<lambda>op. eID (acEntry op)) (filter (\<lambda>op. \<not> caHit (acCache op)) reads)"
  have p0: "percent 0 n < 50" for n
    by (simp add: percent_def float_of_int_def float64_def fdiv_def fmul_def math_round_def)
  have "misses \<noteq> []"
    using Some p0 [of "int (length reads)"]
    by (auto simp: cacheMissRateFinding_def Let_def misses_def [symmetric] reads_def [symmetric] split: if_splits)
  moreover have "fEntryID f = hd misses" "fRelatedEntryIDs f = misses"
    using Some by (auto simp: cacheMissRateFinding_def Let_def misses_def reads_def split: if_splits)
  moreover have "set misses \<subseteq> S" using assms by (auto simp: misses_def reads_def)
  ultimately show ?thesis using Some hd_in_set [of misses] by (auto simp: option_list_def refers_def)
qed (simp add: option_list_def)

text \<open>
  C29. Every finding can be opened.  Whatever was recorded, the entry a finding points at and
  all the entries it lists are the analysed execution itself or entries of it; no finding names
  an entry that is not there.
\<close>
theorem findings_refer_to_entries:
  "list_all (\<lambda>f. fEntryID f \<in> set (map eID (e # entries)) \<and>
      set (fRelatedEntryIDs f) \<subseteq> set (map eID (e # entries))) (snd (analyzeExecution e entries label code))"
proof -
  let ?S = "set (map eID (e # entries))"
  have ids: "(\<lambda>q. eID (aqEntry q)) ` set (collectQueries entries) \<subseteq> ?S"
    "(\<lambda>c. eID (acEntry c)) ` set (collectCaches entries) \<subseteq> ?S"
    "(\<lambda>c. eID (ahEntry c)) ` set (collectHTTPCalls entries) \<subseteq> ?S"
    "(\<lambda>c. eID (amEntry c)) ` set (collectMiddlewares entries) \<subseteq> ?S"
    "(\<lambda>c. eID (aeEntry c)) ` set (collectEvents entries) \<subseteq> ?S"
    using collected [of entries] by (auto simp: image_subset_iff)
  have slow: "list_all (refers ?S) (slow_root e)"
    by (simp add: slow_root_def slow_execution_def)
  have middle: "list_all (refers ?S) (slowMiddlewareFindings (collectMiddlewares entries) h)" for h
    unfolding slowMiddlewareFindings_def Let_def
    using ids(4) by (intro list_all_map_filter) (auto split: if_splits)
  have events: "list_all (refers ?S) (slowEventFindings (collectEvents entries))"
    unfolding slowEventFindings_def Let_def
    using ids(5) by (intro list_all_map_filter) (auto split: if_splits)
  have plans: "list_all (refers ?S) (queryPlanFindings (collectQueries entries))"
    unfolding queryPlanFindings_def Let_def
    using ids(1) by (intro list_all_map_filter) (auto split: if_splits option.splits)
  have queries: "list_all (refers ?S) (List.map_filter slow_query_finding (collectQueries entries))"
    using ids(1) by (intro list_all_map_filter) (auto simp: slow_query_finding_def Let_def split: if_splits)
  have calls: "list_all (refers ?S) (List.map_filter slow_call_finding (collectHTTPCalls entries))"
    using ids(3) by (intro list_all_map_filter) (auto simp: slow_call_finding_def Let_def split: if_splits)
  have failed: "list_all (refers ?S) (failedOperationFindings entries b)" for b
    unfolding failedOperationFindings_def by (intro list_all_map_filter) auto
  have "eID ` set entries \<subseteq> ?S" by auto
  note bottleneck = refers_bottleneck [OF this]
  have "list_all (refers ?S) (snd (analyzeExecution e entries label code))"
    unfolding analyzeExecution_def legacyPerformanceFindings_def Let_def case_prod_beta snd_conv list_all_append
    using slow middle events plans queries calls failed
      refers_repeated [OF ids(1)] refers_share [OF ids(1)] refers_sequential [OF ids(3)]
      refers_bursts [OF ids(1,2)] refers_missrate [OF ids(2)] bottleneck
    by (simp add: list_all_append option_list_def)
  then show ?thesis by (simp add: list_all_iff refers_def)
qed

subsection \<open>Issues of a plan\<close>

text \<open>What makes two issues the same: for estimates the number of rows, otherwise relation and line.\<close>

definition issue_key :: "QueryPlanIssue \<Rightarrow> string" where
  "issue_key i =
     (if qiCode i = IssueLargeEstimate then IssueLargeEstimate @ nul @ show_nat (nat (qiEstimatedRows i))
      else qiCode i @ nul @ qiRelation i @ nul @ qiDetail i)"

definition issue_sound :: "string list \<Rightarrow> QueryPlanIssue \<Rightarrow> bool" where
  "issue_sound plan_lines i \<longleftrightarrow> qiDetail i \<in> set (map trim_space plan_lines) \<and> qiDetail i \<noteq> [] \<and>
     (if qiCode i = IssueLargeEstimate then 10000 \<le> qiEstimatedRows i \<and> qiEstimatedRows i < 2 ^ 63
      else List.member [IssueFullScan, IssueTemporarySort] (qiCode i) \<and> qiEstimatedRows i = 0)"

definition issues_inv :: "string list \<Rightarrow> issueState \<Rightarrow> bool" where
  "issues_inv plan_lines st \<longleftrightarrow> map issue_key (fst st) = rev (snd st) \<and> distinct (snd st) \<and>
     list_all (issue_sound plan_lines) (fst st)"

lemma add_issue_inv:
  assumes "issues_inv ls st" "code = IssueFullScan \<or> code = IssueTemporarySort"
    "detail \<in> set (map trim_space ls)" "detail \<noteq> []"
  shows "issues_inv ls (add_issue (plan_issue code relation 0 detail) st)"
proof -
  have key: "issue_key (plan_issue code relation 0 detail) = code @ nul @ relation @ nul @ detail"
    using assms(2) by (auto simp: issue_key_def plan_issue_def)
  have "issue_sound ls (plan_issue code relation 0 detail)"
    using assms(2,3,4) by (auto simp: issue_sound_def plan_issue_def)
  with assms(1) key show ?thesis
    by (cases st) (simp add: add_issue_def Let_def issues_inv_def plan_issue_def)
qed

lemma addLarge_inv:
  assumes "issues_inv ls st" "detail \<in> set (map trim_space ls)" "detail \<noteq> []"
  shows "issues_inv ls (addLargePlanEstimate matches detail st)"
  using assms(1)
proof (induction matches arbitrary: st)
  case (Cons digits matches)
  define rows where "rows = digits_val digits"
  obtain issues found where st: "st = (issues, found)" by fastforce
  define st' where "st' =
     (if rows > 2 ^ 63 - 1 \<or> rows < queryPlanLargeEstimateMinimum then (issues, found)
      else if IssueLargeEstimate @ nul @ show_nat rows \<in> set found then (issues, found)
      else (issues @ [plan_issue IssueLargeEstimate [] (int rows) detail],
            (IssueLargeEstimate @ nul @ show_nat rows) # found))"
  have eq: "addLargePlanEstimate (digits # matches) detail st = addLargePlanEstimate matches detail st'"
    by (simp add: addLargePlanEstimate_def st st'_def rows_def Let_def)
  have "issue_key (plan_issue IssueLargeEstimate [] (int rows) detail) = IssueLargeEstimate @ nul @ show_nat rows"
    by (simp add: issue_key_def plan_issue_def)
  moreover have "issue_sound ls (plan_issue IssueLargeEstimate [] (int rows) detail)"
    if "\<not> rows > 2 ^ 63 - 1" "\<not> rows < queryPlanLargeEstimateMinimum"
    using that assms(2,3) by (simp add: issue_sound_def plan_issue_def queryPlanLargeEstimateMinimum_def)
  ultimately have "issues_inv ls st'"
    using Cons.prems by (simp add: st'_def issues_inv_def st)
  then show ?case unfolding eq by (rule Cons.IH)
qed (simp add: addLargePlanEstimate_def)

lemma plan_line_inv:
  assumes inv: "issues_inv ls st" and line: "l \<in> set ls"
  shows "issues_inv ls (plan_line driver l st)"
proof (cases "trim_space l = []")
  case False
  have mem: "trim_space l \<in> set (map trim_space ls)" using line by simp
  note add = add_issue_inv [OF _ _ mem False] and large = addLarge_inv [OF _ mem False]
  have "issues_inv ls (sqlite_line (trim_space l) st)"
    using inv by (simp add: sqlite_line_def Let_def add split: option.split)
  moreover have "issues_inv ls (postgres_line (trim_space l) st)"
    using inv by (simp add: postgres_line_def Let_def add large split: option.split)
  moreover have "issues_inv ls (mysql_line (trim_space l) st)"
    using inv by (simp add: mysql_line_def Let_def add large)
  ultimately show ?thesis using inv by (simp add: plan_line_def Let_def)
qed (use inv in \<open>simp add: plan_line_def\<close>)

lemma plan_fold_inv:
  "issues_inv ls st \<Longrightarrow> set rs \<subseteq> set ls \<Longrightarrow> issues_inv ls (fold (plan_line driver) rs st)"
  by (induction rs arbitrary: st) (simp_all add: plan_line_inv)

text \<open>
  The issues read out of a plan are distinct and sound: no signal is reported twice, each
  quotes a line of the plan, every large estimate is at least ten thousand rows and fits the
  64 bits of its field, and any other issue is a full scan or a temporary sort.
\<close>
theorem plan_issues_distinct:
  "let issues = DetectQueryPlanIssues driver text_of_plan
   in distinct (map issue_key issues) \<and>
      list_all (issue_sound (split_on (CHR 0x0A) text_of_plan)) issues"
proof -
  let ?ls = "split_on (CHR 0x0A) text_of_plan"
  have "issues_inv ?ls ([], [])" by (simp add: issues_inv_def)
  from plan_fold_inv [OF this order_refl, of "to_lower (trim_space driver)"]
  show ?thesis by (simp add: DetectQueryPlanIssues_def issues_inv_def Let_def)
qed

end
