(* ===== verification/GoHttp.thy ===== *)
theory GoHttp
  imports GoNumbers
begin

text \<open>
  What the HTTP parts use of \<open>net\<close>, \<open>net/url\<close> and \<open>strconv\<close>: splitting an address, query
  strings, escaping of a path segment, and parsing numbers.
\<close>

subsection \<open>Numbers\<close>

definition parse_uint64 :: "string \<Rightarrow> nat" where
  "parse_uint64 s =
     (if s = [] \<or> \<not> list_all is_digit s then 0 else min (digits_val s) (2 ^ 64 - 1))"

text \<open>\<open>Atoi\<close>: \<open>None\<close> is an error; \<open>clamped_int\<close> is the value that comes with or without an error.\<close>

definition int_digits :: "string \<Rightarrow> (bool \<times> string) option" where
  "int_digits s =
     (let (neg, ds) = (case s of [] \<Rightarrow> (False, [])
        | c # t \<Rightarrow> if c = CHR ''-'' then (True, t) else if c = CHR ''+'' then (False, t) else (False, s))
      in if ds = [] \<or> \<not> list_all is_digit ds then None else Some (neg, ds))"

definition signed_val :: "bool \<Rightarrow> string \<Rightarrow> int" where
  "signed_val neg ds = (if neg then - int (digits_val ds) else int (digits_val ds))"

definition atoi :: "string \<Rightarrow> int option" where
  "atoi s = (case int_digits s of
     None \<Rightarrow> None
   | Some (neg, ds) \<Rightarrow>
       let v = signed_val neg ds in if - (2 ^ 63) \<le> v \<and> v < 2 ^ 63 then Some v else None)"

definition clamped_int :: "string \<Rightarrow> int" where
  "clamped_int s = (case int_digits s of
     None \<Rightarrow> 0 | Some (neg, ds) \<Rightarrow> max (- (2 ^ 63)) (min (2 ^ 63 - 1) (signed_val neg ds)))"

text \<open>
  \<open>ParseFloat\<close> of decimal text, with an optional exponent.  The forms for infinities, not-a-number
  and hexadecimal floats are not read (\<open>None\<close>, like any other error).
\<close>

definition parse_exponent :: "string \<Rightarrow> int option" where
  "parse_exponent s = (case s of
     [] \<Rightarrow> Some 0
   | c # t \<Rightarrow> if c = CHR ''e'' \<or> c = CHR ''E'' then map_option (\<lambda>(neg, ds). signed_val neg ds) (int_digits t) else None)"

definition pow10 :: "int \<Rightarrow> rat" where
  "pow10 k = (if k \<ge> 0 then 10 ^ nat k else 1 / 10 ^ nat (- k))"

definition parse_float :: "string \<Rightarrow> rat option" where
  "parse_float s =
     (let (neg, s) = (case s of [] \<Rightarrow> (False, [])
        | c # t \<Rightarrow> if c = CHR ''-'' then (True, t) else if c = CHR ''+'' then (False, t) else (False, s));
          whole = takeWhile is_digit s; r = dropWhile is_digit s;
          (frac, r) = (case r of [] \<Rightarrow> ([], [])
            | c # t \<Rightarrow> if c = CHR ''.'' then (takeWhile is_digit t, dropWhile is_digit t) else ([], r))
      in if whole = [] \<and> frac = [] then None
         else case parse_exponent r of
           None \<Rightarrow> None
         | Some e \<Rightarrow>
             let v = float64 (of_nat (digits_val (whole @ frac)) * pow10 (e - int (length frac)))
             in Some (if neg then - v else v))"

text \<open>Conversion of a \<open>float64\<close> to \<open>int64\<close>: towards zero; out of range it is the least integer (amd64).\<close>

definition to_int64 :: "rat \<Rightarrow> int" where
  "to_int64 q =
     (let v = (if q < 0 then - \<lfloor>- q\<rfloor> else \<lfloor>q\<rfloor>) in if - (2 ^ 63) \<le> v \<and> v < 2 ^ 63 then v else - (2 ^ 63))"

subsection \<open>Escaping\<close>

definition upper_hex :: "nat \<Rightarrow> char" where
  "upper_hex n = (if n < 10 then char_of (48 + n) else char_of (55 + n))"

definition percent_byte :: "char \<Rightarrow> string" where
  "percent_byte c = [CHR ''%'', upper_hex (byte c div 16), upper_hex (byte c mod 16)]"

definition unreserved :: "char \<Rightarrow> bool" where
  "unreserved c \<longleftrightarrow> is_alpha c \<or> is_digit c \<or> c \<in> set ''-_.~''"

text \<open>\<open>PathEscape\<close> keeps \<open>$&+=:@\<close> besides the unreserved characters.\<close>

definition path_escape :: "string \<Rightarrow> string" where
  "path_escape s = concat (map (\<lambda>c. if unreserved c \<or> c \<in> set ''$&+=:@'' then [c] else percent_byte c) s)"

text \<open>
  \<open>EscapedPath\<close> of a URL whose \<open>Path\<close> was set to text with slashes: it keeps \<open>$&+,/:;=@\<close> and
  the unreserved characters.
\<close>

definition escape_path :: "string \<Rightarrow> string" where
  "escape_path s = concat (map (\<lambda>c. if unreserved c \<or> c \<in> set ''$&+,/:;=@'' then [c] else percent_byte c) s)"

fun percent_decode :: "bool \<Rightarrow> string \<Rightarrow> string option" where
  "percent_decode pl [] = Some []"
| "percent_decode pl (c # s) =
     (if c = CHR ''%'' then
        (case s of
           a # b # t \<Rightarrow> if is_hex a \<and> is_hex b
             then map_option (Cons (char_of (16 * hex_val a + hex_val b))) (percent_decode pl t) else None
         | _ \<Rightarrow> None)
      else map_option (Cons (if pl \<and> c = CHR ''+'' then CHR '' '' else c)) (percent_decode pl s))"

text \<open>\<open>URL.Query\<close>: the pairs in order; a part with a semicolon or a bad escape is dropped.\<close>

definition parse_pair :: "string \<Rightarrow> (string \<times> string) option" where
  "parse_pair part =
     (if part = [] \<or> CHR '';'' \<in> set part then None
      else let (k, v, _) = cut part ''='' in
        case percent_decode True k of
          None \<Rightarrow> None
        | Some k' \<Rightarrow> map_option (\<lambda>v'. (k', v')) (percent_decode True v))"

definition parse_query :: "string \<Rightarrow> (string \<times> string) list" where
  "parse_query raw = List.map_filter parse_pair (split_on (CHR ''&'') raw)"

definition query_all :: "(string \<times> string) list \<Rightarrow> string \<Rightarrow> string list" where
  "query_all q k = map snd (filter (\<lambda>p. fst p = k) q)"

definition query_get :: "(string \<times> string) list \<Rightarrow> string \<Rightarrow> string" where
  "query_get q k = (case query_all q k of [] \<Rightarrow> [] | v # vs \<Rightarrow> v)"

text \<open>\<open>QueryEscape\<close>, and \<open>Values.Encode\<close>: sorted by key, the values of a key in order.\<close>

definition query_escape :: "string \<Rightarrow> string" where
  "query_escape s =
     concat (map (\<lambda>c. if unreserved c then [c] else if c = CHR '' '' then ''+'' else percent_byte c) s)"

definition values_encode :: "(string \<times> string) list \<Rightarrow> string" where
  "values_encode q =
     join ''&'' (map (\<lambda>(k, v). query_escape k @ ''='' @ query_escape v) (sort_key fst q))"

subsection \<open>Numbers as text\<close>

text \<open>
  \<open>FormatFloat(x, 'f', -1, 64)\<close>: the fewest decimals that read back as the same number.  A
  \<open>float64\<close> needs at most 1074 of them, which bounds the search.
\<close>

fun shortest_from :: "nat \<Rightarrow> nat \<Rightarrow> rat \<Rightarrow> string" where
  "shortest_from n k q =
     (if n = 0 \<or> parse_float (format_fixed k q) = Some q then format_fixed k q
      else shortest_from (n - 1) (k + 1) q)"

declare shortest_from.simps [simp del]

definition format_shortest :: "rat \<Rightarrow> string" where
  "format_shortest q = shortest_from 1074 0 q"

subsection \<open>URLs\<close>

record parsedURL =
  puScheme :: string
  puHost :: string
  puPath :: string
  puQuery :: string
  puFragment :: string

text \<open>\<open>url.Parse\<close>; \<open>None\<close> is an error.  An opaque URL has neither host nor path.\<close>

definition url_parse :: "string \<Rightarrow> parsedURL option" where
  "url_parse raw =
     (let (u, frag, _) = cut raw ''#'' in
      if list_ex (\<lambda>c. byte c < 32 \<or> byte c = 127) u then None
      else case (get_scheme [] u, percent_decode False frag) of
        (Some (scheme, rest0), Some fragment) \<Rightarrow>
          let (rest, query, _) = cut rest0 ''?''; scheme = to_lower scheme;
              parsed = (\<lambda>host path. map_option (\<lambda>p. \<lparr>puScheme = scheme, puHost = host, puPath = p,
                puQuery = query, puFragment = fragment\<rparr>) (percent_decode False path)) in
          if \<not> has_prefix rest ''/'' \<and> scheme \<noteq> [] then parsed [] []
          else if \<not> has_prefix rest ''/'' \<and> contains (fst (cut rest ''/'')) '':'' then None
          else if (scheme \<noteq> [] \<or> \<not> has_prefix rest ''///'') \<and> has_prefix rest ''//'' then
            (let authority = takeWhile (\<lambda>c. c \<noteq> CHR ''/'') (drop 2 rest);
                 path = dropWhile (\<lambda>c. c \<noteq> CHR ''/'') (drop 2 rest)
             in case parse_authority authority of None \<Rightarrow> None | Some host \<Rightarrow> parsed host path)
          else parsed [] rest
      | _ \<Rightarrow> None)"

subsection \<open>Addresses\<close>

text \<open>The host of \<open>net.SplitHostPort\<close>; \<open>None\<close> is an error.\<close>

definition split_host :: "string \<Rightarrow> string option" where
  "split_host s =
     (case last_index (CHR '':'') s of
        None \<Rightarrow> None
      | Some i \<Rightarrow>
          if s \<noteq> [] \<and> hd s = CHR ''['' then
            (case index_of s '']'' of
               None \<Rightarrow> None
             | Some j \<Rightarrow>
                 if j + 1 \<noteq> i \<or> CHR ''['' \<in> set (tl s) \<or> CHR '']'' \<in> set (drop (j + 1) s) then None
                 else Some (drop 1 (take j s)))
          else if CHR '':'' \<in> set (take i s) \<or> CHR ''['' \<in> set s \<or> CHR '']'' \<in> set s then None
          else Some (take i s))"

end
