(* ===== verification/Snapshots.thy ===== *)
theory Snapshots
  imports Dashboard Store GoNumbers
begin

text \<open>
  The snapshots served beside the event log: \<open>runtime.go\<close>, \<open>queue_stats.go\<close> and the message of
  \<open>websocket.go\<close> that bundles them.  The samples of \<open>runtime/metrics\<close> and the registered queue
  sources are parameters: a sample has a kind, a source answers for a context with a
  snapshot and possibly an error.
\<close>

subsection \<open>Runtime\<close>

datatype metricValue = MetricUint64 nat | MetricFloat64 rat | MetricOther

record RuntimeStats =
  rsRecordedAt :: instant
  rsUptimeNS :: int
  rsCPUSeconds :: rat
  rsCPUIdleSeconds :: rat
  rsMemoryBytes :: nat
  rsHeapObjectsBytes :: nat
  rsHeapLiveBytes :: nat
  rsGoroutines :: nat
  rsGCCycles :: nat
  rsGOMAXPROCS :: int

definition metricFloat64 :: "metricValue \<Rightarrow> rat" where
  "metricFloat64 v = (case v of MetricFloat64 q \<Rightarrow> q | _ \<Rightarrow> 0)"

definition metricUint64 :: "metricValue \<Rightarrow> nat" where
  "metricUint64 v = (case v of MetricUint64 n \<Rightarrow> n | _ \<Rightarrow> 0)"

definition runtimeStats :: "instant \<Rightarrow> instant \<Rightarrow> (string \<Rightarrow> metricValue) \<Rightarrow> int \<Rightarrow> RuntimeStats" where
  "runtimeStats now startedAt sample procs =
     (let totalMemory = metricUint64 (sample ''/memory/classes/total:bytes'');
          releasedMemory = metricUint64 (sample ''/memory/classes/heap/released:bytes'');
          releasedMemory = (if releasedMemory > totalMemory then totalMemory else releasedMemory)
      in \<lparr>rsRecordedAt = now, rsUptimeNS = now - startedAt,
          rsCPUSeconds = metricFloat64 (sample ''/cpu/classes/total:cpu-seconds''),
          rsCPUIdleSeconds = metricFloat64 (sample ''/cpu/classes/idle:cpu-seconds''),
          rsMemoryBytes = totalMemory - releasedMemory,
          rsHeapObjectsBytes = metricUint64 (sample ''/memory/classes/heap/objects:bytes''),
          rsHeapLiveBytes = metricUint64 (sample ''/gc/heap/live:bytes''),
          rsGoroutines = metricUint64 (sample ''/sched/goroutines:goroutines''),
          rsGCCycles = metricUint64 (sample ''/gc/cycles/total:gc-cycles''),
          rsGOMAXPROCS = procs\<rparr>)"

subsection \<open>Queues\<close>

record QueueState =
  quName :: string
  quWorkersActive :: int
  quWorkersTotal :: int
  quProcessed :: nat
  quSucceeded :: nat
  quFailed :: nat
  quPending :: int

record QueueStats =
  qsSource :: string
  qsRecordedAt :: instant
  qsStartedAt :: instant
  qsWorkersActive :: int
  qsWorkersTotal :: int
  qsProcessed :: nat
  qsSucceeded :: nat
  qsFailed :: nat
  qsPending :: int
  qsQueues :: "QueueState list"
  qsError :: string

record QueueStatsResponse =
  qrRecordedAt :: instant
  qrSources :: "QueueStats list"

type_synonym 'w QueueStatsSource = "'w \<Rightarrow> QueueStats \<times> string option"

text \<open>A nil source is not registered; a later source of the same name replaces the earlier one.\<close>

definition queue_source_name :: "string list \<Rightarrow> string" where
  "queue_source_name names =
     (case names of [] \<Rightarrow> ''default'' | n # ns \<Rightarrow> if trim_space n \<noteq> [] then trim_space n else ''default'')"

definition RegisterQueueStats :: "'w QueueStatsSource option \<Rightarrow> string list \<Rightarrow>
    (string \<times> 'w QueueStatsSource) list \<Rightarrow> (string \<times> 'w QueueStatsSource) list" where
  "RegisterQueueStats source names sources =
     (case source of None \<Rightarrow> sources | Some f \<Rightarrow> map_put (queue_source_name names) f sources)"

definition queue_snapshot :: "instant \<Rightarrow> 'w \<Rightarrow> string \<Rightarrow> 'w QueueStatsSource \<Rightarrow> QueueStats" where
  "queue_snapshot now ctx name source =
     (let (st, err) = source ctx; st = st\<lparr>qsSource := name, qsRecordedAt := now\<rparr>
      in case err of None \<Rightarrow> st | Some e \<Rightarrow> st\<lparr>qsError := e\<rparr>)"

text \<open>Every name in the sorted list is a key of the map it was taken from.\<close>

definition queueStats :: "instant \<Rightarrow> 'w \<Rightarrow> (string \<times> 'w QueueStatsSource) list \<Rightarrow> QueueStatsResponse" where
  "queueStats now ctx sources =
     \<lparr>qrRecordedAt = now,
      qrSources = List.map_filter (\<lambda>name. map_option (queue_snapshot now ctx name) (map_get sources name))
        (sort (map fst sources))\<rparr>"

subsection \<open>The snapshot message\<close>

record streamSnapshotMessage =
  ssmType :: string
  ssmCursor :: nat
  ssmStats :: Stats
  ssmRuntime :: RuntimeStats
  ssmQueues :: QueueStatsResponse
  ssmDashboard :: DashboardSnapshot

end
