(* ===== verification/Http.thy ===== *)
theory Http
  imports Analysis GoHttp Options Snapshots
begin

text \<open>
  \<open>http.go\<close>: the dashboard's HTTP interface.  A server is the configuration, the store, the
  session token, the table of failed logins and the registered queue sources; a request is
  handled in one step that gives the new server and the response, and appends the batches the
  store issued to \<open>dsBatches\<close> in their order.  What a handler obtains
  from outside is in the environment of the request: the readings of the clock (by the order
  of use), the digest of a token, the runtime's metrics, the embedded assets and their media
  types, and the request's context.
\<close>

subsection \<open>State and responses\<close>

definition sessionCookieName :: string where "sessionCookieName = ''webpprof_session''"
definition loginFailureLimit :: nat where "loginFailureLimit = 5"
definition loginFailureWindow :: duration where "loginFailureWindow = 60 * 1000000000"

record loginFailure =
  lfCount :: nat
  lfWindowEnds :: instant

record ('w, 'x) dashServer =
  dsConfig :: "('w, 'x) config"
  dsStore :: "'x entryStore"
  dsBatches :: "storageBatch list"
  dsSession :: string
  dsFailures :: "(string \<times> loginFailure) list"
  dsStartedAt :: instant
  dsQueues :: "(string \<times> 'w QueueStatsSource) list"

text \<open>The body of a login request, as the JSON decoder finds it (empty, not JSON or too long, a document).\<close>

datatype loginBody = NoLoginBody | BadLoginBody | LoginJSON json

text \<open>A request: \<open>aqRawPath\<close> is the encoded form of the path, empty where the default encoding is it.\<close>

record apiRequest =
  aqHTTP :: httpRequest
  aqRawPath :: string
  aqBody :: loginBody

record 'w httpEnv =
  evClock :: "nat \<Rightarrow> instant"
  evDigest :: "string \<Rightarrow> string"
  evMetrics :: "string \<Rightarrow> metricValue"
  evProcs :: int
  evAssets :: "string \<Rightarrow> string option"
  evMediaType :: "string \<Rightarrow> string"
  evContext :: 'w

record eventsPage =
  epEvents :: "Entry list"
  epScanned :: nat
  epHasMore :: bool
  epStats :: Stats

datatype responseBody = EmptyBody | ErrorBody string | TextBody string | EventsBody eventsPage
  | EntryBody Entry | AnalysisBody Kind ExecutionAnalysis | StatsBody Stats | RuntimeBody RuntimeStats
  | QueuesBody QueueStatsResponse | DashboardBody DashboardSnapshot | AssetBody string
  | StreamBody streamSnapshotMessage

record sessionCookie =
  ckName :: string
  ckValue :: string
  ckPath :: string
  ckMaxAge :: int
  ckSecure :: bool
  ckHttpOnly :: bool
  ckSameSiteStrict :: bool

record apiResponse =
  arStatus :: int
  arHeaders :: "(string \<times> string) list"
  arBody :: responseBody
  arCookie :: "sessionCookie option"
  arRetryAfter :: "int option"

definition respond :: "int \<Rightarrow> responseBody \<Rightarrow> apiResponse" where
  "respond status body =
     \<lparr>arStatus = status, arHeaders = [], arBody = body, arCookie = None, arRetryAfter = None\<rparr>"

definition writeJSON :: "int \<Rightarrow> responseBody \<Rightarrow> apiResponse" where
  "writeJSON status body =
     (respond status body)\<lparr>arHeaders := [(''Content-Type'', ''application/json; charset=utf-8'')]\<rparr>"

definition writeError :: "int \<Rightarrow> string \<Rightarrow> apiResponse" where
  "writeError status message = writeJSON status (ErrorBody message)"

definition securityHeaders :: "apiResponse \<Rightarrow> apiResponse" where
  "securityHeaders r = r\<lparr>arHeaders :=
     [(''Content-Security-Policy'',
       ''default-src 'self'; connect-src 'self' ws: wss:; img-src 'self' data:; style-src 'self'; '' @
       ''script-src 'self'; base-uri 'none'; frame-ancestors 'none'' @ [CHR 0x27]),
      (''Referrer-Policy'', ''no-referrer''), (''X-Content-Type-Options'', ''nosniff''),
      (''X-Frame-Options'', ''DENY''), (''Cross-Origin-Opener-Policy'', ''same-origin''),
      (''Permissions-Policy'', ''camera=(), microphone=(), geolocation=()''),
      (''Cache-Control'', ''no-store'')] @ arHeaders r\<rparr>"

subsection \<open>Logging in\<close>

definition loginClient :: "httpRequest \<Rightarrow> string" where
  "loginClient r = (case split_host (hqRemoteAddr r) of
     None \<Rightarrow> hqRemoteAddr r | Some host \<Rightarrow> if host \<noteq> [] then host else hqRemoteAddr r)"

definition loginBlocked :: "string \<Rightarrow> instant \<Rightarrow> ('w, 'x) dashServer \<Rightarrow> ('w, 'x) dashServer \<times> instant \<times> bool" where
  "loginBlocked client now p =
     (case map_get (dsFailures p) client of
        None \<Rightarrow> (p\<lparr>dsFailures := map_del client (dsFailures p)\<rparr>, 0, False)
      | Some failure \<Rightarrow>
          if \<not> now < lfWindowEnds failure then (p\<lparr>dsFailures := map_del client (dsFailures p)\<rparr>, 0, False)
          else (p, lfWindowEnds failure, lfCount failure \<ge> loginFailureLimit))"

definition recordLoginFailure :: "string \<Rightarrow> instant \<Rightarrow> ('w, 'x) dashServer \<Rightarrow> ('w, 'x) dashServer" where
  "recordLoginFailure client now p =
     (let failure = (case map_get (dsFailures p) client of
            None \<Rightarrow> \<lparr>lfCount = 0, lfWindowEnds = 0\<rparr> | Some f \<Rightarrow> f);
          failure = (if \<not> now < lfWindowEnds failure
            then \<lparr>lfCount = 0, lfWindowEnds = now + loginFailureWindow\<rparr> else failure)
      in p\<lparr>dsFailures := map_put client (failure\<lparr>lfCount := lfCount failure + 1\<rparr>) (dsFailures p)\<rparr>)"

definition clearLoginFailures :: "string \<Rightarrow> ('w, 'x) dashServer \<Rightarrow> ('w, 'x) dashServer" where
  "clearLoginFailures client p = p\<lparr>dsFailures := map_del client (dsFailures p)\<rparr>"

text \<open>
  Decoding the body into a struct with the one field \<open>token\<close>: the decoder matches the name of
  a field without regard to case, the last one wins, \<open>null\<close> leaves it, another type is an error.
\<close>

fun login_fields :: "jfields \<Rightarrow> string \<Rightarrow> string option" where
  "login_fields [] token = Some token"
| "login_fields ((k, v) # kvs) token =
     (if equal_fold k ''token'' then
        (case v of JStr s \<Rightarrow> login_fields kvs s | JTime t \<Rightarrow> login_fields kvs (rfc3339 t)
         | JNull \<Rightarrow> login_fields kvs token | _ \<Rightarrow> None)
      else login_fields kvs token)"

definition login_token :: "loginBody \<Rightarrow> string option" where
  "login_token body = (case body of
     NoLoginBody \<Rightarrow> Some []
   | BadLoginBody \<Rightarrow> None
   | LoginJSON j \<Rightarrow> (case obj_fields j of None \<Rightarrow> None | Some kvs \<Rightarrow> login_fields kvs []))"

definition session_cookie :: "string \<Rightarrow> int \<Rightarrow> ('w, 'x) dashServer \<Rightarrow> sessionCookie" where
  "session_cookie value maxAge p = \<lparr>ckName = sessionCookieName, ckValue = value,
     ckPath = cBasePath (dsConfig p), ckMaxAge = maxAge, ckSecure = cSecureCookie (dsConfig p),
     ckHttpOnly = True, ckSameSiteStrict = True\<rparr>"

text \<open>The three readings of the clock: the check, the header and the failure.\<close>

definition createSession :: "'w httpEnv \<Rightarrow> apiRequest \<Rightarrow> ('w, 'x) dashServer \<Rightarrow>
    ('w, 'x) dashServer \<times> apiResponse" where
  "createSession env r p =
     (if cToken (dsConfig p) = [] then
        (if cUnsafeNoAuth (dsConfig p) then (p, respond 204 EmptyBody)
         else (p, writeError 503 ''authentication is not configured''))
      else
        let client = loginClient (aqHTTP r); (p, retryAfter, blocked) = loginBlocked client (evClock env 0) p in
        if blocked then
          (p, (writeError 429 ''too many login attempts'')
                \<lparr>arRetryAfter := Some (max 1 ((retryAfter - evClock env 1) div 1000000000))\<rparr>)
        else case login_token (aqBody r) of
          None \<Rightarrow> (p, writeError 400 ''invalid request'')
        | Some token \<Rightarrow>
            if evDigest env token \<noteq> evDigest env (cToken (dsConfig p)) then
              (recordLoginFailure client (evClock env 1) p, writeError 401 ''invalid token'')
            else
              (clearLoginFailures client p,
               (respond 204 EmptyBody)\<lparr>arCookie := Some (session_cookie (dsSession p) 43200 p)\<rparr>))"

definition deleteSession :: "('w, 'x) dashServer \<Rightarrow> apiResponse" where
  "deleteSession p = (respond 204 EmptyBody)\<lparr>arCookie := Some (session_cookie [] (-1) p)\<rparr>"

text \<open>The wrapper of every API handler; a handler that panics gives no response.\<close>

definition authorize :: "(('w, 'x) dashServer \<Rightarrow> ('w, 'x) dashServer \<times> apiResponse option) \<Rightarrow> httpRequest \<Rightarrow>
    ('w, 'x) dashServer \<Rightarrow> ('w, 'x) dashServer \<times> apiResponse option" where
  "authorize handler r p =
     (if cToken (dsConfig p) = [] then
        (if cUnsafeNoAuth (dsConfig p) then handler p
         else (p, Some (writeError 503 ''authentication is not configured'')))
      else
        case map_get (hqCookies r) sessionCookieName of
          None \<Rightarrow> (p, Some (writeError 401 ''unauthorized''))
        | Some value \<Rightarrow> if value \<noteq> dsSession p then (p, Some (writeError 401 ''unauthorized'')) else handler p)"

subsection \<open>Handlers\<close>

definition parseStatusFilter :: "string \<Rightarrow> int" where
  "parseStatusFilter value = (case atoi value of
     None \<Rightarrow> 0 | Some status \<Rightarrow> if status < 100 \<or> status > 599 then 0 else status)"

definition duration_filter :: "string \<Rightarrow> int" where
  "duration_filter value =
     to_int64 (fmul (max 0 (case parse_float value of None \<Rightarrow> 0 | Some ms \<Rightarrow> ms)) 1000000)"

definition event_filters :: "(string \<times> string) list \<Rightarrow> eventFilters" where
  "event_filters q = \<lparr>fKind = query_get q ''kind'', fRequestID = query_get q ''request_id'',
     fScopeID = query_get q ''scope_id'', fTags = query_all q ''tag'', fQuery = query_get q ''q'',
     fMethod = query_get q ''method'', fPathContains = query_get q ''path_contains'',
     fStatus = parseStatusFilter (query_get q ''status''),
     fMinDurationNS = duration_filter (query_get q ''min_duration_ms''),
     fMaxDurationNS = duration_filter (query_get q ''max_duration_ms''),
     fAfter = parse_uint64 (query_get q ''after''), fBefore = parse_uint64 (query_get q ''before'')\<rparr>"

definition page_limit :: "(string \<times> string) list \<Rightarrow> int" where
  "page_limit q = (let limit = clamped_int (query_get q ''limit'') in if limit \<le> 0 \<or> limit > 1000 then 200 else limit)"

text \<open>One entry more than the page is fetched; its presence is \<open>has_more\<close>.\<close>

type_synonym 'x storeAnswer = "'x entryStore \<times> storageBatch list \<times> apiResponse"

text \<open>A batch numbered 0 is the empty one: nothing was issued.\<close>

definition issued :: "storageBatch \<Rightarrow> storageBatch list" where
  "issued batch = (if sbSequence batch = 0 then [] else [batch])"

text \<open>One entry more than the page is fetched; its presence is \<open>has_more\<close>.\<close>

definition event_page :: "instant \<Rightarrow> instant \<Rightarrow> eventFilters \<Rightarrow> int \<Rightarrow> 'x entryStore \<Rightarrow>
    'x entryStore \<times> storageBatch list \<times> eventsPage" where
  "event_page now now2 filters limit s =
     (let (s, batch, entries, scanned) = listBeforeFiltered now filters (limit + 1) s;
          hasMore = int (length entries) > limit;
          entries = (if hasMore then tl entries else entries);
          (s, batch2, st) = stats now2 s
      in (s, issued batch @ issued batch2,
          \<lparr>epEvents = entries, epScanned = scanned, epHasMore = hasMore, epStats = st\<rparr>))"

definition listEvents :: "instant \<Rightarrow> instant \<Rightarrow> string \<Rightarrow> 'x entryStore \<Rightarrow> 'x storeAnswer" where
  "listEvents now now2 rawQuery s =
     (let query = parse_query rawQuery;
          (s, batches, page) = event_page now now2 (event_filters query) (page_limit query) s
      in (s, batches, writeJSON 200 (EventsBody page)))"

definition getEvent :: "instant \<Rightarrow> string \<Rightarrow> 'x entryStore \<Rightarrow> 'x storeAnswer" where
  "getEvent now i s =
     (let (s, batch, e, ok) = Store.get now i s
      in (s, issued batch, if ok then writeJSON 200 (EntryBody e) else writeError 404 ''event not found''))"

definition analysis_response :: "Kind \<Rightarrow> string \<Rightarrow>
    'x entryStore \<times> storageBatch option \<times> ExecutionAnalysis option \<Rightarrow> 'x storeAnswer" where
  "analysis_response kind missing answer =
     (let (s, batch, analysis) = answer
      in (s, case batch of None \<Rightarrow> [] | Some b \<Rightarrow> issued b,
          case analysis of
            None \<Rightarrow> writeError 404 missing
          | Some a \<Rightarrow> writeJSON 200 (AnalysisBody kind a)))"

definition getRequestAnalysis :: "instant \<Rightarrow> instant \<Rightarrow> string \<Rightarrow> 'x entryStore \<Rightarrow> 'x storeAnswer" where
  "getRequestAnalysis now now2 i s =
     analysis_response KindRequest ''request not found'' (AnalyzeRequest now now2 i s)"

definition getScheduleAnalysis :: "instant \<Rightarrow> instant \<Rightarrow> string \<Rightarrow> 'x entryStore \<Rightarrow> 'x storeAnswer" where
  "getScheduleAnalysis now now2 i s =
     analysis_response KindSchedule ''schedule not found'' (AnalyzeSchedule now now2 i s)"

definition getCallableAnalysis :: "instant \<Rightarrow> instant \<Rightarrow> string \<Rightarrow> 'x entryStore \<Rightarrow> 'x storeAnswer" where
  "getCallableAnalysis now now2 i s =
     analysis_response KindCallable ''callable not found'' (AnalyzeCallable now now2 i s)"

definition getTaskAnalysis :: "instant \<Rightarrow> instant \<Rightarrow> string \<Rightarrow> 'x entryStore \<Rightarrow> 'x storeAnswer" where
  "getTaskAnalysis now now2 i s =
     analysis_response KindTask ''task not found'' (AnalyzeTask now now2 i s)"

definition getStats :: "instant \<Rightarrow> 'x entryStore \<Rightarrow> 'x storeAnswer" where
  "getStats now s = (let (s, batch, st) = stats now s in (s, issued batch, writeJSON 200 (StatsBody st)))"

definition getRuntimeStats :: "'w httpEnv \<Rightarrow> ('w, 'x) dashServer \<Rightarrow> apiResponse" where
  "getRuntimeStats env p =
     writeJSON 200 (RuntimeBody (runtimeStats (evClock env 0) (dsStartedAt p) (evMetrics env) (evProcs env)))"

definition getQueueStats :: "'w httpEnv \<Rightarrow> ('w, 'x) dashServer \<Rightarrow> apiResponse" where
  "getQueueStats env p = writeJSON 200 (QueuesBody (queueStats (evClock env 0) (evContext env) (dsQueues p)))"

text \<open>A panic of a handler ends the connection without a response.\<close>

definition getDashboard :: "'w httpEnv \<Rightarrow> ('w, 'x) dashServer \<Rightarrow> apiResponse option" where
  "getDashboard env p = map_option (\<lambda>d. writeJSON 200 (DashboardBody d))
     (dashboardSnapshot (evClock env 0) (evContext env) (cDashboard (dsConfig p)))"

definition clearEvents :: "'x entryStore \<Rightarrow> 'x storeAnswer" where
  "clearEvents s = (let (s, batch) = clear s in (s, issued batch, respond 204 EmptyBody))"

definition checkOrigin :: "('w, 'x) config \<Rightarrow> httpRequest \<Rightarrow> bool" where
  "checkOrigin c r =
     (let origin = header_get (hqHeader r) ''Origin'' in
      if origin = [] then True
      else if origin \<in> set (cAllowedOrigins c) then True
      else case url_host origin of None \<Rightarrow> False | Some host \<Rightarrow> equal_fold host (hqHost r))"

text \<open>The first message of a stream; an upgrade that fails its origin check is answered 403.\<close>

definition streamSnapshot :: "'w httpEnv \<Rightarrow> string \<Rightarrow> ('w, 'x) dashServer \<Rightarrow>
    ('w, 'x) dashServer \<times> streamSnapshotMessage option" where
  "streamSnapshot env ty p =
     (let rs = runtimeStats (evClock env 0) (dsStartedAt p) (evMetrics env) (evProcs env);
          qs = queueStats (evClock env 1) (evContext env) (dsQueues p);
          (s, batch, st) = stats (evClock env 2) (dsStore p)
      in (p\<lparr>dsStore := s, dsBatches := dsBatches p @ issued batch\<rparr>,
          map_option (\<lambda>d. \<lparr>ssmType = ty, ssmCursor = stCursor st, ssmStats = st, ssmRuntime = rs,
            ssmQueues = qs, ssmDashboard = d\<rparr>)
            (dashboardSnapshot (evClock env 3) (evContext env) (cDashboard (dsConfig p)))))"

definition writeAsset :: "'w httpEnv \<Rightarrow> string \<Rightarrow> string \<Rightarrow> apiResponse" where
  "writeAsset env name contentType =
     (case evAssets env name of
        None \<Rightarrow> (respond 404 (TextBody ''Not Found''))
          \<lparr>arHeaders := [(''Content-Type'', ''text/plain; charset=utf-8'')]\<rparr>
      | Some content \<Rightarrow> (respond 200 (AssetBody content))
          \<lparr>arHeaders := [(''Content-Type'', contentType), (''Cache-Control'', ''no-store'')]\<rparr>)"

end
