(* ===== verification/Routes.thy ===== *)
theory Routes
  imports Http
begin

text \<open>
  The route table of \<open>http.go\<close>, the request multiplexer it configures (the patterns of
  \<open>net/http\<close>: cleaned paths, one wildcard segment, \<open>GET\<close> also serving \<open>HEAD\<close>) and the whole
  handler mounted under the base path.
\<close>

subsection \<open>Paths\<close>

definition escaped_path :: "string \<Rightarrow> string \<Rightarrow> string" where
  "escaped_path path raw =
     (if raw \<noteq> [] \<and> percent_decode False raw = Some path then raw else escape_path path)"

text \<open>\<open>path.Clean\<close> of a rooted path, then the trailing slash put back.\<close>

fun clean_segments :: "string list \<Rightarrow> string list \<Rightarrow> string list" where
  "clean_segments acc [] = acc"
| "clean_segments acc (s # ss) =
     (if s = [] \<or> s = ''.'' then clean_segments acc ss
      else if s = ''..'' then clean_segments (butlast acc) ss
      else clean_segments (acc @ [s]) ss)"

definition clean_path :: "string \<Rightarrow> string" where
  "clean_path p =
     (let ss = clean_segments [] (split_on (CHR ''/'') p)
      in if ss = [] then ''/''
         else concat (map (\<lambda>s. CHR ''/'' # s) ss) @ (if p \<noteq> [] \<and> last p = CHR ''/'' then ''/'' else []))"

text \<open>The segments the multiplexer compares, each decoded on its own; a trailing slash is an empty one.\<close>

definition path_segments :: "string \<Rightarrow> string list" where
  "path_segments p =
     map (\<lambda>s. case percent_decode False s of None \<Rightarrow> s | Some t \<Rightarrow> t) (split_on (CHR ''/'') (tl p))"

subsection \<open>Routes\<close>

datatype route = IndexRoute | AssetRoute string | LoginRoute | LogoutRoute | EventsRoute | EventRoute
  | RequestAnalysisRoute | ScheduleAnalysisRoute | CallableAnalysisRoute | TaskAnalysisRoute
  | StatsRoute | RuntimeRoute | QueuesRoute | DashboardRoute | ClearRoute | StreamRoute

datatype segment = Lit string | WildID

fun match_segments :: "segment list \<Rightarrow> string list \<Rightarrow> string \<Rightarrow> string option" where
  "match_segments [] [] i = Some i"
| "match_segments (Lit s # ps) (t # ts) i = (if s = t then match_segments ps ts i else None)"
| "match_segments (WildID # ps) (t # ts) i = (if t = [] then None else match_segments ps ts t)"
| "match_segments _ _ i = None"

definition routeTable :: "(string \<times> segment list \<times> route) list" where
  "routeTable = [
     (''GET'', [Lit ''app.js''], AssetRoute ''ui/app.js''),
     (''GET'', [Lit ''app.css''], AssetRoute ''ui/app.css''),
     (''GET'', [Lit ''theme.css''], AssetRoute ''ui/theme.css''),
     (''GET'', [Lit ''details.css''], AssetRoute ''ui/details.css''),
     (''GET'', [Lit ''logo.svg''], AssetRoute ''ui/logo.svg''),
     (''POST'', [Lit ''session''], LoginRoute),
     (''DELETE'', [Lit ''session''], LogoutRoute),
     (''GET'', [Lit ''api'', Lit ''events''], EventsRoute),
     (''GET'', [Lit ''api'', Lit ''events'', WildID], EventRoute),
     (''GET'', [Lit ''api'', Lit ''requests'', WildID, Lit ''analysis''], RequestAnalysisRoute),
     (''GET'', [Lit ''api'', Lit ''schedules'', WildID, Lit ''analysis''], ScheduleAnalysisRoute),
     (''GET'', [Lit ''api'', Lit ''callables'', WildID, Lit ''analysis''], CallableAnalysisRoute),
     (''GET'', [Lit ''api'', Lit ''tasks'', WildID, Lit ''analysis''], TaskAnalysisRoute),
     (''GET'', [Lit ''api'', Lit ''stats''], StatsRoute),
     (''GET'', [Lit ''api'', Lit ''runtime''], RuntimeRoute),
     (''GET'', [Lit ''api'', Lit ''queues''], QueuesRoute),
     (''GET'', [Lit ''api'', Lit ''dashboard''], DashboardRoute),
     (''DELETE'', [Lit ''api'', Lit ''events''], ClearRoute),
     (''GET'', [Lit ''ws''], StreamRoute)]"

definition route_method :: "string \<Rightarrow> string" where
  "route_method m = (if m = ''HEAD'' then ''GET'' else m)"

fun find_route :: "(string \<times> segment list \<times> route) list \<Rightarrow> string \<Rightarrow> string list \<Rightarrow> (route \<times> string) option" where
  "find_route [] m segs = None"
| "find_route ((m', pat, rt) # rts) m segs =
     (if m' = m then
        (case match_segments pat segs [] of Some i \<Rightarrow> Some (rt, i) | None \<Rightarrow> find_route rts m segs)
      else find_route rts m segs)"

text \<open>\<open>GET /\<close> takes every path the other patterns of its method leave.\<close>

definition mux_route :: "string \<Rightarrow> string \<Rightarrow> (route \<times> string) option" where
  "mux_route m path =
     (case find_route routeTable (route_method m) (path_segments path) of
        Some r \<Rightarrow> Some r
      | None \<Rightarrow> if route_method m = ''GET'' then Some (IndexRoute, []) else None)"

subsection \<open>The handler\<close>

definition on_store :: "('x entryStore \<Rightarrow> 'x storeAnswer) \<Rightarrow> ('w, 'x) dashServer \<Rightarrow>
    ('w, 'x) dashServer \<times> apiResponse option" where
  "on_store f p =
     (let (s, batches, r) = f (dsStore p) in (p\<lparr>dsStore := s, dsBatches := dsBatches p @ batches\<rparr>, Some r))"

definition serveWebSocket :: "'w httpEnv \<Rightarrow> httpRequest \<Rightarrow> ('w, 'x) dashServer \<Rightarrow>
    ('w, 'x) dashServer \<times> apiResponse option" where
  "serveWebSocket env r p =
     (if \<not> checkOrigin (dsConfig p) r then
        (p, Some (respond 403 (TextBody ''websocket: request origin not allowed by Upgrader.CheckOrigin'')))
      else let (p, msg) = streamSnapshot env ''connected'' p
        in (p, map_option (\<lambda>m. respond 101 (StreamBody m)) msg))"

definition api_handler :: "'w httpEnv \<Rightarrow> route \<Rightarrow> string \<Rightarrow> apiRequest \<Rightarrow> ('w, 'x) dashServer \<Rightarrow>
    ('w, 'x) dashServer \<times> apiResponse option" where
  "api_handler env rt i r p =
     (let now = evClock env 0; now2 = evClock env 1 in
      case rt of
        EventsRoute \<Rightarrow> on_store (listEvents now now2 (hqRawQuery (aqHTTP r))) p
      | EventRoute \<Rightarrow> on_store (getEvent now i) p
      | RequestAnalysisRoute \<Rightarrow> on_store (getRequestAnalysis now now2 i) p
      | ScheduleAnalysisRoute \<Rightarrow> on_store (getScheduleAnalysis now now2 i) p
      | CallableAnalysisRoute \<Rightarrow> on_store (getCallableAnalysis now now2 i) p
      | TaskAnalysisRoute \<Rightarrow> on_store (getTaskAnalysis now now2 i) p
      | StatsRoute \<Rightarrow> on_store (getStats now) p
      | RuntimeRoute \<Rightarrow> (p, Some (getRuntimeStats env p))
      | QueuesRoute \<Rightarrow> (p, Some (getQueueStats env p))
      | DashboardRoute \<Rightarrow> (p, getDashboard env p)
      | ClearRoute \<Rightarrow> on_store clearEvents p
      | _ \<Rightarrow> serveWebSocket env (aqHTTP r) p)"

text \<open>The handlers of the first group are open; every other one is wrapped in \<open>authorize\<close>.\<close>

definition dispatch :: "'w httpEnv \<Rightarrow> route \<Rightarrow> string \<Rightarrow> apiRequest \<Rightarrow> ('w, 'x) dashServer \<Rightarrow>
    ('w, 'x) dashServer \<times> apiResponse option" where
  "dispatch env rt i r p =
     (case rt of
        IndexRoute \<Rightarrow> (p, Some (writeAsset env ''ui/index.html'' ''text/html; charset=utf-8''))
      | AssetRoute name \<Rightarrow> (p, Some (writeAsset env name (evMediaType env name)))
      | LoginRoute \<Rightarrow> map_prod id Some (createSession env r p)
      | LogoutRoute \<Rightarrow> (p, Some (deleteSession p))
      | _ \<Rightarrow> authorize (api_handler env rt i r) (aqHTTP r) p)"

definition redirect :: "int \<Rightarrow> string \<Rightarrow> apiResponse" where
  "redirect status target = (respond status EmptyBody)\<lparr>arHeaders := [(''Location'', target)]\<rparr>"

definition plain_error :: "int \<Rightarrow> string \<Rightarrow> apiResponse" where
  "plain_error status text = (respond status (TextBody text))
     \<lparr>arHeaders := [(''Content-Type'', ''text/plain; charset=utf-8'')]\<rparr>"

definition handler :: "'w httpEnv \<Rightarrow> apiRequest \<Rightarrow> ('w, 'x) dashServer \<Rightarrow>
    ('w, 'x) dashServer \<times> apiResponse option" where
  "handler env r p =
     (let escaped = escaped_path (hqPath (aqHTTP r)) (aqRawPath r); path = clean_path escaped;
          (p, response) =
            (if path \<noteq> escaped then (p, Some (redirect 301 path))
             else case mux_route (hqMethod (aqHTTP r)) path of
                 None \<Rightarrow> (p, Some (plain_error 405 ''Method Not Allowed''))
               | Some (rt, i) \<Rightarrow> dispatch env rt i r p)
      in (p, map_option securityHeaders response))"

text \<open>
  What \<open>register\<close> mounts: the base path itself redirects, below it the prefix is stripped from
  the path and from its encoded form; \<open>None\<close> in the first place is a path the router does not
  send here.
\<close>

definition strip_prefix :: "string \<Rightarrow> apiRequest \<Rightarrow> apiRequest option" where
  "strip_prefix pre r =
     (let path = hqPath (aqHTTP r); raw = aqRawPath r in
      if pre = [] then Some r
      else if has_prefix path pre \<and> (raw = [] \<or> has_prefix raw pre) then
        Some (r\<lparr>aqHTTP := (aqHTTP r)\<lparr>hqPath := trim_prefix path pre\<rparr>, aqRawPath := trim_prefix raw pre\<rparr>)
      else None)"

definition serve :: "'w httpEnv \<Rightarrow> apiRequest \<Rightarrow> ('w, 'x) dashServer \<Rightarrow>
    (('w, 'x) dashServer \<times> apiResponse option) option" where
  "serve env r p =
     (let base = cBasePath (dsConfig p); path = hqPath (aqHTTP r) in
      if path = base then Some (p, Some (redirect 307 (base @ ''/'')))
      else if \<not> has_prefix path (base @ ''/'') then None
      else case strip_prefix base r of
          None \<Rightarrow> Some (p, Some (plain_error 404 ''404 page not found''))
        | Some r \<Rightarrow> Some (handler env r p))"

end
