(* ===== verification/LoginProps.thy ===== *)
theory LoginProps
  imports HttpProps
begin

text \<open>
  The limit on guessing the token.  A run is a sequence of login requests, of any clients, one
  after another; every request comes some time after the one before and takes some time
  between its check and its answer.
\<close>

record loginAttempt =
  laDelay :: nat
  laThink :: nat
  laRequest :: apiRequest

definition attempt_env :: "'w httpEnv \<Rightarrow> instant \<Rightarrow> loginAttempt \<Rightarrow> 'w httpEnv" where
  "attempt_env env t a = env\<lparr>evClock := (\<lambda>i. t + int (laDelay a) + (if i = 0 then 0 else int (laThink a)))\<rparr>"

definition attempt_time :: "loginAttempt \<Rightarrow> nat" where
  "attempt_time a = laDelay a + laThink a"

definition elapsed :: "loginAttempt list \<Rightarrow> nat" where
  "elapsed as = sum_list (map attempt_time as)"

fun login_run :: "'w httpEnv \<Rightarrow> instant \<Rightarrow> loginAttempt list \<Rightarrow> ('w, 'x) dashServer \<Rightarrow> (string \<times> int) list" where
  "login_run env t [] p = []"
| "login_run env t (a # as) p =
     (let (p, response) = createSession (attempt_env env t a) (laRequest a) p
      in (loginClient (aqHTTP (laRequest a)), arStatus response) #
           login_run env (t + int (attempt_time a)) as p)"

subsection \<open>How many guesses are left\<close>

text \<open>A window opened at \<open>w\<close> and the ones that can follow it until \<open>T\<close> take this many failures.\<close>

definition room :: "instant \<Rightarrow> instant \<Rightarrow> nat" where
  "room w T = (if w \<le> T then 5 * (nat ((T - w) div loginFailureWindow) + 1) else 0)"

definition guesses :: "(string \<times> loginFailure) list \<Rightarrow> string \<Rightarrow> instant \<Rightarrow> instant \<Rightarrow> nat" where
  "guesses fs c t T = (case map_get fs c of
     None \<Rightarrow> room t T
   | Some f \<Rightarrow> if t < lfWindowEnds f then (5 - lfCount f) + room (lfWindowEnds f) T else room t T)"

lemma window_pos [simp]: "0 < loginFailureWindow"
  by (simp add: loginFailureWindow_def)

lemma room_mono: "w \<le> w' \<Longrightarrow> room w' T \<le> room w T"
  by (auto simp: room_def intro!: nat_mono zdiv_mono1)

lemma room_next:
  assumes "t \<le> T"
  shows "room t T = 5 + room (t + loginFailureWindow) T"
proof (cases "t + loginFailureWindow \<le> T")
  case True
  have "(T - t) div loginFailureWindow = (T - t - loginFailureWindow) div loginFailureWindow + 1"
    using div_add_self2 [of loginFailureWindow "T - t - loginFailureWindow"] by (simp add: loginFailureWindow_def)
  moreover have "0 \<le> (T - t - loginFailureWindow) div loginFailureWindow"
    using True by (simp add: pos_imp_zdiv_nonneg_iff)
  ultimately show ?thesis using True assms by (simp add: room_def nat_add_distrib diff_diff_eq)
next
  case False
  then have "(T - t) div loginFailureWindow = 0" using assms by (intro div_pos_pos_trivial) auto
  then show ?thesis using False assms by (simp add: room_def)
qed

lemma guesses_later: "t \<le> t' \<Longrightarrow> guesses fs c t' T \<le> guesses fs c t T"
  using room_mono [of t t' T]
  by (auto simp: guesses_def not_less dest: room_mono [of _ t' T] intro: trans_le_add2 split: option.split)

lemma guesses_del:
  "\<not> t < lfWindowEnds f \<Longrightarrow> map_get fs c = Some f \<Longrightarrow> guesses (map_del c fs) c t T = guesses fs c t T"
  by (simp add: guesses_def)

subsection \<open>One attempt\<close>

lemma blocked_spec:
  assumes "loginBlocked c t p = (q, w, b)"
  shows "guesses (dsFailures q) c t T = guesses (dsFailures p) c t T" "dsConfig q = dsConfig p"
    "\<not> b \<Longrightarrow> (case map_get (dsFailures q) c of None \<Rightarrow> True
       | Some f \<Rightarrow> t < lfWindowEnds f \<and> lfCount f < 5)"
    "c' \<noteq> c \<Longrightarrow> map_get (dsFailures q) c' = map_get (dsFailures p) c'"
  using assms by (auto simp: loginBlocked_def guesses_def loginFailureLimit_def split: option.splits if_splits)

lemma record_spec:
  assumes "case map_get (dsFailures q) c of None \<Rightarrow> True | Some f \<Rightarrow> t < lfWindowEnds f \<and> lfCount f < 5"
    and "0 \<le> t" "t \<le> t'" "t' \<le> T"
  shows "Suc (guesses (dsFailures (recordLoginFailure c t' q)) c t' T) \<le> guesses (dsFailures q) c t T"
proof (cases "map_get (dsFailures q) c")
  case None
  have "Suc (guesses (dsFailures (recordLoginFailure c t' q)) c t' T) \<le> 5 + room (t' + loginFailureWindow) T"
    using assms(2,3) by (simp add: recordLoginFailure_def None Let_def guesses_def)
  also have "\<dots> = room t' T" using room_next assms(4) by simp
  finally show ?thesis using room_mono [OF assms(3), of T] by (simp add: guesses_def None)
next
  case (Some f)
  then have f: "t < lfWindowEnds f" "lfCount f < 5" using assms(1) by simp_all
  show ?thesis
  proof (cases "t' < lfWindowEnds f")
    case True
    then show ?thesis using f by (simp add: recordLoginFailure_def Some Let_def guesses_def)
  next
    case False
    then have "5 + room (t' + loginFailureWindow) T \<le> room (lfWindowEnds f) T"
      using room_next [OF assms(4)] room_mono [of "lfWindowEnds f" t' T] by simp
    then show ?thesis using False f by (simp add: recordLoginFailure_def Some Let_def guesses_def)
  qed
qed

lemma recorded_other: "c' \<noteq> c \<Longrightarrow> map_get (dsFailures (recordLoginFailure c t q)) c' = map_get (dsFailures q) c'"
  by (simp add: recordLoginFailure_def Let_def)

lemma createSession_other:
  assumes "createSession env r p = (p', a)" "c \<noteq> loginClient (aqHTTP r)"
  shows "map_get (dsFailures p') c = map_get (dsFailures p) c"
proof -
  obtain q w b where l: "loginBlocked (loginClient (aqHTTP r)) (evClock env 0) p = (q, w, b)"
    by (metis prod_cases3)
  show ?thesis
    using assms blocked_spec(4) [OF l assms(2)]
    by (auto simp: createSession_def l Let_def recorded_other clearLoginFailures_def split: if_splits option.splits)
qed

lemma createSession_guess:
  assumes "createSession env r p = (p', a)" "c = loginClient (aqHTTP r)" "arStatus a \<noteq> 204"
    and "0 \<le> t" "t \<le> evClock env 0" "evClock env 0 \<le> evClock env 1" "evClock env 1 \<le> T"
  shows "(if arStatus a = 401 then 1 else 0) + guesses (dsFailures p') c (evClock env 1) T
    \<le> guesses (dsFailures p) c t T"
proof -
  let ?t1 = "evClock env 0" let ?t2 = "evClock env 1"
  obtain q w b where l: "loginBlocked c ?t1 p = (q, w, b)" by (metis prod_cases3)
  have before: "guesses (dsFailures p) c ?t1 T \<le> guesses (dsFailures p) c t T"
    by (rule guesses_later [OF assms(5)])
  have start: "guesses (dsFailures q) c ?t1 T = guesses (dsFailures p) c ?t1 T" by (rule blocked_spec(1) [OF l])
  have idle: "guesses (dsFailures q) c ?t2 T \<le> guesses (dsFailures p) c t T"
    "guesses (dsFailures p) c ?t2 T \<le> guesses (dsFailures p) c t T"
    using guesses_later [OF assms(6), of "dsFailures q" c T] guesses_later [OF assms(6), of "dsFailures p" c T]
      before start by simp_all
  consider "p' = p" "arStatus a \<noteq> 401" | "p' = q" "arStatus a \<noteq> 401"
    | "\<not> b" "p' = recordLoginFailure c ?t2 q" "arStatus a = 401"
    using assms(1,3) by (auto simp: createSession_def assms(2) [symmetric] l Let_def response_defs
        split: if_splits option.splits)
  then show ?thesis
  proof cases
    case 3
    then show ?thesis
      using record_spec [OF blocked_spec(3) [OF l] _ assms(6,7)] assms(4,5) before start by simp
  qed (use idle in simp_all)
qed

subsection \<open>A run\<close>

lemma guesses_cong: "map_get fs c = map_get gs c \<Longrightarrow> guesses fs c t T = guesses gs c t T"
  by (simp add: guesses_def)

lemma login_run_bound:
  assumes "0 \<le> t"
  shows "length (filter (\<lambda>x. x = (c, 401)) (takeWhile (\<lambda>x. x \<noteq> (c, 204)) (login_run env t as p)))
    \<le> guesses (dsFailures p) c t (t + int (elapsed as))"
  using assms
proof (induction as arbitrary: t p)
  case Nil
  then show ?case by simp
next
  case (Cons a as)
  let ?e = "attempt_env env t a" let ?t = "t + int (attempt_time a)"
  let ?T = "t + int (elapsed (a # as))"
  have T: "?T = ?t + int (elapsed as)" by (simp add: elapsed_def)
  have clock: "t \<le> evClock ?e 0" "evClock ?e 0 \<le> evClock ?e 1" "evClock ?e 1 = ?t" "evClock ?e 1 \<le> ?T"
    by (simp_all add: attempt_env_def attempt_time_def elapsed_def)
  obtain q b where s: "createSession ?e (laRequest a) p = (q, b)" by (meson surj_pair)
  let ?cl = "loginClient (aqHTTP (laRequest a))"
  have ih: "length (filter (\<lambda>x. x = (c, 401)) (takeWhile (\<lambda>x. x \<noteq> (c, 204)) (login_run env ?t as q)))
      \<le> guesses (dsFailures q) c ?t ?T"
    using Cons.IH [of ?t q] Cons.prems by (simp add: T)
  show ?case
  proof (cases "c = ?cl")
    case True
    show ?thesis
    proof (cases "arStatus b = 204")
      case False
      then show ?thesis
        using createSession_guess [OF s True False Cons.prems clock(1,2,4)] ih clock(3)
        by (simp add: s True [symmetric] split: if_splits)
    qed (simp add: s True)
  next
    case False
    have "guesses (dsFailures q) c ?t ?T = guesses (dsFailures p) c ?t ?T"
      by (rule guesses_cong [OF createSession_other [OF s False]])
    also have "\<dots> \<le> guesses (dsFailures p) c t ?T" by (rule guesses_later) simp
    finally show ?thesis using ih False by (auto simp: s)
  qed
qed


end
