(* ===== verification/Client.thy ===== *)
theory Client
  imports Http
begin

text \<open>
  The read-only client, \<open>client/client.go\<close> and \<open>client/types.go\<close>.  Sending a request is a
  parameter \<open>send\<close> that acts on the world outside; its answer is an error of the transport or
  a status with a body.  A body stands for its JSON text: \<open>rpBody\<close> is the document it holds
  (\<open>None\<close> when it is empty or not JSON), \<open>rpSize\<close> its length.
\<close>

subsection \<open>The client\<close>

definition maxResponseSize :: nat where "maxResponseSize = 16 * 1048576"

datatype clientError = ConfigError string | InputError string | TransportError string
  | ResponseTooLarge | APIError int string | DecodeError | ContextDone string

record clientRequest =
  cqMethod :: string
  cqPath :: string
  cqRawQuery :: string
  cqBody :: loginBody
  cqCookie :: "string option"

record clientResponse =
  rpStatus :: int
  rpBody :: "responseBody option"
  rpSize :: nat
  rpCookie :: "string option"

type_synonym 's transport = "clientRequest \<Rightarrow> 's \<Rightarrow> 's \<times> (string + clientResponse)"

record Client =
  ctBaseURL :: parsedURL
  ctTimeout :: duration
  ctToken :: string
  ctJar :: "string option"
  ctAuthenticated :: bool

record clientConfig =
  cfHTTPTimeout :: "duration option"
  cfTimeout :: duration
  cfToken :: string

type_synonym clientOption = "clientConfig \<Rightarrow> clientError + clientConfig"

definition clientWithToken :: "string \<Rightarrow> clientOption" where
  "clientWithToken token c = Inr (c\<lparr>cfToken := token\<rparr>)"

text \<open>A supplied HTTP client matters for its timeout; \<open>None\<close> is nil.\<close>

definition WithHTTPClient :: "duration option \<Rightarrow> clientOption" where
  "WithHTTPClient h c = (case h of
     None \<Rightarrow> Inl (ConfigError ''webpprof client: nil HTTP client'')
   | Some timeout \<Rightarrow> Inr (c\<lparr>cfHTTPTimeout := Some timeout\<rparr>))"

definition WithTimeout :: "duration \<Rightarrow> clientOption" where
  "WithTimeout timeout c =
     (if timeout < 0 then Inl (ConfigError ''webpprof client: timeout must not be negative'')
      else Inr (c\<lparr>cfTimeout := timeout\<rparr>))"

definition normalizeBaseURL :: "string \<Rightarrow> clientError + parsedURL" where
  "normalizeBaseURL rawURL =
     (case url_parse (trim_space rawURL) of
        None \<Rightarrow> Inl (ConfigError ''webpprof client: parse URL'')
      | Some u \<Rightarrow>
          if puScheme u \<noteq> ''http'' \<and> puScheme u \<noteq> ''https'' then
            Inl (ConfigError ''webpprof client: URL scheme must be http or https'')
          else if puHost u = [] then Inl (ConfigError ''webpprof client: URL host is required'')
          else if puQuery u \<noteq> [] \<or> puFragment u \<noteq> [] then
            Inl (ConfigError ''webpprof client: base URL must not contain a query or fragment'')
          else Inr (u\<lparr>puPath := trim_right (\<lambda>c. c = CHR ''/'') (puPath u) @ ''/''\<rparr>))"

fun apply_client_options :: "clientOption option list \<Rightarrow> clientConfig \<Rightarrow> clientError + clientConfig" where
  "apply_client_options [] c = Inr c"
| "apply_client_options (None # os) c = apply_client_options os c"
| "apply_client_options (Some f # os) c =
     (case f c of Inl e \<Rightarrow> Inl e | Inr c \<Rightarrow> apply_client_options os c)"

definition newClient :: "string \<Rightarrow> clientOption option list \<Rightarrow> clientError + Client" where
  "newClient rawURL options =
     (case normalizeBaseURL rawURL of
        Inl e \<Rightarrow> Inl e
      | Inr u \<Rightarrow>
          case apply_client_options options \<lparr>cfHTTPTimeout = None, cfTimeout = 15 * 1000000000, cfToken = []\<rparr> of
            Inl e \<Rightarrow> Inl e
          | Inr c \<Rightarrow> Inr \<lparr>ctBaseURL = u,
              ctTimeout = (case cfHTTPTimeout c of
                 None \<Rightarrow> cfTimeout c | Some t \<Rightarrow> if t = 0 then cfTimeout c else t),
              ctToken = cfToken c, ctJar = None, ctAuthenticated = False\<rparr>)"

subsection \<open>Requests\<close>

text \<open>
  \<open>ResolveReference\<close> merges the base path up to its last slash with the endpoint and walks over
  the segments: a dot is dropped, two dots take the last segment back.  The second argument is
  the path built so far without its leading slash, the third whether the next segment is the
  first.
\<close>

fun resolve_segments :: "string list \<Rightarrow> string \<Rightarrow> bool \<Rightarrow> string" where
  "resolve_segments [] dst first = dst"
| "resolve_segments (e # es) dst first =
     (if e = ''.'' then resolve_segments es dst False
      else if e = ''..'' then
        (if CHR ''/'' \<in> set dst then
           resolve_segments es (rev (tl (dropWhile (\<lambda>ch. ch \<noteq> CHR ''/'') (rev dst)))) first
         else resolve_segments es [] True)
      else resolve_segments es ((if first then dst else dst @ ''/'') @ e) False)"

definition resolve_path :: "string \<Rightarrow> string \<Rightarrow> string" where
  "resolve_path basePath ref =
     (let full = (if ref = [] then basePath
            else if hd ref = CHR ''/'' then ref
            else rev (dropWhile (\<lambda>ch. ch \<noteq> CHR ''/'') (rev basePath)) @ ref);
          elems = split_on (CHR ''/'') full;
          r = CHR ''/'' # resolve_segments elems [] True @ (if last elems \<in> {''.'', ''..''} then ''/'' else [])
      in if full = [] then []
         else if length r > 1 \<and> r ! 1 = CHR ''/'' then tl r else r)"

text \<open>The path on the wire: both parts escaped, then resolved.\<close>

definition endpoint_path :: "Client \<Rightarrow> string \<Rightarrow> string" where
  "endpoint_path c endpoint = resolve_path (escape_path (puPath (ctBaseURL c))) (escape_path endpoint)"

definition status_text :: "int \<Rightarrow> string" where
  "status_text st =
     (if st = 400 then ''Bad Request'' else if st = 401 then ''Unauthorized'' else if st = 403 then ''Forbidden''
      else if st = 404 then ''Not Found'' else if st = 405 then ''Method Not Allowed''
      else if st = 429 then ''Too Many Requests'' else if st = 500 then ''Internal Server Error''
      else if st = 503 then ''Service Unavailable'' else [])"

definition response_error :: "clientResponse \<Rightarrow> clientError option" where
  "response_error r =
     (if rpSize r > maxResponseSize then Some ResponseTooLarge
      else if rpStatus r < 200 \<or> rpStatus r \<ge> 300 then
        Some (APIError (rpStatus r)
          (case rpBody r of
             Some (ErrorBody m) \<Rightarrow> if trim_space m \<noteq> [] then m else status_text (rpStatus r)
           | _ \<Rightarrow> status_text (rpStatus r)))
      else None)"

definition response_result :: "clientResponse \<Rightarrow> clientError + responseBody option" where
  "response_result r =
     (case response_error r of
        Some e \<Rightarrow> Inl e
      | None \<Rightarrow>
          if rpSize r = 0 then Inr None
          else case rpBody r of None \<Rightarrow> Inl DecodeError | Some b \<Rightarrow> Inr (Some b))"

definition keep_cookie :: "clientResponse \<Rightarrow> Client \<Rightarrow> Client" where
  "keep_cookie r c = (case rpCookie r of None \<Rightarrow> c | Some v \<Rightarrow> c\<lparr>ctJar := (if v = [] then None else Some v)\<rparr>)"

text \<open>\<open>doJSON\<close> without the retry; the cookie jar belongs to the HTTP client.\<close>

definition do_once :: "'s transport \<Rightarrow> clientRequest \<Rightarrow> Client \<Rightarrow> 's \<Rightarrow>
    's \<times> Client \<times> (clientError + clientResponse)" where
  "do_once send r c s =
     (case send (r\<lparr>cqCookie := ctJar c\<rparr>) s of
        (s, Inl e) \<Rightarrow> (s, c, Inl (TransportError e))
      | (s, Inr a) \<Rightarrow> (s, keep_cookie a c, Inr a))"

definition authenticate :: "'s transport \<Rightarrow> bool \<Rightarrow> Client \<Rightarrow> 's \<Rightarrow> 's \<times> Client \<times> clientError option" where
  "authenticate send force c s =
     (if ctAuthenticated c \<and> \<not> force then (s, c, None)
      else
        let r = \<lparr>cqMethod = ''POST'', cqPath = endpoint_path c ''session'', cqRawQuery = [],
              cqBody = LoginJSON (JObj [(''token'', JStr (ctToken c))]), cqCookie = None\<rparr>
        in case do_once send r c s of
             (s, c, Inl e) \<Rightarrow> (s, c, Some e)
           | (s, c, Inr a) \<Rightarrow>
               (case response_error a of
                  Some e \<Rightarrow> (s, c, Some e)
                | None \<Rightarrow> (s, c\<lparr>ctAuthenticated := True\<rparr>, None)))"

text \<open>The login is never retried itself, so one retry bounds the recursion.\<close>

definition doJSON :: "'s transport \<Rightarrow> clientRequest \<Rightarrow> Client \<Rightarrow> 's \<Rightarrow>
    's \<times> Client \<times> (clientError + responseBody option)" where
  "doJSON send r c s =
     (case do_once send r c s of
        (s, c, Inl e) \<Rightarrow> (s, c, Inl e)
      | (s, c, Inr a) \<Rightarrow>
          if rpStatus a = 401 \<and> ctToken c \<noteq> [] then
            (case authenticate send True c s of
               (s, c, Some e) \<Rightarrow> (s, c, Inl e)
             | (s, c, None) \<Rightarrow>
                 (case do_once send r c s of
                    (s, c, Inl e) \<Rightarrow> (s, c, Inl e)
                  | (s, c, Inr a) \<Rightarrow> (s, c, response_result a)))
          else (s, c, response_result a))"

definition getJSON :: "'s transport \<Rightarrow> string \<Rightarrow> (string \<times> string) list \<Rightarrow> Client \<Rightarrow> 's \<Rightarrow>
    's \<times> Client \<times> (clientError + responseBody option)" where
  "getJSON send endpoint query c s =
     doJSON send \<lparr>cqMethod = ''GET'', cqPath = endpoint_path c endpoint, cqRawQuery = values_encode query,
       cqBody = NoLoginBody, cqCookie = None\<rparr> c s"

text \<open>Decoding into the type a method asks for; an empty payload leaves the zero value.\<close>

definition decoded :: "'a \<Rightarrow> (responseBody \<Rightarrow> 'a option) \<Rightarrow> 's \<times> Client \<times> (clientError + responseBody option) \<Rightarrow>
    's \<times> Client \<times> (clientError + 'a)" where
  "decoded zero pick answer =
     (case answer of
        (s, c, Inl e) \<Rightarrow> (s, c, Inl e)
      | (s, c, Inr None) \<Rightarrow> (s, c, Inr zero)
      | (s, c, Inr (Some b)) \<Rightarrow> (s, c, case pick b of None \<Rightarrow> Inl DecodeError | Some v \<Rightarrow> Inr v))"

subsection \<open>Queries\<close>

record ListEventsOptions =
  opKind :: string
  opRequestID :: string
  opScopeID :: string
  opTags :: "string list"
  opQuery :: string
  opMethod :: string
  opPathContains :: string
  opStatus :: int
  opMinDuration :: duration
  opMaxDuration :: duration
  opAfter :: nat
  opBefore :: nat
  opLimit :: int

definition noOptions :: ListEventsOptions where
  "noOptions = \<lparr>opKind = [], opRequestID = [], opScopeID = [], opTags = [], opQuery = [], opMethod = [],
     opPathContains = [], opStatus = 0, opMinDuration = 0, opMaxDuration = 0, opAfter = 0, opBefore = 0,
     opLimit = 0\<rparr>"

definition set_unless :: "bool \<Rightarrow> string \<Rightarrow> string \<Rightarrow> (string \<times> string) list" where
  "set_unless absent k v = (if absent then [] else [(k, v)])"

definition duration_param :: "duration \<Rightarrow> string" where
  "duration_param d = format_shortest (fdiv (float_of_int d) (float_of_int 1000000))"

definition list_limit_param :: "int \<Rightarrow> int" where
  "list_limit_param limit = (let limit = (if limit \<le> 0 then 200 else limit) in if limit > 1000 then 1000 else limit)"

definition list_query :: "ListEventsOptions \<Rightarrow> (string \<times> string) list" where
  "list_query opts =
     set_unless (opKind opts = []) ''kind'' (opKind opts) @
     set_unless (opRequestID opts = []) ''request_id'' (opRequestID opts) @
     set_unless (opScopeID opts = []) ''scope_id'' (opScopeID opts) @
     map (Pair ''tag'') (filter (\<lambda>tag. trim_space tag \<noteq> []) (opTags opts)) @
     set_unless (trim_space (opQuery opts) = []) ''q'' (trim_space (opQuery opts)) @
     set_unless (trim_space (opMethod opts) = []) ''method'' (trim_space (opMethod opts)) @
     set_unless (trim_space (opPathContains opts) = []) ''path_contains'' (trim_space (opPathContains opts)) @
     set_unless (opStatus opts = 0) ''status'' (show_int (opStatus opts)) @
     set_unless (opMinDuration opts \<le> 0) ''min_duration_ms'' (duration_param (opMinDuration opts)) @
     set_unless (opMaxDuration opts \<le> 0) ''max_duration_ms'' (duration_param (opMaxDuration opts)) @
     set_unless (opAfter opts = 0) ''after'' (show_nat (opAfter opts)) @
     set_unless (opBefore opts = 0) ''before'' (show_nat (opBefore opts)) @
     [(''limit'', show_int (list_limit_param (opLimit opts)))]"

definition zeroStats :: Stats where
  "zeroStats = \<lparr>stEvents = 0, stBytes = 0, stDroppedEvents = 0, stEvictedEvents = 0, stSubscribers = 0,
     stCursor = 0, stMaxEvents = 0, stMaxBytes = 0, stRetentionNS = 0, stStorage = [], stStorageError = [],
     stBodyLimit = 0, stSampleRate = 0, stDisabledKinds = [], stSidebarKinds = []\<rparr>"

definition zeroPage :: eventsPage where
  "zeroPage = \<lparr>epEvents = [], epScanned = 0, epHasMore = False, epStats = zeroStats\<rparr>"

definition clientStats :: "'s transport \<Rightarrow> Client \<Rightarrow> 's \<Rightarrow> 's \<times> Client \<times> (clientError + Stats)" where
  "clientStats send c s = decoded zeroStats (\<lambda>b. case b of StatsBody st \<Rightarrow> Some st | _ \<Rightarrow> None)
     (getJSON send ''api/stats'' [] c s)"

definition ListEvents :: "'s transport \<Rightarrow> ListEventsOptions \<Rightarrow> Client \<Rightarrow> 's \<Rightarrow>
    's \<times> Client \<times> (clientError + eventsPage)" where
  "ListEvents send opts c s = decoded zeroPage (\<lambda>b. case b of EventsBody page \<Rightarrow> Some page | _ \<Rightarrow> None)
     (getJSON send ''api/events'' (list_query opts) c s)"

definition clientEvent :: "'s transport \<Rightarrow> string \<Rightarrow> Client \<Rightarrow> 's \<Rightarrow> 's \<times> Client \<times> (clientError + Entry)" where
  "clientEvent send i c s =
     (if trim_space i = [] then (s, c, Inl (InputError ''webpprof client: event ID is required''))
      else decoded zeroEntry (\<lambda>b. case b of EntryBody e \<Rightarrow> Some e | _ \<Rightarrow> None)
        (getJSON send (''api/events/'' @ path_escape i) [] c s))"

text \<open>The analysis endpoints differ in the collection and in the message.\<close>

definition zeroAnalysis :: ExecutionAnalysis where
  "zeroAnalysis = \<lparr>xaID = [], xaDurationNS = 0, xaGeneratedAt = 0, xaFindings = []\<rparr>"

definition fetch_analysis :: "string \<Rightarrow> Kind \<Rightarrow> string \<Rightarrow> 's transport \<Rightarrow> string \<Rightarrow> Client \<Rightarrow> 's \<Rightarrow>
    's \<times> Client \<times> (clientError + ExecutionAnalysis)" where
  "fetch_analysis collection kind missing send i c s =
     (if trim_space i = [] then (s, c, Inl (InputError missing))
      else decoded zeroAnalysis (\<lambda>b. case b of AnalysisBody k a \<Rightarrow> if k = kind then Some a else None | _ \<Rightarrow> None)
        (getJSON send (''api/'' @ collection @ ''/'' @ path_escape i @ ''/analysis'') [] c s))"

definition RequestAnalysis :: "'s transport \<Rightarrow> string \<Rightarrow> Client \<Rightarrow> 's \<Rightarrow> 's \<times> Client \<times> (clientError + ExecutionAnalysis)" where
  "RequestAnalysis = fetch_analysis ''requests'' KindRequest ''webpprof client: request ID is required''"

definition ScheduleAnalysis :: "'s transport \<Rightarrow> string \<Rightarrow> Client \<Rightarrow> 's \<Rightarrow> 's \<times> Client \<times> (clientError + ExecutionAnalysis)" where
  "ScheduleAnalysis = fetch_analysis ''schedules'' KindSchedule ''webpprof client: schedule ID is required''"

definition CallableAnalysis :: "'s transport \<Rightarrow> string \<Rightarrow> Client \<Rightarrow> 's \<Rightarrow> 's \<times> Client \<times> (clientError + ExecutionAnalysis)" where
  "CallableAnalysis = fetch_analysis ''callables'' KindCallable ''webpprof client: callable ID is required''"

definition TaskAnalysis :: "'s transport \<Rightarrow> string \<Rightarrow> Client \<Rightarrow> 's \<Rightarrow> 's \<times> Client \<times> (clientError + ExecutionAnalysis)" where
  "TaskAnalysis = fetch_analysis ''tasks'' KindTask ''webpprof client: task ID is required''"

subsection \<open>Reports\<close>

record RequestSummary =
  smID :: string
  smRequestCursor :: nat
  smStartedAt :: instant
  smMethod :: string
  smPath :: string
  smRoute :: string
  smStatus :: int
  smDurationNS :: int
  smError :: string
  smTags :: tags

definition DecodeRequest :: "Entry \<Rightarrow> RequestSummary option" where
  "DecodeRequest e =
     (if eKind e \<noteq> KindRequest then None
      else do {
        kvs \<leftarrow> obj_fields (eData e);
        me \<leftarrow> get_str kvs ''method''; pa \<leftarrow> get_str kvs ''path''; ro \<leftarrow> get_str kvs ''route'';
        st \<leftarrow> get_int kvs ''status''; er \<leftarrow> get_str kvs ''error'';
        Some \<lparr>smID = eID e, smRequestCursor = eCursor e, smStartedAt = eStartedAt e, smMethod = me, smPath = pa,
          smRoute = ro, smStatus = st, smDurationNS = eDurationNS e, smError = er, smTags = eTags e\<rparr> })"

record RequestReport =
  rpRequest :: RequestSummary
  rpEntry :: Entry
  rpEvents :: "Entry list"
  rpCounts :: "(Kind \<times> nat) list"
  rpHasMore :: bool
  rpAnalysis :: ExecutionAnalysis

record EventReport =
  erpEntry :: Entry
  erpEvents :: "Entry list"
  erpCounts :: "(Kind \<times> nat) list"
  erpHasMore :: bool
  erpFindings :: "Finding list"

definition count_kinds :: "Entry list \<Rightarrow> (Kind \<times> nat) list" where
  "count_kinds es = fold (\<lambda>e m. map_put (eKind e)
     ((case map_get m (eKind e) of None \<Rightarrow> 0 | Some n \<Rightarrow> n) + 1) m) es []"

definition InspectRequest :: "'s transport \<Rightarrow> string \<Rightarrow> int \<Rightarrow> Client \<Rightarrow> 's \<Rightarrow>
    's \<times> Client \<times> (clientError + RequestReport)" where
  "InspectRequest send requestID limit c s =
     (case clientEvent send requestID c s of
        (s, c, Inl err) \<Rightarrow> (s, c, Inl err)
      | (s, c, Inr e) \<Rightarrow>
          case DecodeRequest e of
            None \<Rightarrow> (s, c, Inl DecodeError)
          | Some request \<Rightarrow>
              case ListEvents send (noOptions\<lparr>opRequestID := requestID, opLimit := limit\<rparr>) c s of
                (s, c, Inl err) \<Rightarrow> (s, c, Inl err)
              | (s, c, Inr page) \<Rightarrow>
                  case RequestAnalysis send requestID c s of
                    (s, c, Inl err) \<Rightarrow> (s, c, Inl err)
                  | (s, c, Inr a) \<Rightarrow> (s, c, Inr \<lparr>rpRequest = request, rpEntry = e, rpEvents = epEvents page,
                      rpCounts = count_kinds (epEvents page), rpHasMore = epHasMore page, rpAnalysis = a\<rparr>))"

text \<open>The analysis that belongs to a kind of execution root, if there is one.\<close>

definition root_analysis :: "'s transport \<Rightarrow> Kind \<Rightarrow> string \<Rightarrow> Client \<Rightarrow> 's \<Rightarrow>
    's \<times> Client \<times> (clientError + Finding list)" where
  "root_analysis send kind i c s =
     (let findings = map_prod id (map_prod id (map_sum id xaFindings)) in
      if kind = KindSchedule then findings (ScheduleAnalysis send i c s)
      else if kind = KindCallable then findings (CallableAnalysis send i c s)
      else if kind = KindTask then findings (TaskAnalysis send i c s)
      else (s, c, Inr []))"

definition InspectEvent :: "'s transport \<Rightarrow> string \<Rightarrow> int \<Rightarrow> Client \<Rightarrow> 's \<Rightarrow>
    's \<times> Client \<times> (clientError + EventReport)" where
  "InspectEvent send eventID limit c s =
     (case clientEvent send eventID c s of
        (s, c, Inl err) \<Rightarrow> (s, c, Inl err)
      | (s, c, Inr e) \<Rightarrow>
          case ListEvents send (noOptions\<lparr>opScopeID := eventID, opLimit := limit\<rparr>) c s of
            (s, c, Inl err) \<Rightarrow> (s, c, Inl err)
          | (s, c, Inr page) \<Rightarrow>
              case root_analysis send (eKind e) eventID c s of
                (s, c, Inl err) \<Rightarrow> (s, c, Inl err)
              | (s, c, Inr fs) \<Rightarrow> (s, c, Inr \<lparr>erpEntry = e, erpEvents = epEvents page,
                  erpCounts = count_kinds (epEvents page), erpHasMore = epHasMore page, erpFindings = fs\<rparr>))"

subsection \<open>Waiting\<close>

record WaitForRequestOptions =
  woAfter :: nat
  woMethod :: string
  woPathContains :: string
  woStatus :: int
  woMinDuration :: duration
  woMaxDuration :: duration
  woPollInterval :: duration

definition matches_summary :: "WaitForRequestOptions \<Rightarrow> RequestSummary \<Rightarrow> bool" where
  "matches_summary opts r =
     (if woMethod opts \<noteq> [] \<and> \<not> equal_fold (woMethod opts) (smMethod r) then False
      else if woPathContains opts \<noteq> [] \<and> \<not> contains (smPath r) (woPathContains opts) then False
      else if woStatus opts \<noteq> 0 \<and> woStatus opts \<noteq> smStatus r then False
      else smDurationNS r \<ge> woMinDuration opts \<and> (woMaxDuration opts \<le> 0 \<or> smDurationNS r \<le> woMaxDuration opts))"

text \<open>The entries of one page: the first match, and the cursor they leave behind.\<close>

fun scan_page :: "WaitForRequestOptions \<Rightarrow> Entry list \<Rightarrow> nat \<Rightarrow> nat \<times> RequestSummary option" where
  "scan_page opts [] cursor = (cursor, None)"
| "scan_page opts (e # es) cursor =
     (let cursor = (if eCursor e > cursor then eCursor e else cursor) in
      case DecodeRequest e of
        None \<Rightarrow> scan_page opts es cursor
      | Some r \<Rightarrow> if matches_summary opts r then (cursor, Some r) else scan_page opts es cursor)"

definition wait_query :: "WaitForRequestOptions \<Rightarrow> nat \<Rightarrow> ListEventsOptions" where
  "wait_query opts cursor = noOptions\<lparr>opKind := KindRequest, opAfter := cursor, opMethod := woMethod opts,
     opPathContains := woPathContains opts, opStatus := woStatus opts, opMinDuration := woMinDuration opts,
     opMaxDuration := woMaxDuration opts, opLimit := 200\<rparr>"

definition wait_interval :: "WaitForRequestOptions \<Rightarrow> duration" where
  "wait_interval opts = (if woPollInterval opts \<le> 0 then 250000000 else woPollInterval opts)"

text \<open>
  The polling loop may go on for ever, so it is a partial function.  \<open>pause\<close> is one wait of
  the poll interval in the world outside; it tells when the context was done first.
\<close>

partial_function (option) wait_loop :: "'s transport \<Rightarrow> (duration \<Rightarrow> 's \<Rightarrow> 's \<times> string option) \<Rightarrow>
    WaitForRequestOptions \<Rightarrow> nat \<Rightarrow> Client \<Rightarrow> 's \<Rightarrow> ('s \<times> Client \<times> (clientError + RequestSummary)) option" where
  "wait_loop send pause opts cursor c s =
     (case ListEvents send (wait_query opts cursor) c s of
        (s, c, Inl err) \<Rightarrow> Some (s, c, Inl err)
      | (s, c, Inr page) \<Rightarrow>
          (case scan_page opts (epEvents page) cursor of
             (cursor, Some r) \<Rightarrow> Some (s, c, Inr r)
           | (cursor, None) \<Rightarrow>
               (case pause (wait_interval opts) s of
                  (s, Some reason) \<Rightarrow> Some (s, c, Inl (ContextDone reason))
                | (s, None) \<Rightarrow> wait_loop send pause opts cursor c s)))"

definition WaitForRequest :: "'s transport \<Rightarrow> (duration \<Rightarrow> 's \<Rightarrow> 's \<times> string option) \<Rightarrow>
    WaitForRequestOptions \<Rightarrow> Client \<Rightarrow> 's \<Rightarrow> ('s \<times> Client \<times> (clientError + RequestSummary)) option" where
  "WaitForRequest send pause opts c s = wait_loop send pause opts (woAfter opts) c s"

end
