(* ===== verification/Mcp.thy ===== *)
theory Mcp
  imports Client
begin

text \<open>
  The agent-facing service, \<open>internal/mcpserver/service.go\<close>: compact results over the interface
  \<open>ProfilerClient\<close>, which is a record of its methods acting on a world outside.
\<close>

subsection \<open>The interface\<close>

record 's ProfilerClient =
  pcStats :: "'s \<Rightarrow> 's \<times> (clientError + Stats)"
  pcListEvents :: "ListEventsOptions \<Rightarrow> 's \<Rightarrow> 's \<times> (clientError + eventsPage)"
  pcEvent :: "string \<Rightarrow> 's \<Rightarrow> 's \<times> (clientError + Entry)"
  pcRequestAnalysis :: "string \<Rightarrow> 's \<Rightarrow> 's \<times> (clientError + ExecutionAnalysis)"
  pcInspectRequest :: "string \<Rightarrow> int \<Rightarrow> 's \<Rightarrow> 's \<times> (clientError + RequestReport)"
  pcInspectEvent :: "string \<Rightarrow> int \<Rightarrow> 's \<Rightarrow> 's \<times> (clientError + EventReport)"
  pcWaitForRequest :: "duration \<Rightarrow> WaitForRequestOptions \<Rightarrow> 's \<Rightarrow> ('s \<times> (clientError + RequestSummary)) option"

text \<open>The context of \<open>WaitForRequest\<close> matters for its timeout, which is the first argument.\<close>

definition newService :: "'s ProfilerClient option \<Rightarrow> string + 's ProfilerClient" where
  "newService c = (case c of None \<Rightarrow> Inl ''webpprof MCP: nil profiler client'' | Some c \<Rightarrow> Inr c)"

datatype serviceError = InvalidInput string | Failed string clientError

definition failing :: "string \<Rightarrow> ('a \<Rightarrow> serviceError + 'b) \<Rightarrow> 's \<times> (clientError + 'a) \<Rightarrow> 's \<times> (serviceError + 'b)" where
  "failing what f answer = (case answer of (s, Inl e) \<Rightarrow> (s, Inl (Failed what e)) | (s, Inr v) \<Rightarrow> (s, f v))"

definition boundedLimit :: "int \<Rightarrow> int \<Rightarrow> int \<Rightarrow> int" where
  "boundedLimit value defaultValue maximum = (if value \<le> 0 then defaultValue else min value maximum)"

text \<open>\<open>time.Duration(ms * float64(time.Millisecond))\<close>.\<close>

definition ms_duration :: "rat \<Rightarrow> duration" where
  "ms_duration ms = to_int64 (fmul ms 1000000)"

record StatusOutput =
  stConnected :: bool
  stStats :: Stats

definition mcpStatus :: "'s ProfilerClient \<Rightarrow> 's \<Rightarrow> 's \<times> (serviceError + StatusOutput)" where
  "mcpStatus c s = failing ''get profiler status'' (\<lambda>st. Inr \<lparr>stConnected = True, stStats = st\<rparr>) (pcStats c s)"

subsection \<open>Listing requests\<close>

record ListRequestsInput =
  liLimit :: int
  liBefore :: nat
  liMethod :: string
  liPathContains :: string
  liStatus :: int
  liMinDurationMS :: rat
  liMaxDurationMS :: rat
  liTags :: "string list"

record ListRequestsOutput =
  lrRequests :: "RequestSummary list"
  lrScanned :: nat
  lrHasMore :: bool
  lrCursor :: nat

definition request_matches :: "ListRequestsInput \<Rightarrow> RequestSummary \<Rightarrow> bool" where
  "request_matches i r =
     (let pathContains = to_lower (trim_space (liPathContains i)) in
      if liMethod i \<noteq> [] \<and> \<not> equal_fold (liMethod i) (smMethod r) then False
      else if pathContains \<noteq> [] \<and> \<not> contains (to_lower (smPath r)) pathContains then False
      else if liStatus i \<noteq> 0 \<and> liStatus i \<noteq> smStatus r then False
      else
        let durationMS = fdiv (float_of_int (smDurationNS r)) (float_of_int 1000000)
        in \<not> (durationMS < liMinDurationMS i \<or> liMaxDurationMS i > 0 \<and> durationMS > liMaxDurationMS i))"

text \<open>The loop from the newest entry of the page, which comes last, to the oldest.\<close>

fun collect_requests :: "ListRequestsInput \<Rightarrow> nat \<Rightarrow> Entry list \<Rightarrow> RequestSummary list \<Rightarrow> RequestSummary list" where
  "collect_requests i limit [] out = out"
| "collect_requests i limit (e # es) out =
     (if length out < limit then
        (case DecodeRequest e of
           None \<Rightarrow> collect_requests i limit es out
         | Some r \<Rightarrow> collect_requests i limit es (if request_matches i r then out @ [r] else out))
      else out)"

definition scanned_count :: "eventsPage \<Rightarrow> nat" where
  "scanned_count page =
     (if epScanned page = 0 \<and> length (epEvents page) > 0 then length (epEvents page) else epScanned page)"

definition request_options :: "ListRequestsInput \<Rightarrow> int \<Rightarrow> ListEventsOptions" where
  "request_options i limit = noOptions\<lparr>opKind := KindRequest, opTags := liTags i, opBefore := liBefore i,
     opMethod := liMethod i, opPathContains := liPathContains i, opStatus := liStatus i,
     opMinDuration := ms_duration (liMinDurationMS i), opMaxDuration := ms_duration (liMaxDurationMS i),
     opLimit := limit\<rparr>"

definition mcpListRequests :: "'s ProfilerClient \<Rightarrow> ListRequestsInput \<Rightarrow> 's \<Rightarrow> 's \<times> (serviceError + ListRequestsOutput)" where
  "mcpListRequests c i s =
     (let limit = boundedLimit (liLimit i) 20 200 in
      failing ''list requests''
        (\<lambda>page. Inr \<lparr>lrRequests = collect_requests i (nat limit) (rev (epEvents page)) [],
           lrScanned = scanned_count page, lrHasMore = epHasMore page, lrCursor = stCursor (epStats page)\<rparr>)
        (pcListEvents c (request_options i limit) s))"

subsection \<open>Summaries\<close>

datatype eventDetail = DRequest RequestSummary | DQuery Query | DCache Cache | DHTTPCall HTTPCall | DJob Job
  | DEmail Email | DLog Log | DException Exception | DSchedule Schedule | DCallable Callable | DTask Task
  | DEvent Event | DMiddleware Middleware | DDecodeError

record EventSummary =
  esmID :: string
  esmKind :: Kind
  esmRequestID :: string
  esmParentID :: string
  esmOriginRequestID :: string
  esmStartedAt :: instant
  esmDurationNS :: int
  esmTags :: tags
  esmDetail :: eventDetail

definition noMessage :: HTTPMessage where
  "noMessage = \<lparr>hmHeaders = [], hmContentType = [], hmBody = [], hmSize = 0, hmTruncated = False\<rparr>"

text \<open>Decoding into a kind's struct; a document of another shape is the decode error.\<close>

definition detail_of :: "'a option \<Rightarrow> ('a \<Rightarrow> eventDetail) \<Rightarrow> eventDetail" where
  "detail_of v f = (case v of None \<Rightarrow> DDecodeError | Some x \<Rightarrow> f x)"

definition summarizeDetail :: "Entry \<Rightarrow> bool \<Rightarrow> eventDetail" where
  "summarizeDetail e payloads =
     (let kind = eKind e; doc = eData e in
      if kind = KindRequest then detail_of (DecodeRequest e) DRequest
      else if kind = KindQuery then detail_of (dec_query doc) DQuery
      else if kind = KindCache then
        detail_of (dec_cache doc) (\<lambda>v. DCache (if payloads then v else v\<lparr>caValue := []\<rparr>))
      else if kind = KindHTTPCall then
        detail_of (dec_call doc) (\<lambda>v. DHTTPCall
          (if payloads then v else v\<lparr>hcRequest := noMessage, hcResponse := noMessage\<rparr>))
      else if kind = KindJob then
        detail_of (dec_job doc) (\<lambda>v. DJob (if payloads then v else v\<lparr>joArguments := []\<rparr>))
      else if kind = KindEmail then
        detail_of (dec_email doc) (\<lambda>v. DEmail (if payloads then v else v\<lparr>emText := [], emHTML := []\<rparr>))
      else if kind = KindLog then
        detail_of (dec_log doc) (\<lambda>v. DLog (if payloads then v else v\<lparr>loStack := []\<rparr>))
      else if kind = KindException then
        detail_of (dec_exception doc) (\<lambda>v. DException (if payloads then v else v\<lparr>exStack := []\<rparr>))
      else if kind = KindSchedule then
        detail_of (dec_schedule doc) (\<lambda>v. DSchedule (if payloads then v else v\<lparr>scPayload := Some JNull\<rparr>))
      else if kind = KindCallable then
        detail_of (dec_callable doc) (\<lambda>v. DCallable
          (if payloads then v else v\<lparr>clPayload := Some JNull, clResult := Some JNull\<rparr>))
      else if kind = KindTask then
        detail_of (dec_task doc) (\<lambda>v. DTask (if payloads then v else v\<lparr>taFields := []\<rparr>))
      else if kind = KindEvent then detail_of (dec_event doc) DEvent
      else if kind = KindMiddleware then detail_of (dec_middleware doc) DMiddleware
      else DDecodeError)"

definition summarizeEntry :: "Entry \<Rightarrow> bool \<Rightarrow> EventSummary" where
  "summarizeEntry e payloads = \<lparr>esmID = eID e, esmKind = eKind e, esmRequestID = eRequestID e,
     esmParentID = eParentID e, esmOriginRequestID = eOriginRequestID e, esmStartedAt = eStartedAt e,
     esmDurationNS = eDurationNS e, esmTags = eTags e, esmDetail = summarizeDetail e payloads\<rparr>"

subsection \<open>Inspecting\<close>

record InspectRequestInput =
  irRequestID :: string
  irMaxEvents :: int
  irIncludePayloads :: bool

record InspectRequestOutput =
  ioRequest :: RequestSummary
  ioFindings :: "Finding list"
  ioCounts :: "(Kind \<times> nat) list"
  ioEvents :: "EventSummary list"
  ioHasMore :: bool

definition mcpInspectRequest :: "'s ProfilerClient \<Rightarrow> InspectRequestInput \<Rightarrow> 's \<Rightarrow>
    's \<times> (serviceError + InspectRequestOutput)" where
  "mcpInspectRequest c i s =
     (let requestID = trim_space (irRequestID i) in
      if requestID = [] then (s, Inl (InvalidInput ''inspect request: request_id is required''))
      else failing ''inspect request''
        (\<lambda>report. Inr \<lparr>ioRequest = rpRequest report, ioFindings = xaFindings (rpAnalysis report),
           ioCounts = rpCounts report, ioEvents = map (\<lambda>e. summarizeEntry e (irIncludePayloads i)) (rpEvents report),
           ioHasMore = rpHasMore report\<rparr>)
        (pcInspectRequest c requestID (boundedLimit (irMaxEvents i) 100 1000) s))"

record InspectEventInput =
  ieEventID :: string
  ieMaxEvents :: int
  ieIncludePayloads :: bool

record InspectEventOutput =
  ieoEvent :: EventSummary
  ieoFindings :: "Finding list"
  ieoCounts :: "(Kind \<times> nat) list"
  ieoEvents :: "EventSummary list"
  ieoHasMore :: bool

definition mcpInspectEvent :: "'s ProfilerClient \<Rightarrow> InspectEventInput \<Rightarrow> 's \<Rightarrow>
    's \<times> (serviceError + InspectEventOutput)" where
  "mcpInspectEvent c i s =
     (let eventID = trim_space (ieEventID i) in
      if eventID = [] then (s, Inl (InvalidInput ''inspect event: event_id is required''))
      else failing ''inspect event''
        (\<lambda>report. Inr \<lparr>ieoEvent = summarizeEntry (erpEntry report) (ieIncludePayloads i),
           ieoFindings = erpFindings report, ieoCounts = erpCounts report,
           ieoEvents = map (\<lambda>e. summarizeEntry e (ieIncludePayloads i)) (erpEvents report),
           ieoHasMore = erpHasMore report\<rparr>)
        (pcInspectEvent c eventID (boundedLimit (ieMaxEvents i) 100 1000) s))"

subsection \<open>Searching and waiting\<close>

record SearchEventsInput =
  seQuery :: string
  seKind :: string
  seRequestID :: string
  seScopeID :: string
  seTags :: "string list"
  seAfter :: nat
  seBefore :: nat
  seLimit :: int
  seMinDurationMS :: rat
  seMaxDurationMS :: rat

record SearchEventsOutput =
  soEvents :: "EventSummary list"
  soScanned :: nat
  soHasMore :: bool
  soCursor :: nat

definition search_options :: "SearchEventsInput \<Rightarrow> int \<Rightarrow> ListEventsOptions" where
  "search_options i limit = noOptions\<lparr>opKind := trim_space (seKind i), opRequestID := trim_space (seRequestID i),
     opScopeID := trim_space (seScopeID i), opTags := seTags i, opQuery := seQuery i,
     opMinDuration := ms_duration (seMinDurationMS i), opMaxDuration := ms_duration (seMaxDurationMS i),
     opAfter := seAfter i, opBefore := seBefore i, opLimit := limit\<rparr>"

definition mcpSearchEvents :: "'s ProfilerClient \<Rightarrow> SearchEventsInput \<Rightarrow> 's \<Rightarrow> 's \<times> (serviceError + SearchEventsOutput)" where
  "mcpSearchEvents c i s =
     (let limit = boundedLimit (seLimit i) 20 200 in
      failing ''search events''
        (\<lambda>page. Inr \<lparr>soEvents = map (\<lambda>e. summarizeEntry e False) (take (nat limit) (rev (epEvents page))),
           soScanned = scanned_count page, soHasMore = epHasMore page, soCursor = stCursor (epStats page)\<rparr>)
        (pcListEvents c (search_options i limit) s))"

record WaitForRequestInput =
  wiAfter :: nat
  wiMethod :: string
  wiPathContains :: string
  wiStatus :: int
  wiMinDurationMS :: rat
  wiMaxDurationMS :: rat
  wiTimeoutMS :: int

text \<open>The product of two 64-bit integers wraps around.\<close>

definition wrap_int64 :: "int \<Rightarrow> int" where
  "wrap_int64 i = (i + 2 ^ 63) mod 2 ^ 64 - 2 ^ 63"

definition wait_timeout :: "int \<Rightarrow> duration" where
  "wait_timeout ms =
     (let timeout = wrap_int64 (ms * 1000000); timeout = (if timeout \<le> 0 then 30 * 1000000000 else timeout)
      in if timeout > 120 * 1000000000 then 120 * 1000000000 else timeout)"

definition mcpWaitForRequest :: "'s ProfilerClient \<Rightarrow> WaitForRequestInput \<Rightarrow> 's \<Rightarrow>
    ('s \<times> (serviceError + RequestSummary)) option" where
  "mcpWaitForRequest c i s =
     map_option (failing ''wait for request'' Inr)
       (pcWaitForRequest c (wait_timeout (wiTimeoutMS i))
          \<lparr>woAfter = wiAfter i, woMethod = trim_space (wiMethod i), woPathContains = trim_space (wiPathContains i),
           woStatus = wiStatus i, woMinDuration = ms_duration (wiMinDurationMS i),
           woMaxDuration = ms_duration (wiMaxDurationMS i), woPollInterval = 0\<rparr> s)"

end
