(* ===== verification/ClientServer.thy ===== *)
theory ClientServer
  imports Client Routes
begin

text \<open>
  The client talking to the dashboard: a transport that hands every request to the model of
  the server's handler.  The world is the server and the number of requests it has seen,
  which selects the environment of the next one.
\<close>

record ('w, 'x) world =
  wdServer :: "('w, 'x) dashServer"
  wdCount :: nat

text \<open>What \<open>net/http\<close> makes of a request line: the decoded path, and the raw one where it differs.\<close>

definition wire_request :: "clientRequest \<Rightarrow> string \<Rightarrow> string \<Rightarrow> apiRequest" where
  "wire_request r path addr =
     \<lparr>aqHTTP = \<lparr>hqMethod = cqMethod r, hqPath = path, hqRawQuery = cqRawQuery r, hqHeader = [],
        hqCookies = (case cqCookie r of None \<Rightarrow> [] | Some v \<Rightarrow> [(sessionCookieName, v)]),
        hqHost = [], hqRemoteAddr = addr, hqProto = ''HTTP/1.1'', hqTLS = False, hqContentLength = 0,
        hqPattern = []\<rparr>,
      aqRawPath = (if escape_path path = cqPath r then [] else cqPath r),
      aqBody = cqBody r\<rparr>"

text \<open>\<open>len\<close> is the length of a document's JSON text less one; text and assets are no documents.\<close>

definition wire_response :: "(responseBody \<Rightarrow> nat) \<Rightarrow> apiResponse \<Rightarrow> clientResponse" where
  "wire_response len a =
     \<lparr>rpStatus = arStatus a,
      rpBody = (case arBody a of EmptyBody \<Rightarrow> None | TextBody t \<Rightarrow> None | AssetBody t \<Rightarrow> None | b \<Rightarrow> Some b),
      rpSize = (if arBody a = EmptyBody then 0 else Suc (len (arBody a))),
      rpCookie = map_option ckValue (arCookie a)\<rparr>"

definition server_transport :: "(nat \<Rightarrow> 'w httpEnv) \<Rightarrow> (responseBody \<Rightarrow> nat) \<Rightarrow> string \<Rightarrow> ('w, 'x) world transport" where
  "server_transport envs len addr r w =
     (case percent_decode False (cqPath r) of
        None \<Rightarrow> (w, Inr \<lparr>rpStatus = 400, rpBody = None, rpSize = 15, rpCookie = None\<rparr>)
      | Some path \<Rightarrow>
          (case serve (envs (wdCount w)) (wire_request r path addr) (wdServer w) of
             None \<Rightarrow> (w\<lparr>wdCount := wdCount w + 1\<rparr>,
               Inr \<lparr>rpStatus = 404, rpBody = None, rpSize = 19, rpCookie = None\<rparr>)
           | Some (p, None) \<Rightarrow> (w\<lparr>wdServer := p, wdCount := wdCount w + 1\<rparr>, Inl ''EOF'')
           | Some (p, Some a) \<Rightarrow> (w\<lparr>wdServer := p, wdCount := wdCount w + 1\<rparr>, Inr (wire_response len a))))"

end
