(* ===== verification/GoHttpFacts.thy ===== *)
theory GoHttpFacts
  imports GoHttp
begin

text \<open>
  Round trips of the text forms that cross the wire: escaped text decodes to itself, an encoded
  query parses to its pairs, and decimal numbers read back.
\<close>

subsection \<open>Percent encoding\<close>

lemma hex_digit:
  assumes "n < 16"
  shows "is_hex (upper_hex n)" "hex_val (upper_hex n) = n"
  using assms by (auto simp: upper_hex_def is_hex_def hex_val_def is_digit_def)

lemma decode_percent_byte:
  "percent_decode pl (percent_byte c @ s) = map_option (Cons c) (percent_decode pl s)"
proof -
  have "byte c div 16 < 16" "byte c mod 16 < 16" by (simp_all add: less_mult_imp_div_less)
  then show ?thesis by (simp add: percent_byte_def hex_digit)
qed

lemma unreserved_not: "unreserved c \<Longrightarrow> c \<noteq> CHR ''%'' \<and> c \<noteq> CHR ''+'' \<and> c \<noteq> CHR ''/'' \<and> c \<noteq> CHR ''&'' \<and>
    c \<noteq> CHR ''='' \<and> c \<noteq> CHR '';'' \<and> c \<noteq> CHR '' ''"
  by (auto simp: unreserved_def is_alpha_def is_digit_def byte_def)

text \<open>Any encoder that keeps some characters, none of them special, and escapes the others.\<close>

definition keep_or_escape :: "(char \<Rightarrow> bool) \<Rightarrow> string \<Rightarrow> string" where
  "keep_or_escape keep s = concat (map (\<lambda>c. if keep c then [c] else percent_byte c) s)"

lemma keep_or_escape_simps [simp]:
  "keep_or_escape keep [] = []"
  "keep_or_escape keep (c # s) = (if keep c then [c] else percent_byte c) @ keep_or_escape keep s"
  "keep_or_escape keep (s @ t) = keep_or_escape keep s @ keep_or_escape keep t"
  by (simp_all add: keep_or_escape_def)

lemma decode_kept:
  assumes "\<not> keep (CHR ''%'')" "pl \<longrightarrow> \<not> keep (CHR ''+'')"
  shows "percent_decode pl (keep_or_escape keep s) = Some s"
proof (induction s)
  case (Cons c s)
  show ?case
  proof (cases "keep c")
    case True
    then have "c \<noteq> CHR ''%''" "\<not> (pl \<and> c = CHR ''+'')" using assms by auto
    then show ?thesis using Cons True by simp
  next
    case False
    then show ?thesis using Cons by (simp add: decode_percent_byte)
  qed
qed simp

lemma upper_hex_unreserved: "n < 16 \<Longrightarrow> unreserved (upper_hex n)"
  by (auto simp: upper_hex_def unreserved_def is_alpha_def is_digit_def)

lemma percent_byte_chars: "c \<in> set (percent_byte d) \<Longrightarrow> c = CHR ''%'' \<or> unreserved c"
proof -
  assume "c \<in> set (percent_byte d)"
  then have "c = CHR ''%'' \<or> c = upper_hex (byte d div 16) \<or> c = upper_hex (byte d mod 16)"
    by (simp add: percent_byte_def)
  moreover have "byte d div 16 < 16" "byte d mod 16 < 16" by (simp_all add: less_mult_imp_div_less)
  ultimately show ?thesis using upper_hex_unreserved by metis
qed

lemma kept_set: "c \<in> set (keep_or_escape keep s) \<Longrightarrow> keep c \<or> c = CHR ''%'' \<or> unreserved c"
proof (induction s)
  case (Cons d s)
  then show ?case using percent_byte_chars [of c d] by (cases "keep d") auto
qed simp

lemma path_escape_eq: "path_escape s = keep_or_escape (\<lambda>c. unreserved c \<or> c \<in> set ''$&+=:@'') s"
  by (simp add: path_escape_def keep_or_escape_def)

lemma escape_path_eq: "escape_path s = keep_or_escape (\<lambda>c. unreserved c \<or> c \<in> set ''$&+,/:;=@'') s"
  by (simp add: escape_path_def keep_or_escape_def)

lemma percent_reserved [simp]: "\<not> unreserved (CHR ''%'')" "\<not> unreserved (CHR ''+'')" "\<not> unreserved (CHR ''/'')"
  by (auto simp: unreserved_def is_alpha_def is_digit_def byte_def)

lemma path_roundtrip: "percent_decode False (path_escape s) = Some s"
  "percent_decode False (escape_path s) = Some s"
  by (auto simp: path_escape_eq escape_path_eq intro!: decode_kept)

lemma path_escape_no_slash: "CHR ''/'' \<notin> set (path_escape s)"
  using kept_set [of "CHR ''/''" "\<lambda>c. unreserved c \<or> c \<in> set ''$&+=:@''" s]
  unfolding path_escape_eq by auto

lemma escape_path_append: "escape_path (s @ t) = escape_path s @ escape_path t"
  by (simp add: escape_path_eq)

subsection \<open>Queries\<close>

lemma query_escape_cons:
  "query_escape (c # s) =
     (if unreserved c then [c] else if c = CHR '' '' then ''+'' else percent_byte c) @ query_escape s"
  by (simp add: query_escape_def)

lemma query_escape_roundtrip: "percent_decode True (query_escape s) = Some s"
proof (induction s)
  case Nil
  then show ?case by (simp add: query_escape_def)
next
  case (Cons c s)
  then show ?case using unreserved_not [of c]
    by (auto simp: query_escape_cons decode_percent_byte)
qed

lemma query_escape_plain: "c \<in> set (query_escape s) \<Longrightarrow> unreserved c \<or> c = CHR ''%'' \<or> c = CHR ''+''"
proof (induction s)
  case (Cons d s)
  then have "c \<in> set (if unreserved d then [d] else if d = CHR '' '' then ''+'' else percent_byte d) \<or>
      c \<in> set (query_escape s)"
    by (simp add: query_escape_cons)
  then show ?case using Cons.IH percent_byte_chars [of c d] by (auto split: if_splits)
qed (simp add: query_escape_def)

lemma query_escape_special: "CHR ''&'' \<notin> set (query_escape s)" "CHR ''='' \<notin> set (query_escape s)"
  "CHR '';'' \<notin> set (query_escape s)"
  using query_escape_plain unreserved_not by blast+

subsection \<open>Splitting and cutting\<close>

lemma split_acc_rev: "sep \<notin> set s \<Longrightarrow> split_acc sep w s = [rev w @ s]"
  by (induction s arbitrary: w) auto

lemma split_acc_sep: "sep \<notin> set s \<Longrightarrow> split_acc sep w (s @ sep # t) = (rev w @ s) # split_acc sep [] t"
  by (induction s arbitrary: w) auto

lemma split_on_one: "sep \<notin> set s \<Longrightarrow> split_on sep s = [s]"
  by (simp add: split_on_def split_acc_rev)

lemma split_on_sep: "sep \<notin> set s \<Longrightarrow> split_on sep (s @ sep # t) = s # split_on sep t"
  by (simp add: split_on_def split_acc_sep)

lemma split_on_join: "xs \<noteq> [] \<Longrightarrow> \<forall>x \<in> set xs. sep \<notin> set x \<Longrightarrow> split_on sep (join [sep] xs) = xs"
  by (induction "[sep]" xs rule: join.induct) (auto simp: split_on_one split_on_sep)

lemma index_of_char: "c \<notin> set a \<Longrightarrow> index_of (a @ c # b) [c] = Some (length a)"
  by (induction a) (auto simp: has_prefix_def)

lemma cut_char: "c \<notin> set a \<Longrightarrow> cut (a @ c # b) [c] = (a, b, True)"
  by (simp add: cut_def index_of_char)

lemma parse_pair_encoded: "parse_pair (query_escape k @ ''='' @ query_escape v) = Some (k, v)"
  using query_escape_special [of k] query_escape_special [of v]
  by (simp add: parse_pair_def cut_char query_escape_roundtrip)

lemma map_filter_some: "(\<And>x. f (g x) = Some x) \<Longrightarrow> List.map_filter f (map g xs) = xs"
  by (induction xs) (auto simp: List.map_filter_def)

lemma query_string_roundtrip: "parse_query (values_encode q) = sort_key fst q"
proof (cases "sort_key fst q = []")
  case True
  then show ?thesis
    by (simp add: values_encode_def parse_query_def split_on_def parse_pair_def List.map_filter_def)
next
  case False
  let ?part = "\<lambda>(k, v). query_escape k @ ''='' @ query_escape v"
  have free: "\<forall>x \<in> set (map ?part (sort_key fst q)). CHR ''&'' \<notin> set x"
    using query_escape_special by (auto split: prod.splits)
  have "parse_query (values_encode q) = List.map_filter parse_pair (map ?part (sort_key fst q))"
    unfolding values_encode_def parse_query_def by (subst split_on_join [OF _ free]) (use False in simp_all)
  also have "\<dots> = sort_key fst q"
    using parse_pair_encoded by (intro map_filter_some) (auto split: prod.split)
  finally show ?thesis .
qed

text \<open>Sorting by key keeps the values of each key in order.\<close>

lemma query_all_sorted: "query_all (sort_key fst q) k = query_all q k"
  using sort_key_stable [of fst k q] by (simp add: query_all_def eq_commute)

subsection \<open>Decimal numbers\<close>

lemma parse_uint64_show: "parse_uint64 (show_nat n) = min n (2 ^ 64 - 1)"
  using show_nat_digits [of n] by (simp add: parse_uint64_def digits_val_show_nat)

lemma digit_not_sign: "is_digit c \<Longrightarrow> c \<noteq> CHR ''-'' \<and> c \<noteq> CHR ''+''"
  by (auto simp: is_digit_def byte_def)

lemma int_digits_show: "int_digits (show_int i) = Some (i < 0, show_nat (nat \<bar>i\<bar>))"
proof -
  have d: "list_all is_digit (show_nat n)" "show_nat n \<noteq> []" for n using show_nat_digits [of n] by simp_all
  obtain c t where c: "show_nat (nat i) = c # t" "is_digit c"
    using d [of "nat i"] by (cases "show_nat (nat i)") auto
  show ?thesis
  proof (cases "i < 0")
    case True
    then show ?thesis using d by (simp add: int_digits_def show_int_def)
  next
    case False
    then show ?thesis using d [of "nat i"] c digit_not_sign [OF c(2)]
      by (simp add: int_digits_def show_int_def)
  qed
qed

lemma signed_show: "signed_val (i < 0) (show_nat (nat \<bar>i\<bar>)) = i"
  by (simp add: signed_val_def digits_val_show_nat)

lemma atoi_show: "atoi (show_int i) = (if - (2 ^ 63) \<le> i \<and> i < 2 ^ 63 then Some i else None)"
  by (simp add: atoi_def int_digits_show signed_show)

lemma clamped_show: "- (2 ^ 63) \<le> i \<Longrightarrow> i < 2 ^ 63 \<Longrightarrow> clamped_int (show_int i) = i"
  by (simp add: clamped_int_def int_digits_show signed_show)

end
