(* ===== verification/GoMilliseconds.thy ===== *)
theory GoMilliseconds
  imports GoHttp
begin

text \<open>
  Two durations on their way through floating-point milliseconds, computed: 4.1 ms, which is
  not a \<open>float64\<close> and loses a nanosecond, and 4 ms.
\<close>

abbreviation near_41 :: rat where "near_41 \<equiv> 2308094809027379 / 562949953421312"

lemma quotient_coprime:
  assumes "gcd a b = 1" "0 < b"
  shows "quotient_of (of_int a / of_int b) = (a, b)"
proof -
  have "quotient_of (Fract a b) = (a, b)" using assms by (simp add: quotient_of_Fract Rat.normalize_def)
  then show ?thesis by (simp add: Fract_of_int_quotient)
qed

lemma bit_lens: "bit_len 1 = 1" "bit_len 4 = 3" "bit_len 10 = 4" "bit_len 41 = 6" "bit_len 1000000 = 20"
  "bit_len 4000000 = 22" "bit_len 4100000 = 22" "bit_len 8796093022208 = 44" "bit_len 36063981391052796875 = 65"
  by (simp_all add: bit_len.simps)

lemmas float_simps = float64_def float64_pos_def round_half_even_def Let_def bit_lens

lemma float_small: "float64 4 = 4" "float64 1000000 = 1000000" "float64 4000000 = 4000000" "float64 4100000 = 4100000"
  by (simp_all add: float_simps)

lemma float_41: "float64 (41 / 10) = near_41"
proof -
  have "gcd (41::int) 10 = 1" by code_simp
  then have "quotient_of (41 / 10) = (41, 10)" using quotient_coprime [of 41 10] by simp
  then show ?thesis by (simp add: float_simps)
qed

lemma ms_quotient:
  "fdiv (float_of_int 4100000) (float_of_int 1000000) = near_41"
  "fdiv (float_of_int 4000000) (float_of_int 1000000) = 4"
  using float_41 by (simp_all add: fdiv_def float_of_int_def float_small)

lemma ms_product: "fmul near_41 1000000 = 8804682956799999 / 2147483648" "fmul 4 1000000 = 4000000"
proof -
  have "coprime (36063981391052796875::int) (2 ^ 43)" by (simp only: coprime_power_right_iff) simp
  then have "gcd (36063981391052796875::int) 8796093022208 = 1" by (simp add: coprime_iff_gcd_eq_1)
  then have "quotient_of (36063981391052796875 / 8796093022208) = (36063981391052796875, 8796093022208)"
    using quotient_coprime [of 36063981391052796875 8796093022208] by simp
  then show "fmul near_41 1000000 = 8804682956799999 / 2147483648"
    by (simp add: fmul_def float_simps)
  show "fmul 4 1000000 = 4000000" by (simp add: fmul_def float_small)
qed

text \<open>Printed with the fewest decimals, and read back.\<close>

lemma ms_read: "parse_float ''4.1'' = Some near_41" "parse_float ''4'' = Some 4"
proof -
  have digits: "list_all is_digit ''4''" "list_all is_digit ''1''" "\<not> is_digit (CHR ''.'')"
    "digits_val ''41'' = 41" "digits_val ''4'' = 4"
    by (simp_all add: is_digit_def byte_def digits_val_def digit_val_def)
  then show "parse_float ''4.1'' = Some near_41" "parse_float ''4'' = Some 4"
    using float_41 by (simp_all add: parse_float_def parse_exponent_def pow10_def float_small)
qed

lemma quotient_41: "quotient_of near_41 = (2308094809027379, 562949953421312)"
proof -
  have "coprime (2308094809027379::int) (2 ^ 49)" by (simp only: coprime_power_right_iff) simp
  then have "gcd (2308094809027379::int) 562949953421312 = 1" by (simp add: coprime_iff_gcd_eq_1)
  then show ?thesis using quotient_coprime [of 2308094809027379 562949953421312] by simp
qed

lemma ms_printed: "format_shortest near_41 = ''4.1''" "format_shortest 4 = ''4''"
proof -
  have chars: "char_of (52::nat) = CHR ''4''" "char_of (49::nat) = CHR ''1''" by code_simp+
  have fixed: "format_fixed 0 near_41 = ''4''" "format_fixed 1 near_41 = ''4.1''" "format_fixed 0 4 = ''4''"
    by (simp_all add: format_fixed_def quotient_41 round_half_even_def Let_def show_nat.simps pad_nat_def chars)
  have "shortest_from 1074 0 near_41 = shortest_from 1073 1 near_41"
    by (subst shortest_from.simps) (simp add: fixed(1) ms_read)
  also have "\<dots> = ''4.1''"
    by (subst shortest_from.simps) (simp add: fixed(2) [unfolded One_nat_def] ms_read)
  finally show "format_shortest near_41 = ''4.1''" by (simp add: format_shortest_def)
  show "format_shortest 4 = ''4''"
    unfolding format_shortest_def by (subst shortest_from.simps) (simp add: fixed(3) ms_read)
qed

end
