(* ===== verification/ClientProps.thy ===== *)
theory ClientProps
  imports ClientServer GoHttpFacts GoMilliseconds HttpProps
begin

text \<open>
  What reaches the server of what the client was asked: the filters of a listing arrive as
  they were meant, up to the rounding of durations and the bounds of the server.
\<close>

subsection \<open>Filters\<close>

lemma query_all_set_unless: "query_all (set_unless b k v) k' = (if k = k' \<and> \<not> b then [v] else [])"
  by (simp add: query_all_def set_unless_def)

lemma query_all_append: "query_all (p @ q) k = query_all p k @ query_all q k"
  by (simp add: query_all_def)

lemma query_all_tags: "query_all (map (Pair t) vs) k = (if k = t then vs else [])"
  by (induction vs) (auto simp: query_all_def)

lemma query_all_last: "query_all [(k, v)] k' = (if k = k' then [v] else [])"
  by (simp add: query_all_def)

lemmas query_parts = query_all_set_unless query_all_append query_all_tags query_all_last

lemma arrived_all: "query_all (parse_query (values_encode q)) k = query_all q k"
  by (simp add: query_string_roundtrip query_all_sorted)

lemma arrived_get: "query_get (parse_query (values_encode q)) k = query_get q k"
  by (simp add: query_get_def arrived_all)

lemma status_arrives: "parseStatusFilter (show_int st) = (if 100 \<le> st \<and> st \<le> 599 then st else 0)"
  by (auto simp: parseStatusFilter_def atoi_show)

lemma empty_numbers: "parse_uint64 [] = 0" "parseStatusFilter [] = 0" "duration_filter [] = 0"
  by (simp_all add: parse_uint64_def parseStatusFilter_def atoi_def int_digits_def duration_filter_def
      parse_float_def fmul_def float64_def to_int64_def)

definition duration_arrives :: "duration \<Rightarrow> int" where
  "duration_arrives d = (if d \<le> 0 then 0 else duration_filter (duration_param d))"

lemma limit_arrives: "page_limit q = list_limit_param n" if "query_get q ''limit'' = show_int (list_limit_param n)"
proof -
  have r: "1 \<le> list_limit_param n" "list_limit_param n \<le> 1000" by (auto simp: list_limit_param_def Let_def)
  then have "clamped_int (show_int (list_limit_param n)) = list_limit_param n" by (simp add: clamped_show)
  then show ?thesis using r unfolding page_limit_def that Let_def by simp
qed

text \<open>The values the client puts under each key.\<close>

lemma list_query_values:
  "query_all (list_query opts) ''kind'' = (if opKind opts \<noteq> [] then [opKind opts] else [])"
  "query_all (list_query opts) ''request_id'' = (if opRequestID opts \<noteq> [] then [opRequestID opts] else [])"
  "query_all (list_query opts) ''scope_id'' = (if opScopeID opts \<noteq> [] then [opScopeID opts] else [])"
  "query_all (list_query opts) ''tag'' = filter (\<lambda>tag. trim_space tag \<noteq> []) (opTags opts)"
  "query_all (list_query opts) ''q'' = (if trim_space (opQuery opts) \<noteq> [] then [trim_space (opQuery opts)] else [])"
  "query_all (list_query opts) ''method'' = (if trim_space (opMethod opts) \<noteq> [] then [trim_space (opMethod opts)] else [])"
  "query_all (list_query opts) ''path_contains'' =
     (if trim_space (opPathContains opts) \<noteq> [] then [trim_space (opPathContains opts)] else [])"
  "query_all (list_query opts) ''status'' = (if opStatus opts \<noteq> 0 then [show_int (opStatus opts)] else [])"
  "query_all (list_query opts) ''min_duration_ms'' =
     (if \<not> opMinDuration opts \<le> 0 then [duration_param (opMinDuration opts)] else [])"
  "query_all (list_query opts) ''max_duration_ms'' =
     (if \<not> opMaxDuration opts \<le> 0 then [duration_param (opMaxDuration opts)] else [])"
  "query_all (list_query opts) ''after'' = (if opAfter opts \<noteq> 0 then [show_nat (opAfter opts)] else [])"
  "query_all (list_query opts) ''before'' = (if opBefore opts \<noteq> 0 then [show_nat (opBefore opts)] else [])"
  "query_all (list_query opts) ''limit'' = [show_int (list_limit_param (opLimit opts))]"
  by (simp_all add: list_query_def query_parts)

lemma query_get_if: "query_all q k = (if b then [v] else []) \<Longrightarrow> query_get q k = (if b then v else [])"
  by (simp add: query_get_def)

text \<open>What the server reads from a value that was left out for being empty.\<close>

lemma text_default: "(if t \<noteq> [] then t else []) = t"
  by simp

lemma status_default: "parseStatusFilter (if st \<noteq> 0 then show_int st else []) =
    (if 100 \<le> st \<and> st \<le> 599 then st else 0)"
  by (cases "st = 0") (simp_all add: empty_numbers status_arrives)

lemma duration_default: "duration_filter (if \<not> d \<le> 0 then duration_param d else []) = duration_arrives d"
  by (cases "d \<le> 0") (simp_all add: empty_numbers duration_arrives_def)

lemma cursor_default: "parse_uint64 (if c \<noteq> 0 then show_nat c else []) = min c (2 ^ 64 - 1)"
  by (cases "c = 0") (simp_all add: empty_numbers parse_uint64_show)

lemmas list_query_get = list_query_values(1-3,5-12) [THEN query_get_if]

text \<open>A bound of 4.1 ms.\<close>

lemma ms_arrives: "duration_arrives 4100000 = 4099999" "duration_arrives 4000000 = 4000000"
  by (simp_all add: duration_arrives_def duration_filter_def duration_param_def ms_quotient ms_printed ms_read
      ms_product to_int64_def floor_eq_iff)


subsection \<open>Looking up an entry by its id\<close>

definition slashed :: "string list \<Rightarrow> string" where
  "slashed ss = concat (map (\<lambda>s. CHR ''/'' # s) ss)"

definition plain_segment :: "string \<Rightarrow> bool" where
  "plain_segment s \<longleftrightarrow> s \<noteq> [] \<and> s \<noteq> ''.'' \<and> s \<noteq> ''..'' \<and> CHR ''/'' \<notin> set s"

lemma join_Cons: "join sep ((c # s) # ss) = c # join sep (s # ss)"
  by (cases ss) auto

lemma slashed_join: "slashed (s # ss) = CHR ''/'' # join ''/'' (s # ss)"
  by (induction ss arbitrary: s) (auto simp: slashed_def join_Cons)

lemma split_slashed: "list_all plain_segment ss \<Longrightarrow> ss \<noteq> [] \<Longrightarrow> split_on (CHR ''/'') (slashed ss) = [] # ss"
proof -
  assume ok: "list_all plain_segment ss" and ne: "ss \<noteq> []"
  then obtain s ts where ss: "ss = s # ts" by (cases ss) auto
  have "split_on (CHR ''/'') ([] @ CHR ''/'' # join ''/'' ss) = [] # split_on (CHR ''/'') (join ''/'' ss)"
    by (rule split_on_sep) simp
  moreover have "split_on (CHR ''/'') (join ''/'' ss) = ss"
    by (rule split_on_join [OF ne]) (use ok in \<open>auto simp: list_all_iff plain_segment_def\<close>)
  ultimately show ?thesis by (simp add: slashed_join ss)
qed

lemma clean_plain: "list_all plain_segment ss \<Longrightarrow> clean_segments acc ss = acc @ ss"
  by (induction ss arbitrary: acc) (auto simp: plain_segment_def)

lemma slashed_last: "list_all plain_segment ss \<Longrightarrow> ss \<noteq> [] \<Longrightarrow> slashed ss \<noteq> [] \<and> last (slashed ss) \<noteq> CHR ''/''"
proof (induction ss rule: rev_induct)
  case (snoc s ss)
  then show ?case by (auto simp: slashed_def plain_segment_def) (metis last_in_set)
qed simp

lemma clean_path_slashed: "list_all plain_segment ss \<Longrightarrow> ss \<noteq> [] \<Longrightarrow> clean_path (slashed ss) = slashed ss"
  using slashed_last [of ss] clean_plain [of ss "[]"]
  by (simp add: clean_path_def split_slashed Let_def) (simp add: slashed_def)

lemma segments_slashed:
  assumes "list_all plain_segment ss" "ss \<noteq> []"
  shows "path_segments (slashed ss) = map (\<lambda>s. case percent_decode False s of None \<Rightarrow> s | Some t \<Rightarrow> t) ss"
proof -
  obtain s ts where ss: "ss = s # ts" using assms(2) by (cases ss) auto
  have "split_on (CHR ''/'') (join ''/'' ss) = ss"
    by (rule split_on_join [OF assms(2)]) (use assms(1) in \<open>auto simp: list_all_iff plain_segment_def\<close>)
  then show ?thesis by (simp add: path_segments_def slashed_join ss)
qed

text \<open>The doubly escaped id is a single plain segment.\<close>

definition escaped_twice :: "string \<Rightarrow> string" where
  "escaped_twice i = escape_path (path_escape i)"

lemma keep_or_escape_id: "\<forall>c \<in> set s. keep c \<Longrightarrow> keep_or_escape keep s = s"
  by (induction s) auto

lemma keep_or_escape_length: "length s \<le> length (keep_or_escape keep s)"
  by (induction s) (auto simp: percent_byte_def)

lemma kept_fixpoint: "keep_or_escape keep s = s \<Longrightarrow> \<forall>c \<in> set s. keep c"
proof (induction s)
  case (Cons c s)
  have "keep c"
  proof (rule ccontr)
    assume "\<not> keep c"
    then have "length (percent_byte c @ keep_or_escape keep s) = length (c # s)" using Cons.prems by simp
    then show False using keep_or_escape_length [of s keep] by (simp add: percent_byte_def)
  qed
  then show ?case using Cons by simp
qed simp

lemma keep_or_escape_dots:
  assumes "keep (CHR ''.'')" "keep_or_escape keep s \<in> {[], ''.'', ''..''}"
  shows "s \<in> {[], ''.'', ''..''}"
proof -
  have "percent_byte c \<noteq> [] \<and> hd (percent_byte c) = CHR ''%''" for c by (simp add: percent_byte_def)
  with assms show ?thesis
    by (cases s; cases "tl s"; cases "tl (tl s)") (auto simp: percent_byte_def split: if_splits)
qed

lemma dot_unreserved [simp]: "unreserved (CHR ''.'')"
  by (simp add: unreserved_def)

lemma escaped_twice_plain:
  assumes "i \<notin> {[], ''.'', ''..''}"
  shows "plain_segment (escaped_twice i)"
proof -
  have "path_escape i \<notin> {[], ''.'', ''..''}"
    using assms keep_or_escape_dots [of "\<lambda>c. unreserved c \<or> c \<in> set ''$&+=:@''" i] by (auto simp: path_escape_eq)
  then have "escaped_twice i \<notin> {[], ''.'', ''..''}"
    using keep_or_escape_dots [of "\<lambda>c. unreserved c \<or> c \<in> set ''$&+,/:;=@''" "path_escape i"]
    by (auto simp: escaped_twice_def escape_path_eq)
  moreover have "CHR ''/'' \<notin> set (escaped_twice i)"
  proof -
    have "CHR ''/'' \<notin> set (keep_or_escape keep s)" if "CHR ''/'' \<notin> set s" for keep s
      using that
    proof (induction s)
      case (Cons c s)
      then show ?case using percent_byte_chars [of "CHR ''/''" c] by (cases "keep c") auto
    qed simp
    then show ?thesis using path_escape_no_slash by (simp add: escaped_twice_def escape_path_eq)
  qed
  ultimately show ?thesis by (simp add: plain_segment_def)
qed

lemma escape_path_slashed: "escape_path (slashed ss) = slashed (map escape_path ss)"
  by (induction ss) (simp_all add: slashed_def escape_path_eq)

lemma escape_path_literals: "escape_path ''api'' = ''api''" "escape_path ''events'' = ''events''"
  by (simp_all add: escape_path_eq unreserved_def is_alpha_def byte_def)

lemma event_path: "''/api/events/'' @ t = slashed [''api'', ''events'', t]"
  by (simp add: slashed_def)

lemma route_of_event:
  assumes "plain_segment (escape_path t)"
  shows "clean_path (escape_path (''/api/events/'' @ t)) = escape_path (''/api/events/'' @ t)"
    "mux_route ''GET'' (escape_path (''/api/events/'' @ t)) = Some (EventRoute, t)"
proof -
  have path: "escape_path (''/api/events/'' @ t) = slashed [''api'', ''events'', escape_path t]"
    unfolding event_path escape_path_slashed by (simp add: escape_path_literals)
  have ok: "list_all plain_segment [''api'', ''events'', escape_path t]"
    using assms by (simp add: plain_segment_def)
  show "clean_path (escape_path (''/api/events/'' @ t)) = escape_path (''/api/events/'' @ t)"
    unfolding path by (rule clean_path_slashed [OF ok]) simp
  have segs: "path_segments (slashed [''api'', ''events'', escape_path t]) = [''api'', ''events'', t]"
    by (simp add: segments_slashed [OF ok] path_roundtrip)
  have "t \<noteq> []" using assms by (auto simp: plain_segment_def escape_path_eq)
  then show "mux_route ''GET'' (escape_path (''/api/events/'' @ t)) = Some (EventRoute, t)"
    unfolding path mux_route_def segs by (simp add: route_method_def routeTable_def)
qed

lemma authorize_granted: "authorized p r \<Longrightarrow> authorize h r p = h p"
  by (auto simp: authorized_def authorize_def split: if_splits option.splits)

lemma serve_event:
  assumes seg: "plain_segment (escape_path t)" and auth: "authorized p (aqHTTP r)"
    and r: "hqMethod (aqHTTP r) = ''GET''" "hqPath (aqHTTP r) = cBasePath (dsConfig p) @ ''/api/events/'' @ t"
      "aqRawPath r = []"
  shows "serve env r p = Some (map_prod id (map_option securityHeaders) (on_store (getEvent (evClock env 0) t) p))"
proof -
  let ?base = "cBasePath (dsConfig p)"
  let ?r = "if ?base = [] then r else r\<lparr>aqHTTP := (aqHTTP r)\<lparr>hqPath := ''/api/events/'' @ t\<rparr>, aqRawPath := []\<rparr>"
  have strip: "strip_prefix ?base r = Some ?r"
    by (simp add: strip_prefix_def r has_prefix_def trim_prefix_def)
  have path: "hqPath (aqHTTP ?r) = ''/api/events/'' @ t" "aqRawPath ?r = []" "hqMethod (aqHTTP ?r) = ''GET''"
    by (simp_all add: r)
  have auth': "authorized p (aqHTTP ?r)" using auth by (simp add: authorized_def)
  have escaped: "escaped_path (hqPath (aqHTTP ?r)) (aqRawPath ?r) = escape_path (''/api/events/'' @ t)"
    unfolding path by (simp add: escaped_path_def)
  have dispatch: "dispatch env EventRoute t ?r p = on_store (getEvent (evClock env 0) t) p"
    by (simp add: dispatch_def authorize_granted [OF auth'] api_handler_def Let_def)
  have "handler env ?r p = map_prod id (map_option securityHeaders) (on_store (getEvent (evClock env 0) t) p)"
    unfolding handler_def escaped path(3) Let_def route_of_event [OF seg]
    by (simp add: route_of_event [OF seg] dispatch case_prod_beta map_prod_def)
  then show ?thesis
    by (simp only: serve_def Let_def r(2) strip) (simp add: has_prefix_def)
qed

lemma getEvent_answer:
  "getEvent now i s = (fst (purged now s), issued (snd (purged now s)),
     case map_get (sEntries (fst (purged now s))) i of
       None \<Rightarrow> writeError 404 ''event not found'' | Some e \<Rightarrow> writeJSON 200 (EntryBody e))"
  by (auto simp: getEvent_def Store.get_def split: prod.split option.split)

lemma transported_event:
  assumes seg: "plain_segment (escape_path t)" and auth: "cToken (dsConfig (wdServer w)) \<noteq> []"
  shows "\<exists>w'. server_transport envs len addr
      \<lparr>cqMethod = ''GET'', cqPath = escape_path (cBasePath (dsConfig (wdServer w)) @ ''/api/events/'' @ t),
       cqRawQuery = q, cqBody = b, cqCookie = Some (dsSession (wdServer w))\<rparr> w =
    (w', Inr (wire_response len (securityHeaders
       (snd (snd (getEvent (evClock (envs (wdCount w)) 0) t (dsStore (wdServer w))))))))"
proof -
  let ?p = "wdServer w"
  let ?r = "\<lparr>cqMethod = ''GET'', cqPath = escape_path (cBasePath (dsConfig ?p) @ ''/api/events/'' @ t),
     cqRawQuery = q, cqBody = b, cqCookie = Some (dsSession ?p)\<rparr>"
  let ?a = "wire_request ?r (cBasePath (dsConfig ?p) @ ''/api/events/'' @ t) addr"
  have "serve (envs (wdCount w)) ?a ?p = Some (map_prod id (map_option securityHeaders)
      (on_store (getEvent (evClock (envs (wdCount w)) 0) t) ?p))"
    by (rule serve_event [OF seg]) (simp_all add: authorized_def auth wire_request_def)
  then show ?thesis
    by (simp add: server_transport_def path_roundtrip on_store_def case_prod_beta)
qed

text \<open>A path without dot segments resolves to itself.\<close>

definition dotless :: "string \<Rightarrow> bool" where
  "dotless s \<longleftrightarrow> list_all (\<lambda>e. e \<noteq> ''.'' \<and> e \<noteq> ''..'') (split_on (CHR ''/'') s)"

lemma resolve_dotless:
  "list_all (\<lambda>e. e \<noteq> ''.'' \<and> e \<noteq> ''..'') es \<Longrightarrow> resolve_segments es dst False = dst @ slashed es"
  by (induction es arbitrary: dst) (simp_all add: slashed_def)

lemma join_slashed: "es \<noteq> [] \<Longrightarrow> CHR ''/'' # join ''/'' es = slashed es"
  by (induction "''/''" es rule: join.induct) (simp_all add: slashed_def)

lemma split_acc_ne [simp]: "split_acc c w s \<noteq> []"
  by (induction s arbitrary: w) auto

lemma split_acc_append: "split_acc c w (s @ c # t) = split_acc c w s @ split_acc c [] t"
  by (induction s arbitrary: w) auto

lemma split_acc_skip: "c \<notin> set s \<Longrightarrow> split_acc c w (s @ t) = split_acc c (rev s @ w) t"
  by (induction s arbitrary: w) auto

lemma join_split_acc: "join [c] (split_acc c w s) = rev w @ s"
proof (induction s arbitrary: w)
  case (Cons d s)
  show ?case
  proof (cases "d = c")
    case True
    obtain x xs where x: "split_acc c [] s = x # xs" by (cases "split_acc c [] s") simp_all
    then show ?thesis using Cons.IH [of "[]"] True by simp
  qed (simp add: Cons.IH)
qed simp

lemma dotless_append: "dotless (s @ ''/'' @ t) \<longleftrightarrow> dotless s \<and> dotless t"
  by (simp add: dotless_def split_on_def split_acc_append)

lemma split_escape: "split_acc (CHR ''/'') (rev (escape_path (rev w))) (escape_path s) =
    map escape_path (split_acc (CHR ''/'') w s)"
proof (induction s arbitrary: w)
  case (Cons ch s)
  have "CHR ''/'' \<notin> set (percent_byte ch)" using percent_byte_chars [of "CHR ''/''" ch] by auto
  then show ?case
    using Cons.IH [of "[]"] Cons.IH [of "ch # w"] by (auto simp: escape_path_def split_acc_skip)
qed (simp add: escape_path_def)

lemma dotless_escape: "dotless s \<Longrightarrow> dotless (escape_path s)"
proof -
  have "split_on (CHR ''/'') (escape_path s) = map escape_path (split_on (CHR ''/'') s)"
    using split_escape [of "[]" s] by (simp add: split_on_def escape_path_def)
  moreover have "escape_path e \<noteq> ''.'' \<and> escape_path e \<noteq> ''..''" if "e \<noteq> ''.''" "e \<noteq> ''..''" for e
    using that keep_or_escape_dots [of "\<lambda>c. unreserved c \<or> c \<in> set ''$&+,/:;=@''" e]
    by (cases e) (auto simp: escape_path_eq)
  ultimately show "dotless s \<Longrightarrow> dotless (escape_path s)" by (auto simp: dotless_def list_all_iff)
qed

lemma resolve_path_dotless:
  assumes "dotless (b @ ''/'' @ ref)" "hd (b @ ''/'') = CHR ''/''" "ref \<noteq> []" "hd ref \<noteq> CHR ''/''"
  shows "resolve_path (b @ ''/'') ref = b @ ''/'' @ ref"
proof -
  define full where "full = b @ ''/'' @ ref"
  obtain t where t: "full = CHR ''/'' # t" using assms(2) by (cases b) (auto simp: full_def)
  define es where "es = split_on (CHR ''/'') t"
  have elems: "split_on (CHR ''/'') full = [] # es" by (simp add: t split_on_def es_def)
  have ok: "list_all (\<lambda>e. e \<noteq> ''.'' \<and> e \<noteq> ''..'') es"
    using assms(1) unfolding dotless_def full_def [symmetric] elems by simp
  have ne: "es \<noteq> []" by (simp add: es_def split_on_def)
  have last: "last ([] # es) \<notin> {''.'', ''..''}" using ok ne by (auto simp: list_all_iff)
  have "CHR ''/'' # join ''/'' es = slashed es" by (rule join_slashed [OF ne])
  moreover have "join ''/'' es = t" by (simp add: es_def split_on_def join_split_acc)
  ultimately have walk: "resolve_segments ([] # es) [] True = full" by (simp add: resolve_dotless [OF ok] t)
  have merged: "(if ref = [] then b @ ''/'' else if hd ref = CHR ''/'' then ref
      else rev (dropWhile (\<lambda>ch. ch \<noteq> CHR ''/'') (rev (b @ ''/''))) @ ref) = full"
    using assms(3,4) by (simp add: full_def)
  have no_dots: "(if last ([] # es) \<in> {''.'', ''..''} then ''/'' else []) = []" using last by simp
  have "resolve_path (b @ ''/'') ref = full"
    unfolding resolve_path_def Let_def merged elems walk no_dots by (simp add: t)
  then show ?thesis by (simp only: full_def)
qed

lemma endpoint_resolved:
  assumes b: "hd b = CHR ''/''" "b \<noteq> []" "dotless b" and t: "plain_segment (escape_path t)"
  shows "resolve_path (escape_path (b @ ''/'')) (escape_path (''api/events/'' @ t)) = escape_path (b @ ''/api/events/'' @ t)"
proof -
  have app: "escape_path (u @ v) = escape_path u @ escape_path v" for u v by (simp add: escape_path_def)
  have lits: "escape_path ''/'' = ''/''" "escape_path ''api/events/'' = ''api/events/''"
    "escape_path ''/api/events/'' = ''/api/events/''" by (simp_all add: escape_path_eq unreserved_def is_alpha_def byte_def)
  have ref: "escape_path (''api/events/'' @ t) = ''api/events/'' @ escape_path t" by (simp only: app lits)
  have "hd (escape_path b @ ''/'') = CHR ''/''" using b(1,2) by (cases b) (simp_all add: escape_path_def)
  moreover have "dotless (escape_path b @ ''/'' @ ''api/events/'' @ escape_path t)"
  proof -
    have "dotless (escape_path t)"
      using t by (simp add: dotless_def plain_segment_def split_on_one)
    moreover have "dotless ''api''" "dotless ''events''" by (simp_all add: dotless_def split_on_one)
    ultimately have "dotless (''api'' @ ''/'' @ ''events'' @ ''/'' @ escape_path t)" by (simp only: dotless_append)
    then show ?thesis using dotless_escape [OF b(3)] dotless_append [of "escape_path b" "''api/events/'' @ escape_path t"]
      by simp
  qed
  ultimately have "resolve_path (escape_path b @ ''/'') (''api/events/'' @ escape_path t) =
      escape_path b @ ''/'' @ ''api/events/'' @ escape_path t"
    by (intro resolve_path_dotless) simp_all
  then show ?thesis unfolding ref by (simp only: app lits) simp
qed

text \<open>
  \<open>Event\<close> asks the server for the escaped form of the id, once more escaped on the wire:
  logged in, it gets exactly what the store holds under \<open>PathEscape(id)\<close>.  That is the entry
  asked for if the id consists of letters, digits and \<open>-_.~$&+=:@\<close>, as every generated id
  does; an entry recorded under another id is not found.  The base path is one without dot
  segments, which \<open>WithBasePath\<close> roots with a slash.
\<close>
theorem client_event_lookup:
  "let p = wdServer w; now = evClock (envs (wdCount w)) 0;
       c' = c\<lparr>ctBaseURL := (ctBaseURL c)\<lparr>puPath := cBasePath (dsConfig p) @ ''/''\<rparr>, ctJar := Some (dsSession p)\<rparr> in
   (if cToken (dsConfig p) \<noteq> [] \<and> trim_space i \<noteq> [] \<and> i \<noteq> ''.'' \<and> i \<noteq> ''..'' \<and>
       hd (cBasePath (dsConfig p)) = CHR ''/'' \<and> cBasePath (dsConfig p) \<noteq> [] \<and> dotless (cBasePath (dsConfig p)) then
      snd (snd (clientEvent (server_transport envs (\<lambda>b. 0) addr) i c' w)) =
      (case map_get (sEntries (fst (purged now (dsStore p)))) (path_escape i) of
         None \<Rightarrow> Inl (APIError 404 ''event not found'') | Some e \<Rightarrow> Inr e)
    else True) \<and>
   (path_escape i = i) = list_all (\<lambda>ch. unreserved ch \<or> ch \<in> set ''$&+=:@'') i \<and>
   path_escape ''job 7'' = ''job%207''"
proof -
  let ?p = "wdServer w" let ?t = "path_escape i" let ?now = "evClock (envs (wdCount w)) 0"
  define c' where "c' = c\<lparr>ctBaseURL := (ctBaseURL c)\<lparr>puPath := cBasePath (dsConfig ?p) @ ''/''\<rparr>,
    ctJar := Some (dsSession ?p)\<rparr>"
  have keep: "(path_escape i = i) = list_all (\<lambda>ch. unreserved ch \<or> ch \<in> set ''$&+=:@'') i"
  proof -
    let ?k = "\<lambda>ch. unreserved ch \<or> ch \<in> set ''$&+=:@''"
    show ?thesis using kept_fixpoint [of ?k i] keep_or_escape_id [of i ?k]
      unfolding path_escape_eq list_all_iff by blast
  qed
  have job: "path_escape ''job 7'' = ''job%207''" by code_simp
  have lookup: "snd (snd (clientEvent (server_transport envs (\<lambda>b. 0) addr) i c' w)) =
      (case map_get (sEntries (fst (purged ?now (dsStore ?p)))) ?t of
         None \<Rightarrow> Inl (APIError 404 ''event not found'') | Some e \<Rightarrow> Inr e)"
    if h: "cToken (dsConfig ?p) \<noteq> []" "trim_space i \<noteq> []" "i \<noteq> ''.''" "i \<noteq> ''..''"
      "hd (cBasePath (dsConfig ?p)) = CHR ''/''" "cBasePath (dsConfig ?p) \<noteq> []" "dotless (cBasePath (dsConfig ?p))"
  proof -
    have "i \<noteq> []" using h(2) by (auto simp: trim_space_def trim_by_def)
    then have seg: "plain_segment (escape_path ?t)"
      using escaped_twice_plain [of i] h by (simp add: escaped_twice_def)
    define wire where "wire = escape_path (cBasePath (dsConfig ?p) @ ''/api/events/'' @ ?t)"
    define ask where "ask = \<lparr>cqMethod = ''GET'', cqPath = wire, cqRawQuery = values_encode [],
      cqBody = NoLoginBody, cqCookie = Some (dsSession ?p)\<rparr>"
    define answer where "answer = wire_response (\<lambda>b. 0) (securityHeaders (snd (snd (getEvent ?now ?t (dsStore ?p)))))"
    obtain w' where sent: "server_transport envs (\<lambda>b. 0) addr ask w = (w', Inr answer)"
      using transported_event [OF seg h(1)] unfolding ask_def wire_def answer_def by blast
    have path: "endpoint_path c' (''api/events/'' @ ?t) = wire"
      by (simp add: endpoint_path_def c'_def wire_def) (use endpoint_resolved [OF h(5-7) seg] in simp)
    have request: "\<lparr>cqMethod = ''GET'', cqPath = wire, cqRawQuery = values_encode [], cqBody = NoLoginBody,
        cqCookie = None\<rparr>\<lparr>cqCookie := ctJar c'\<rparr> = ask"
      by (simp add: ask_def c'_def)
    have once: "do_once (server_transport envs (\<lambda>b. 0) addr) \<lparr>cqMethod = ''GET'', cqPath = wire,
        cqRawQuery = values_encode [], cqBody = NoLoginBody, cqCookie = None\<rparr> c' w = (w', keep_cookie answer c', Inr answer)"
      unfolding do_once_def request sent by simp
    have not_found: "trim_space ''event not found'' \<noteq> []" by code_simp
    have "rpStatus answer \<noteq> 401" by (simp add: answer_def wire_response_def getEvent_answer response_defs split: option.split)
    then have got: "getJSON (server_transport envs (\<lambda>b. 0) addr) (''api/events/'' @ ?t) [] c' w =
        (w', keep_cookie answer c', response_result answer)"
      unfolding getJSON_def doJSON_def path once by simp
    have result: "response_result answer = (case map_get (sEntries (fst (purged ?now (dsStore ?p)))) ?t of
        None \<Rightarrow> Inl (APIError 404 ''event not found'') | Some e \<Rightarrow> Inr (Some (EntryBody e)))"
      using not_found by (simp add: answer_def wire_response_def getEvent_answer response_defs response_result_def response_error_def
          maxResponseSize_def split: option.split)
    show ?thesis
      unfolding clientEvent_def got by (simp add: h(2) decoded_def result split: option.split)
  qed
  show ?thesis using lookup keep job by (auto simp: Let_def c'_def [symmetric])
qed

end
