(* ===== verification/PagingProps.thy ===== *)
theory PagingProps
  imports HttpProps
begin

text \<open>
  Reading the whole log in pages: a reader that asks for the newest page and then, while
  \<open>has_more\<close> is set, for the entries before the oldest one it holds.
\<close>

fun read_pages :: "nat \<Rightarrow> instant \<Rightarrow> eventFilters \<Rightarrow> int \<Rightarrow> 'x entryStore \<Rightarrow> Entry list option" where
  "read_pages 0 now f limit s = None"
| "read_pages (Suc n) now f limit s =
     (let (s, batches, page) = event_page now now f limit s
      in if epHasMore page then
           map_option (\<lambda>older. older @ epEvents page)
             (read_pages n now (f\<lparr>fBefore := eCursor (hd (epEvents page))\<rparr>) limit s)
         else Some (epEvents page))"

definition wanted :: "eventFilters \<Rightarrow> 'x entryStore \<Rightarrow> Entry list" where
  "wanted f s = filter (selected f (scopeIDs (fScopeID f) s)) (view s)"

subsection \<open>A purged store\<close>

lemma purged_fixed:
  assumes inv: "store_inv s" and clean: "live now s = view s"
  shows "fst (purged now s) = s"
proof -
  have "fst (purgeExpired now s) = s \<and> snd (purgeExpired now s) = []"
  proof (cases "view s")
    case Nil
    then show ?thesis by (simp add: purgeExpired.simps [of now s] order_len_view del: order_len_list)
  next
    case (Cons e v)
    have "\<not> expired now (sRetention s) e"
      using clean Cons dropWhile_eq_self_iff [of "expired now (sRetention s)" "view s"] by (simp add: live_def)
    then show ?thesis
      using front_view [OF inv Cons]
      by (simp add: purgeExpired.simps [of now s] order_len_view Cons expired_def del: order_len_list)
  qed
  then show ?thesis by (simp add: purged_def storageBatchLocked_def case_prod_beta)
qed

lemma purged_again:
  assumes "store_inv s"
  shows "fst (purged now (fst (purged now s))) = fst (purged now s)"
proof -
  obtain t where t: "fst (purged now s) = t" "store_inv t" "view t = live now s" "conf t = conf s"
    using purged_spec [OF assms, of now] by (metis fst_conv)
  have "sRetention t = sRetention s" using conf_bounds [OF t(4)] by simp
  then have "live now t = view t" using t(3) by (simp add: live_def)
  then show ?thesis using purged_fixed [OF t(2)] t(1) by simp
qed

subsection \<open>One page\<close>

lemma listed:
  "listBeforeFiltered now f limit s = (fst (purged now s), snd (purged now s),
     drop (length (wanted f (fst (purged now s))) - list_limit limit) (wanted f (fst (purged now s))),
     snd (list_scan (fst (purged now s)) f (scopeIDs (fScopeID f) (fst (purged now s))) (list_limit limit)
       (order_len (sOrder (fst (purged now s)))) [] 0))"
proof -
  let ?s = "fst (purged now s)" let ?n = "list_limit limit"
  let ?r = "list_scan ?s f (scopeIDs (fScopeID f) ?s) ?n (order_len (sOrder ?s)) [] 0"
  have "fst ?r = take ?n (filter (selected f (scopeIDs (fScopeID f) ?s)) (rev (view ?s)))"
    using list_scan_spec [OF order_refl, of ?s f "scopeIDs (fScopeID f) ?s" ?n "[]" 0] by (simp add: view_length)
  then have "rev (fst ?r) = drop (length (wanted f ?s) - ?n) (wanted f ?s)"
    by (simp add: wanted_def rev_filter [symmetric] rev_take)
  then show ?thesis
    by (simp add: listBeforeFiltered_def Let_def case_prod_beta)
qed

lemma event_page_spec:
  assumes "store_inv s" "1 \<le> limit" "limit \<le> 1000"
  shows "\<exists>batches page. event_page now now f limit s = (fst (purged now s), batches, page) \<and>
    epEvents page = drop (length (wanted f (fst (purged now s))) - nat limit) (wanted f (fst (purged now s))) \<and>
    epHasMore page = (nat limit < length (wanted f (fst (purged now s))))"
proof -
  let ?s = "fst (purged now s)" let ?w = "wanted f ?s"
  have n: "list_limit (limit + 1) = nat limit + 1" using assms by (simp add: list_limit_def nat_add_distrib)
  have st: "fst (stats now ?s) = ?s"
    using purged_again [OF assms(1), of now] by (simp add: stats_def case_prod_beta)
  have shorter: "length (drop (length ?w - (nat limit + 1)) ?w) > nat limit \<longleftrightarrow> nat limit < length ?w" by simp arith
  have newest: "tl (drop (length ?w - Suc (nat limit)) ?w) = drop (length ?w - nat limit) ?w"
    if "nat limit < length ?w"
  proof -
    have "tl (drop (length ?w - Suc (nat limit)) ?w) = drop (Suc (length ?w - Suc (nat limit))) ?w"
      by (simp add: tl_drop drop_Suc)
    then show ?thesis using that by (simp add: Suc_diff_Suc)
  qed
  show ?thesis
    using st assms(2) shorter newest
    by (auto simp: event_page_def listed n Let_def zless_nat_eq_int_zless case_prod_beta)
qed

subsection \<open>All pages\<close>

lemma page_limit_range: "1 \<le> page_limit q" "page_limit q \<le> 1000"
proof -
  have range: "1 \<le> (if v \<le> 0 \<or> v > 1000 then 200 else v)" "(if v \<le> 0 \<or> v > 1000 then 200 else v) \<le> 1000" for v :: int
    by auto
  show "1 \<le> page_limit q" "page_limit q \<le> 1000" unfolding page_limit_def Let_def by (rule range)+
qed

lemma selected_before:
  assumes "selected f scope e" "0 < eCursor e"
  shows "selected (f\<lparr>fBefore := eCursor e\<rparr>) scope = (\<lambda>x. selected f scope x \<and> eCursor x < eCursor e)"
proof (rule ext)
  fix x
  have "matchesEventFilters x (f\<lparr>fBefore := b\<rparr>) = matchesEventFilters x f" for b
    by (cases f) (simp only: matchesEventFilters_def eventFilters.simps)
  moreover have "0 < fBefore f \<Longrightarrow> eCursor e < fBefore f" using assms(1) by (simp add: selected_def eligible_def)
  ultimately show "selected (f\<lparr>fBefore := eCursor e\<rparr>) scope x =
      (selected f scope x \<and> eCursor x < eCursor e)"
    using assms(2) by (auto simp: selected_def eligible_def)
qed

lemma filter_below:
  assumes "sorted_wrt (<) (map eCursor w)" "k < length w"
  shows "filter (\<lambda>x. eCursor x < eCursor (w ! k)) w = take k w"
proof -
  let ?P = "\<lambda>x. eCursor x < eCursor (w ! k)"
  have w: "filter ?P w = filter ?P (take k w) @ filter ?P (drop k w)"
    by (simp add: filter_append [symmetric] del: filter_append)
  have "eCursor x < eCursor (w ! k)" if "x \<in> set (take k w)" for x
    using that assms by (auto simp: in_set_conv_nth sorted_wrt_iff_nth_less)
  moreover have "\<not> eCursor x < eCursor (w ! k)" if x: "x \<in> set (drop k w)" for x
  proof -
    obtain j where j: "j < length (drop k w)" "x = w ! (k + j)"
      using x by (metis in_set_conv_nth length_drop nth_drop less_imp_le_nat assms(2))
    then show ?thesis using assms(1)
      by (cases j) (auto simp: sorted_wrt_iff_nth_less less_diff_conv add.commute dest: less_imp_not_less)
  qed
  ultimately show ?thesis by (simp add: w)
qed

lemma read_pages_spec:
  assumes ok: "store_ok s" and fixed: "fst (purged now s) = s" and lim: "1 \<le> limit" "limit \<le> 1000"
  shows "length (wanted f s) < n \<Longrightarrow> read_pages n now f limit s = Some (wanted f s)"
proof (induction n arbitrary: f)
  case 0
  then show ?case by simp
next
  case (Suc n)
  let ?w = "wanted f s" let ?k = "length ?w - nat limit"
  obtain batches page where page: "event_page now now f limit s = (s, batches, page)"
    "epEvents page = drop ?k ?w" "epHasMore page = (nat limit < length ?w)"
    using event_page_spec [OF store_ok_inv [OF ok] lim, of now f] fixed by auto
  show ?case
  proof (cases "nat limit < length ?w")
    case False
    then show ?thesis by (simp add: page)
  next
    case True
    then have k: "?k < length ?w" using lim by simp
    define e where "e = ?w ! ?k"
    have e: "hd (drop ?k ?w) = e" using k by (simp add: hd_drop_conv_nth e_def)
    have "e \<in> set ?w" using k by (simp add: e_def)
    then have sel: "selected f (scopeIDs (fScopeID f) s) e" "0 < eCursor e"
      using ok by (auto simp: wanted_def store_ok_def cursors_ok_def list_all_iff)
    have "wanted (f\<lparr>fBefore := eCursor e\<rparr>) s = filter (\<lambda>x. eCursor x < eCursor e) ?w"
      by (simp add: wanted_def selected_before [OF sel])
    also have "sorted_wrt (<) (map eCursor ?w)"
      using ok by (simp add: wanted_def store_ok_def cursors_ok_def sorted_wrt_map sorted_wrt_filter)
    from filter_below [OF this k] have "filter (\<lambda>x. eCursor x < eCursor e) ?w = take ?k ?w" by (simp add: e_def)
    finally have older: "wanted (f\<lparr>fBefore := eCursor e\<rparr>) s = take ?k ?w" .
    have "read_pages n now (f\<lparr>fBefore := eCursor e\<rparr>) limit s = Some (take ?k ?w)"
      using Suc.IH [of "f\<lparr>fBefore := eCursor e\<rparr>"] Suc.prems k by (simp add: older)
    then show ?thesis using True by (simp add: page e)
  qed
qed

text \<open>
  C36. Following \<open>has_more\<close> backwards from the newest page, with any filters and any requested
  page size, ends after at most one page per matching entry and yields every retained entry
  that satisfies the filters exactly once, oldest first, as long as nothing is recorded and
  nothing expires in between.
\<close>
theorem paging_enumerates_matches:
  "let s = fst (purged now (reached ms opts)) in
   read_pages (Suc (length (wanted f s))) now f (page_limit query) s = Some (wanted f s)"
  unfolding Let_def
  by (rule read_pages_spec [OF purged_ok [OF reached_ok] purged_again [OF reached_inv] page_limit_range]) simp

end
