(* ===== verification/ContractsRoundtrip.thy ===== *)
theory ContractsRoundtrip
  imports ContractsJson
begin

text \<open>
  The JSON form of an entity determines it: decoding what the encoder wrote gives back every
  field, for each of the structs and for the lists nested in a request.  An object is read
  by skipping the blocks of fields that do not hold the key, so that no case distinction on
  left-out fields is ever made.
\<close>

subsection \<open>Looking up the encoded fields\<close>

named_theorems json_fields \<open>reading a field of an encoded object\<close>

lemma map_get_skip [json_fields]: "map_get xs k = None \<Longrightarrow> map_get (xs @ ys) k = map_get ys k"
  by (induction xs) (auto split: if_splits)

lemma absent [json_fields]:
  "map_get (om_str k s) k' = None \<longleftrightarrow> k' \<noteq> k \<or> s = []"
  "map_get (om_int k i) k' = None \<longleftrightarrow> k' \<noteq> k \<or> i = 0"
  "map_get (om_bool k b) k' = None \<longleftrightarrow> k' \<noteq> k \<or> \<not> b"
  "map_get (om_list k f xs) k' = None \<longleftrightarrow> k' \<noteq> k \<or> xs = []"
  "map_get (om_map k g m) k' = None \<longleftrightarrow> k' \<noteq> k \<or> m = []"
  "map_get (om_ptr k h p) k' = None \<longleftrightarrow> k' \<noteq> k \<or> p = None"
  by (auto simp: om_str_def om_int_def om_bool_def om_list_def om_map_def om_ptr_def split: option.split)

lemma skip_fields [json_fields]:
  "map_get xs k = None \<Longrightarrow> get_str (xs @ ys) k = get_str ys k"
  "map_get xs k = None \<Longrightarrow> get_int (xs @ ys) k = get_int ys k"
  "map_get xs k = None \<Longrightarrow> get_bool (xs @ ys) k = get_bool ys k"
  "map_get xs k = None \<Longrightarrow> get_time (xs @ ys) k = get_time ys k"
  "map_get xs k = None \<Longrightarrow> get_list d (xs @ ys) k = get_list d ys k"
  "map_get xs k = None \<Longrightarrow> get_map d (xs @ ys) k = get_map d ys k"
  "map_get xs k = None \<Longrightarrow> get_ptr d (xs @ ys) k = get_ptr d ys k"
  "map_get xs k = None \<Longrightarrow> get_struct d (xs @ ys) k = get_struct d ys k"
  "map_get xs k = None \<Longrightarrow> get_any (xs @ ys) k = get_any ys k"
  by (simp_all add: get_str_def get_int_def get_bool_def get_time_def get_list_def get_map_def get_ptr_def get_struct_def get_any_def map_get_skip)

lemma cons_fields [json_fields]:
  "k' \<noteq> k \<Longrightarrow> get_str ((k', v) # ys) k = get_str ys k"
  "k' \<noteq> k \<Longrightarrow> get_int ((k', v) # ys) k = get_int ys k"
  "k' \<noteq> k \<Longrightarrow> get_bool ((k', v) # ys) k = get_bool ys k"
  "k' \<noteq> k \<Longrightarrow> get_time ((k', v) # ys) k = get_time ys k"
  "k' \<noteq> k \<Longrightarrow> get_list d ((k', v) # ys) k = get_list d ys k"
  "k' \<noteq> k \<Longrightarrow> get_map d ((k', v) # ys) k = get_map d ys k"
  "k' \<noteq> k \<Longrightarrow> get_ptr d ((k', v) # ys) k = get_ptr d ys k"
  "k' \<noteq> k \<Longrightarrow> get_struct d ((k', v) # ys) k = get_struct d ys k"
  "k' \<noteq> k \<Longrightarrow> get_any ((k', v) # ys) k = get_any ys k"
  by (simp_all add: get_str_def get_int_def get_bool_def get_time_def get_list_def get_map_def get_ptr_def get_struct_def get_any_def)

lemma those_map_some: "(\<And>x. x \<in> set xs \<Longrightarrow> f x = Some x) \<Longrightarrow> those (map f xs) = Some xs"
  by (induction xs) auto

lemma read_str [json_fields]: "map_get ys k = None \<Longrightarrow> get_str (om_str k s @ ys) k = Some s"
  "get_str ((k, JStr s) # ys) k = Some s"
  by (simp_all add: om_str_def get_str_def)

lemma read_int [json_fields]: "map_get ys k = None \<Longrightarrow> get_int (om_int k i @ ys) k = Some i"
  "get_int ((k, JInt i) # ys) k = Some i"
  by (simp_all add: om_int_def get_int_def)

lemma read_bool [json_fields]: "map_get ys k = None \<Longrightarrow> get_bool (om_bool k b @ ys) k = Some b"
  "get_bool ((k, JBool b) # ys) k = Some b"
  by (simp_all add: om_bool_def get_bool_def)

lemma read_time [json_fields]: "get_time ((k, JTime t) # ys) k = Some t"
  by (simp add: get_time_def)

lemma read_struct [json_fields]: "d (f x) = Some x \<Longrightarrow> get_struct d ((k, f x) # ys) k = Some x"
  by (simp add: get_struct_def)

lemma read_list [json_fields]:
  assumes "map_get ys k = None" "\<forall>x \<in> set xs. d (f x) = Some x"
  shows "get_list d (om_list k f xs @ ys) k = Some xs"
  using assms those_map_some [of xs "d \<circ> f"] by (simp add: om_list_def get_list_def)

text \<open>A list whose elements were encoded before.\<close>

lemma read_encoded [json_fields]:
  assumes "map_get ys k = None" "those (map f xs) = Some js" "\<forall>x \<in> set xs. \<forall>j. f x = Some j \<longrightarrow> d j = Some x"
  shows "get_list d (om_list k (\<lambda>j. j) js @ ys) k = Some xs"
proof -
  have "those (map d js) = Some xs \<and> (js = []) = (xs = [])"
    using assms(2,3) by (induction xs arbitrary: js) (auto split: option.splits)
  then show ?thesis using assms(1) by (simp add: om_list_def get_list_def)
qed

lemma read_map [json_fields]:
  assumes "map_get ys k = None" "\<And>x. d (f x) = Some x"
  shows "get_map d (om_map k f m @ ys) k = Some m"
proof -
  have "those (map (\<lambda>(x, v). d v) (map (\<lambda>(x, v). (x, f v)) m)) = Some (map snd m)"
    by (induction m) (auto simp: assms(2))
  moreover have "map fst (map (\<lambda>(x, v). (x, f v)) m) = map fst m" by (induction m) auto
  ultimately show ?thesis
    using assms(1) by (simp add: om_map_def get_map_def zip_map_fst_snd del: map_map)
qed

lemma read_ptr [json_fields]:
  assumes "map_get ys k = None" "\<And>x. d (f x) = Some x" "\<And>x. f x \<noteq> JNull"
  shows "get_ptr d (om_ptr k f p @ ys) k = Some p"
proof (cases p)
  case (Some x)
  then show ?thesis using assms(2,3) [of x] by (cases "f x") (simp_all add: om_ptr_def get_ptr_def)
qed (simp add: om_ptr_def get_ptr_def assms(1))

text \<open>The last block of an object.\<close>

lemma read_last [json_fields]:
  "get_str (om_str k s) k = Some s" "get_int (om_int k i) k = Some i" "get_bool (om_bool k b) k = Some b"
  "\<forall>x \<in> set xs. d (f x) = Some x \<Longrightarrow> get_list d (om_list k f xs) k = Some xs"
  using read_str(1) [of "[]" k s] read_int(1) [of "[]" k i] read_bool(1) [of "[]" k b] read_list [of "[]" k xs d f]
  by simp_all

lemma skip_last [json_fields]:
  "map_get xs k = None \<Longrightarrow> get_str xs k = Some []" "map_get xs k = None \<Longrightarrow> get_int xs k = Some 0"
  by (simp_all add: get_str_def get_int_def)

text \<open>Values of interface type: \<open>null\<close> is left out and read back as nil.\<close>

lemma read_any [json_fields]:
  assumes "om_any k v = Some fs" "map_get ys k = None"
  shows "get_any (fs @ ys) k = Some v"
  using assms by (auto simp: om_any_def get_any_def split: option.splits json.splits)

lemma absent_any [json_fields]: "om_any k v = Some fs \<Longrightarrow> k' \<noteq> k \<Longrightarrow> map_get fs k' = None"
  by (auto simp: om_any_def split: option.splits json.splits)

lemma those_some_map: "those vs = Some js \<Longrightarrow> vs = map Some js"
  by (induction vs arbitrary: js) (auto split: option.splits)

lemma read_anymap [json_fields]:
  assumes "om_anymap k m = Some fs" "map_get ys k = None"
  shows "get_map as_any (fs @ ys) k = Some m"
proof (cases "m = []")
  case False
  then obtain js where js: "those (map snd m) = Some js" "fs = [(k, JObj (zip (map fst m) js))]"
    using assms(1) by (auto simp: om_anymap_def bind_eq_Some_conv)
  have m: "map snd m = map Some js" by (rule those_some_map [OF js(1)])
  then have len: "length js = length m" by (metis length_map)
  have "those (map (\<lambda>(x, v). as_any v) (zip (map fst m) js)) = Some (map Some js)"
    using len by (induction "map fst m" js arbitrary: m rule: list_induct2') (auto simp: as_any_def)
  moreover have "map fst (zip (map fst m) js) = map fst m" using len by simp
  moreover have "zip (map fst m) (map Some js) = m" by (simp add: m [symmetric] zip_map_fst_snd)
  ultimately show ?thesis by (simp add: js get_map_def)
qed (use assms in \<open>simp add: om_anymap_def get_map_def\<close>)

lemma absent_anymap [json_fields]: "om_anymap k m = Some fs \<Longrightarrow> k' \<noteq> k \<Longrightarrow> map_get fs k' = None"
  by (auto simp: om_anymap_def bind_eq_Some_conv split: if_splits)

lemma decode_scalars [simp]: "as_str (JStr s) = Some s" "as_int (JInt i) = Some i"
  "obj_fields (JObj kvs) = Some kvs"
  by (simp_all add: as_str_def as_int_def get_str_def get_int_def obj_fields_def)

lemma as_strs_enc [simp]: "as_strs (JArr (map JStr vs)) = Some vs"
  using those_map_some [of vs "as_str \<circ> JStr"] by (simp add: as_strs_def get_list_def)

subsection \<open>Structs without metadata\<close>

lemma frame_roundtrip [simp]: "dec_frame (enc_frame f) = Some f"
  by (cases f) (simp add: enc_frame_def dec_frame_def json_fields)

lemma issue_roundtrip [simp]: "dec_issue (enc_issue i) = Some i"
  by (cases i) (simp add: enc_issue_def dec_issue_def json_fields)

lemma plan_roundtrip [simp]: "dec_plan (enc_plan p) = Some p"
  by (cases p) (simp add: enc_plan_def dec_plan_def json_fields)

lemma address_roundtrip [simp]: "dec_address (enc_address a) = Some a"
  by (cases a) (simp add: enc_address_def dec_address_def json_fields)

lemma span_roundtrip [simp]: "dec_span (enc_span s) = Some s"
  by (cases s) (simp add: enc_span_def dec_span_def json_fields)

lemma argument_roundtrip [simp]: "dec_argument (enc_argument a) = Some a"
  by (cases a) (simp add: enc_argument_def dec_argument_def json_fields)

lemma message_roundtrip [simp]: "dec_message (enc_message h) = Some h"
  by (cases h) (simp add: enc_message_def dec_message_def json_fields)

lemma encoded_objects [simp]: "enc_plan p \<noteq> JNull"
  by (simp add: enc_plan_def)

subsection \<open>Entities\<close>

definition meta_keys :: "string list" where
  "meta_keys = [''id'', ''request_id'', ''parent_id'', ''origin_request_id'', ''process'', ''instance'',
     ''started_at'', ''duration_ns'', ''tags'']"

lemma absent_meta [json_fields]: "k \<notin> set meta_keys \<Longrightarrow> map_get (enc_meta m) k = None"
  by (simp add: enc_meta_def meta_keys_def json_fields)

lemma meta_roundtrip [json_fields]:
  assumes "list_all (\<lambda>k. map_get ys k = None) meta_keys"
  shows "dec_meta (enc_meta m @ ys) = Some (Meta.truncate m)"
  using assms by (cases m) (simp add: meta_keys_def enc_meta_def dec_meta_def json_fields Meta.truncate_def)

lemma query_roundtrip [simp]: "dec_query (enc_query q) = Some q"
  by (cases q) (simp add: enc_query_def dec_query_def json_fields meta_keys_def Meta.truncate_def
      Meta.extend_def Query.fields_def)

lemma email_roundtrip [simp]: "dec_email (enc_email e) = Some e"
  by (cases e) (simp add: enc_email_def dec_email_def json_fields meta_keys_def Meta.truncate_def
      Meta.extend_def Email.fields_def)

lemma cache_roundtrip [simp]: "dec_cache (enc_cache c) = Some c"
  by (cases c) (simp add: enc_cache_def dec_cache_def json_fields meta_keys_def Meta.truncate_def
      Meta.extend_def Cache.fields_def)

lemma job_roundtrip [simp]: "dec_job (enc_job j) = Some j"
  by (cases j) (simp add: enc_job_def dec_job_def json_fields meta_keys_def Meta.truncate_def
      Meta.extend_def Job.fields_def)

lemma call_roundtrip [simp]: "dec_call (enc_call c) = Some c"
  by (cases c) (simp add: enc_call_def dec_call_def json_fields meta_keys_def Meta.truncate_def
      Meta.extend_def HTTPCall.fields_def)

lemma exception_roundtrip [simp]: "dec_exception (enc_exception e) = Some e"
  by (cases e) (simp add: enc_exception_def dec_exception_def json_fields meta_keys_def Meta.truncate_def
      Meta.extend_def Exception.fields_def)

lemma middleware_roundtrip [simp]: "dec_middleware (enc_middleware m) = Some m"
  by (cases m) (simp add: enc_middleware_def dec_middleware_def json_fields meta_keys_def Meta.truncate_def
      Meta.extend_def Middleware.fields_def)

lemma log_roundtrip: "enc_log l = Some j \<Longrightarrow> dec_log j = Some l"
  by (cases l) (auto simp: enc_log_def dec_log_def bind_eq_Some_conv json_fields meta_keys_def
      Meta.truncate_def Meta.extend_def Log.fields_def)

lemma schedule_roundtrip: "enc_schedule s = Some j \<Longrightarrow> dec_schedule j = Some s"
  by (cases s) (auto simp: enc_schedule_def dec_schedule_def bind_eq_Some_conv json_fields meta_keys_def
      Meta.truncate_def Meta.extend_def Schedule.fields_def)

lemma callable_roundtrip: "enc_callable c = Some j \<Longrightarrow> dec_callable j = Some c"
  by (cases c) (auto simp: enc_callable_def dec_callable_def bind_eq_Some_conv json_fields meta_keys_def
      Meta.truncate_def Meta.extend_def Callable.fields_def)

lemma task_roundtrip: "enc_task t = Some j \<Longrightarrow> dec_task j = Some t"
  by (cases t) (auto simp: enc_task_def dec_task_def bind_eq_Some_conv json_fields meta_keys_def
      Meta.truncate_def Meta.extend_def Task.fields_def)

lemma event_roundtrip: "enc_event e = Some j \<Longrightarrow> dec_event j = Some e"
  by (cases e) (auto simp: enc_event_def dec_event_def bind_eq_Some_conv json_fields meta_keys_def
      Meta.truncate_def Meta.extend_def Event.fields_def)

lemma request_roundtrip: "enc_request r = Some j \<Longrightarrow> dec_request j = Some r"
  by (cases r) (auto simp: enc_request_def dec_request_def bind_eq_Some_conv json_fields meta_keys_def
      Meta.truncate_def Meta.extend_def Request.fields_def log_roundtrip schedule_roundtrip event_roundtrip)


end
