(* ===== verification/McpProps.thy ===== *)
theory McpProps
  imports Mcp ClientProps PagingProps ContractsRoundtrip
begin

text \<open>
  The agent-facing service over any source of event pages, stated as a locale, and over the
  one it really has: the client talking to the dashboard's handler.
\<close>

subsection \<open>A source of pages\<close>

locale event_pages =
  fixes list_events :: "ListEventsOptions \<Rightarrow> 's \<Rightarrow> 's \<times> (clientError + eventsPage)"
    and inv :: "'s \<Rightarrow> bool"
  assumes page_law: "inv s \<Longrightarrow> list_events opts s = (s', Inr page) \<Longrightarrow>
      inv s' \<and> int (length (epEvents page)) \<le> list_limit_param (opLimit opts) \<and>
      sorted_wrt (<) (map eCursor (epEvents page))"

definition summaries_of :: "ListRequestsInput \<Rightarrow> Entry list \<Rightarrow> RequestSummary list" where
  "summaries_of i es = filter (request_matches i) (List.map_filter DecodeRequest es)"

lemma summaries_of_simps [simp]:
  "summaries_of i [] = []"
  "summaries_of i (e # es) = (case DecodeRequest e of None \<Rightarrow> summaries_of i es
     | Some r \<Rightarrow> if request_matches i r then r # summaries_of i es else summaries_of i es)"
  by (simp_all add: summaries_of_def List.map_filter_def split: option.split)

lemma summaries_of_append: "summaries_of i (es @ fs) = summaries_of i es @ summaries_of i fs"
  by (simp add: summaries_of_def List.map_filter_def)

lemma collect_requests_spec:
  "collect_requests i limit es out = out @ take (limit - length out) (summaries_of i es)"
proof (induction es arbitrary: out)
  case (Cons e es)
  show ?case
  proof (cases "length out < limit")
    case True
    then have "limit - length out = Suc (limit - Suc (length out))" by simp
    with True Cons.IH show ?thesis by (auto split: option.split)
  qed simp
qed simp

lemma summaries_rev: "summaries_of i (rev es) = rev (summaries_of i es)"
  by (induction es) (auto simp: summaries_of_append split: option.split)

lemma decoded_cursor: "DecodeRequest e = Some r \<Longrightarrow> smRequestCursor r = eCursor e \<and> eKind e = KindRequest"
  by (auto simp: DecodeRequest_def bind_eq_Some_conv split: if_splits)

lemma summaries_cursors: "set (map smRequestCursor (summaries_of i es)) \<subseteq> eCursor ` set es"
  by (induction es) (auto dest: decoded_cursor split: option.splits if_splits)

lemma summaries_sorted:
  "sorted_wrt (<) (map eCursor es) \<Longrightarrow> sorted_wrt (<) (map smRequestCursor (summaries_of i es))"
proof (induction es)
  case (Cons e es)
  then show ?case using summaries_cursors [of i es]
    by (fastforce dest: decoded_cursor split: option.split)
qed simp

lemma summaries_match: "r \<in> set (summaries_of i es) \<Longrightarrow> request_matches i r"
  by (simp add: summaries_of_def)

lemma bounded_limit_range: "boundedLimit v 20 200 \<in> {1..200}"
  by (auto simp: boundedLimit_def)

context event_pages
begin

lemma listed_requests:
  assumes "inv s" "pcListEvents c = list_events"
    and "mcpListRequests c i s = (s', Inr out)"
  shows "inv s' \<and> int (length (lrRequests out)) \<le> boundedLimit (liLimit i) 20 200 \<and>
    sorted_wrt (>) (map smRequestCursor (lrRequests out)) \<and> list_all (request_matches i) (lrRequests out) \<and>
    (\<exists>page. list_events (request_options i (boundedLimit (liLimit i) 20 200)) s = (s', Inr page) \<and>
       lrRequests out = rev (summaries_of i (epEvents page)))"
proof -
  let ?n = "boundedLimit (liLimit i) 20 200"
  obtain page where page: "list_events (request_options i ?n) s = (s', Inr page)"
    "lrRequests out = collect_requests i (nat ?n) (rev (epEvents page)) []"
    using assms(2,3) by (auto simp: mcpListRequests_def Let_def failing_def split: prod.splits sum.splits)
  have n: "1 \<le> ?n" "?n \<le> 200" using bounded_limit_range [of "liLimit i"] by simp_all
  have law: "inv s'" "int (length (epEvents page)) \<le> list_limit_param ?n" "sorted_wrt (<) (map eCursor (epEvents page))"
    using page_law [OF assms(1) page(1)] by (simp_all add: request_options_def noOptions_def)
  have "list_limit_param ?n = ?n" using n by (simp add: list_limit_param_def Let_def)
  moreover have "length (summaries_of i (epEvents page)) \<le> length (epEvents page)"
    by (induction "epEvents page" arbitrary: page) (auto simp: summaries_of_def List.map_filter_def intro: le_trans)
  ultimately have "length (summaries_of i (epEvents page)) \<le> nat ?n" using law(2) n by linarith
  then have out: "lrRequests out = rev (summaries_of i (epEvents page))"
    by (simp add: page(2) collect_requests_spec summaries_rev)
  show ?thesis
    using law(1) out page(1) summaries_sorted [OF law(3), of i] n \<open>length (summaries_of i (epEvents page)) \<le> nat ?n\<close>
    by (auto simp: rev_map [symmetric] sorted_wrt_rev list_all_iff dest: summaries_match)
qed

end

subsection \<open>The dashboard as a source\<close>

definition page_ok :: "int \<Rightarrow> eventsPage \<Rightarrow> bool" where
  "page_ok limit page \<longleftrightarrow> int (length (epEvents page)) \<le> limit \<and> sorted_wrt (<) (map eCursor (epEvents page))"

definition stored_ok :: "int \<Rightarrow> 'x storeAnswer \<Rightarrow> bool" where
  "stored_ok limit x \<longleftrightarrow> store_ok (fst x) \<and>
     (case arBody (snd (snd x)) of EventsBody page \<Rightarrow> page_ok limit page | _ \<Rightarrow> True)"

lemma stats_store: "fst (stats now s) = fst (purged now s)"
  by (simp add: stats_def case_prod_beta)

lemma wanted_sorted: "store_ok s \<Longrightarrow> sorted_wrt (<) (map eCursor (wanted f s))"
  by (simp add: wanted_def store_ok_def cursors_ok_def sorted_wrt_map sorted_wrt_filter)

lemma event_page_ok:
  assumes ok: "store_ok s" and lim: "1 \<le> limit" "limit \<le> 1000"
  shows "store_ok (fst (event_page now now2 f limit s)) \<and> page_ok limit (snd (snd (event_page now now2 f limit s)))"
proof -
  let ?s = "fst (purged now s)"
  have s: "store_ok ?s" by (rule purged_ok [OF ok])
  have n: "list_limit (limit + 1) = nat limit + 1" using lim by (simp add: list_limit_def nat_add_distrib)
  define es where "es = drop (length (wanted f ?s) - (nat limit + 1)) (wanted f ?s)"
  have sorted: "sorted_wrt (<) (map eCursor es)"
    unfolding es_def drop_map [symmetric] by (rule sorted_wrt_drop [OF wanted_sorted [OF s]])
  then have tail: "sorted_wrt (<) (map eCursor (tl es))" by (cases es) auto
  have short: "length es \<le> nat limit + 1" by (simp add: es_def)
  have "fst (event_page now now2 f limit s) = fst (purged now2 ?s)"
    "epEvents (snd (snd (event_page now now2 f limit s))) = (if int (length es) > limit then tl es else es)"
    by (simp_all only: event_page_def listed n Let_def case_prod_beta stats_store es_def [symmetric] fst_conv snd_conv
        eventsPage.select_convs)
  then show ?thesis using sorted tail short purged_ok [OF s, of now2] lim by (auto simp: page_ok_def)
qed

lemma stored_parts:
  assumes "store_ok s"
  shows "stored_ok limit (getEvent now i s)" "stored_ok limit (getStats now s)" "stored_ok limit (clearEvents s)"
    "stored_ok limit (getRequestAnalysis now now2 i s)" "stored_ok limit (getScheduleAnalysis now now2 i s)"
    "stored_ok limit (getCallableAnalysis now now2 i s)" "stored_ok limit (getTaskAnalysis now now2 i s)"
proof -
  note purge = purged_ok [OF assms]
  show "stored_ok limit (getEvent now i s)"
    by (simp add: stored_ok_def getEvent_answer purge response_defs split: option.split)
  show "stored_ok limit (getStats now s)"
    using purge [of now] by (simp add: stored_ok_def getStats_def case_prod_beta stats_store response_defs)
  show "stored_ok limit (clearEvents s)"
    using clear_ok [OF assms] by (simp add: stored_ok_def clearEvents_def case_prod_beta response_defs)
  have analysis: "stored_ok limit (analysis_response k m (analyze_with look kind f now now2 i s))"
    if "store_ok (fst (look now i s))" for k m kind f
      and look :: "instant \<Rightarrow> string \<Rightarrow> 'a entryStore \<Rightarrow> 'a entryStore \<times> storageBatch \<times> (Entry \<times> Entry list) option"
    using that assms by (auto simp: stored_ok_def analysis_response_def analyze_with_def case_prod_beta response_defs
        split: option.split)
  have "store_ok (fst (requestEntries now i s))" "store_ok (fst (scopeEntries now i s))"
    using purge [of now] by (simp_all add: requestEntries_def scopeEntries_def case_prod_beta split: option.split)
  then show "stored_ok limit (getRequestAnalysis now now2 i s)" "stored_ok limit (getScheduleAnalysis now now2 i s)"
    "stored_ok limit (getCallableAnalysis now now2 i s)" "stored_ok limit (getTaskAnalysis now now2 i s)"
    by (simp_all add: getRequestAnalysis_def getScheduleAnalysis_def getCallableAnalysis_def getTaskAnalysis_def
        AnalyzeRequest_def AnalyzeSchedule_def AnalyzeCallable_def AnalyzeTask_def analysis)
qed

lemma listEvents_ok: "store_ok s \<Longrightarrow> stored_ok (page_limit (parse_query q)) (listEvents now now2 q s)"
  using event_page_ok [OF _ page_limit_range(1)[of "parse_query q"] page_limit_range(2)]
  by (simp add: stored_ok_def listEvents_def Let_def case_prod_beta response_defs)

definition served_ok :: "int \<Rightarrow> ('w, 'x) dashServer \<times> apiResponse option \<Rightarrow> bool" where
  "served_ok limit x \<longleftrightarrow> store_ok (dsStore (fst x)) \<and>
     (case snd x of Some a \<Rightarrow> (case arBody a of EventsBody page \<Rightarrow> page_ok limit page | _ \<Rightarrow> True) | None \<Rightarrow> True)"

lemma on_store_served: "stored_ok limit (f (dsStore p)) \<Longrightarrow> served_ok limit (on_store f p)"
  by (cases "f (dsStore p)") (simp add: on_store_def served_ok_def stored_ok_def)

lemma api_served:
  assumes "store_ok (dsStore p)"
  shows "served_ok (page_limit (parse_query (hqRawQuery (aqHTTP r)))) (api_handler env rt i r p)"
proof -
  have page: "served_ok (page_limit (parse_query q)) (on_store (listEvents now now2 q) p)" for q now now2
    by (rule on_store_served) (rule listEvents_ok [OF assms])
  have parts: "served_ok limit (on_store (getEvent now i) p)" "served_ok limit (on_store (getStats now) p)"
    "served_ok limit (on_store clearEvents p)" "served_ok limit (on_store (getRequestAnalysis now now2 i) p)"
    "served_ok limit (on_store (getScheduleAnalysis now now2 i) p)"
    "served_ok limit (on_store (getCallableAnalysis now now2 i) p)"
    "served_ok limit (on_store (getTaskAnalysis now now2 i) p)" for limit now now2
    by (rule on_store_served, simp add: stored_parts [OF assms])+
  have ws: "served_ok limit (serveWebSocket env (aqHTTP r) p)" for limit
    using assms purged_ok [OF assms, of "evClock env 2"]
    by (auto simp: serveWebSocket_def streamSnapshot_def served_ok_def response_defs Let_def case_prod_beta
        stats_store split: option.split)
  have rest: "served_ok limit (p, Some (getRuntimeStats env p))" "served_ok limit (p, Some (getQueueStats env p))"
    "served_ok limit (p, getDashboard env p)" for limit
    using assms by (auto simp: served_ok_def getRuntimeStats_def getQueueStats_def getDashboard_def response_defs
        split: option.split)
  show ?thesis by (cases rt) (simp_all add: api_handler_def Let_def page parts ws rest)
qed

lemma same_data_store: "same_data p q \<Longrightarrow> dsStore q = dsStore p"
  by (cases p; cases q) (simp add: same_data_def)

lemma dispatch_served:
  assumes "store_ok (dsStore p)"
  shows "served_ok (page_limit (parse_query (hqRawQuery (aqHTTP r)))) (dispatch env rt i r p)"
proof -
  let ?n = "page_limit (parse_query (hqRawQuery (aqHTTP r)))"
  have harmless: "harmless env r p x \<Longrightarrow> served_ok ?n x" for x
    using assms by (auto simp: harmless_def served_ok_def public_body_def same_data_store
        split: prod.splits option.splits responseBody.splits)
  have api: "served_ok ?n (authorize (api_handler env rt i r) (aqHTTP r) p)"
    using api_served [OF assms] authorize_denied harmless by (metis authorize_granted)
  have open_route: "served_ok ?n (p, Some (writeAsset env n t))" "served_ok ?n (p, Some (deleteSession p))" for n t
    using assms by (auto simp: served_ok_def response_defs deleteSession_def split: option.split)
  show ?thesis
    using api open_route harmless [OF createSession_harmless] by (cases rt) (simp_all add: dispatch_def)
qed

lemma handler_served:
  assumes "store_ok (dsStore p)"
  shows "served_ok (page_limit (parse_query (hqRawQuery (aqHTTP r)))) (handler env r p)"
proof -
  have plain: "served_ok n (p, Some a)" if "arBody a = EmptyBody \<or> (\<exists>t. arBody a = TextBody t)" for n a
    using that assms by (auto simp: served_ok_def)
  have secured: "served_ok n (fst y, map_option securityHeaders (snd y))" if "served_ok n y" for n y
    using that by (auto simp: served_ok_def securityHeaders_def split: option.splits)
  let ?e = "escaped_path (hqPath (aqHTTP r)) (aqRawPath r)"
  let ?y = "if clean_path ?e \<noteq> ?e then (p, Some (redirect 301 (clean_path ?e)))
     else case mux_route (hqMethod (aqHTTP r)) (clean_path ?e) of
         None \<Rightarrow> (p, Some (plain_error 405 ''Method Not Allowed'')) | Some (rt, i) \<Rightarrow> dispatch env rt i r p"
  have "served_ok (page_limit (parse_query (hqRawQuery (aqHTTP r)))) ?y"
    using dispatch_served [OF assms] plain
    by (auto simp: redirect_def plain_error_def respond_def split: option.split)
  then show ?thesis using secured [of _ ?y] by (simp add: handler_def Let_def case_prod_beta)
qed

lemma serve_served:
  assumes "store_ok (dsStore p)" "serve env r p = Some y"
  shows "served_ok (page_limit (parse_query (hqRawQuery (aqHTTP r)))) y"
proof -
  have plain: "served_ok n (p, Some (redirect k t))" "served_ok n (p, Some (plain_error k t))" for n k t
    using assms(1) by (simp_all add: served_ok_def redirect_def plain_error_def respond_def)
  show ?thesis
  proof (cases "strip_prefix (cBasePath (dsConfig p)) r")
    case None
    then show ?thesis using assms(2) plain by (auto simp: serve_def Let_def split: if_splits)
  next
    case (Some r')
    then have "hqRawQuery (aqHTTP r') = hqRawQuery (aqHTTP r)" by (auto simp: strip_prefix_def Let_def split: if_splits)
    moreover have "y = (p, Some (redirect 307 (cBasePath (dsConfig p) @ ''/''))) \<or> y = handler env r' p"
      using assms(2) Some by (auto simp: serve_def Let_def split: if_splits)
    ultimately show ?thesis using plain handler_served [OF assms(1), of r' env] by auto
  qed
qed

subsection \<open>The client over a transport\<close>

text \<open>The limit of a request is the one its query string carries.\<close>

definition paged_answer :: "clientRequest \<Rightarrow> clientError + responseBody option \<Rightarrow> bool" where
  "paged_answer r x = (case x of Inr (Some (EventsBody page)) \<Rightarrow> page_ok (page_limit (parse_query (cqRawQuery r))) page
     | _ \<Rightarrow> True)"

lemma paged_answer_simps [simp]: "paged_answer r (Inl e)" "paged_answer r (Inr None)"
  by (simp_all add: paged_answer_def)

lemma paged_answer_cookie [simp]: "paged_answer (r\<lparr>cqCookie := v\<rparr>) x = paged_answer r x"
  by (simp add: paged_answer_def split: sum.split option.split responseBody.split)

locale page_transport =
  fixes send :: "'s transport" and inv :: "'s \<Rightarrow> bool"
  assumes send_inv: "inv s \<Longrightarrow> send r s = (s', x) \<Longrightarrow> inv s'"
    and send_page: "inv s \<Longrightarrow> send r s = (s', Inr a) \<Longrightarrow> paged_answer r (Inr (rpBody a))"
begin

lemma once_inv: "inv s \<Longrightarrow> do_once send r c s = (s', c', x) \<Longrightarrow> inv s'"
  using send_inv by (auto simp: do_once_def split: prod.splits sum.splits)

lemma once_page: "inv s \<Longrightarrow> do_once send r c s = (s', c', Inr a) \<Longrightarrow> paged_answer r (Inr (rpBody a))"
  using send_page [of s "r\<lparr>cqCookie := ctJar c\<rparr>"] by (auto simp: do_once_def split: prod.splits sum.splits)

lemma login_inv: "inv s \<Longrightarrow> authenticate send force c s = (s', c', x) \<Longrightarrow> inv s'"
  by (auto simp: authenticate_def Let_def split: if_splits prod.splits sum.splits option.splits dest: once_inv)

lemma result_ok: "paged_answer r (Inr (rpBody a)) \<Longrightarrow> paged_answer r (response_result a)"
  by (auto simp: response_result_def split: option.split)

lemma json_page:
  assumes "inv s" "doJSON send r c s = (s', c', x)"
  shows "inv s' \<and> paged_answer r x"
proof -
  obtain s1 c1 a where one: "do_once send r c s = (s1, c1, a)" by (metis prod_cases3)
  then have s1: "inv s1" using once_inv assms(1) by blast
  show ?thesis
  proof (cases a)
    case Inl
    then show ?thesis using one s1 assms(2) by (auto simp: doJSON_def)
  next
    case (Inr a)
    have direct: ?thesis if "(s1, c1, response_result a) = (s', c', x)"
      using that s1 once_page [OF assms(1)] one Inr result_ok by auto
    obtain s2 c2 e where two: "authenticate send True c1 s1 = (s2, c2, e)" by (metis prod_cases3)
    then have s2: "inv s2" using login_inv s1 by blast
    obtain s3 c3 b where three: "do_once send r c2 s2 = (s3, c3, b)" by (metis prod_cases3)
    then have "inv s3" using once_inv s2 by blast
    moreover have "paged_answer r (response_result b')" if "b = Inr b'" for b'
      using once_page [OF s2] three that result_ok by auto
    ultimately show ?thesis
      using assms(2) direct s2 by (auto simp: doJSON_def one Inr two three split: if_splits option.splits sum.splits)
  qed
qed

lemma events_ok:
  assumes "inv s" "ListEvents send opts c s = (s', c', Inr page)"
  shows "inv s' \<and> page_ok (list_limit_param (opLimit opts)) page"
proof -
  let ?r = "\<lparr>cqMethod = ''GET'', cqPath = endpoint_path c ''api/events'', cqRawQuery = values_encode (list_query opts),
    cqBody = NoLoginBody, cqCookie = None\<rparr>"
  obtain x where x: "doJSON send ?r c s = (s', c', x)" "x = Inr None \<and> page = zeroPage \<or> x = Inr (Some (EventsBody page))"
    using assms(2) by (auto simp: ListEvents_def decoded_def getJSON_def split: prod.splits sum.splits option.splits
        responseBody.splits)
  have "page_limit (parse_query (cqRawQuery ?r)) = list_limit_param (opLimit opts)"
    by (rule limit_arrives) (simp only: clientRequest.select_convs arrived_get, simp add: query_get_def list_query_values)
  moreover have "page_ok (list_limit_param (opLimit opts)) zeroPage"
    by (simp add: page_ok_def zeroPage_def list_limit_param_def Let_def)
  ultimately show ?thesis using json_page [OF assms(1) x(1)] x(2) by (auto simp: paged_answer_def)
qed

end

text \<open>The methods of the client, with the client itself in the state.\<close>

definition bound_client :: "'s transport \<Rightarrow> (duration \<Rightarrow> duration \<Rightarrow> 's \<Rightarrow> 's \<times> string option) \<Rightarrow>
    (Client \<times> 's) ProfilerClient" where
  "bound_client send pause =
     \<lparr>pcStats = (\<lambda>(c, s). case clientStats send c s of (s, c, x) \<Rightarrow> ((c, s), x)),
      pcListEvents = (\<lambda>opts (c, s). case ListEvents send opts c s of (s, c, x) \<Rightarrow> ((c, s), x)),
       pcEvent = (\<lambda>i (c, s). case clientEvent send i c s of (s, c, x) \<Rightarrow> ((c, s), x)),
       pcRequestAnalysis = (\<lambda>i (c, s). case RequestAnalysis send i c s of (s, c, x) \<Rightarrow> ((c, s), x)),
       pcInspectRequest = (\<lambda>i n (c, s). case InspectRequest send i n c s of (s, c, x) \<Rightarrow> ((c, s), x)),
       pcInspectEvent = (\<lambda>i n (c, s). case InspectEvent send i n c s of (s, c, x) \<Rightarrow> ((c, s), x)),
       pcWaitForRequest = (\<lambda>timeout opts (c, s).
         map_option (\<lambda>(s, c, x). ((c, s), x)) (WaitForRequest send (pause timeout) opts c s))\<rparr>"

sublocale page_transport \<subseteq> event_pages
  "\<lambda>opts (c, s). case ListEvents send opts c s of (s, c, x) \<Rightarrow> ((c, s), x)" "\<lambda>(c, s). inv s"
proof
  fix s opts s' page
  assume "(\<lambda>(c, s). inv s) s"
    "(\<lambda>opts (c, s). case ListEvents send opts c s of (s, c, x) \<Rightarrow> ((c, s), x)) opts s = (s', Inr page)"
  then show "(\<lambda>(c, s). inv s) s' \<and> int (length (epEvents page)) \<le> list_limit_param (opLimit opts) \<and>
      sorted_wrt (<) (map eCursor (epEvents page))"
    using events_ok by (auto simp: page_ok_def split: prod.splits)
qed

subsection \<open>The dashboard's handler as the transport\<close>

lemma wired_query: "hqRawQuery (aqHTTP (wire_request r path addr)) = cqRawQuery r"
  by (simp add: wire_request_def)

lemma wired_page:
  "rpBody (wire_response len a) = Some (EventsBody page) \<longleftrightarrow> arBody a = EventsBody page"
  by (cases "arBody a") (auto simp: wire_response_def)

interpretation dash: page_transport "server_transport envs len addr" "\<lambda>w. store_ok (dsStore (wdServer w))"
  for envs :: "nat \<Rightarrow> 'w httpEnv" and len and addr
proof
  fix w w' :: "('w, 'x) world" and r x
  assume ok: "store_ok (dsStore (wdServer w))" and sent: "server_transport envs len addr r w = (w', x)"
  show "store_ok (dsStore (wdServer w'))"
    using serve_served [OF ok] ok sent
    by (fastforce simp: server_transport_def served_ok_def split: option.splits prod.splits)
next
  fix w w' :: "('w, 'x) world" and r a
  assume ok: "store_ok (dsStore (wdServer w))" and sent: "server_transport envs len addr r w = (w', Inr a)"
  have "paged_answer r (Inr (rpBody a))" if a: "a = wire_response len b"
    and s: "serve e (wire_request r path addr) (wdServer w) = Some (p, Some b)" for b e path p
  proof (cases "rpBody a")
    case (Some d)
    show ?thesis
    proof (cases d)
      case (EventsBody page)
      then have "arBody b = EventsBody page" using Some a by (simp add: wired_page)
      then show ?thesis
        using serve_served [OF ok s] Some EventsBody by (simp add: served_ok_def wired_query paged_answer_def)
    qed (simp_all add: Some paged_answer_def)
  qed simp
  then show "paged_answer r (Inr (rpBody a))"
    using sent by (auto simp: server_transport_def split: option.splits prod.splits)
qed

text \<open>
  The agent's \<open>webpprof_list_requests\<close>, through the real client, over HTTP, against the
  dashboard's handler: whatever the input, the cookie jar, the server's token and the clock, an
  answer that is no error has at most the requested number of requests (20 by default, 200 at
  most), newest first and without duplicates, each of which meets the method, path, status and
  duration bounds of the input; and the dashboard's store stays well-formed.
\<close>

theorem mcp_list_requests:
  "if store_ok (dsStore (wdServer w)) then
     (case mcpListRequests (bound_client (server_transport envs len addr) pause) i (c, w) of
        ((c', w'), Inr out) \<Rightarrow>
          store_ok (dsStore (wdServer w')) \<and>
          int (length (lrRequests out)) \<le> boundedLimit (liLimit i) 20 200 \<and>
          sorted_wrt (>) (map smRequestCursor (lrRequests out)) \<and>
          list_all (request_matches i) (lrRequests out)
      | ((c', w'), Inl e) \<Rightarrow> True)
   else True"
  using dash.listed_requests [where s = "(c, w)" and c = "bound_client (server_transport envs len addr) pause" and i = i]
  by (auto simp: bound_client_def split: prod.splits sum.splits)

subsection \<open>Payloads\<close>

lemma decoded_request:
  assumes "enc_request r = Some j"
  shows "DecodeRequest (e\<lparr>eKind := KindRequest, eData := j\<rparr>) =
    Some \<lparr>smID = eID e, smRequestCursor = eCursor e, smStartedAt = eStartedAt e, smMethod = rqMethod r,
      smPath = rqPath r, smRoute = rqRoute r, smStatus = rqStatus r, smDurationNS = eDurationNS e,
      smError = rqError r, smTags = eTags e\<rparr>"
  using assms by (auto simp: enc_request_def DecodeRequest_def bind_eq_Some_conv json_fields meta_keys_def)

text \<open>Two documents of a kind an agent cannot tell apart without asking for payloads.\<close>

definition same_summary :: "Entry \<Rightarrow> Kind \<Rightarrow> json option \<Rightarrow> json option \<Rightarrow> bool" where
  "same_summary e k d d' =
     (case (d, d') of
        (Some j, Some j') \<Rightarrow> summarizeEntry (e\<lparr>eKind := k, eData := j\<rparr>) False =
          summarizeEntry (e\<lparr>eKind := k, eData := j'\<rparr>) False
      | _ \<Rightarrow> True)"

lemma same_summaryI:
  assumes "\<And>j j'. d = Some j \<Longrightarrow> d' = Some j' \<Longrightarrow>
    summarizeDetail (e\<lparr>eKind := k, eData := j\<rparr>) False = summarizeDetail (e\<lparr>eKind := k, eData := j'\<rparr>) False"
  shows "same_summary e k d d'"
  using assms by (auto simp: same_summary_def summarizeEntry_def split: option.split)

lemmas detail_defs = summarizeDetail_def Let_def detail_of_def


end

