(* ===== verification/Spans.thy ===== *)
theory Spans
  imports Capture
begin

text \<open>
  Measured operations: \<open>measure.go\<close> (event spans), \<open>task.go\<close> (task spans) and \<open>query_span.go\<close>.
  A span is a value that is updated where the code updates the object it points to; \<open>None\<close>
  is a nil span.  The measured function is a parameter: given its context it acts on the
  profiler and returns an error, or panics.
\<close>

subsection \<open>Measurements\<close>

record Measurement =
  mtStartedAt :: instant
  mtDuration :: duration
  mtErr :: "string option"

definition Failed :: "Measurement \<Rightarrow> bool" where
  "Failed m \<longleftrightarrow> mtErr m \<noteq> None"

definition noMeasurement :: "string option \<Rightarrow> Measurement" where
  "noMeasurement err = \<lparr>mtStartedAt = 0, mtDuration = 0, mtErr = err\<rparr>"

text \<open>What a panic shows: the type and the text of the value, and the stack at its recovery.\<close>

record recoveredPanic =
  paType :: string
  paText :: string
  paStack :: string

datatype 'v callOutcome = Finished 'v "string option" | Panicked recoveredPanic

definition panic_fields :: "recoveredPanic \<Rightarrow> (string \<times> anyval) list" where
  "panic_fields r = [(''panic_type'', Some (JStr (paType r))), (''panic_stack'', Some (JStr (paStack r)))]"

definition panic_error :: "recoveredPanic \<Rightarrow> string" where
  "panic_error r = ''panic: '' @ paText r"

definition merge_fields :: "(string \<times> anyval) list \<Rightarrow> (string \<times> anyval) list \<Rightarrow> (string \<times> anyval) list" where
  "merge_fields fs new = fold (\<lambda>(k, v) m. map_put k v m) new fs"

definition cloneEventFields :: "(string \<times> anyval) list \<Rightarrow> (string \<times> anyval) list" where
  "cloneEventFields fs = merge_fields [] fs"

definition err_text :: "string option \<Rightarrow> string \<Rightarrow> string" where
  "err_text err old = (case err of None \<Rightarrow> old | Some e \<Rightarrow> e)"

subsection \<open>Event spans\<close>

record EventResult =
  erStatus :: string
  erSummary :: string
  erFields :: "(string \<times> anyval) list"
  erErr :: "string option"

record EventSpan =
  esActive :: bool
  esCtx :: goContext
  esOperationCtx :: goContext
  esEvent :: Event
  esStarted :: instant
  esDone :: bool
  esResult :: Measurement

text \<open>\<open>has\<close> tells whether the profiler pointer is set; \<open>p\<close> is what it points to.\<close>

definition startEvent :: "bool \<Rightarrow> goContext option \<Rightarrow> Event \<Rightarrow> ('w, 'x) Profiler \<Rightarrow> ('w, 'x) Profiler \<times> EventSpan" where
  "startEvent has ctx event p =
     (let ctx = or_background ctx;
          (p, started) = clock_now p;
          (event, started) = (if mStartedAt event = 0 then (event\<lparr>mStartedAt := started\<rparr>, started)
                              else (event, mStartedAt event));
          (p, event, operationCtx) =
            (if has \<and> RecordingEnabled (Some ctx) then
               let (p, eid) = (if mID event = [] then newID p else (p, mID event));
                   event = event\<lparr>mID := eid, evFields := cloneEventFields (evFields event)\<rparr>
               in (p, event, WithParentEntry (Some ctx) eid)
             else (p, event, ctx))
      in (p, \<lparr>esActive = has, esCtx = ctx, esOperationCtx = operationCtx, esEvent = event,
              esStarted = started, esDone = False, esResult = noMeasurement None\<rparr>))"

definition applyEventResult :: "EventResult \<Rightarrow> Event \<Rightarrow> Event" where
  "applyEventResult r e =
     (let e = (if erStatus r \<noteq> [] then e\<lparr>evStatus := erStatus r\<rparr> else e);
          e = (if erSummary r \<noteq> [] then e\<lparr>evSummary := erSummary r\<rparr> else e);
          e = (if erFields r \<noteq> [] then e\<lparr>evFields := merge_fields (evFields e) (erFields r)\<rparr> else e);
          e = e\<lparr>evError := err_text (erErr r) (evError e)\<rparr>
      in if evStatus e = [] then e\<lparr>evStatus := (if evError e \<noteq> [] then ''failed'' else ''succeeded'')\<rparr> else e)"

definition eventFinishResult :: "EventResult \<Rightarrow> EventSpan \<Rightarrow> ('w, 'x) Profiler \<Rightarrow>
    ('w, 'x) Profiler \<times> EventSpan \<times> Measurement" where
  "eventFinishResult r s p =
     (if esDone s then (p, s, esResult s)
      else
        let (p, now) = clock_now p;
            m = \<lparr>mtStartedAt = mStartedAt (esEvent s), mtDuration = now - esStarted s, mtErr = erErr r\<rparr>;
            event = applyEventResult r ((esEvent s)\<lparr>mDuration := mtDuration m\<rparr>);
            p = (if esActive s then LogEventContext (Some (esCtx s)) event p else p)
        in (p, s\<lparr>esDone := True, esResult := m, esEvent := event\<rparr>, m))"

definition eventFinish :: "string option \<Rightarrow> EventSpan \<Rightarrow> ('w, 'x) Profiler \<Rightarrow>
    ('w, 'x) Profiler \<times> EventSpan \<times> Measurement" where
  "eventFinish err = eventFinishResult \<lparr>erStatus = [], erSummary = [], erFields = [], erErr = err\<rparr>"

definition event_panic_result :: "recoveredPanic \<Rightarrow> EventResult" where
  "event_panic_result r = \<lparr>erStatus = ''panicked'', erSummary = [], erFields = panic_fields r,
     erErr = Some (panic_error r)\<rparr>"

text \<open>The methods on a span that may be nil.\<close>

definition eventContext :: "EventSpan option \<Rightarrow> goContext" where
  "eventContext s = (case s of None \<Rightarrow> Background | Some s \<Rightarrow> esOperationCtx s)"

definition eventFinishResult_ptr :: "EventResult \<Rightarrow> EventSpan option \<Rightarrow> ('w, 'x) Profiler \<Rightarrow>
    ('w, 'x) Profiler \<times> EventSpan option \<times> Measurement" where
  "eventFinishResult_ptr r s p =
     (case s of None \<Rightarrow> (p, None, noMeasurement (erErr r))
      | Some s \<Rightarrow> let (p, s, m) = eventFinishResult r s p in (p, Some s, m))"

text \<open>
  \<open>MeasureValueWith\<close>, and \<open>Measure\<close> as the case without a value: a panic of the measured
  function is recorded and goes on (\<open>Panicked\<close>).
\<close>

definition MeasureValueWith :: "bool \<Rightarrow> goContext option \<Rightarrow> Event \<Rightarrow>
    (goContext \<Rightarrow> ('w, 'x) Profiler \<Rightarrow> ('w, 'x) Profiler \<times> 'v callOutcome) \<Rightarrow> ('w, 'x) Profiler \<Rightarrow>
    ('w, 'x) Profiler \<times> (recoveredPanic + 'v \<times> Measurement)" where
  "MeasureValueWith has ctx event fn p =
     (let (p, s) = startEvent has ctx event p; (p, outcome) = fn (esOperationCtx s) p
      in case outcome of
           Finished v err \<Rightarrow> (let (p, s, m) = eventFinish err s p in (p, Inr (v, m)))
         | Panicked r \<Rightarrow> (let (p, s, m) = eventFinishResult (event_panic_result r) s p in (p, Inl r)))"

definition Measure :: "bool \<Rightarrow> goContext option \<Rightarrow> Event \<Rightarrow>
    (goContext \<Rightarrow> ('w, 'x) Profiler \<Rightarrow> ('w, 'x) Profiler \<times> unit callOutcome) \<Rightarrow> ('w, 'x) Profiler \<Rightarrow>
    ('w, 'x) Profiler \<times> (recoveredPanic + Measurement)" where
  "Measure has ctx event fn p =
     (let (p, s) = startEvent has ctx event p; (p, outcome) = fn (esOperationCtx s) p
      in case outcome of
           Finished v err \<Rightarrow> (let (p, s, m) = eventFinish err s p in (p, Inr m))
         | Panicked r \<Rightarrow> (let (p, s, m) = eventFinishResult (event_panic_result r) s p in (p, Inl r)))"

subsection \<open>Task spans\<close>

record TaskResult =
  trState :: string
  trFields :: "(string \<times> anyval) list"
  trErr :: "string option"

record TaskSpan =
  tsActive :: bool
  tsRootCtx :: goContext
  tsTaskCtx :: goContext
  tsTask :: Task
  tsStarted :: instant
  tsDone :: bool
  tsResult :: Measurement

definition cloneTaskFields :: "(string \<times> anyval) list \<Rightarrow> (string \<times> anyval) list" where
  "cloneTaskFields fs = merge_fields [] fs"

definition startTask :: "bool \<Rightarrow> goContext option \<Rightarrow> Task \<Rightarrow> ('w, 'x) Profiler \<Rightarrow> ('w, 'x) Profiler \<times> TaskSpan" where
  "startTask has ctx task p =
     (let ctx = or_background ctx; rootCtx = WithoutCorrelation (Some ctx);
          (p, started) = clock_now p;
          (task, started) = (if mStartedAt task = 0 then (task\<lparr>mStartedAt := started\<rparr>, started)
                             else (task, mStartedAt task));
          (p, task, taskCtx) =
            (if has \<and> RecordingEnabled (Some ctx) then
               let (p, tid) = (if mID task = [] then newID p else (p, mID task));
                   (p, callsite) = prepareCallsite KindTask p (taCallsite task);
                   task = task\<lparr>mID := tid, mTags := mergeTags (TagsFromContext (Some rootCtx)) (mTags task),
                     taFields := cloneTaskFields (taFields task), taCallsite := callsite\<rparr>
               in (p, task, WithParentEntry (Some rootCtx) tid)
             else (p, task, rootCtx))
      in (p, \<lparr>tsActive = has, tsRootCtx = rootCtx, tsTaskCtx = taskCtx, tsTask = task,
              tsStarted = started, tsDone = False, tsResult = noMeasurement None\<rparr>))"

definition apply_task_result :: "TaskResult \<Rightarrow> Task \<Rightarrow> Task" where
  "apply_task_result r t =
     (let t = (if trState r \<noteq> [] then t\<lparr>taState := trState r\<rparr> else t);
          t = (if trFields r \<noteq> [] then t\<lparr>taFields := merge_fields (taFields t) (trFields r)\<rparr> else t);
          t = t\<lparr>taError := err_text (trErr r) (taError t)\<rparr>
      in if taState t = [] then t\<lparr>taState := (if taError t \<noteq> [] then ''failed'' else ''succeeded'')\<rparr> else t)"

definition taskFinishResult :: "TaskResult \<Rightarrow> TaskSpan \<Rightarrow> ('w, 'x) Profiler \<Rightarrow>
    ('w, 'x) Profiler \<times> TaskSpan \<times> Measurement" where
  "taskFinishResult r s p =
     (if tsDone s then (p, s, tsResult s)
      else
        let (p, now) = clock_now p;
            m = \<lparr>mtStartedAt = mStartedAt (tsTask s), mtDuration = now - tsStarted s, mtErr = trErr r\<rparr>;
            task = apply_task_result r ((tsTask s)\<lparr>mDuration := mtDuration m\<rparr>);
            p = (if tsActive s \<and> RecordingEnabled (Some (tsRootCtx s))
                 then LogTaskContext (Some (tsRootCtx s)) task p else p)
        in (p, s\<lparr>tsDone := True, tsResult := m, tsTask := task\<rparr>, m))"

definition taskFinish :: "string option \<Rightarrow> TaskSpan \<Rightarrow> ('w, 'x) Profiler \<Rightarrow>
    ('w, 'x) Profiler \<times> TaskSpan \<times> Measurement" where
  "taskFinish err = taskFinishResult \<lparr>trState = [], trFields = [], trErr = err\<rparr>"

definition task_panic_result :: "recoveredPanic \<Rightarrow> TaskResult" where
  "task_panic_result r = \<lparr>trState = ''panicked'', trFields = panic_fields r, trErr = Some (panic_error r)\<rparr>"

definition taskFinishPanic :: "recoveredPanic \<Rightarrow> TaskSpan \<Rightarrow> ('w, 'x) Profiler \<Rightarrow>
    ('w, 'x) Profiler \<times> TaskSpan \<times> Measurement" where
  "taskFinishPanic r s p =
     taskFinishResult (task_panic_result r) (s\<lparr>tsTask := (tsTask s)\<lparr>taPanic := paText r\<rparr>\<rparr>) p"

definition taskContext :: "TaskSpan option \<Rightarrow> goContext" where
  "taskContext s = (case s of None \<Rightarrow> Background | Some s \<Rightarrow> tsTaskCtx s)"

definition taskFinishResult_ptr :: "TaskResult \<Rightarrow> TaskSpan option \<Rightarrow> ('w, 'x) Profiler \<Rightarrow>
    ('w, 'x) Profiler \<times> TaskSpan option \<times> Measurement" where
  "taskFinishResult_ptr r s p =
     (case s of None \<Rightarrow> (p, None, noMeasurement (trErr r))
      | Some s \<Rightarrow> let (p, s, m) = taskFinishResult r s p in (p, Some s, m))"

definition MeasureTask :: "bool \<Rightarrow> goContext option \<Rightarrow> Task \<Rightarrow>
    (goContext \<Rightarrow> ('w, 'x) Profiler \<Rightarrow> ('w, 'x) Profiler \<times> unit callOutcome) \<Rightarrow> ('w, 'x) Profiler \<Rightarrow>
    ('w, 'x) Profiler \<times> (recoveredPanic + Measurement)" where
  "MeasureTask has ctx task fn p =
     (let (p, s) = startTask has ctx task p; (p, outcome) = fn (tsTaskCtx s) p
      in case outcome of
           Finished v err \<Rightarrow> (let (p, s, m) = taskFinish err s p in (p, Inr m))
         | Panicked r \<Rightarrow> (let (p, s, m) = taskFinishPanic r s p in (p, Inl r)))"

subsection \<open>Query spans\<close>

record QuerySpan =
  qpnCtx :: "goContext option"
  qpnQuery :: Query
  qpnDone :: bool

text \<open>The package function \<open>LogQueryContext\<close> uses the default profiler.\<close>

definition with_default :: "(('w, 'x) Profiler \<Rightarrow> ('w, 'x) Profiler) \<Rightarrow> ('w, 'x) Profiler \<Rightarrow> ('w, 'x) Profiler" where
  "with_default f p = (if pIsDefault p then f p else p)"

definition StartQuery :: "goContext option \<Rightarrow> Query \<Rightarrow> ('w, 'x) Profiler \<Rightarrow> ('w, 'x) Profiler \<times> QuerySpan" where
  "StartQuery ctx query p =
     (let (p, query) = (if mStartedAt query = 0 then let (p, now) = clock_now p in (p, query\<lparr>mStartedAt := now\<rparr>)
                        else (p, query))
      in (p, \<lparr>qpnCtx = ctx, qpnQuery = query, qpnDone = False\<rparr>))"

definition query_finish :: "int option \<Rightarrow> string option \<Rightarrow> QuerySpan \<Rightarrow> ('w, 'x) Profiler \<Rightarrow>
    ('w, 'x) Profiler \<times> QuerySpan" where
  "query_finish rowsAffected err s p =
     (if qpnDone s then (p, s)
      else
        let (p, now) = clock_now p;
            query = (qpnQuery s)\<lparr>mDuration := now - mStartedAt (qpnQuery s), qRowsAffected := rowsAffected,
              qError := err_text err (qError (qpnQuery s))\<rparr>
        in (with_default (LogQueryContext (qpnCtx s) query) p, s\<lparr>qpnDone := True, qpnQuery := query\<rparr>))"

definition queryFinish :: "string option \<Rightarrow> QuerySpan \<Rightarrow> ('w, 'x) Profiler \<Rightarrow> ('w, 'x) Profiler \<times> QuerySpan" where
  "queryFinish err = query_finish None err"

definition queryFinishRows :: "int \<Rightarrow> string option \<Rightarrow> QuerySpan \<Rightarrow> ('w, 'x) Profiler \<Rightarrow> ('w, 'x) Profiler \<times> QuerySpan" where
  "queryFinishRows rows err = query_finish (Some rows) err"

end
