(* ===== verification/Entities.thy ===== *)
theory Entities
  imports Capture
begin

text \<open>
  The zero values of the structs of \<open>contracts.go\<close>, from which composite literals that name only
  some fields are built.
\<close>

definition zeroMessage :: HTTPMessage where
  "zeroMessage =
   \<lparr>hmHeaders = [], hmContentType = [], hmBody = [], hmSize = 0, hmTruncated = False\<rparr>"

definition zeroAddress :: Address where
  "zeroAddress =
   \<lparr>adName = [], adEmail = []\<rparr>"

definition zeroMeta :: Meta where
  "zeroMeta =
   \<lparr>mID = [], mRequestID = [], mParentID = [], mOriginRequestID = [], mProcess = [],
    mInstance = [], mStartedAt = 0, mDuration = 0, mTags = []\<rparr>"

definition zeroQuery :: Query where
  "zeroQuery =
   \<lparr>mID = [], mRequestID = [], mParentID = [], mOriginRequestID = [], mProcess = [],
    mInstance = [], mStartedAt = 0, mDuration = 0, mTags = [], qConnection = [], qDriver = [],
    qDatabase = [], qOperation = [], qSQL = [], qRowsAffected = None, qCallsite = [],
    qPlan = None, qError = []\<rparr>"

definition zeroEmail :: Email where
  "zeroEmail =
   \<lparr>mID = [], mRequestID = [], mParentID = [], mOriginRequestID = [], mProcess = [],
    mInstance = [], mStartedAt = 0, mDuration = 0, mTags = [], emTransport = [],
    emFrom = zeroAddress, emTo = [], emCC = [], emBCC = [], emSubject = [], emText = [],
    emHTML = [], emStatus = [], emCallsite = [], emError = []\<rparr>"

definition zeroCache :: Cache where
  "zeroCache =
   \<lparr>mID = [], mRequestID = [], mParentID = [], mOriginRequestID = [], mProcess = [],
    mInstance = [], mStartedAt = 0, mDuration = 0, mTags = [], caStore = [], caOperation = [],
    caKey = [], caHit = False, caTTL = 0, caSize = 0, caValue = [], caTruncated = False,
    caCallsite = [], caError = []\<rparr>"

definition zeroJob :: Job where
  "zeroJob =
   \<lparr>mID = [], mRequestID = [], mParentID = [], mOriginRequestID = [], mProcess = [],
    mInstance = [], mStartedAt = 0, mDuration = 0, mTags = [], joName = [], joQueue = [],
    joConnection = [], joState = [], joAttempt = 0, joMaxAttempts = 0, joAvailableAt = 0,
    joWait = 0, joArguments = [], joCallsite = [], joError = []\<rparr>"

definition zeroLog :: Log where
  "zeroLog =
   \<lparr>mID = [], mRequestID = [], mParentID = [], mOriginRequestID = [], mProcess = [],
    mInstance = [], mStartedAt = 0, mDuration = 0, mTags = [], loLevel = [], loMessage = [],
    loFields = [], loStack = []\<rparr>"

definition zeroHTTPCall :: HTTPCall where
  "zeroHTTPCall =
   \<lparr>mID = [], mRequestID = [], mParentID = [], mOriginRequestID = [], mProcess = [],
    mInstance = [], mStartedAt = 0, mDuration = 0, mTags = [], hcMethod = [], hcURL = [],
    hcStatus = 0, hcRequest = zeroMessage, hcResponse = zeroMessage, hcResponseSize = 0,
    hcCallsite = [], hcError = []\<rparr>"

definition zeroSchedule :: Schedule where
  "zeroSchedule =
   \<lparr>mID = [], mRequestID = [], mParentID = [], mOriginRequestID = [], mProcess = [],
    mInstance = [], mStartedAt = 0, mDuration = 0, mTags = [], scName = [], scState = [],
    scPlannedAt = 0, scPayload = Some JNull, scCallsite = [], scError = [], scPanic = []\<rparr>"

definition zeroCallable :: Callable where
  "zeroCallable =
   \<lparr>mID = [], mRequestID = [], mParentID = [], mOriginRequestID = [], mProcess = [],
    mInstance = [], mStartedAt = 0, mDuration = 0, mTags = [], clName = [], clState = [],
    clPayload = Some JNull, clResult = Some JNull, clCallsite = [], clError = [], clPanic = []\<rparr>"

definition zeroTask :: Task where
  "zeroTask =
   \<lparr>mID = [], mRequestID = [], mParentID = [], mOriginRequestID = [], mProcess = [],
    mInstance = [], mStartedAt = 0, mDuration = 0, mTags = [], taName = [], taState = [],
    taFields = [], taCallsite = [], taError = [], taPanic = []\<rparr>"

definition zeroException :: Exception where
  "zeroException =
   \<lparr>mID = [], mRequestID = [], mParentID = [], mOriginRequestID = [], mProcess = [],
    mInstance = [], mStartedAt = 0, mDuration = 0, mTags = [], exType = [], exMessage = [],
    exStack = []\<rparr>"

definition zeroEvent :: Event where
  "zeroEvent =
   \<lparr>mID = [], mRequestID = [], mParentID = [], mOriginRequestID = [], mProcess = [],
    mInstance = [], mStartedAt = 0, mDuration = 0, mTags = [], evKind = [], evName = [],
    evStatus = [], evSummary = [], evFields = [], evError = []\<rparr>"

definition zeroMiddleware :: Middleware where
  "zeroMiddleware =
   \<lparr>mID = [], mRequestID = [], mParentID = [], mOriginRequestID = [], mProcess = [],
    mInstance = [], mStartedAt = 0, mDuration = 0, mTags = [], mwName = [], mwState = [],
    mwWorkDuration = None, mwWorkSpans = [], mwError = []\<rparr>"

definition zeroRequest :: Request where
  "zeroRequest =
   \<lparr>mID = [], mRequestID = [], mParentID = [], mOriginRequestID = [], mProcess = [],
    mInstance = [], mStartedAt = 0, mDuration = 0, mTags = [], rqMethod = [], rqPath = [],
    rqRoute = [], rqQuery = [], rqScheme = [], rqProtocol = [], rqHost = [], rqRemoteIP = [],
    rqStatus = 0, rqRequestSize = 0, rqResponseSize = 0, rqRequest = zeroMessage,
    rqResponse = zeroMessage, rqError = [], rqQueries = [], rqEmails = [], rqCache = [],
    rqJobs = [], rqLogs = [], rqHTTPCalls = [], rqSchedules = [], rqExceptions = [],
    rqEvents = [], rqMiddlewares = []\<rparr>"

definition zeroRequestResult :: RequestResult where
  "zeroRequestResult =
   \<lparr>rrStatus = 0, rrResponseSize = 0, rrResponse = zeroMessage, rrError = []\<rparr>"

end
