(* ===== verification/HttpCapture.thy ===== *)
theory HttpCapture
  imports Spans Entities GoHttp
begin

text \<open>
  The inbound side of \<open>profiler/http\<close>: \<open>body.go\<close> and \<open>middleware.go\<close>.  The response writer below
  the middleware is a record of its methods acting on a state of its own.  A handler is a
  program in steps (\<open>hprog\<close>): it works on the application's state, records through the
  profiler, and writes to whatever writer it was given.  Media types are parsed, and JSON is
  read and indented, by the library functions in \<open>bodyCodec\<close>.
\<close>

subsection \<open>Text\<close>

text \<open>\<open>utf8.Valid\<close>: the length of the well-formed sequence at the front, 0 if there is none.\<close>

definition cont_byte :: "nat \<Rightarrow> nat \<Rightarrow> char \<Rightarrow> bool" where
  "cont_byte lo hi c \<longleftrightarrow> lo \<le> byte c \<and> byte c \<le> hi"

definition utf8_len :: "string \<Rightarrow> nat" where
  "utf8_len s = (case s of
     [] \<Rightarrow> 0
   | c # t \<Rightarrow>
       let b = byte c;
           tail = (\<lambda>n lo hi. if length t < n then False
             else cont_byte lo hi (t ! 0) \<and> list_all (cont_byte 128 191) (take (n - 1) (drop 1 t)))
       in if b < 128 then 1
          else if b < 194 then 0
          else if b < 224 then (if tail 1 128 191 then 2 else 0)
          else if b < 240 then
            (if tail 2 (if b = 224 then 160 else 128) (if b = 237 then 159 else 191) then 3 else 0)
          else if b < 245 then
            (if tail 3 (if b = 240 then 144 else 128) (if b = 244 then 143 else 191) then 4 else 0)
          else 0)"

function utf8_valid :: "string \<Rightarrow> bool" where
  "utf8_valid s = (if s = [] then True else if utf8_len s = 0 then False else utf8_valid (drop (utf8_len s) s))"
  by auto
termination by (relation "measure length") auto

declare utf8_valid.simps [simp del]

text \<open>\<open>strings.ReplaceAll\<close> of a nonempty text.\<close>

fun replace_all :: "string \<Rightarrow> string \<Rightarrow> string \<Rightarrow> string" where
  "replace_all old new [] = []"
| "replace_all old new (c # s) =
     (if has_prefix (c # s) old then new @ replace_all old new (drop (length old - 1) s)
      else c # replace_all old new s)"

subsection \<open>Bodies\<close>

record BodyRecorder =
  brLimit :: int
  brBody :: string
  brTruncated :: bool

definition NewBodyRecorder :: "int \<Rightarrow> BodyRecorder" where
  "NewBodyRecorder limit = \<lparr>brLimit = limit, brBody = [], brTruncated = False\<rparr>"

text \<open>\<open>Write\<close> always reports the whole length without an error.\<close>

definition bodyWrite :: "string \<Rightarrow> BodyRecorder \<Rightarrow> BodyRecorder" where
  "bodyWrite data c =
     (if brLimit c \<le> 0 then c
      else
        let remaining = brLimit c - int (length (brBody c));
            c = (if remaining > 0
                 then c\<lparr>brBody := brBody c @ take (nat (min (int (length data)) remaining)) data\<rparr> else c)
        in if int (length data) > remaining then c\<lparr>brTruncated := True\<rparr> else c)"

record bodyCodec =
  bcMediaType :: "string \<Rightarrow> string"
  bcUnmarshal :: "string \<Rightarrow> json option"
  bcIndent :: "json \<Rightarrow> string"

definition redactedText :: string where "redactedText = ''[REDACTED]''"

text \<open>\<open>ParseQuery\<close> fails if any nonempty part does not decode.\<close>

definition query_parses :: "string \<Rightarrow> bool" where
  "query_parses raw = list_all (\<lambda>part. part = [] \<or> parse_pair part \<noteq> None) (split_on (CHR ''&'') raw)"

definition mask_query :: "(string \<times> string) list \<Rightarrow> (string \<times> string) list" where
  "mask_query q =
     filter (\<lambda>(k, v). \<not> isSensitiveKey k) q @
     map (\<lambda>k. (k, redactedText)) (remdups (filter isSensitiveKey (map fst q)))"

definition sanitizeQuery :: "string \<Rightarrow> string" where
  "sanitizeQuery raw =
     (if \<not> query_parses raw then redactedText
      else replace_all (query_escape redactedText) redactedText (values_encode (mask_query (parse_query raw))))"

definition formatHTTPBody :: "bodyCodec \<Rightarrow> string \<Rightarrow> string \<Rightarrow> string" where
  "formatHTTPBody codec body contentType =
     (if body = [] then []
      else
        let mediaType = bcMediaType codec contentType in
        if mediaType = ''application/json'' \<or> has_suffix mediaType ''+json'' then
          (case bcUnmarshal codec body of None \<Rightarrow> [] | Some v \<Rightarrow> bcIndent codec (redact v))
        else if mediaType = ''application/x-www-form-urlencoded'' then sanitizeQuery body
        else if has_prefix mediaType ''text/'' \<or> mediaType = ''application/xml'' \<or> has_suffix mediaType ''+xml'' \<or>
            mediaType = ''application/javascript'' then
          (if utf8_valid body then body else [])
        else [])"

text \<open>\<open>Message\<close>; \<open>None\<close> is a nil recorder.\<close>

definition bodyMessage :: "bodyCodec \<Rightarrow> (string \<times> string list) list \<Rightarrow> int \<Rightarrow> BodyRecorder option \<Rightarrow> HTTPMessage" where
  "bodyMessage codec headers sz recorder =
     (let message = \<lparr>hmHeaders = headers, hmContentType = header_get headers ''Content-Type'', hmBody = [],
            hmSize = sz, hmTruncated = False\<rparr>
      in case recorder of
           None \<Rightarrow> message
         | Some c \<Rightarrow> message\<lparr>hmBody := formatHTTPBody codec (brBody c) (hmContentType message),
             hmTruncated := brTruncated c\<rparr>)"

text \<open>A request body: the bytes still to come, and the error after them if it is not the end of the input.\<close>

record bodyStream =
  bsData :: string
  bsErr :: "string option"

record inboundRequest =
  irHTTP :: httpRequest
  irScheme :: string
  irBody :: "bodyStream option"

text \<open>\<open>io.ReadAll\<close> of a limited reader.\<close>

definition read_limited :: "nat \<Rightarrow> bodyStream \<Rightarrow> string \<times> string option \<times> bodyStream" where
  "read_limited n b =
     (take n (bsData b), if length (bsData b) < n then bsErr b else None, b\<lparr>bsData := drop n (bsData b)\<rparr>)"

definition SnapshotRequest :: "bodyCodec \<Rightarrow> int \<Rightarrow> inboundRequest \<Rightarrow> inboundRequest \<times> HTTPMessage" where
  "SnapshotRequest codec limit r =
     (let h = irHTTP r;
          message = \<lparr>hmHeaders = hqHeader h, hmContentType = header_get (hqHeader h) ''Content-Type'', hmBody = [],
            hmSize = hqContentLength h, hmTruncated = False\<rparr>
      in case irBody r of
           None \<Rightarrow> (r, message)
         | Some body \<Rightarrow>
             if limit \<le> 0 then (r, message)
             else
               let (prefix, err, left) = read_limited (nat (limit + 1)) body;
                   r = r\<lparr>irBody := Some (left\<lparr>bsData := prefix @ bsData left\<rparr>)\<rparr>
               in if err \<noteq> None then (r, message)
                  else
                    let truncated = int (length prefix) > limit;
                        prefix = (if truncated then take (nat limit) prefix else prefix)
                    in (r, message\<lparr>hmTruncated := truncated,
                          hmBody := formatHTTPBody codec prefix (hmContentType message)\<rparr>))"

definition RequestScheme :: "inboundRequest option \<Rightarrow> string" where
  "RequestScheme request =
     (case request of
        None \<Rightarrow> ''http''
      | Some r \<Rightarrow>
          let candidates = [irScheme r, hd (split_on (CHR '','') (header_get (hqHeader (irHTTP r)) ''X-Forwarded-Proto''))]
          in case filter (\<lambda>s. s = ''http'' \<or> s = ''https'') (map (\<lambda>c. to_lower (trim_space c)) candidates) of
               s # _ \<Rightarrow> s
             | [] \<Rightarrow> if hqTLS (irHTTP r) then ''https'' else ''http'')"

definition remoteIP :: "string \<Rightarrow> string" where
  "remoteIP address = (case split_host address of Some host \<Rightarrow> host | None \<Rightarrow> address)"

subsection \<open>The response observer\<close>

text \<open>\<open>Write\<close> answers how many bytes it took and an error; \<open>rwPush\<close> is there if the writer can push.\<close>

record 'r responseWriter =
  rwWriteHeader :: "int \<Rightarrow> 'r \<Rightarrow> 'r"
  rwWrite :: "string \<Rightarrow> 'r \<Rightarrow> 'r \<times> nat \<times> string option"
  rwFlush :: "'r \<Rightarrow> 'r"
  rwHeader :: "'r \<Rightarrow> (string \<times> string list) list"
  rwPush :: "(string \<Rightarrow> 'r \<Rightarrow> 'r \<times> string option) option"

record 'r responseObserver =
  roWriter :: 'r
  roStatus :: int
  roSize :: int
  roWroteHeader :: bool
  roBody :: BodyRecorder

definition newObserver :: "int \<Rightarrow> 'r \<Rightarrow> 'r responseObserver" where
  "newObserver bodyLimit w = \<lparr>roWriter = w, roStatus = 200, roSize = 0, roWroteHeader = False,
     roBody = NewBodyRecorder bodyLimit\<rparr>"

definition obsWriteHeader :: "'r responseWriter \<Rightarrow> int \<Rightarrow> 'r responseObserver \<Rightarrow> 'r responseObserver" where
  "obsWriteHeader inner status ob =
     (if status \<ge> 100 \<and> status < 200 then ob\<lparr>roWriter := rwWriteHeader inner status (roWriter ob)\<rparr>
      else if roWroteHeader ob then ob
      else ob\<lparr>roWroteHeader := True, roStatus := status, roWriter := rwWriteHeader inner status (roWriter ob)\<rparr>)"

definition ensure_header :: "'r responseWriter \<Rightarrow> 'r responseObserver \<Rightarrow> 'r responseObserver" where
  "ensure_header inner ob = (if \<not> roWroteHeader ob then obsWriteHeader inner 200 ob else ob)"

definition obsWrite :: "'r responseWriter \<Rightarrow> string \<Rightarrow> 'r responseObserver \<Rightarrow>
    'r responseObserver \<times> nat \<times> string option" where
  "obsWrite inner data ob =
     (let ob = ensure_header inner ob;
          ob = ob\<lparr>roBody := bodyWrite data (roBody ob)\<rparr>;
          (w, written, err) = rwWrite inner data (roWriter ob)
      in (ob\<lparr>roWriter := w, roSize := roSize ob + int written\<rparr>, written, err))"

text \<open>\<open>io.Copy\<close> from a reader that delivers chunks and then an error or the end.\<close>

fun obs_copy :: "'r responseWriter \<Rightarrow> string list \<Rightarrow> string option \<Rightarrow> 'r responseObserver \<Rightarrow> int \<Rightarrow>
    'r responseObserver \<times> int \<times> string option" where
  "obs_copy inner [] err ob n = (ob, n, err)"
| "obs_copy inner (chunk # chunks) err ob n =
     (case obsWrite inner chunk ob of
        (ob, written, Some e) \<Rightarrow> (ob, n + int written, Some e)
      | (ob, written, None) \<Rightarrow>
          if written \<noteq> length chunk then (ob, n + int written, Some ''short write'')
          else obs_copy inner chunks err ob (n + int written))"

definition obsReadFrom :: "'r responseWriter \<Rightarrow> string list \<Rightarrow> string option \<Rightarrow> 'r responseObserver \<Rightarrow>
    'r responseObserver \<times> int \<times> string option" where
  "obsReadFrom inner chunks err ob = obs_copy inner chunks err (ensure_header inner ob) 0"

definition obsFlush :: "'r responseWriter \<Rightarrow> 'r responseObserver \<Rightarrow> 'r responseObserver" where
  "obsFlush inner ob = (let ob = ensure_header inner ob in ob\<lparr>roWriter := rwFlush inner (roWriter ob)\<rparr>)"

definition obsPush :: "'r responseWriter \<Rightarrow> string \<Rightarrow> 'r responseObserver \<Rightarrow> 'r responseObserver \<times> string option" where
  "obsPush inner target ob =
     (case rwPush inner of
        None \<Rightarrow> (ob, Some ''feature not supported'')
      | Some push \<Rightarrow> (let (w, err) = push target (roWriter ob) in (ob\<lparr>roWriter := w\<rparr>, err)))"

definition observed :: "'r responseWriter \<Rightarrow> 'r responseObserver responseWriter" where
  "observed inner = \<lparr>rwWriteHeader = obsWriteHeader inner, rwWrite = obsWrite inner, rwFlush = obsFlush inner,
     rwHeader = (\<lambda>ob. rwHeader inner (roWriter ob)), rwPush = Some (obsPush inner)\<rparr>"

subsection \<open>Handlers\<close>

text \<open>
  A handler in steps, over the application's state \<open>'a\<close>; \<open>HRecord\<close> is a call into the profiler
  with the context of the request.
\<close>

datatype ('p, 'a) hprog = HReturn | HPanic recoveredPanic
  | HWork "'a \<Rightarrow> 'a \<times> ('p, 'a) hprog"
  | HRecord "goContext \<Rightarrow> 'p \<Rightarrow> 'p" "('p, 'a) hprog"
  | HHeader int "('p, 'a) hprog"
  | HWrite string "nat \<times> string option \<Rightarrow> ('p, 'a) hprog"
  | HFlush "('p, 'a) hprog"

type_synonym ('p, 'a, 'r) handlerResult = "('p \<times> 'a \<times> 'r) \<times> recoveredPanic option"

primrec run_handler :: "'r responseWriter \<Rightarrow> goContext \<Rightarrow> ('p, 'a) hprog \<Rightarrow> 'p \<times> 'a \<times> 'r \<Rightarrow> ('p, 'a, 'r) handlerResult" where
  "run_handler wr ctx HReturn = (\<lambda>s. (s, None))"
| "run_handler wr ctx (HPanic e) = (\<lambda>s. (s, Some e))"
| "run_handler wr ctx (HWork f) = (\<lambda>(p, a, w). case (map_prod id (run_handler wr ctx) \<circ> f) a of (a, k) \<Rightarrow> k (p, a, w))"
| "run_handler wr ctx (HRecord f k) = (\<lambda>(p, a, w). run_handler wr ctx k (f ctx p, a, w))"
| "run_handler wr ctx (HHeader status k) = (\<lambda>(p, a, w). run_handler wr ctx k (p, a, rwWriteHeader wr status w))"
| "run_handler wr ctx (HWrite data k) = (\<lambda>(p, a, w).
     case rwWrite wr data w of (w, answer) \<Rightarrow> (run_handler wr ctx \<circ> k) answer (p, a, w))"
| "run_handler wr ctx (HFlush k) = (\<lambda>(p, a, w). run_handler wr ctx k (p, a, rwFlush wr w))"

definition PanicException :: "recoveredPanic \<Rightarrow> Exception" where
  "PanicException e = zeroException\<lparr>exType := paType e, exMessage := paText e, exStack := paStack e\<rparr>"

text \<open>The capture \<open>Middleware\<close> begins for a request.\<close>

definition captured_request :: "goContext \<Rightarrow> HTTPMessage \<Rightarrow> inboundRequest \<Rightarrow> Request" where
  "captured_request ctx message r =
     (let h = irHTTP r in
      zeroRequest\<lparr>mTags := TagsFromContext (Some ctx), rqMethod := hqMethod h, rqPath := hqPath h,
        rqQuery := sanitizeQuery (hqRawQuery h), rqScheme := RequestScheme (Some r), rqProtocol := hqProto h,
        rqHost := hqHost h, rqRemoteIP := remoteIP (hqRemoteAddr h), rqRequestSize := hqContentLength h,
        rqRequest := message\<rparr>)"

text \<open>What the deferred function hands to \<open>Finish\<close>.\<close>

definition observed_result :: "bodyCodec \<Rightarrow> 'r responseWriter \<Rightarrow> 'r responseObserver \<Rightarrow> recoveredPanic option \<Rightarrow> RequestResult" where
  "observed_result codec inner ob failure =
     \<lparr>rrStatus = (case failure of None \<Rightarrow> roStatus ob | Some e \<Rightarrow> 500), rrResponseSize = roSize ob,
      rrResponse = bodyMessage codec (rwHeader inner (roWriter ob)) (roSize ob) (Some (roBody ob)),
      rrError = (case failure of None \<Rightarrow> [] | Some e \<Rightarrow> paText e)\<rparr>"

text \<open>\<open>has\<close> tells whether the profiler pointer is set; a recovered panic goes on afterwards.\<close>

definition MiddlewareWith :: "bodyCodec \<Rightarrow> bool \<Rightarrow> 'r responseWriter \<Rightarrow>
    (inboundRequest \<Rightarrow> (('w, 'x) Profiler, 'a) hprog) \<Rightarrow> inboundRequest \<Rightarrow> goContext \<Rightarrow>
    ('w, 'x) Profiler \<times> 'a \<times> 'r \<Rightarrow> (('w, 'x) Profiler, 'a, 'r) handlerResult" where
  "MiddlewareWith codec has inner handle r ctx state =
     (if \<not> has then run_handler inner ctx (handle r) state
      else
        let (p, a, w) = state; (p, capture) = ShouldCaptureRequest (Some (irHTTP r)) p in
        if \<not> capture then run_handler inner (WithoutRecording ctx) (handle r) (p, a, w)
        else
          let (r, message) = SnapshotRequest codec (cBodyLimit (pConfig p)) r;
              (p, i) = BeginRequest (captured_request ctx message r) True p;
              ctx = WithRequest ctx (Some i);
              ((p, a, ob), failure) =
                run_handler (observed inner) ctx (handle r) (p, a, newObserver (cBodyLimit (pConfig p)) w);
              p = (case failure of None \<Rightarrow> p | Some e \<Rightarrow> LogExceptionContext (Some ctx) (PanicException e) p);
              p = Finish i (observed_result codec inner ob failure) p
          in ((p, a, roWriter ob), failure))"

subsection \<open>Timing of one middleware\<close>

type_synonym middlewareTiming = "(instant \<times> instant) list"

definition recordDownstream :: "instant \<Rightarrow> instant \<Rightarrow> middlewareTiming \<Rightarrow> middlewareTiming" where
  "recordDownstream start stop t = (if \<not> stop > start then t else t @ [(start, stop)])"

text \<open>The merging loop: the current interval (\<open>None\<close> before the first) and those finished.\<close>

fun merge_downstream :: "(instant \<times> instant) option \<Rightarrow> middlewareTiming \<Rightarrow> middlewareTiming" where
  "merge_downstream None [] = []"
| "merge_downstream (Some c) [] = [c]"
| "merge_downstream current ((start, stop) # ivs) =
     (if \<not> stop > start then merge_downstream current ivs
      else case current of
          None \<Rightarrow> merge_downstream (Some (start, stop)) ivs
        | Some (a, b) \<Rightarrow>
            if \<not> start > b then merge_downstream (Some (a, if stop > b then stop else b)) ivs
            else (a, b) # merge_downstream (Some (start, stop)) ivs)"

text \<open>The loop over the merged intervals, from \<open>cursor\<close>: the spans of work between them.\<close>

fun work_gaps :: "instant \<Rightarrow> instant \<Rightarrow> instant \<Rightarrow> middlewareTiming \<Rightarrow> MiddlewareWorkSpan list" where
  "work_gaps start stop cursor [] =
     (if stop > cursor then [\<lparr>wsOffset = cursor - start, wsDuration = stop - cursor\<rparr>] else [])"
| "work_gaps start stop cursor ((a, b) # ivs) =
     (if a > cursor then [\<lparr>wsOffset = cursor - start, wsDuration = a - cursor\<rparr>] else []) @
     work_gaps start stop (if b > cursor then b else cursor) ivs"

definition workSpans :: "instant \<Rightarrow> instant \<Rightarrow> middlewareTiming \<Rightarrow> MiddlewareWorkSpan list \<times> duration" where
  "workSpans start stop t =
     (if \<not> stop > start then ([], 0)
      else
        let intervals = map (\<lambda>(a, b). (if a < start then start else a, if b > stop then stop else b)) t;
            spans = work_gaps start stop start (merge_downstream None (sort_key fst intervals))
        in (spans, sum_list (map wsDuration spans)))"

text \<open>
  The downstream handler as the middleware sees it, and one invocation of the middleware.
  \<open>wrapped\<close> is the middleware applied to that handler: given the context with the timing it
  acts on the profiler and the timing, and returns or panics; a request that reaches the
  downstream handler without the timing in its context is passed on untimed.
\<close>

definition timed_next :: "bool \<Rightarrow> (('w, 'x) Profiler \<Rightarrow> ('w, 'x) Profiler \<times> recoveredPanic option) \<Rightarrow>
    ('w, 'x) Profiler \<times> middlewareTiming \<Rightarrow> (('w, 'x) Profiler \<times> middlewareTiming) \<times> recoveredPanic option" where
  "timed_next has_timing handle s =
     (let (p, t) = s; (p, start) = clock_now p; (p, failure) = handle p in
      if \<not> has_timing then ((p, t), failure)
      else let (p, stop) = clock_now p in ((p, recordDownstream start stop t), failure))"

definition ProfileMiddlewareWith :: "string \<Rightarrow> (goContext \<Rightarrow> ('w, 'x) Profiler \<times> middlewareTiming \<Rightarrow>
    (('w, 'x) Profiler \<times> middlewareTiming) \<times> recoveredPanic option) \<Rightarrow> goContext \<Rightarrow> ('w, 'x) Profiler \<Rightarrow>
    ('w, 'x) Profiler \<times> recoveredPanic option" where
  "ProfileMiddlewareWith name wrapped ctx p =
     (let (p, i) = newID p; (p, start) = clock_now p;
          ((p, t), failure) = wrapped (WithParentEntry (Some ctx) i) (p, []);
          (p, stop) = clock_now p; (spans, work) = workSpans start stop t;
          invocation = zeroMiddleware\<lparr>mID := i, mParentID := ParentEntryIDFromContext (Some ctx), mwName := name,
            mStartedAt := start, mDuration := stop - start, mwWorkSpans := spans, mwWorkDuration := Some work,
            mwState := (case failure of None \<Rightarrow> ''completed'' | Some e \<Rightarrow> ''panicked''),
            mwError := (case failure of None \<Rightarrow> [] | Some e \<Rightarrow> paText e)\<rparr>
      in (LogMiddlewareContext (Some ctx) invocation p, failure))"

subsection \<open>Outbound calls\<close>

text \<open>
  \<open>RoundTrip\<close>: the inner transport answers with a response (status, length, headers) or an
  error, or both; \<open>url\<close> is the URL without its password.
\<close>

record outboundResponse =
  obrStatus :: int
  obrLength :: int
  obrHeader :: "(string \<times> string list) list"

definition RoundTrip :: "(('w, 'x) Profiler \<Rightarrow> ('w, 'x) Profiler \<times> outboundResponse option \<times> string option) \<Rightarrow>
    goContext \<Rightarrow> string \<Rightarrow> string \<Rightarrow> ('w, 'x) Profiler \<Rightarrow>
    ('w, 'x) Profiler \<times> outboundResponse option \<times> string option" where
  "RoundTrip inner ctx verb url p =
     (let (p, start) = clock_now p; (p, response, err) = inner p; (p, stop) = clock_now p;
          event = zeroHTTPCall\<lparr>mStartedAt := start, mDuration := stop - start, hcMethod := verb, hcURL := url\<rparr>;
          event = (case response of None \<Rightarrow> event
            | Some a \<Rightarrow> event\<lparr>hcStatus := obrStatus a, hcResponseSize := obrLength a,
                hcResponse := \<lparr>hmHeaders = obrHeader a, hmContentType = header_get (obrHeader a) ''Content-Type'',
                  hmBody = [], hmSize = obrLength a, hmTruncated = False\<rparr>\<rparr>);
          event = (case err of None \<Rightarrow> event | Some e \<Rightarrow> event\<lparr>hcError := e\<rparr>)
      in (LogHTTPCallContext (Some ctx) event p, response, err))"

end

