(* ===== verification/HttpCaptureProps.thy ===== *)
theory HttpCaptureProps
  imports HttpCapture CaptureProps AnalysisProps
begin

text \<open>
  What the inbound middleware guarantees: the application and its client do not notice it, the
  capture reports the response that was sent, and the time a middleware spent on its own work
  is its duration without the time of the handlers below it.
\<close>

subsection \<open>Bodies\<close>

lemma recorded_prefix:
  "fold bodyWrite chunks \<lparr>brLimit = limit, brBody = take (nat limit) d, brTruncated = (0 < limit \<and> limit < int (length d))\<rparr> =
   \<lparr>brLimit = limit, brBody = take (nat limit) (d @ concat chunks),
    brTruncated = (0 < limit \<and> limit < int (length (d @ concat chunks)))\<rparr>"
proof (induction chunks arbitrary: d)
  case (Cons x xs)
  have "bodyWrite x \<lparr>brLimit = limit, brBody = take (nat limit) d, brTruncated = (0 < limit \<and> limit < int (length d))\<rparr> =
     \<lparr>brLimit = limit, brBody = take (nat limit) (d @ x), brTruncated = (0 < limit \<and> limit < int (length (d @ x)))\<rparr>"
  proof (cases "x = []")
    case False
    then have "0 < length x" by simp
    then show ?thesis by (auto simp: bodyWrite_def Let_def min_def nat_diff_distrib simp del: length_greater_0_conv)
  qed (simp add: bodyWrite_def Let_def)
  with Cons.IH [of "d @ x"] show ?case by simp
qed simp

lemma body_recorded:
  "fold bodyWrite chunks (NewBodyRecorder limit) =
   \<lparr>brLimit = limit, brBody = take (nat limit) (concat chunks),
    brTruncated = (0 < limit \<and> limit < int (length (concat chunks)))\<rparr>"
proof -
  have none: "(0 < limit \<and> limit < 0) = False" by auto
  show ?thesis using recorded_prefix [of chunks limit "[]"] by (simp add: NewBodyRecorder_def none)
qed

text \<open>The body a handler reads is the one that arrived.\<close>

lemma snapshot_restores: "fst (SnapshotRequest codec limit r) = r"
  by (cases r) (auto simp: SnapshotRequest_def Let_def read_limited_def split: option.split)

subsection \<open>Writers\<close>

text \<open>
  The contract of a response writer, as \<open>net/http\<close> documents it: the header is sent once, by the
  first final status or with 200 by the first write or flush; afterwards a status is ignored.
\<close>

locale response_writer =
  fixes wr :: "'r responseWriter" and wrote :: "'r \<Rightarrow> bool" and ok :: "'r \<Rightarrow> bool"
  assumes header_ok: "ok w \<Longrightarrow> ok (rwWriteHeader wr s w)"
    and write_ok: "ok w \<Longrightarrow> ok (fst (rwWrite wr d w))"
    and flush_ok: "ok w \<Longrightarrow> ok (rwFlush wr w)"
    and sent: "ok w \<Longrightarrow> \<not> (100 \<le> s \<and> s < 200) \<Longrightarrow> wrote (rwWriteHeader wr s w)"
    and stays: "ok w \<Longrightarrow> wrote w \<Longrightarrow> wrote (rwWriteHeader wr s w)"
    and once: "ok w \<Longrightarrow> wrote w \<Longrightarrow> rwWriteHeader wr s w = w"
    and implicit: "ok w \<Longrightarrow> \<not> wrote w \<Longrightarrow> rwWrite wr d w = rwWrite wr d (rwWriteHeader wr 200 w)"
    and wrote_write: "ok w \<Longrightarrow> wrote (fst (rwWrite wr d w))"
    and implicit_flush: "ok w \<Longrightarrow> \<not> wrote w \<Longrightarrow> rwFlush wr w = rwFlush wr (rwWriteHeader wr 200 w)"
    and wrote_flush: "ok w \<Longrightarrow> wrote (rwFlush wr w)"
begin

text \<open>An observer over a writer, and the writer as it would be without the observer.\<close>

definition tracks :: "'r responseObserver \<Rightarrow> 'r \<Rightarrow> bool" where
  "tracks ob w \<longleftrightarrow> roWriter ob = w \<and> ok w \<and> (roWroteHeader ob \<longrightarrow> wrote w)"

lemma tracks_header: "tracks ob w \<Longrightarrow> tracks (obsWriteHeader wr s ob) (rwWriteHeader wr s w)"
  using header_ok sent stays once by (auto simp: tracks_def obsWriteHeader_def)

lemma ensured:
  assumes "tracks ob w"
  obtains w' where "tracks (ensure_header wr ob) w'" "wrote w'" "rwWrite wr d w' = rwWrite wr d w" "rwFlush wr w' = rwFlush wr w"
proof (cases "wrote w")
  case True
  then show ?thesis using that [of w] assms once by (auto simp: tracks_def ensure_header_def obsWriteHeader_def)
next
  case False
  then have "tracks (ensure_header wr ob) (rwWriteHeader wr 200 w)"
    using assms tracks_header [of ob w 200] by (auto simp: ensure_header_def tracks_def)
  then show ?thesis using that [of "rwWriteHeader wr 200 w"] assms False sent implicit implicit_flush by (auto simp: tracks_def)
qed

lemma tracks_write:
  assumes "tracks ob w"
  shows "tracks (fst (obsWrite wr d ob)) (fst (rwWrite wr d w)) \<and> snd (obsWrite wr d ob) = snd (rwWrite wr d w)"
proof -
  obtain w' where w': "tracks (ensure_header wr ob) w'" "rwWrite wr d w' = rwWrite wr d w"
    using ensured [OF assms] by metis
  then have "ok (fst (rwWrite wr d w))" "wrote (fst (rwWrite wr d w))"
    using write_ok [of w' d] wrote_write [of w' d] by (simp_all add: tracks_def)
  then show ?thesis using w' by (simp add: obsWrite_def Let_def tracks_def case_prod_beta)
qed

lemma tracks_flush:
  assumes "tracks ob w"
  shows "tracks (obsFlush wr ob) (rwFlush wr w)"
proof -
  obtain w' where w': "tracks (ensure_header wr ob) w'" "rwFlush wr w' = rwFlush wr w"
    using ensured [OF assms] by metis
  then have "ok (rwFlush wr w)" "wrote (rwFlush wr w)"
    using flush_ok [of w'] wrote_flush [of w'] by (simp_all add: tracks_def)
  then show ?thesis using w' by (simp add: obsFlush_def Let_def tracks_def)
qed

lemma observed_run:
  assumes "tracks ob w"
  shows "(case run_handler (observed wr) ctx prog (p, a, ob) of ((p', a', ob'), failure) \<Rightarrow>
    \<exists>w'. run_handler wr ctx prog (p, a, w) = ((p', a', w'), failure) \<and> tracks ob' w')"
  using assms
proof (induction prog arbitrary: p a ob w)
  case (HWork f)
  obtain a' k where f: "f a = (a', k)" by (cases "f a") auto
  then have "k \<in> Basic_BNFs.snds (f a)" by (simp add: prod_set_defs)
  moreover have "f a \<in> range f" by simp
  ultimately show ?case using HWork.IH [of "f a" k ob w p a'] HWork.prems by (auto simp: f split: prod.splits)
next
  case (HHeader s k)
  from HHeader.IH [OF tracks_header [OF HHeader.prems]] show ?case by (simp add: observed_def)
next
  case (HWrite d k)
  note t = tracks_write [OF HWrite.prems, of d]
  obtain ob' x where o: "obsWrite wr d ob = (ob', x)" by (cases "obsWrite wr d ob")
  then obtain w1 where w1: "rwWrite wr d w = (w1, x)" "tracks ob' w1" using t by (cases "rwWrite wr d w") auto
  show ?case using HWrite.IH [OF _ w1(2), of "k x" p a] w1(1) o by (simp add: observed_def)
next
  case (HFlush k)
  from HFlush.IH [OF tracks_flush [OF HFlush.prems]] show ?case by (simp add: observed_def)
qed auto

text \<open>An observer is a response writer again, so observers nest.\<close>

lemma observer_writer:
  "response_writer (observed wr) roWroteHeader (\<lambda>ob. tracks ob (roWriter ob))"
proof (unfold_locales, goal_cases)
  case (1 ob s)
  then show ?case using tracks_header [of ob "roWriter ob" s]
    by (auto simp: observed_def tracks_def obsWriteHeader_def)
next
  case (2 ob d)
  then show ?case using tracks_write [of ob "roWriter ob" d] by (auto simp: observed_def tracks_def)
next
  case (3 ob)
  then show ?case using tracks_flush [of ob "roWriter ob"] by (auto simp: observed_def tracks_def)
qed (auto simp: observed_def tracks_def obsWriteHeader_def obsWrite_def obsFlush_def ensure_header_def Let_def once
      split: prod.split)

end

subsection \<open>The writer of the server\<close>

text \<open>
  The response of \<open>net/http\<close>: the first final status is the one that is sent, a body is refused
  where the status has none, and a connection takes no more than \<open>nrRoom\<close> bytes before it breaks.
\<close>

record netResponse =
  nrWroteHeader :: bool
  nrStatus :: int
  nrInformational :: "int list"
  nrBody :: string
  nrRoom :: nat
  nrHeader :: "(string \<times> string list) list"

definition netWriteHeader :: "int \<Rightarrow> netResponse \<Rightarrow> netResponse" where
  "netWriteHeader status w =
     (if nrWroteHeader w then w
      else if status \<ge> 100 \<and> status < 200 \<and> status \<noteq> 101 then w\<lparr>nrInformational := nrInformational w @ [status]\<rparr>
      else w\<lparr>nrWroteHeader := True, nrStatus := status\<rparr>)"

definition netWrite :: "string \<Rightarrow> netResponse \<Rightarrow> netResponse \<times> nat \<times> string option" where
  "netWrite data w =
     (let w = netWriteHeader 200 w in
      if nrStatus w = 101 \<or> nrStatus w = 204 \<or> nrStatus w = 304 then
        (w, 0, Some ''http: request method or response status code does not allow body'')
      else
        let room = nrRoom w - length (nrBody w) in
        (w\<lparr>nrBody := nrBody w @ take room data\<rparr>, min (length data) room,
         if length data > room then Some ''broken pipe'' else None))"

definition netResponseWriter :: "netResponse responseWriter" where
  "netResponseWriter = \<lparr>rwWriteHeader = netWriteHeader, rwWrite = netWrite, rwFlush = netWriteHeader 200,
     rwHeader = nrHeader, rwPush = None\<rparr>"

lemmas net_defs = netResponseWriter_def netWriteHeader_def netWrite_def Let_def

interpretation net: response_writer netResponseWriter nrWroteHeader "\<lambda>w. True"
  by unfold_locales (auto simp: net_defs)

interpretation nested: response_writer "observed netResponseWriter" roWroteHeader
    "\<lambda>ob. net.tracks ob (roWriter ob)"
  by (rule net.observer_writer)

subsection \<open>The middleware\<close>

lemma fresh_tracks: "net.tracks (newObserver limit w) w"
  by (simp add: net.tracks_def newObserver_def)

text \<open>A handler whose recordings do not fail does the same whatever profiler it records to.\<close>

lemma run_apart:
  "snd (fst (run_handler wr ctx prog (p, s))) = snd (fst (run_handler wr ctx' prog (p', s))) \<and>
   snd (run_handler wr ctx prog (p, s)) = snd (run_handler wr ctx' prog (p', s))"
proof (induction prog arbitrary: p p' s)
  case (HWork f)
  obtain a w where s: "s = (a, w)" by (cases s)
  obtain a' k where f: "f a = (a', k)" by (cases "f a") auto
  then have "k \<in> Basic_BNFs.snds (f a)" by (simp add: prod_set_defs)
  moreover have "f a \<in> range f" by simp
  ultimately show ?case using HWork.IH [of "f a" k p "(a', w)" p'] by (simp add: f s)
next
  case (HWrite d k)
  then show ?case by (cases s) (auto simp: split: prod.split)
qed (auto split: prod.splits)

text \<open>
  C16. The inbound middleware is transparent.  Whatever the application's handler does (any
  sequence of status lines, writes, flushes, work of its own, recordings and a panic, each
  step depending on what the writes before answered), whether the request is captured or not
  and whether a profiler is there, the handler sees the request it was sent, with its whole
  body, and leaves the same application state, the same response and the same panic behind as
  without the middleware.
\<close>

theorem http_middleware_transparent:
  "case MiddlewareWith codec has netResponseWriter handle r ctx (p, a, w) of ((p1, a1, w1), failure1) \<Rightarrow>
     (case run_handler netResponseWriter ctx' (handle r) (p', a, w) of ((p2, a2, w2), failure2) \<Rightarrow>
        a1 = a2 \<and> w1 = w2 \<and> failure1 = failure2)"
proof -
  note apart = run_apart [of netResponseWriter _ "handle r" _ "(a, w)" ctx' p']
  obtain p0 capture where c: "ShouldCaptureRequest (Some (irHTTP r)) p = (p0, capture)" by force
  show ?thesis
  proof (cases "has \<and> capture")
    case False
    then show ?thesis using apart [of ctx p] apart [of "WithoutRecording ctx" p0]
      by (auto simp: MiddlewareWith_def c split: prod.splits)
  next
    case True
    let ?lim = "cBodyLimit (pConfig p0)"
    obtain message where m: "SnapshotRequest codec ?lim r = (r, message)" using snapshot_restores by (metis prod.collapse)
    obtain p3 i where b: "BeginRequest (captured_request ctx message r) True p0 = (p3, i)" by force
    have conf: "pConfig p3 = pConfig p0"
      using b by (auto simp: BeginRequest_def newID_def clock_now_def tick_def Let_def split: if_splits)
    obtain p4 a4 ob failure where run: "run_handler (observed netResponseWriter) (WithRequest ctx (Some i)) (handle r)
        (p3, a, newObserver ?lim w) = ((p4, a4, ob), failure)" by (metis prod.collapse)
    obtain w' where "run_handler netResponseWriter (WithRequest ctx (Some i)) (handle r) (p3, a, w) = ((p4, a4, w'), failure)"
      "roWriter ob = w'"
      using net.observed_run [OF fresh_tracks [of ?lim w], where ctx = "WithRequest ctx (Some i)" and prog = "handle r"
          and p = p3 and a = a] run
      by (auto simp: net.tracks_def)
    then show ?thesis using apart [of "WithRequest ctx (Some i)" p3] True
      by (auto simp: MiddlewareWith_def Let_def c m b conf run split: prod.splits)
  qed
qed

subsection \<open>What is reported\<close>

text \<open>The observer against the response below it; after a switch of protocols it knows nothing more.\<close>

definition reports :: "int \<Rightarrow> netResponse responseObserver \<Rightarrow> bool" where
  "reports limit ob \<longleftrightarrow>
     (let w = roWriter ob in
      (nrWroteHeader w \<and> nrStatus w = 101 \<or>
       nrWroteHeader w = roWroteHeader ob \<and> roStatus ob = (if nrWroteHeader w then nrStatus w else 200)) \<and>
      roSize ob = int (length (nrBody w)) \<and> brLimit (roBody ob) = limit \<and>
      length (brBody (roBody ob)) \<le> nat limit)"

lemma bodyWrite_bound: "length (brBody c) \<le> nat (brLimit c) \<Longrightarrow>
    brLimit (bodyWrite d c) = brLimit c \<and> length (brBody (bodyWrite d c)) \<le> nat (brLimit c)"
  by (auto simp: bodyWrite_def Let_def)

lemma reports_header: "reports limit ob \<Longrightarrow> reports limit (obsWriteHeader netResponseWriter s ob)"
  by (auto simp: reports_def obsWriteHeader_def net_defs)

lemma reports_ensured: "reports limit ob \<Longrightarrow> reports limit (ensure_header netResponseWriter ob)"
  by (simp add: ensure_header_def reports_header)

lemma ensured_wrote: "reports limit ob \<Longrightarrow> nrWroteHeader (roWriter (ensure_header netResponseWriter ob))"
  by (auto simp: reports_def ensure_header_def obsWriteHeader_def net_defs)

lemma reports_write: "reports limit ob \<Longrightarrow> reports limit (fst (obsWrite netResponseWriter d ob))"
  using reports_ensured [of limit ob] ensured_wrote [of limit ob]
    bodyWrite_bound [of "roBody (ensure_header netResponseWriter ob)" d]
  by (auto simp: obsWrite_def reports_def net_defs min_def)

lemma reports_flush: "reports limit ob \<Longrightarrow> reports limit (obsFlush netResponseWriter ob)"
  using reports_ensured [of limit ob] ensured_wrote [of limit ob]
  by (auto simp: obsFlush_def reports_def net_defs)

lemma reports_run:
  assumes "reports limit ob"
  shows "reports limit (snd (snd (fst (run_handler (observed netResponseWriter) ctx prog (p, a, ob)))))"
  using assms
proof (induction prog arbitrary: p a ob)
  case (HWork f)
  obtain a' k where f: "f a = (a', k)" by (cases "f a") auto
  then have "k \<in> Basic_BNFs.snds (f a)" by (simp add: prod_set_defs)
  moreover have "f a \<in> range f" by simp
  ultimately show ?case using HWork.IH [of "f a" k ob p a'] HWork.prems by (simp add: f)
next
  case (HHeader s k)
  then show ?case using reports_header by (simp add: observed_def)
next
  case (HWrite d k)
  obtain ob' x where "obsWrite netResponseWriter d ob = (ob', x)" by (cases "obsWrite netResponseWriter d ob")
  then show ?case using HWrite.IH [of "k x" ob'] reports_write [OF HWrite.prems, of d] by (simp add: observed_def)
next
  case (HFlush k)
  then show ?case using reports_flush by (simp add: observed_def)
qed auto


subsection \<open>The work of a middleware\<close>

definition gap_set :: "instant \<Rightarrow> MiddlewareWorkSpan list \<Rightarrow> int set" where
  "gap_set start spans = (\<Union>s\<in>set spans. {start + wsOffset s..<start + wsOffset s + wsDuration s})"

lemma gap_set_simps [simp]: "gap_set start [] = {}"
  "gap_set start (s # ss) = {start + wsOffset s..<start + wsOffset s + wsDuration s} \<union> gap_set start ss"
  by (simp_all add: gap_set_def)

lemma gap_set_append [simp]: "gap_set start (ss @ ts) = gap_set start ss \<union> gap_set start ts"
  by (simp add: gap_set_def)

definition open_span :: "(instant \<times> instant) option \<Rightarrow> middlewareTiming" where
  "open_span cur = (case cur of None \<Rightarrow> [] | Some c \<Rightarrow> [c])"

lemma open_span_simps [simp]: "open_span None = []" "open_span (Some c) = [c]"
  by (simp_all add: open_span_def)

text \<open>The starts and ends are among the given ones, empty intervals are gone.\<close>

lemma merged_starts:
  "list_all (\<lambda>i. Q (fst i)) (open_span cur @ ivs) \<Longrightarrow> list_all (\<lambda>i. Q (fst i)) (merge_downstream cur ivs)"
  by (induction cur ivs rule: merge_downstream.induct) (auto split: option.split)

lemma merged_stops:
  "list_all (\<lambda>i. Q (snd i)) (open_span cur @ ivs) \<Longrightarrow> list_all (\<lambda>i. Q (snd i)) (merge_downstream cur ivs)"
  by (induction cur ivs rule: merge_downstream.induct) (auto split: option.split)

definition in_order :: "(instant \<times> instant) option \<Rightarrow> middlewareTiming \<Rightarrow> bool" where
  "in_order cur ivs \<longleftrightarrow> sorted (map fst (open_span cur @ ivs)) \<and> list_all (\<lambda>i. fst i < snd i) (open_span cur)"

lemma in_order_next:
  assumes "in_order cur ((start, stop) # ivs)"
  shows "in_order cur ivs" "start < stop \<Longrightarrow> in_order (Some (start, stop)) ivs"
    "cur = Some (a, b) \<Longrightarrow> a < b \<and> a \<le> start \<and> in_order (Some (a, max b stop)) ivs"
  using assms by (auto simp: in_order_def open_span_def split: option.splits)

lemma merged_sorted: "in_order cur ivs \<Longrightarrow> sorted (map fst (merge_downstream cur ivs))"
proof (induction cur ivs rule: merge_downstream.induct)
  case (3 cur start stop ivs)
  note ordered = in_order_next [OF "3.prems"]
  show ?case
  proof (cases "stop > start")
    case True
    show ?thesis
    proof (cases cur)
      case (Some c)
      obtain a b where c: "c = (a, b)" by (cases c)
      have merged: "(if stop > b then stop else b) = max b stop" by simp
      have "list_all (\<lambda>i. a \<le> fst i) (merge_downstream (Some (start, stop)) ivs)"
        by (rule merged_starts) (use ordered(3) [of a b] "3.prems" in \<open>auto simp: Some c in_order_def list_all_iff\<close>)
      then show ?thesis using 3 True Some c ordered(2,3) by (auto simp: merged list_all_iff)
    qed (use 3 True ordered(2) in simp)
  qed (use 3 ordered(1) in simp)
qed auto

lemma merged_spans: "in_order cur ivs \<Longrightarrow>
    span_set (merge_downstream cur ivs) = span_set (open_span cur) \<union> span_set ivs"
proof (induction cur ivs rule: merge_downstream.induct)
  case (3 cur start stop ivs)
  note ordered = in_order_next [OF "3.prems"]
  show ?case
  proof (cases "stop > start")
    case True
    show ?thesis
    proof (cases cur)
      case (Some c)
      obtain a b where c: "c = (a, b)" by (cases c)
      note ab = ordered(3) [of a b, unfolded Some c, OF refl]
      have merged: "(if stop > b then stop else b) = max b stop" by simp
      have "{a..<max b stop} = {a..<b} \<union> {start..<stop}" if "\<not> start > b" using that ab True by auto
      then show ?thesis using 3 True Some c ordered(2) ab by (auto simp: merged)
    qed (use 3 True ordered(2) in simp)
  qed (use 3 ordered(1) in simp)
qed auto

lemma merged_proper: "list_all (\<lambda>i. fst i < snd i) (open_span cur) \<Longrightarrow>
    list_all (\<lambda>i. fst i < snd i) (merge_downstream cur ivs)"
  by (induction cur ivs rule: merge_downstream.induct) (auto split: option.split)

lemma gaps_after: "list_all (\<lambda>s. cursor \<le> start + wsOffset s \<and> 0 < wsDuration s) (work_gaps start stop cursor ivs)"
proof (induction start stop cursor ivs rule: work_gaps.induct)
  case (2 start stop cursor a b ivs)
  then show ?case by (fastforce simp: list_all_iff split: if_splits)
qed simp

lemma gaps_complement:
  assumes "sorted (map fst ivs)" "list_all (\<lambda>i. fst i < snd i) ivs" "list_all (\<lambda>i. snd i \<le> stop) ivs"
  shows "gap_set start (work_gaps start stop cursor ivs) = {cursor..<stop} - span_set ivs \<and>
    sum_list (map wsDuration (work_gaps start stop cursor ivs)) = int (card ({cursor..<stop} - span_set ivs)) \<and>
    sorted_wrt (\<lambda>s s'. wsOffset s + wsDuration s \<le> wsOffset s') (work_gaps start stop cursor ivs)"
  using assms
proof (induction start stop cursor ivs rule: work_gaps.induct)
  case (2 start stop cursor a b ivs)
  let ?c = "max cursor b" let ?R = "span_set ivs" let ?G = "work_gaps start stop ?c ivs"
  have cursor: "(if b > cursor then b else cursor) = ?c" by simp
  have IH: "gap_set start ?G = {?c..<stop} - ?R" "sum_list (map wsDuration ?G) = int (card ({?c..<stop} - ?R))"
    "sorted_wrt (\<lambda>s s'. wsOffset s + wsDuration s \<le> wsOffset s') ?G"
    using "2.IH" "2.prems" by (simp_all add: cursor)
  have ab: "a < b" "b \<le> stop" using "2.prems" by simp_all
  have low: "x \<in> ?R \<Longrightarrow> a \<le> x" for x using "2.prems"(1) by (fastforce simp: span_set_def)
  have set: "{cursor..<stop} - span_set ((a, b) # ivs) = {cursor..<a} \<union> ({?c..<stop} - ?R)"
    using ab low by fastforce
  have "card ({cursor..<a} \<union> ({?c..<stop} - ?R)) = card {cursor..<a} + card ({?c..<stop} - ?R)"
    using ab by (intro card_Un_disjoint) auto
  moreover have "cursor < a \<Longrightarrow> list_all (\<lambda>s. a - start \<le> wsOffset s) ?G"
    using gaps_after [of ?c start stop ivs] ab by (fastforce simp: list_all_iff)
  ultimately show ?case
    using IH by (simp only: work_gaps.simps cursor set) (auto simp: list_all_iff sorted_wrt_append)
qed simp

lemma clipped_spans: "span_set (map (\<lambda>(a, b). (if a < start then start else a, if b > stop then stop else b)) t) =
    span_set t \<inter> {start..<stop}"
proof (induction t)
  case (Cons i t)
  obtain a b where i: "i = (a, b)" by (cases i)
  have "{(if a < start then start else a)..<(if b > stop then stop else b)} = {a..<b} \<inter> {start..<stop}"
    for a b :: int by auto
  then show ?case by (simp only: i list.map prod.case span_set_Cons fst_conv snd_conv Cons.IH) blast
qed simp

lemma span_set_sorted [simp]: "span_set (sort_key f t) = span_set t"
  by (simp add: span_set_def)


end

