(* ===== verification/SanitizeProps.thy ===== *)
theory SanitizeProps
  imports HttpCapture GoHttpFacts
begin

text \<open>
  The query of a captured request without its secrets: \<open>sanitizeQuery\<close> of
  \<open>profiler/http/middleware.go\<close>.  Replacing the escaped mark by the plain one leaves what the
  query decodes to as it is.
\<close>

definition unescape_mark :: "string \<Rightarrow> string" where
  "unescape_mark = replace_all (query_escape redactedText) redactedText"

lemma mark_text: "query_escape redactedText = ''%5BREDACTED%5D''" "redactedText = ''[REDACTED]''"
  by code_simp+

lemma unescape_mark_simps:
  "unescape_mark [] = []"
  "has_prefix (c # s) ''%5BREDACTED%5D'' \<Longrightarrow> unescape_mark (c # s) = ''[REDACTED]'' @ unescape_mark (drop 13 s)"
  "\<not> has_prefix (c # s) ''%5BREDACTED%5D'' \<Longrightarrow> unescape_mark (c # s) = c # unescape_mark s"
  unfolding unescape_mark_def mark_text(1) unfolding mark_text(2)
  by (simp_all add: eval_nat_numeral)

lemma unescape_mark_plain: "c \<noteq> CHR ''%'' \<Longrightarrow> unescape_mark (c # s) = c # unescape_mark s"
  by (rule unescape_mark_simps) (simp add: has_prefix_def)

lemma unescape_mark_head:
  "unescape_mark (CHR ''%'' # s) = CHR ''['' # drop 1 (unescape_mark (CHR ''%'' # s)) \<or>
   unescape_mark (CHR ''%'' # s) = CHR ''%'' # drop 1 (unescape_mark (CHR ''%'' # s))"
  by (cases "has_prefix (CHR ''%'' # s) ''%5BREDACTED%5D''") (simp_all add: unescape_mark_simps)

lemma prefix_before_separator:
  assumes "c \<in> set ''&=''"
  shows "has_prefix (x # a @ c # b) ''%5BREDACTED%5D'' \<longleftrightarrow> has_prefix (x # a) ''%5BREDACTED%5D''"
proof (cases "length a \<ge> 13")
  case False
  have len: "length ''%5BREDACTED%5D'' = 14" by simp
  have c: "c \<notin> set ''%5BREDACTED%5D''" using assms by auto
  have "c \<in> set (take 14 (x # a @ c # b))" using False by (simp add: take_Cons' take_append)
  then have "take 14 (x # a @ c # b) \<noteq> ''%5BREDACTED%5D''" using c by metis
  moreover have "take 14 (x # a) \<noteq> ''%5BREDACTED%5D''"
    using False by (auto dest: arg_cong [where f = length])
  ultimately show ?thesis unfolding has_prefix_def len by blast
qed (simp add: has_prefix_def)

lemma unescape_mark_sep:
  assumes "c \<in> set ''&=''"
  shows "unescape_mark (a @ c # b) = unescape_mark a @ c # unescape_mark b"
proof (induction a rule: length_induct)
  case (1 a)
  show ?case
  proof (cases a)
    case Nil
    then show ?thesis using assms by (auto simp: unescape_mark_plain unescape_mark_simps(1))
  next
    case (Cons x a')
    show ?thesis
    proof (cases "has_prefix (x # a') ''%5BREDACTED%5D''")
      case True
      then have "length a' \<ge> 13" by (auto simp: has_prefix_def dest: arg_cong [where f = length])
      then have "unescape_mark (drop 13 (a' @ c # b)) = unescape_mark (drop 13 a') @ c # unescape_mark b"
        using 1 by (simp add: Cons)
      then show ?thesis using True
        by (simp add: Cons unescape_mark_simps(2) prefix_before_separator [OF assms])
    next
      case False
      then show ?thesis using 1
        by (simp add: Cons unescape_mark_simps(3) prefix_before_separator [OF assms])
    qed
  qed
qed

lemma decode_bad_head: "\<not> is_hex x \<Longrightarrow> percent_decode True (CHR ''%'' # x # s) = None"
  by (simp split: list.split)

lemma decode_bad_second: "\<not> is_hex x \<Longrightarrow> percent_decode True (CHR ''%'' # y # x # s) = None"
  by simp

lemma not_hex [simp]: "\<not> is_hex (CHR ''%'')" "\<not> is_hex (CHR ''['')"
  by (simp_all add: is_hex_def is_digit_def byte_def)

lemma decode_mark:
  "percent_decode True (''%5BREDACTED%5D'' @ r) = map_option ((@) ''[REDACTED]'') (percent_decode True r)"
  "percent_decode True (''[REDACTED]'' @ r) = map_option ((@) ''[REDACTED]'') (percent_decode True r)"
proof -
  have "char_of (91 :: nat) = CHR ''[''" "char_of (93 :: nat) = CHR '']''" by code_simp+
  then show "percent_decode True (''%5BREDACTED%5D'' @ r) = map_option ((@) ''[REDACTED]'') (percent_decode True r)"
    "percent_decode True (''[REDACTED]'' @ r) = map_option ((@) ''[REDACTED]'') (percent_decode True r)"
    by (cases "percent_decode True r"; simp add: is_hex_def is_digit_def byte_def hex_val_def)+
qed

lemma decode_unescaped: "percent_decode True (unescape_mark s) = percent_decode True s"
proof (induction s rule: length_induct)
  case (1 s)
  show ?case
  proof (cases s)
    case (Cons c t)
    consider (plain) "c \<noteq> CHR ''%''" | (mark) "has_prefix (c # t) ''%5BREDACTED%5D''"
      | (percent) "c = CHR ''%''" "\<not> has_prefix (c # t) ''%5BREDACTED%5D''" by blast
    then show ?thesis
    proof cases
      case plain
      then show ?thesis using 1 by (simp add: Cons unescape_mark_plain)
    next
      case mark
      then obtain r where s: "s = ''%5BREDACTED%5D'' @ r"
        unfolding Cons has_prefix_def by (metis append_take_drop_id)
      then have "unescape_mark s = ''[REDACTED]'' @ unescape_mark r"
        using unescape_mark_simps(2) [of c t] mark by (simp add: Cons)
      moreover have "percent_decode True (unescape_mark r) = percent_decode True r" using 1 s by simp
      ultimately show ?thesis unfolding s decode_mark by (simp only: decode_mark)
    next
      case percent
      have s: "unescape_mark s = CHR ''%'' # unescape_mark t" using percent by (simp add: Cons unescape_mark_simps(3))
      show ?thesis
      proof (cases t)
        case Nil
        then show ?thesis by (simp add: s) (simp add: Cons percent unescape_mark_simps(1))
      next
        case ta: (Cons a u)
        show ?thesis
        proof (cases "a = CHR ''%''")
          case True
          have "percent_decode True (CHR ''%'' # unescape_mark t) = None"
            using unescape_mark_head [of u] unfolding ta True by (metis decode_bad_head not_hex)
          then show ?thesis using True by (simp add: s) (simp add: Cons ta percent split: list.split)
        next
          case a: False
          show ?thesis
          proof (cases u)
            case Nil
            then show ?thesis using a
              by (simp add: s ta unescape_mark_plain unescape_mark_simps(1)) (simp add: Cons ta percent)
          next
            case (Cons b v)
            have ub: "unescape_mark t = a # unescape_mark (b # v)" using a by (simp add: ta Cons unescape_mark_plain)
            show ?thesis
            proof (cases "b = CHR ''%''")
              case True
              have "percent_decode True (CHR ''%'' # a # unescape_mark (b # v)) = None"
                using unescape_mark_head [of v] unfolding True by (metis decode_bad_second not_hex)
              then show ?thesis using True by (simp add: s ub) (simp add: \<open>s = c # t\<close> ta Cons percent)
            next
              case False
              have "percent_decode True (unescape_mark v) = percent_decode True v"
                using 1 by (simp add: \<open>s = c # t\<close> ta Cons)
              then show ?thesis using False
                by (simp add: s ub unescape_mark_plain) (simp add: \<open>s = c # t\<close> ta Cons percent)
            qed
          qed
        qed
      qed
    qed
  qed (simp add: unescape_mark_simps)
qed

text \<open>A query built from pairs decodes to them with the mark in either form.\<close>

lemma unescaped_set: "c \<in> set (unescape_mark s) \<Longrightarrow> c \<in> set s \<or> c \<in> set ''[REDACTED]''"
proof (induction s rule: length_induct)
  case (1 s)
  show ?case
  proof (cases s)
    case (Cons d t)
    show ?thesis
    proof (cases "has_prefix (d # t) ''%5BREDACTED%5D''")
      case True
      then have "c \<in> set ''[REDACTED]'' \<or> c \<in> set (unescape_mark (drop 13 t))"
        using "1.prems" by (auto simp: Cons unescape_mark_simps(2))
      moreover have "c \<in> set (unescape_mark (drop 13 t)) \<Longrightarrow> c \<in> set (drop 13 t) \<or> c \<in> set ''[REDACTED]''"
        using "1.IH" by (simp add: Cons)
      ultimately show ?thesis using set_drop_subset [of 13 t] unfolding Cons by auto
    next
      case False
      have "c \<in> set (unescape_mark t) \<Longrightarrow> c \<in> set t \<or> c \<in> set ''[REDACTED]''"
        using "1.IH" by (simp add: Cons)
      then show ?thesis using False "1.prems" unfolding Cons unescape_mark_simps(3) [OF False] by auto
    qed
  qed (use "1.prems" in \<open>simp add: unescape_mark_simps\<close>)
qed

lemma unescaped_special: "CHR ''&'' \<notin> set (unescape_mark (query_escape s))" "CHR ''='' \<notin> set (unescape_mark (query_escape s))"
  "CHR '';'' \<notin> set (unescape_mark (query_escape s))"
  using unescaped_set query_escape_special by fastforce+

lemma parse_pair_unescaped:
  "parse_pair (unescape_mark (query_escape k) @ ''='' @ unescape_mark (query_escape v)) = Some (k, v)"
  using unescaped_special [of k] unescaped_special [of v]
  by (simp add: parse_pair_def cut_char decode_unescaped query_escape_roundtrip)

lemma unescape_mark_join: "unescape_mark (join ''&'' xs) = join ''&'' (map unescape_mark xs)"
proof (induction "''&''" xs rule: join.induct)
  case (3 x y xs)
  then show ?case using unescape_mark_sep [of "CHR ''&''" x] by simp
qed (simp_all add: unescape_mark_simps)

lemma unescaped_query: "parse_query (unescape_mark (values_encode q)) = sort_key fst q"
proof (cases "sort_key fst q = []")
  case True
  then show ?thesis
    by (simp add: values_encode_def parse_query_def split_on_def parse_pair_def List.map_filter_def unescape_mark_simps)
next
  case False
  let ?part = "\<lambda>(k, v). unescape_mark (query_escape k) @ ''='' @ unescape_mark (query_escape v)"
  have part: "unescape_mark (query_escape k @ ''='' @ query_escape v) = ?part (k, v)" for k v
    using unescape_mark_sep [of "CHR ''=''" "query_escape k" "query_escape v"] by simp
  have free: "\<forall>x \<in> set (map ?part (sort_key fst q)). CHR ''&'' \<notin> set x"
    using unescaped_special by (auto split: prod.splits)
  have enc: "unescape_mark (values_encode q) = join ''&'' (map ?part (sort_key fst q))"
    unfolding values_encode_def unescape_mark_join map_map by (rule arg_cong [where f = "join ''&''"]) (auto simp: part [simplified])
  have "parse_query (unescape_mark (values_encode q)) = List.map_filter parse_pair (map ?part (sort_key fst q))"
    unfolding enc parse_query_def by (subst split_on_join [OF _ free]) (use False in simp_all)
  also have "\<dots> = sort_key fst q"
    using parse_pair_unescaped by (intro map_filter_some) (auto split: prod.split)
  finally show ?thesis .
qed

lemma query_all_app: "query_all (p @ q) k = query_all p k @ query_all q k"
  by (simp add: query_all_def)

lemma query_all_marked: "distinct ks \<Longrightarrow> query_all (map (\<lambda>k. (k, v)) ks) k = (if k \<in> set ks then [v] else [])"
  by (induction ks) (auto simp: query_all_def)

lemma query_all_masked:
  "query_all (mask_query q) k =
     (if isSensitiveKey k then (if k \<in> fst ` set q then [redactedText] else []) else query_all q k)"
proof -
  have "query_all (filter (\<lambda>(k, v). \<not> isSensitiveKey k) q) k = (if isSensitiveKey k then [] else query_all q k)"
    by (induction q) (auto simp: query_all_def)
  then show ?thesis
    by (auto simp: mask_query_def query_all_app query_all_marked)
qed

text \<open>
  C20. No secret of a query is captured.  A query with an escape that does not decode is dropped
  as a whole.  Otherwise the captured text decodes to the query's parameters, with the values of
  every other key as they were, in order, and for each sensitive key that occurs the mark
  alone; and the text itself is the same whatever the values of the sensitive keys were.
\<close>
theorem sanitized_query_safe:
  "if query_parses raw then
     (let q = parse_query raw; captured = parse_query (sanitizeQuery raw) in
        captured = sort_key fst (mask_query q) \<and>
        (\<forall>k. query_all captured k =
           (if isSensitiveKey k then (if k \<in> fst ` set q then [redactedText] else []) else query_all q k)) \<and>
        (\<forall>raw'. if query_parses raw' \<and> map fst (parse_query raw') = map fst q \<and>
             filter (\<lambda>(k, v). \<not> isSensitiveKey k) (parse_query raw') = filter (\<lambda>(k, v). \<not> isSensitiveKey k) q
           then sanitizeQuery raw' = sanitizeQuery raw else True))
   else sanitizeQuery raw = redactedText"
proof (cases "query_parses raw")
  case True
  then have "sanitizeQuery raw = unescape_mark (values_encode (mask_query (parse_query raw)))"
    by (simp add: sanitizeQuery_def unescape_mark_def)
  then have "parse_query (sanitizeQuery raw) = sort_key fst (mask_query (parse_query raw))"
    by (simp add: unescaped_query)
  then show ?thesis using True
    by (auto simp: Let_def query_all_sorted query_all_masked) (simp add: sanitizeQuery_def mask_query_def)
qed (simp add: sanitizeQuery_def)

end
