(* ===== verification/Sql.thy ===== *)
theory Sql
  imports HttpCapture Analysis
begin

text \<open>
  \<open>profiler/sql\<close>: connections, statements and rows of \<open>database/sql/driver\<close> that record the queries
  passing through them, and the \<open>EXPLAIN\<close> they may run before.  A driver's object is the record of
  its methods, which act on the state \<open>'d\<close> of the database; an interface that an object may or
  may not have is an \<open>option\<close>.  The wrappers act on the profiler and the database together.
\<close>

subsection \<open>The driver's interfaces\<close>

datatype sqlError = ErrSkip | EndOfRows | SqlError string

fun sql_error_text :: "sqlError \<Rightarrow> string" where
  "sql_error_text ErrSkip = ''driver: skip fast-path; continue as if unimplemented''"
| "sql_error_text EndOfRows = ''EOF''"
| "sql_error_text (SqlError e) = e"

text \<open>Values by how they are printed; \<open>SqlOther\<close> holds the text \<open>fmt.Sprint\<close> gives the value.\<close>

datatype sqlValue = SqlNull | SqlBytes string | SqlTime instant | SqlOther string

record namedValue =
  nvName :: string
  nvOrdinal :: nat
  nvValue :: sqlValue

text \<open>A context: the values webpprof puts into it, and the timeouts added on the way.\<close>

record sqlCtx =
  scGo :: goContext
  scTimeouts :: "duration list"

abbreviation (input) background :: sqlCtx where "background \<equiv> \<lparr>scGo = Background, scTimeouts = []\<rparr>"

record driverResult =
  dlRowsAffected :: "sqlError + int"

record 'd driverRows =
  drColumns :: "'d \<Rightarrow> string list"
  drNext :: "'d \<Rightarrow> 'd \<times> sqlValue list \<times> sqlError option"
  drClose :: "'d \<Rightarrow> 'd \<times> sqlError option"
  drResultSets :: "(('d \<Rightarrow> bool) \<times> ('d \<Rightarrow> 'd \<times> sqlError option)) option"
  drScanType :: "(nat \<Rightarrow> 'd \<Rightarrow> string) option"
  drTypeName :: "(nat \<Rightarrow> 'd \<Rightarrow> string) option"
  drTypeLength :: "(nat \<Rightarrow> 'd \<Rightarrow> int \<times> bool) option"
  drTypeNullable :: "(nat \<Rightarrow> 'd \<Rightarrow> bool \<times> bool) option"
  drTypePrecision :: "(nat \<Rightarrow> 'd \<Rightarrow> int \<times> int \<times> bool) option"

type_synonym 'd execAnswer = "'d \<times> driverResult option \<times> sqlError option"
type_synonym 'd queryAnswer = "'d \<times> 'd driverRows option \<times> sqlError option"

record 'd driverStmt =
  dsNumInput :: "'d \<Rightarrow> int"
  dsExec :: "sqlValue list \<Rightarrow> 'd \<Rightarrow> 'd execAnswer"
  dsQuery :: "sqlValue list \<Rightarrow> 'd \<Rightarrow> 'd queryAnswer"
  dsExecContext :: "(sqlCtx \<Rightarrow> namedValue list \<Rightarrow> 'd \<Rightarrow> 'd execAnswer) option"
  dsQueryContext :: "(sqlCtx \<Rightarrow> namedValue list \<Rightarrow> 'd \<Rightarrow> 'd queryAnswer) option"
  dsCheckNamedValue :: "(namedValue \<Rightarrow> 'd \<Rightarrow> namedValue \<times> sqlError option) option"
  dsClose :: "'d \<Rightarrow> 'd \<times> sqlError option"

record txOptions =
  txIsolation :: int
  txReadOnly :: bool

record 'd driverConn =
  dcPrepare :: "string \<Rightarrow> 'd \<Rightarrow> 'd \<times> (sqlError + 'd driverStmt)"
  dcPrepareContext :: "(sqlCtx \<Rightarrow> string \<Rightarrow> 'd \<Rightarrow> 'd \<times> (sqlError + 'd driverStmt)) option"
  dcClose :: "'d \<Rightarrow> 'd \<times> sqlError option"
  dcBegin :: "'d \<Rightarrow> 'd \<times> (sqlError + nat)"
  dcBeginTx :: "(sqlCtx \<Rightarrow> txOptions \<Rightarrow> 'd \<Rightarrow> 'd \<times> (sqlError + nat)) option"
  dcExec :: "(string \<Rightarrow> sqlValue list \<Rightarrow> 'd \<Rightarrow> 'd execAnswer) option"
  dcExecContext :: "(sqlCtx \<Rightarrow> string \<Rightarrow> namedValue list \<Rightarrow> 'd \<Rightarrow> 'd execAnswer) option"
  dcQuery :: "(string \<Rightarrow> sqlValue list \<Rightarrow> 'd \<Rightarrow> 'd queryAnswer) option"
  dcQueryContext :: "(sqlCtx \<Rightarrow> string \<Rightarrow> namedValue list \<Rightarrow> 'd \<Rightarrow> 'd queryAnswer) option"
  dcPing :: "(sqlCtx \<Rightarrow> 'd \<Rightarrow> 'd \<times> sqlError option) option"
  dcResetSession :: "(sqlCtx \<Rightarrow> 'd \<Rightarrow> 'd \<times> sqlError option) option"
  dcIsValid :: "('d \<Rightarrow> bool) option"
  dcCheckNamedValue :: "(namedValue \<Rightarrow> 'd \<Rightarrow> namedValue \<times> sqlError option) option"

subsection \<open>Values and statements as text\<close>

record sqlConfig =
  sqConnection :: string
  sqDriver :: string
  sqDatabase :: string
  sqExplain :: bool
  sqExplainTimeout :: duration
  sqExplainMaxRows :: int

definition firstConfig :: "sqlConfig list \<Rightarrow> sqlConfig" where
  "firstConfig configs = (case configs of
     [] \<Rightarrow> \<lparr>sqConnection = [], sqDriver = [], sqDatabase = [], sqExplain = False, sqExplainTimeout = 0, sqExplainMaxRows = 0\<rparr>
   | c # cs \<Rightarrow> c)"

definition sqlNamedValues :: "namedValue list \<Rightarrow> sqlError + sqlValue list" where
  "sqlNamedValues args =
     (if list_ex (\<lambda>a. nvName a \<noteq> []) args then Inl (SqlError ''sql: driver does not support the use of Named Parameters'')
      else Inr (map nvValue args))"

definition namedValues :: "sqlValue list \<Rightarrow> namedValue list" where
  "namedValues args = map (\<lambda>(i, v). \<lparr>nvName = [], nvOrdinal = i, nvValue = v\<rparr>) (enumerate 1 args)"

definition sqlOperation :: "string \<Rightarrow> string" where
  "sqlOperation query = (case GoText.fields query of [] \<Rightarrow> [] | f # fs \<Rightarrow> to_upper f)"

definition ellipsis :: string where "ellipsis = [CHR 0xE2, CHR 0x80, CHR 0xA6]"

definition compactSQL :: "string \<Rightarrow> string" where
  "compactSQL query =
     (let query = join '' '' (GoText.fields query)
      in if length query \<le> 8000 then query else take 8000 query @ ellipsis)"

subsection \<open>Plans\<close>

definition explainableSQL :: "string \<Rightarrow> bool" where
  "explainableSQL query =
     (let query = trim_space query in
      if sqlOperation query \<in> {''SELECT'', ''INSERT'', ''UPDATE'', ''DELETE'', ''WITH''} then
        CHR '';'' \<notin> set (trim_suffix query '';'')
      else False)"

definition explainCommand :: "string \<Rightarrow> string \<Rightarrow> sqlError + string" where
  "explainCommand driverName query =
     (let d = to_lower (trim_space driverName) in
      if d = ''postgres'' \<or> d = ''postgresql'' \<or> d = ''pgx'' then Inr (''EXPLAIN (FORMAT TEXT) '' @ query)
      else if d = ''sqlite'' \<or> d = ''sqlite3'' then Inr (''EXPLAIN QUERY PLAN '' @ query)
      else if d = ''mysql'' \<or> d = ''mariadb'' then Inr (''EXPLAIN '' @ query)
      else Inl (SqlError (''webpprof: EXPLAIN is not supported for SQL driver '' @ go_quote driverName)))"

definition planValue :: "sqlValue \<Rightarrow> string" where
  "planValue v = (case v of SqlNull \<Rightarrow> ''NULL'' | SqlBytes b \<Rightarrow> b | SqlTime t \<Rightarrow> rfc3339 t | SqlOther s \<Rightarrow> s)"

definition formatPlanRow :: "string list \<Rightarrow> sqlValue list \<Rightarrow> string" where
  "formatPlanRow columns vs =
     (case vs of
        [v] \<Rightarrow> planValue v
      | _ \<Rightarrow> join ''  '' (map (\<lambda>(i, v).
          (if i < length columns \<and> columns ! i \<noteq> [] then columns ! i else ''column_'' @ show_nat (i + 1)) @ ''='' @ planValue v)
          (enumerate 0 vs)))"

text \<open>Bytes are dropped from the end until the text is well-formed.\<close>

function valid_prefix :: "string \<Rightarrow> string" where
  "valid_prefix s = (if utf8_valid s then s else valid_prefix (butlast s))"
  by auto
termination
proof (relation "measure length")
  fix s assume "\<not> utf8_valid s"
  then have "s \<noteq> []" by (auto simp: utf8_valid.simps)
  then show "(butlast s, s) \<in> measure length" by simp
qed simp

declare valid_prefix.simps [simp del]

definition appendPlanText :: "string \<Rightarrow> string \<Rightarrow> nat \<Rightarrow> string \<times> bool" where
  "appendPlanText output v maxBytes =
     (if length output \<ge> maxBytes then (output, False)
      else let remaining = maxBytes - length output in
        if length v \<le> remaining then (output @ v, True)
        else (output @ valid_prefix (take remaining v), False))"

definition newline :: string where "newline = [CHR 10]"

text \<open>The rows still allowed, and the text so far.\<close>

fun read_plan_rows :: "'d driverRows \<Rightarrow> string list \<Rightarrow> nat \<Rightarrow> nat \<Rightarrow> string \<Rightarrow> 'd \<Rightarrow> 'd \<times> string \<times> sqlError option" where
  "read_plan_rows rows columns maxBytes 0 output d = (d, output @ newline @ ellipsis, None)"
| "read_plan_rows rows columns maxBytes (Suc n) output d =
     (case drNext rows d of
        (d, vs, Some err) \<Rightarrow> (d, output, if err = EndOfRows then None else Some err)
      | (d, vs, None) \<Rightarrow>
          let line = formatPlanRow columns vs; line = (if output \<noteq> [] then newline @ line else line)
          in case appendPlanText output line maxBytes of
               (output, True) \<Rightarrow> read_plan_rows rows columns maxBytes n output d
             | (output, False) \<Rightarrow> (d, output @ newline @ ellipsis, None))"

definition readPlan :: "'d driverRows \<Rightarrow> nat \<Rightarrow> nat \<Rightarrow> 'd \<Rightarrow> 'd \<times> string \<times> sqlError option" where
  "readPlan rows maxRows maxBytes d = read_plan_rows rows (drColumns rows d) maxBytes maxRows [] d"

text \<open>\<open>dn\<close> tells whether a context is done in a state of the database, and why.\<close>

definition queryDriver :: "(sqlCtx \<Rightarrow> 'd \<Rightarrow> sqlError option) \<Rightarrow> sqlCtx \<Rightarrow> 'd driverConn \<Rightarrow> string \<Rightarrow> namedValue list \<Rightarrow> 'd \<Rightarrow>
    'd queryAnswer" where
  "queryDriver dn ctx conn query args d =
     (case dcQueryContext conn of
        Some f \<Rightarrow> f ctx query args d
      | None \<Rightarrow>
          (case dcQuery conn of
             None \<Rightarrow> (d, None, Some (SqlError ''webpprof: SQL driver does not expose query execution for EXPLAIN''))
           | Some f \<Rightarrow>
               (case dn ctx d of
                  Some e \<Rightarrow> (d, None, Some e)
                | None \<Rightarrow> (case sqlNamedValues args of Inl e \<Rightarrow> (d, None, Some e) | Inr vs \<Rightarrow> f query vs d))))"

subsection \<open>The profiled connection\<close>

text \<open>Profiled rows have a number; the numbers of those that were finished are remembered.\<close>

record ('w, 'x, 'd) sqlWorld =
  swProfiler :: "('w, 'x) Profiler"
  swDB :: 'd
  swNextRows :: nat
  swFinished :: "nat list"

definition on_db :: "('d \<Rightarrow> 'd \<times> 'b) \<Rightarrow> ('w, 'x, 'd) sqlWorld \<Rightarrow> ('w, 'x, 'd) sqlWorld \<times> 'b" where
  "on_db f s = (case f (swDB s) of (d, b) \<Rightarrow> (s\<lparr>swDB := d\<rparr>, b))"

definition on_profiler :: "(('w, 'x) Profiler \<Rightarrow> ('w, 'x) Profiler \<times> 'b) \<Rightarrow> ('w, 'x, 'd) sqlWorld \<Rightarrow> ('w, 'x, 'd) sqlWorld \<times> 'b" where
  "on_profiler f s = (case f (swProfiler s) of (p, b) \<Rightarrow> (s\<lparr>swProfiler := p\<rparr>, b))"

definition CaptureQueryCallsite :: "('w, 'x) Profiler \<Rightarrow> ('w, 'x) Profiler \<times> SourceFrame list" where
  "CaptureQueryCallsite p = (if capturesCallsite p KindQuery then CaptureCallsite KindQuery p else (p, []))"

definition defaultExplainMaxBytes :: nat where "defaultExplainMaxBytes = 65536"

text \<open>
  \<open>explain\<close>.  The rows of the plan are closed when the function returns.  (Rows that are nil
  without an error would make the code panic; the plan is left without text here.)
\<close>

definition sql_explain :: "(sqlCtx \<Rightarrow> 'd \<Rightarrow> sqlError option) \<Rightarrow> sqlConfig \<Rightarrow> 'd driverConn \<Rightarrow> sqlCtx \<Rightarrow> string \<Rightarrow>
    namedValue list \<Rightarrow> ('w, 'x, 'd) sqlWorld \<Rightarrow> ('w, 'x, 'd) sqlWorld \<times> QueryPlan option" where
  "sql_explain dn config conn ctx query args s =
     (if \<not> sqExplain config \<or> \<not> explainableSQL query then (s, None)
      else
        let command = explainCommand (sqDriver config) query;
            plan = \<lparr>qpCommand = compactSQL (case command of Inl e \<Rightarrow> [] | Inr c \<Rightarrow> c), qpFormat = ''text'', qpText = [],
              qpDuration = 0, qpIssues = [], qpError = []\<rparr>
        in case command of
             Inl e \<Rightarrow> (s, Some (plan\<lparr>qpError := sql_error_text e\<rparr>))
           | Inr c \<Rightarrow>
               let timeout = (if sqExplainTimeout config \<le> 0 then 750000000 else sqExplainTimeout config);
                   ctx = ctx\<lparr>scTimeouts := timeout # scTimeouts ctx\<rparr>;
                   (s, startedAt) = on_profiler clock_now s;
                   (s, rows, err) = on_db (queryDriver dn ctx conn c args) s;
                   (s, now) = on_profiler clock_now s;
                   plan = plan\<lparr>qpDuration := now - startedAt\<rparr>
               in case err of
                    Some e \<Rightarrow> (s, Some (plan\<lparr>qpError := sql_error_text e\<rparr>))
                  | None \<Rightarrow>
                      (case rows of
                         None \<Rightarrow> (s, Some plan)
                       | Some rows \<Rightarrow>
                           let maxRows = (if sqExplainMaxRows config \<le> 0 then 100 else nat (sqExplainMaxRows config));
                               (s, text, err) = on_db (readPlan rows maxRows defaultExplainMaxBytes) s;
                               (s, closed) = on_db (drClose rows) s;
                               plan = plan\<lparr>qpText := text\<rparr>
                           in case err of
                                Some e \<Rightarrow> (s, Some (plan\<lparr>qpError := sql_error_text e\<rparr>))
                              | None \<Rightarrow> (s, Some (plan\<lparr>qpIssues := DetectQueryPlanIssues (sqDriver config) text\<rparr>))))"

definition sql_record :: "sqlConfig \<Rightarrow> sqlCtx \<Rightarrow> instant \<Rightarrow> string \<Rightarrow> driverResult option \<Rightarrow> sqlError option \<Rightarrow>
    SourceFrame list \<Rightarrow> QueryPlan option \<Rightarrow> ('w, 'x) Profiler \<Rightarrow> ('w, 'x) Profiler" where
  "sql_record config ctx startedAt query result err callsite plan p =
     (let (p, now) = clock_now p;
          event = zeroQuery\<lparr>mStartedAt := startedAt, mDuration := now - startedAt, qConnection := sqConnection config,
            qDriver := sqDriver config, qDatabase := sqDatabase config, qOperation := sqlOperation query,
            qSQL := compactSQL query, qCallsite := callsite, qPlan := plan\<rparr>;
          event = (case result of
            Some r \<Rightarrow> (case dlRowsAffected r of Inr n \<Rightarrow> event\<lparr>qRowsAffected := Some n\<rparr> | Inl e \<Rightarrow> event)
          | None \<Rightarrow> event);
          event = (case err of None \<Rightarrow> event | Some e \<Rightarrow> event\<lparr>qError := sql_error_text e\<rparr>)
      in LogQueryContext (Some (scGo ctx)) event p)"

text \<open>The connection's \<open>record\<close> leaves out a call the driver declined.\<close>

definition conn_record :: "sqlConfig \<Rightarrow> sqlCtx \<Rightarrow> instant \<Rightarrow> string \<Rightarrow> driverResult option \<Rightarrow> sqlError option \<Rightarrow>
    SourceFrame list \<Rightarrow> QueryPlan option \<Rightarrow> ('w, 'x) Profiler \<Rightarrow> ('w, 'x) Profiler" where
  "conn_record config ctx startedAt query result err callsite plan p =
     (if err = Some ErrSkip then p else sql_record config ctx startedAt query result err callsite plan p)"

type_synonym ('w, 'x) recorder = "driverResult option \<Rightarrow> sqlError option \<Rightarrow> ('w, 'x) Profiler \<Rightarrow> ('w, 'x) Profiler"

definition finish_rows :: "('w, 'x) recorder \<Rightarrow> nat \<Rightarrow> sqlError option \<Rightarrow> ('w, 'x, 'd) sqlWorld \<Rightarrow> ('w, 'x, 'd) sqlWorld" where
  "finish_rows rec n err s =
     (if n \<in> set (swFinished s) then s
      else s\<lparr>swFinished := n # swFinished s,
             swProfiler := rec None (if err = Some EndOfRows then None else err) (swProfiler s)\<rparr>)"

definition has_next_set :: "'d driverRows \<Rightarrow> 'd \<Rightarrow> bool" where
  "has_next_set rows d = (case drResultSets rows of None \<Rightarrow> False | Some (has, nxt) \<Rightarrow> has d)"

definition profiled_rows :: "('w, 'x) recorder \<Rightarrow> nat \<Rightarrow> 'd driverRows \<Rightarrow> ('w, 'x, 'd) sqlWorld driverRows" where
  "profiled_rows rec n inner =
     \<lparr>drColumns = (\<lambda>s. drColumns inner (swDB s)),
      drNext = (\<lambda>s. let (s, vs, err) = on_db (drNext inner) s in
        if err = Some EndOfRows \<and> has_next_set inner (swDB s) then (s, vs, err)
        else (if err \<noteq> None then finish_rows rec n err s else s, vs, err)),
      drClose = (\<lambda>s. let (s, err) = on_db (drClose inner) s in (finish_rows rec n err s, err)),
      drResultSets = Some (\<lambda>s. has_next_set inner (swDB s),
        \<lambda>s. case drResultSets inner of
            None \<Rightarrow> (finish_rows rec n (Some EndOfRows) s, Some EndOfRows)
          | Some (has, nxt) \<Rightarrow> (let (s, err) = on_db nxt s in (if err \<noteq> None then finish_rows rec n err s else s, err))),
      drScanType = Some (\<lambda>i s. case drScanType inner of Some f \<Rightarrow> f i (swDB s) | None \<Rightarrow> ''interface {}''),
      drTypeName = Some (\<lambda>i s. case drTypeName inner of Some f \<Rightarrow> f i (swDB s) | None \<Rightarrow> []),
      drTypeLength = Some (\<lambda>i s. case drTypeLength inner of Some f \<Rightarrow> f i (swDB s) | None \<Rightarrow> (0, False)),
      drTypeNullable = Some (\<lambda>i s. case drTypeNullable inner of Some f \<Rightarrow> f i (swDB s) | None \<Rightarrow> (False, False)),
      drTypePrecision = Some (\<lambda>i s. case drTypePrecision inner of Some f \<Rightarrow> f i (swDB s) | None \<Rightarrow> (0, 0, False))\<rparr>"

text \<open>Rows that are passed on as they are, beside an error.\<close>

definition plain_rows :: "'d driverRows \<Rightarrow> ('w, 'x, 'd) sqlWorld driverRows" where
  "plain_rows inner =
     \<lparr>drColumns = (\<lambda>s. drColumns inner (swDB s)), drNext = on_db (drNext inner), drClose = on_db (drClose inner),
      drResultSets = map_option (\<lambda>(has, nxt). (\<lambda>s. has (swDB s), on_db nxt)) (drResultSets inner),
      drScanType = map_option (\<lambda>f i s. f i (swDB s)) (drScanType inner),
      drTypeName = map_option (\<lambda>f i s. f i (swDB s)) (drTypeName inner),
      drTypeLength = map_option (\<lambda>f i s. f i (swDB s)) (drTypeLength inner),
      drTypeNullable = map_option (\<lambda>f i s. f i (swDB s)) (drTypeNullable inner),
      drTypePrecision = map_option (\<lambda>f i s. f i (swDB s)) (drTypePrecision inner)\<rparr>"

text \<open>What is done around every call: the callsite, the plan and the time before, the record after.\<close>

definition before_call :: "(sqlCtx \<Rightarrow> 'd \<Rightarrow> sqlError option) \<Rightarrow> sqlConfig \<Rightarrow> 'd driverConn \<Rightarrow> sqlCtx \<Rightarrow> string \<Rightarrow>
    namedValue list \<Rightarrow> ('w, 'x, 'd) sqlWorld \<Rightarrow> ('w, 'x, 'd) sqlWorld \<times> SourceFrame list \<times> QueryPlan option \<times> instant" where
  "before_call dn config conn ctx query args s =
     (let (s, callsite) = on_profiler CaptureQueryCallsite s; (s, plan) = sql_explain dn config conn ctx query args s;
          (s, startedAt) = on_profiler clock_now s
      in (s, callsite, plan, startedAt))"

definition exec_with :: "('w, 'x) recorder \<Rightarrow> ('d \<Rightarrow> 'd execAnswer) \<Rightarrow> ('w, 'x, 'd) sqlWorld \<Rightarrow> ('w, 'x, 'd) sqlWorld execAnswer" where
  "exec_with rec f s =
     (let (s, result, err) = on_db f s in (s\<lparr>swProfiler := rec result err (swProfiler s)\<rparr>, result, err))"

definition query_with :: "('w, 'x) recorder \<Rightarrow> ('d \<Rightarrow> 'd queryAnswer) \<Rightarrow> ('w, 'x, 'd) sqlWorld \<Rightarrow> ('w, 'x, 'd) sqlWorld queryAnswer" where
  "query_with rec f s =
     (let (s, rows, err) = on_db f s in
      case (rows, err) of
        (Some r, None) \<Rightarrow>
          (s\<lparr>swNextRows := swNextRows s + 1\<rparr>, Some (profiled_rows rec (swNextRows s) r), None)
      | _ \<Rightarrow> (s\<lparr>swProfiler := rec None err (swProfiler s)\<rparr>, map_option plain_rows rows, err))"

text \<open>The values for a method without a context.\<close>

definition legacy_values :: "(sqlCtx \<Rightarrow> 'd \<Rightarrow> sqlError option) \<Rightarrow> sqlCtx \<Rightarrow> namedValue list \<Rightarrow> 'd \<Rightarrow> sqlError + sqlValue list" where
  "legacy_values dn ctx args d = (case dn ctx d of Some e \<Rightarrow> Inl e | None \<Rightarrow> sqlNamedValues args)"

definition connExec :: "(sqlCtx \<Rightarrow> 'd \<Rightarrow> sqlError option) \<Rightarrow> sqlConfig \<Rightarrow> 'd driverConn \<Rightarrow> string \<Rightarrow> sqlValue list \<Rightarrow>
    ('w, 'x, 'd) sqlWorld \<Rightarrow> ('w, 'x, 'd) sqlWorld execAnswer" where
  "connExec dn config inner query args s =
     (case dcExec inner of
        None \<Rightarrow> (s, None, Some ErrSkip)
      | Some f \<Rightarrow>
          let (s, callsite, plan, startedAt) = before_call dn config inner background query (namedValues args) s
          in exec_with (\<lambda>r e. conn_record config background startedAt query r e callsite plan) (f query args) s)"

definition connExecContext :: "(sqlCtx \<Rightarrow> 'd \<Rightarrow> sqlError option) \<Rightarrow> sqlConfig \<Rightarrow> 'd driverConn \<Rightarrow> sqlCtx \<Rightarrow> string \<Rightarrow>
    namedValue list \<Rightarrow> ('w, 'x, 'd) sqlWorld \<Rightarrow> ('w, 'x, 'd) sqlWorld execAnswer" where
  "connExecContext dn config inner ctx query args s =
     (let (s, callsite, plan, startedAt) = before_call dn config inner ctx query args s;
          rec = (\<lambda>r e. conn_record config ctx startedAt query r e callsite plan)
      in case dcExecContext inner of
           Some f \<Rightarrow> exec_with rec (f ctx query args) s
         | None \<Rightarrow>
             (case dcExec inner of
                None \<Rightarrow> (s, None, Some ErrSkip)
              | Some f \<Rightarrow>
                  (case legacy_values dn ctx args (swDB s) of
                     Inl e \<Rightarrow> (s, None, Some e)
                   | Inr vs \<Rightarrow> exec_with rec (f query vs) s)))"

definition connQuery :: "(sqlCtx \<Rightarrow> 'd \<Rightarrow> sqlError option) \<Rightarrow> sqlConfig \<Rightarrow> 'd driverConn \<Rightarrow> string \<Rightarrow> sqlValue list \<Rightarrow>
    ('w, 'x, 'd) sqlWorld \<Rightarrow> ('w, 'x, 'd) sqlWorld queryAnswer" where
  "connQuery dn config inner query args s =
     (case dcQuery inner of
        None \<Rightarrow> (s, None, Some ErrSkip)
      | Some f \<Rightarrow>
          let (s, callsite, plan, startedAt) = before_call dn config inner background query (namedValues args) s
          in query_with (\<lambda>r e. conn_record config background startedAt query r e callsite plan) (f query args) s)"

definition connQueryContext :: "(sqlCtx \<Rightarrow> 'd \<Rightarrow> sqlError option) \<Rightarrow> sqlConfig \<Rightarrow> 'd driverConn \<Rightarrow> sqlCtx \<Rightarrow> string \<Rightarrow>
    namedValue list \<Rightarrow> ('w, 'x, 'd) sqlWorld \<Rightarrow> ('w, 'x, 'd) sqlWorld queryAnswer" where
  "connQueryContext dn config inner ctx query args s =
     (let (s, callsite, plan, startedAt) = before_call dn config inner ctx query args s;
          rec = (\<lambda>r e. conn_record config ctx startedAt query r e callsite plan)
      in case dcQueryContext inner of
           Some f \<Rightarrow> query_with rec (f ctx query args) s
         | None \<Rightarrow>
             (case dcQuery inner of
                None \<Rightarrow> (s, None, Some ErrSkip)
              | Some f \<Rightarrow>
                  (case legacy_values dn ctx args (swDB s) of
                     Inl e \<Rightarrow> (s, None, Some e)
                   | Inr vs \<Rightarrow> query_with rec (f query vs) s)))"

subsection \<open>Statements\<close>

definition stmtExec :: "(sqlCtx \<Rightarrow> 'd \<Rightarrow> sqlError option) \<Rightarrow> sqlConfig \<Rightarrow> 'd driverConn \<Rightarrow> string \<Rightarrow> 'd driverStmt \<Rightarrow>
    sqlValue list \<Rightarrow> ('w, 'x, 'd) sqlWorld \<Rightarrow> ('w, 'x, 'd) sqlWorld execAnswer" where
  "stmtExec dn config conn query inner args s =
     (let (s, callsite, plan, startedAt) = before_call dn config conn background query (namedValues args) s
      in exec_with (\<lambda>r e. sql_record config background startedAt query r e callsite plan) (dsExec inner args) s)"

definition stmtQuery :: "(sqlCtx \<Rightarrow> 'd \<Rightarrow> sqlError option) \<Rightarrow> sqlConfig \<Rightarrow> 'd driverConn \<Rightarrow> string \<Rightarrow> 'd driverStmt \<Rightarrow>
    sqlValue list \<Rightarrow> ('w, 'x, 'd) sqlWorld \<Rightarrow> ('w, 'x, 'd) sqlWorld queryAnswer" where
  "stmtQuery dn config conn query inner args s =
     (let (s, callsite, plan, startedAt) = before_call dn config conn background query (namedValues args) s
      in query_with (\<lambda>r e. sql_record config background startedAt query r e callsite plan) (dsQuery inner args) s)"

definition stmtExecContext :: "(sqlCtx \<Rightarrow> 'd \<Rightarrow> sqlError option) \<Rightarrow> sqlConfig \<Rightarrow> 'd driverConn \<Rightarrow> string \<Rightarrow> 'd driverStmt \<Rightarrow>
    sqlCtx \<Rightarrow> namedValue list \<Rightarrow> ('w, 'x, 'd) sqlWorld \<Rightarrow> ('w, 'x, 'd) sqlWorld execAnswer" where
  "stmtExecContext dn config conn query inner ctx args s =
     (let (s, callsite, plan, startedAt) = before_call dn config conn ctx query args s;
          rec = (\<lambda>r e. sql_record config ctx startedAt query r e callsite plan)
      in case dsExecContext inner of
           Some f \<Rightarrow> exec_with rec (f ctx args) s
         | None \<Rightarrow>
             (case legacy_values dn ctx args (swDB s) of
                Inl e \<Rightarrow> (s, None, Some e)
              | Inr vs \<Rightarrow> exec_with rec (dsExec inner vs) s))"

definition stmtQueryContext :: "(sqlCtx \<Rightarrow> 'd \<Rightarrow> sqlError option) \<Rightarrow> sqlConfig \<Rightarrow> 'd driverConn \<Rightarrow> string \<Rightarrow> 'd driverStmt \<Rightarrow>
    sqlCtx \<Rightarrow> namedValue list \<Rightarrow> ('w, 'x, 'd) sqlWorld \<Rightarrow> ('w, 'x, 'd) sqlWorld queryAnswer" where
  "stmtQueryContext dn config conn query inner ctx args s =
     (let (s, callsite, plan, startedAt) = before_call dn config conn ctx query args s;
          rec = (\<lambda>r e. sql_record config ctx startedAt query r e callsite plan)
      in case dsQueryContext inner of
           Some f \<Rightarrow> query_with rec (f ctx args) s
         | None \<Rightarrow>
             (case legacy_values dn ctx args (swDB s) of
                Inl e \<Rightarrow> (s, None, Some e)
              | Inr vs \<Rightarrow> query_with rec (dsQuery inner vs) s))"

text \<open>\<open>CheckNamedValue\<close> may change the value it is given.\<close>

definition checked_value :: "(namedValue \<Rightarrow> 'd \<Rightarrow> namedValue \<times> sqlError option) option \<Rightarrow> namedValue \<Rightarrow>
    ('w, 'x, 'd) sqlWorld \<Rightarrow> namedValue \<times> sqlError option" where
  "checked_value inner v s = (case inner of Some f \<Rightarrow> f v (swDB s) | None \<Rightarrow> (v, Some ErrSkip))"

definition profiled_stmt :: "(sqlCtx \<Rightarrow> 'd \<Rightarrow> sqlError option) \<Rightarrow> sqlConfig \<Rightarrow> 'd driverConn \<Rightarrow> string \<Rightarrow> 'd driverStmt \<Rightarrow>
    ('w, 'x, 'd) sqlWorld driverStmt" where
  "profiled_stmt dn config conn query inner =
     \<lparr>dsNumInput = (\<lambda>s. dsNumInput inner (swDB s)),
      dsExec = stmtExec dn config conn query inner, dsQuery = stmtQuery dn config conn query inner,
      dsExecContext = Some (stmtExecContext dn config conn query inner),
      dsQueryContext = Some (stmtQueryContext dn config conn query inner),
      dsCheckNamedValue = Some (checked_value (dsCheckNamedValue inner)), dsClose = on_db (dsClose inner)\<rparr>"

subsection \<open>Connections\<close>

definition prepared :: "(sqlCtx \<Rightarrow> 'd \<Rightarrow> sqlError option) \<Rightarrow> sqlConfig \<Rightarrow> 'd driverConn \<Rightarrow> string \<Rightarrow>
    ('d \<Rightarrow> 'd \<times> (sqlError + 'd driverStmt)) \<Rightarrow> ('w, 'x, 'd) sqlWorld \<Rightarrow>
    ('w, 'x, 'd) sqlWorld \<times> (sqlError + ('w, 'x, 'd) sqlWorld driverStmt)" where
  "prepared dn config conn query f s =
     (let (s, x) = on_db f s in (s, map_sum id (profiled_stmt dn config conn query) x))"

definition connPrepareContext :: "(sqlCtx \<Rightarrow> 'd \<Rightarrow> sqlError option) \<Rightarrow> sqlConfig \<Rightarrow> 'd driverConn \<Rightarrow> sqlCtx \<Rightarrow> string \<Rightarrow>
    ('w, 'x, 'd) sqlWorld \<Rightarrow> ('w, 'x, 'd) sqlWorld \<times> (sqlError + ('w, 'x, 'd) sqlWorld driverStmt)" where
  "connPrepareContext dn config inner ctx query s =
     (case dcPrepareContext inner of
        Some f \<Rightarrow> prepared dn config inner query (f ctx query) s
      | None \<Rightarrow>
          (case dn ctx (swDB s) of
             Some e \<Rightarrow> (s, Inl e)
           | None \<Rightarrow> prepared dn config inner query (dcPrepare inner query) s))"

definition connBeginTx :: "(sqlCtx \<Rightarrow> 'd \<Rightarrow> sqlError option) \<Rightarrow> 'd driverConn \<Rightarrow> sqlCtx \<Rightarrow> txOptions \<Rightarrow>
    ('w, 'x, 'd) sqlWorld \<Rightarrow> ('w, 'x, 'd) sqlWorld \<times> (sqlError + nat)" where
  "connBeginTx dn inner ctx opts s =
     (case dcBeginTx inner of
        Some f \<Rightarrow> on_db (f ctx opts) s
      | None \<Rightarrow>
          if txIsolation opts \<noteq> 0 then (s, Inl (SqlError ''webpprof: driver does not support non-default isolation level''))
          else if txReadOnly opts then (s, Inl (SqlError ''webpprof: driver does not support read-only transactions''))
          else case dn ctx (swDB s) of Some e \<Rightarrow> (s, Inl e) | None \<Rightarrow> on_db (dcBegin inner) s)"

definition profileSQLConn :: "(sqlCtx \<Rightarrow> 'd \<Rightarrow> sqlError option) \<Rightarrow> sqlConfig \<Rightarrow> 'd driverConn \<Rightarrow> ('w, 'x, 'd) sqlWorld driverConn" where
  "profileSQLConn dn config inner =
     \<lparr>dcPrepare = (\<lambda>query. prepared dn config inner query (dcPrepare inner query)),
      dcPrepareContext = Some (connPrepareContext dn config inner),
      dcClose = on_db (dcClose inner), dcBegin = on_db (dcBegin inner), dcBeginTx = Some (connBeginTx dn inner),
      dcExec = Some (connExec dn config inner), dcExecContext = Some (connExecContext dn config inner),
      dcQuery = Some (connQuery dn config inner), dcQueryContext = Some (connQueryContext dn config inner),
      dcPing = Some (\<lambda>ctx s. case dcPing inner of Some f \<Rightarrow> on_db (f ctx) s | None \<Rightarrow> (s, None)),
      dcResetSession = Some (\<lambda>ctx s. case dcResetSession inner of Some f \<Rightarrow> on_db (f ctx) s | None \<Rightarrow> (s, None)),
      dcIsValid = Some (\<lambda>s. case dcIsValid inner of Some f \<Rightarrow> f (swDB s) | None \<Rightarrow> True),
      dcCheckNamedValue = Some (checked_value (dcCheckNamedValue inner))\<rparr>"

subsection \<open>Drivers and connectors\<close>

type_synonym 'd connector = "sqlCtx \<Rightarrow> 'd \<Rightarrow> 'd \<times> (sqlError + 'd driverConn)"

record 'd sqlDriver =
  sdOpen :: "string \<Rightarrow> 'd \<Rightarrow> 'd \<times> (sqlError + 'd driverConn)"
  sdOpenConnector :: "(string \<Rightarrow> 'd \<Rightarrow> 'd \<times> (sqlError + 'd connector)) option"

definition connectorConnect :: "(sqlCtx \<Rightarrow> 'd \<Rightarrow> sqlError option) \<Rightarrow> sqlConfig \<Rightarrow> 'd connector \<Rightarrow> ('w, 'x, 'd) sqlWorld connector" where
  "connectorConnect dn config inner ctx s =
     (let (s, x) = on_db (inner ctx) s in (s, map_sum id (profileSQLConn dn config) x))"

definition dsnConnect :: "(sqlCtx \<Rightarrow> 'd \<Rightarrow> sqlError option) \<Rightarrow> 'd sqlDriver \<Rightarrow> string \<Rightarrow> 'd connector" where
  "dsnConnect dn drv dsn ctx d = (case dn ctx d of Some e \<Rightarrow> (d, Inl e) | None \<Rightarrow> sdOpen drv dsn d)"

definition driverOpen :: "(sqlCtx \<Rightarrow> 'd \<Rightarrow> sqlError option) \<Rightarrow> sqlConfig \<Rightarrow> 'd sqlDriver \<Rightarrow> string \<Rightarrow> ('w, 'x, 'd) sqlWorld \<Rightarrow>
    ('w, 'x, 'd) sqlWorld \<times> (sqlError + ('w, 'x, 'd) sqlWorld driverConn)" where
  "driverOpen dn config inner dsn s =
     (let (s, x) = on_db (sdOpen inner dsn) s in (s, map_sum id (profileSQLConn dn config) x))"

definition driverOpenConnector :: "(sqlCtx \<Rightarrow> 'd \<Rightarrow> sqlError option) \<Rightarrow> sqlConfig \<Rightarrow> 'd sqlDriver \<Rightarrow> string \<Rightarrow>
    ('w, 'x, 'd) sqlWorld \<Rightarrow> ('w, 'x, 'd) sqlWorld \<times> (sqlError + ('w, 'x, 'd) sqlWorld connector)" where
  "driverOpenConnector dn config inner dsn s =
     (case sdOpenConnector inner of
        None \<Rightarrow> (s, Inr (connectorConnect dn config (dsnConnect dn inner dsn)))
      | Some f \<Rightarrow> (let (s, x) = on_db (f dsn) s in (s, map_sum id (connectorConnect dn config) x)))"

end

