(* ===== verification/SpanProps.thy ===== *)
theory SpanProps
  imports Spans CaptureFacts
begin

text \<open>
  Spans are recorded once.  The three kinds of span share one contract: finishing a finished
  span is without effect and repeats the measurement.  The locale states it, the lemma about
  any number of finishes is proved in it once, and it is interpreted on each kind.
\<close>

subsection \<open>The contract\<close>

text \<open>Finishes of one span, each after some other work on the profiler.\<close>

fun finish_all :: "('r \<Rightarrow> 's \<Rightarrow> 'p \<Rightarrow> 'p \<times> 's \<times> 'm) \<Rightarrow> (('p \<Rightarrow> 'p) \<times> 'r) list \<Rightarrow> 's \<Rightarrow> 'p \<Rightarrow> 'p \<times> 's \<times> 'm list" where
  "finish_all finish [] s p = (p, s, [])"
| "finish_all finish ((work, r) # rs) s p =
     (let (p, s, m) = finish r s (work p); (p, s, ms) = finish_all finish rs s p in (p, s, m # ms))"

definition only_work :: "(('p \<Rightarrow> 'p) \<times> 'r) list \<Rightarrow> 'p \<Rightarrow> 'p" where
  "only_work rs p = fold (\<lambda>(work, r) p. work p) rs p"

locale once_span =
  fixes finish :: "'r \<Rightarrow> 's \<Rightarrow> 'p \<Rightarrow> 'p \<times> 's \<times> 'm"
  assumes again: "finish r s p = (p', s', m) \<Longrightarrow> finish r' s' q = (q, s', m)"
begin

lemma finished_idle:
  assumes "finish r s p = (p', s', m)"
  shows "finish_all finish rs s' q = (only_work rs q, s', replicate (length rs) m)"
  by (induction rs arbitrary: q) (auto simp: only_work_def again [OF assms])

lemma recorded_once:
  "finish_all finish ((work, r) # rs) s p =
     (case finish r s (work p) of (p', s', m) \<Rightarrow> (only_work rs p', s', replicate (Suc (length rs)) m))"
  using finished_idle [of r s "work p"] by (auto split: prod.split)

end

interpretation es: once_span eventFinishResult
  by unfold_locales (auto simp: eventFinishResult_def Let_def split: if_splits prod.splits)

interpretation ts: once_span taskFinishResult
  by unfold_locales (auto simp: taskFinishResult_def Let_def split: if_splits prod.splits)

text \<open>A query span answers nothing; \<open>FinishRows\<close> and \<open>Finish\<close> differ in the rows only.\<close>

definition query_finish_unit :: "int option \<times> string option \<Rightarrow> QuerySpan \<Rightarrow> ('w, 'x) Profiler \<Rightarrow>
    ('w, 'x) Profiler \<times> QuerySpan \<times> unit" where
  "query_finish_unit r s p = (case query_finish (fst r) (snd r) s p of (p, s) \<Rightarrow> (p, s, ()))"

interpretation qs: once_span query_finish_unit
  by unfold_locales (auto simp: query_finish_unit_def query_finish_def Let_def split: if_splits prod.splits)

subsection \<open>What is recorded\<close>

lemma startEvent_fields:
  assumes "startEvent has ctx event p = (p', s)"
  shows "esActive s = has" "esCtx s = or_background ctx" "\<not> esDone s"
    "ctx_request (esOperationCtx s) = ctx_request (or_background ctx)"
    "has \<and> RecordingEnabled ctx \<and> mID (esEvent s) \<noteq> [] \<Longrightarrow> ctx_parent (esOperationCtx s) = mID (esEvent s)"
proof -
  have enabled: "RecordingEnabled (Some (or_background ctx)) = RecordingEnabled ctx"
    by (cases ctx) (simp_all add: RecordingEnabled_def or_background_def)
  show "esActive s = has" "esCtx s = or_background ctx" "\<not> esDone s"
    "ctx_request (esOperationCtx s) = ctx_request (or_background ctx)"
    "has \<and> RecordingEnabled ctx \<and> mID (esEvent s) \<noteq> [] \<Longrightarrow> ctx_parent (esOperationCtx s) = mID (esEvent s)"
    using assms enabled
    by (auto simp: startEvent_def Let_def WithParentEntry_def or_background_def newID_def
        split: prod.splits if_splits)
qed

text \<open>The status an event ends with when it was started without one.\<close>

definition outcome_status :: "unit callOutcome \<Rightarrow> string \<Rightarrow> string \<Rightarrow> string" where
  "outcome_status outcome status err =
     (case outcome of
        Panicked r \<Rightarrow> ''panicked''
      | Finished v e \<Rightarrow> if status \<noteq> [] then status else if err_text e err \<noteq> [] then ''failed'' else ''succeeded'')"

lemma applied_status:
  "evStatus (applyEventResult r e) = (if erStatus r \<noteq> [] then erStatus r else if evStatus e \<noteq> [] then evStatus e
     else if err_text (erErr r) (evError e) \<noteq> [] then ''failed'' else ''succeeded'')"
  "evError (applyEventResult r e) = err_text (erErr r) (evError e)"
  "mID (applyEventResult r e) = mID e" "mParentID (applyEventResult r e) = mParentID e"
  by (auto simp: applyEventResult_def Let_def)


end
