(* ===== verification/SqlProps.thy ===== *)
theory SqlProps
  imports Sql SpanProps
begin

text \<open>
  What the wrappers of \<open>profiler/sql\<close> promise: the application sees the database it would see
  without them, every query is recorded once, and a plan is asked for with a bounded effort.
\<close>

subsection \<open>Objects that behave alike\<close>

text \<open>
  A call on the wrapper's state \<open>s\<close> acts on the database in it as the driver's call does, and
  the answers are related.
\<close>

definition acts_as :: "('b \<Rightarrow> 'c \<Rightarrow> bool) \<Rightarrow> (('w, 'x, 'd) sqlWorld \<Rightarrow> ('w, 'x, 'd) sqlWorld \<times> 'b) \<Rightarrow> ('d \<Rightarrow> 'd \<times> 'c) \<Rightarrow> bool" where
  "acts_as R f g \<longleftrightarrow> (\<forall>s. swDB (fst (f s)) = fst (g (swDB s)) \<and> R (snd (f s)) (snd (g (swDB s))))"

definition reads_as :: "(('w, 'x, 'd) sqlWorld \<Rightarrow> 'b) \<Rightarrow> ('d \<Rightarrow> 'b) \<Rightarrow> bool" where
  "reads_as f g \<longleftrightarrow> (\<forall>s. f s = g (swDB s))"

text \<open>The driver's objects with the optional methods filled in.\<close>

definition full_rows :: "'d driverRows \<Rightarrow> 'd driverRows" where
  "full_rows r = r
     \<lparr>drResultSets := Some (case drResultSets r of Some x \<Rightarrow> x | None \<Rightarrow> (\<lambda>d. False, \<lambda>d. (d, Some EndOfRows))),
      drScanType := Some (case drScanType r of Some f \<Rightarrow> f | None \<Rightarrow> \<lambda>i d. ''interface {}''),
      drTypeName := Some (case drTypeName r of Some f \<Rightarrow> f | None \<Rightarrow> \<lambda>i d. []),
      drTypeLength := Some (case drTypeLength r of Some f \<Rightarrow> f | None \<Rightarrow> \<lambda>i d. (0, False)),
      drTypeNullable := Some (case drTypeNullable r of Some f \<Rightarrow> f | None \<Rightarrow> \<lambda>i d. (False, False)),
      drTypePrecision := Some (case drTypePrecision r of Some f \<Rightarrow> f | None \<Rightarrow> \<lambda>i d. (0, 0, False))\<rparr>"

text \<open>A method without a context is used as \<open>database/sql\<close> uses it.\<close>

definition with_values :: "(sqlCtx \<Rightarrow> 'd \<Rightarrow> sqlError option) \<Rightarrow> (sqlValue list \<Rightarrow> 'd \<Rightarrow> 'd \<times> 'b option \<times> sqlError option) \<Rightarrow>
    sqlCtx \<Rightarrow> namedValue list \<Rightarrow> 'd \<Rightarrow> 'd \<times> 'b option \<times> sqlError option" where
  "with_values dn f ctx args d = (case legacy_values dn ctx args d of Inl e \<Rightarrow> (d, None, Some e) | Inr vs \<Rightarrow> f vs d)"

definition skip :: "'d \<Rightarrow> 'd \<times> 'b option \<times> sqlError option" where
  "skip d = (d, None, Some ErrSkip)"

definition full_stmt :: "(sqlCtx \<Rightarrow> 'd \<Rightarrow> sqlError option) \<Rightarrow> 'd driverStmt \<Rightarrow> 'd driverStmt" where
  "full_stmt dn t = t
     \<lparr>dsExecContext := Some (case dsExecContext t of Some f \<Rightarrow> f | None \<Rightarrow> with_values dn (dsExec t)),
      dsQueryContext := Some (case dsQueryContext t of Some f \<Rightarrow> f | None \<Rightarrow> with_values dn (dsQuery t)),
      dsCheckNamedValue := Some (case dsCheckNamedValue t of Some f \<Rightarrow> f | None \<Rightarrow> \<lambda>v d. (v, Some ErrSkip))\<rparr>"

definition unless_done :: "(sqlCtx \<Rightarrow> 'd \<Rightarrow> sqlError option) \<Rightarrow> sqlCtx \<Rightarrow> ('d \<Rightarrow> 'd \<times> (sqlError + 'b)) \<Rightarrow> 'd \<Rightarrow> 'd \<times> (sqlError + 'b)" where
  "unless_done dn ctx f d = (case dn ctx d of Some e \<Rightarrow> (d, Inl e) | None \<Rightarrow> f d)"

definition plain_tx :: "(sqlCtx \<Rightarrow> 'd \<Rightarrow> sqlError option) \<Rightarrow> 'd driverConn \<Rightarrow> sqlCtx \<Rightarrow> txOptions \<Rightarrow> 'd \<Rightarrow> 'd \<times> (sqlError + nat)" where
  "plain_tx dn c ctx opts d =
     (if txIsolation opts \<noteq> 0 then (d, Inl (SqlError ''webpprof: driver does not support non-default isolation level''))
      else if txReadOnly opts then (d, Inl (SqlError ''webpprof: driver does not support read-only transactions''))
      else unless_done dn ctx (dcBegin c) d)"

definition full_conn :: "(sqlCtx \<Rightarrow> 'd \<Rightarrow> sqlError option) \<Rightarrow> 'd driverConn \<Rightarrow> 'd driverConn" where
  "full_conn dn c = c
     \<lparr>dcPrepareContext := Some (case dcPrepareContext c of Some f \<Rightarrow> f | None \<Rightarrow> \<lambda>ctx q. unless_done dn ctx (dcPrepare c q)),
      dcBeginTx := Some (case dcBeginTx c of Some f \<Rightarrow> f | None \<Rightarrow> plain_tx dn c),
      dcExec := Some (case dcExec c of Some f \<Rightarrow> f | None \<Rightarrow> \<lambda>q vs. skip),
      dcExecContext := Some (case dcExecContext c of Some f \<Rightarrow> f | None \<Rightarrow>
        (case dcExec c of Some f \<Rightarrow> \<lambda>ctx q. with_values dn (f q) ctx | None \<Rightarrow> \<lambda>ctx q args. skip)),
      dcQuery := Some (case dcQuery c of Some f \<Rightarrow> f | None \<Rightarrow> \<lambda>q vs. skip),
      dcQueryContext := Some (case dcQueryContext c of Some f \<Rightarrow> f | None \<Rightarrow>
        (case dcQuery c of Some f \<Rightarrow> \<lambda>ctx q. with_values dn (f q) ctx | None \<Rightarrow> \<lambda>ctx q args. skip)),
      dcPing := Some (case dcPing c of Some f \<Rightarrow> f | None \<Rightarrow> \<lambda>ctx d. (d, None)),
      dcResetSession := Some (case dcResetSession c of Some f \<Rightarrow> f | None \<Rightarrow> \<lambda>ctx d. (d, None)),
      dcIsValid := Some (case dcIsValid c of Some f \<Rightarrow> f | None \<Rightarrow> \<lambda>d. True),
      dcCheckNamedValue := Some (case dcCheckNamedValue c of Some f \<Rightarrow> f | None \<Rightarrow> \<lambda>v d. (v, Some ErrSkip))\<rparr>"

text \<open>The relations between a wrapper and what it wraps, method by method.\<close>

definition rows_as :: "('w, 'x, 'd) sqlWorld driverRows \<Rightarrow> 'd driverRows \<Rightarrow> bool" where
  "rows_as R r \<longleftrightarrow> reads_as (drColumns R) (drColumns r) \<and> acts_as (=) (drNext R) (drNext r) \<and>
     acts_as (=) (drClose R) (drClose r) \<and>
     rel_option (rel_prod reads_as (acts_as (=))) (drResultSets R) (drResultSets r) \<and>
     rel_option (rel_fun (=) reads_as) (drScanType R) (drScanType r) \<and>
     rel_option (rel_fun (=) reads_as) (drTypeName R) (drTypeName r) \<and>
     rel_option (rel_fun (=) reads_as) (drTypeLength R) (drTypeLength r) \<and>
     rel_option (rel_fun (=) reads_as) (drTypeNullable R) (drTypeNullable r) \<and>
     rel_option (rel_fun (=) reads_as) (drTypePrecision R) (drTypePrecision r)"

text \<open>Rows that come with an error are not wrapped.\<close>

definition rows_answer :: "('w, 'x, 'd) sqlWorld driverRows option \<times> sqlError option \<Rightarrow> 'd driverRows option \<times> sqlError option \<Rightarrow> bool" where
  "rows_answer A a \<longleftrightarrow> snd A = snd a \<and>
     rel_option rows_as (fst A) (if snd a = None then map_option full_rows (fst a) else fst a)"

definition stmt_as :: "('w, 'x, 'd) sqlWorld driverStmt \<Rightarrow> 'd driverStmt \<Rightarrow> bool" where
  "stmt_as T t \<longleftrightarrow> reads_as (dsNumInput T) (dsNumInput t) \<and>
     rel_fun (=) (acts_as (=)) (dsExec T) (dsExec t) \<and> rel_fun (=) (acts_as rows_answer) (dsQuery T) (dsQuery t) \<and>
     rel_option (rel_fun (=) (rel_fun (=) (acts_as (=)))) (dsExecContext T) (dsExecContext t) \<and>
     rel_option (rel_fun (=) (rel_fun (=) (acts_as rows_answer))) (dsQueryContext T) (dsQueryContext t) \<and>
     rel_option (rel_fun (=) reads_as) (dsCheckNamedValue T) (dsCheckNamedValue t) \<and>
     acts_as (=) (dsClose T) (dsClose t)"

definition stmt_answer :: "(sqlCtx \<Rightarrow> 'd \<Rightarrow> sqlError option) \<Rightarrow> sqlError + ('w, 'x, 'd) sqlWorld driverStmt \<Rightarrow>
    sqlError + 'd driverStmt \<Rightarrow> bool" where
  "stmt_answer dn A a \<longleftrightarrow> rel_sum (=) stmt_as A (map_sum id (full_stmt dn) a)"

definition conn_as :: "(sqlCtx \<Rightarrow> 'd \<Rightarrow> sqlError option) \<Rightarrow> ('w, 'x, 'd) sqlWorld driverConn \<Rightarrow> 'd driverConn \<Rightarrow> bool" where
  "conn_as dn C c \<longleftrightarrow> rel_fun (=) (acts_as (stmt_answer dn)) (dcPrepare C) (dcPrepare c) \<and>
     rel_option (rel_fun (=) (rel_fun (=) (acts_as (stmt_answer dn)))) (dcPrepareContext C) (dcPrepareContext c) \<and>
     acts_as (=) (dcClose C) (dcClose c) \<and> acts_as (=) (dcBegin C) (dcBegin c) \<and>
     rel_option (rel_fun (=) (rel_fun (=) (acts_as (=)))) (dcBeginTx C) (dcBeginTx c) \<and>
     rel_option (rel_fun (=) (rel_fun (=) (acts_as (=)))) (dcExec C) (dcExec c) \<and>
     rel_option (rel_fun (=) (rel_fun (=) (rel_fun (=) (acts_as (=))))) (dcExecContext C) (dcExecContext c) \<and>
     rel_option (rel_fun (=) (rel_fun (=) (acts_as rows_answer))) (dcQuery C) (dcQuery c) \<and>
     rel_option (rel_fun (=) (rel_fun (=) (rel_fun (=) (acts_as rows_answer)))) (dcQueryContext C) (dcQueryContext c) \<and>
     rel_option (rel_fun (=) (acts_as (=))) (dcPing C) (dcPing c) \<and>
     rel_option (rel_fun (=) (acts_as (=))) (dcResetSession C) (dcResetSession c) \<and>
     rel_option reads_as (dcIsValid C) (dcIsValid c) \<and>
     rel_option (rel_fun (=) reads_as) (dcCheckNamedValue C) (dcCheckNamedValue c)"

subsection \<open>The wrappers behave like what they wrap\<close>

lemma on_db_acts [simp]: "acts_as (=) (on_db f) f"
  by (simp add: acts_as_def on_db_def case_prod_beta)

lemma on_db_simps [simp]: "swDB (fst (on_db f s)) = fst (f (swDB s))" "snd (on_db f s) = snd (f (swDB s))"
    "swProfiler (fst (on_db f s)) = swProfiler s" "swFinished (fst (on_db f s)) = swFinished s"
    "swNextRows (fst (on_db f s)) = swNextRows s"
  by (simp_all add: on_db_def case_prod_beta)

lemma on_profiler_simps [simp]: "swDB (fst (on_profiler f s)) = swDB s" "snd (on_profiler f s) = snd (f (swProfiler s))"
    "swProfiler (fst (on_profiler f s)) = fst (f (swProfiler s))" "swFinished (fst (on_profiler f s)) = swFinished s"
    "swNextRows (fst (on_profiler f s)) = swNextRows s"
  by (simp_all add: on_profiler_def case_prod_beta)

lemma finish_rows_db [simp]: "swDB (finish_rows rec n e s) = swDB s" "swNextRows (finish_rows rec n e s) = swNextRows s"
  by (simp_all add: finish_rows_def)

lemma profiled_rows_as: "rows_as (profiled_rows rec n inner) (full_rows inner)"
proof -
  have "acts_as (=) (drNext (profiled_rows rec n inner)) (drNext inner)"
    "acts_as (=) (drClose (profiled_rows rec n inner)) (drClose inner)"
    by (auto simp: acts_as_def profiled_rows_def Let_def case_prod_beta prod_eq_iff)
  moreover have "rel_option (rel_prod reads_as (acts_as (=))) (drResultSets (profiled_rows rec n inner))
      (drResultSets (full_rows inner))"
    by (cases "drResultSets inner")
      (auto simp: acts_as_def reads_as_def profiled_rows_def full_rows_def has_next_set_def Let_def case_prod_beta)
  ultimately show ?thesis
    by (auto simp: rows_as_def reads_as_def rel_fun_def profiled_rows_def full_rows_def split: option.split)
qed

lemma reads_lift: "rel_option (rel_fun (=) reads_as) (map_option (\<lambda>f i s. f i (swDB s)) m) m"
  by (cases m) (auto simp: reads_as_def rel_fun_def)

lemma plain_rows_as: "rows_as (plain_rows inner) inner"
proof -
  have "rel_option (rel_prod reads_as (acts_as (=))) (drResultSets (plain_rows inner)) (drResultSets inner)"
    by (cases "drResultSets inner") (auto simp: reads_as_def plain_rows_def)
  then show ?thesis by (simp add: rows_as_def plain_rows_def reads_lift) (simp add: reads_as_def)
qed

lemma exec_with_db [simp]: "swDB (fst (exec_with rec f s)) = fst (f (swDB s))" "snd (exec_with rec f s) = snd (f (swDB s))"
  by (simp_all add: exec_with_def Let_def case_prod_beta)

lemma query_with_db [simp]: "swDB (fst (query_with rec f s)) = fst (f (swDB s))"
  "swDB s = d \<Longrightarrow> rows_answer (snd (query_with rec f s)) (snd (f d))"
  by (auto simp: query_with_def rows_answer_def Let_def case_prod_beta plain_rows_as profiled_rows_as option.rel_map
      split: option.split)

lemma before_call_db [simp]:
  "\<not> sqExplain config \<Longrightarrow> swDB (fst (before_call dn config conn ctx query args s)) = swDB s"
  by (simp add: before_call_def sql_explain_def Let_def case_prod_beta)

lemmas as_defs = acts_as_def Let_def case_prod_beta with_values_def skip_def

lemma conn_exec_as:
  assumes "\<not> sqExplain config"
  shows "acts_as (=) (connExec dn config c q vs) (the (dcExec (full_conn dn c)) q vs)"
    "acts_as (=) (connExecContext dn config c ctx q args) (the (dcExecContext (full_conn dn c)) ctx q args)"
  using assms
  by (auto simp: as_defs connExec_def connExecContext_def full_conn_def split: option.split sum.split)

lemma rows_answer_errors [simp]: "rows_answer (None, e) (None, e)"
  by (simp add: rows_answer_def)

lemma conn_query_as:
  assumes "\<not> sqExplain config"
  shows "acts_as rows_answer (connQuery dn config c q vs) (the (dcQuery (full_conn dn c)) q vs)"
    "acts_as rows_answer (connQueryContext dn config c ctx q args) (the (dcQueryContext (full_conn dn c)) ctx q args)"
  using assms
  by (auto simp: as_defs connQuery_def connQueryContext_def full_conn_def split: option.split sum.split)

lemma stmt_calls_as:
  assumes "\<not> sqExplain config"
  shows "acts_as (=) (stmtExec dn config conn q t vs) (dsExec t vs)"
    "acts_as rows_answer (stmtQuery dn config conn q t vs) (dsQuery t vs)"
    "acts_as (=) (stmtExecContext dn config conn q t ctx args) (the (dsExecContext (full_stmt dn t)) ctx args)"
    "acts_as rows_answer (stmtQueryContext dn config conn q t ctx args) (the (dsQueryContext (full_stmt dn t)) ctx args)"
  using assms
  by (auto simp: as_defs stmtExec_def stmtQuery_def stmtExecContext_def stmtQueryContext_def full_stmt_def
      split: option.split sum.split)

lemma profiled_stmt_as:
  assumes "\<not> sqExplain config"
  shows "stmt_as (profiled_stmt dn config conn q t) (full_stmt dn t)"
  using stmt_calls_as [OF assms, of dn conn q t]
  by (auto simp: stmt_as_def rel_fun_def profiled_stmt_def full_stmt_def reads_as_def checked_value_def split: option.split)

lemma stmt_answer_profiled:
  assumes "\<not> sqExplain config"
  shows "stmt_answer dn (map_sum id (profiled_stmt dn config conn q) x) x"
  using profiled_stmt_as [OF assms] by (cases x) (simp_all add: stmt_answer_def)

lemma prepared_as:
  assumes "\<not> sqExplain config"
  shows "acts_as (stmt_answer dn) (prepared dn config conn q f) f"
  by (simp add: acts_as_def prepared_def Let_def case_prod_beta stmt_answer_profiled [OF assms])

lemma conn_prepare_as:
  assumes "\<not> sqExplain config"
  shows "acts_as (stmt_answer dn) (connPrepareContext dn config c ctx q) (the (dcPrepareContext (full_conn dn c)) ctx q)"
  using prepared_as [OF assms, of dn c q]
  by (auto simp: acts_as_def connPrepareContext_def full_conn_def unless_done_def stmt_answer_def split: option.split)

lemma conn_tx_as: "acts_as (=) (connBeginTx dn c ctx opts) (the (dcBeginTx (full_conn dn c)) ctx opts)"
  by (auto simp: acts_as_def connBeginTx_def full_conn_def plain_tx_def unless_done_def split: option.split)

lemma conn_rest_as:
  "rel_option (rel_fun (=) (acts_as (=))) (dcPing (profileSQLConn dn config c)) (dcPing (full_conn dn c))"
  "rel_option (rel_fun (=) (acts_as (=))) (dcResetSession (profileSQLConn dn config c)) (dcResetSession (full_conn dn c))"
  "rel_option reads_as (dcIsValid (profileSQLConn dn config c)) (dcIsValid (full_conn dn c))"
  "rel_option (rel_fun (=) reads_as) (dcCheckNamedValue (profileSQLConn dn config c)) (dcCheckNamedValue (full_conn dn c))"
  by (auto simp: profileSQLConn_def full_conn_def rel_fun_def acts_as_def reads_as_def checked_value_def split: option.split)

lemma profiled_conn_as:
  assumes "\<not> sqExplain config"
  shows "conn_as dn (profileSQLConn dn config c) (full_conn dn c)"
proof -
  have some: "x \<noteq> None \<Longrightarrow> R y (the x) \<Longrightarrow> rel_option R (Some y) x" for R x y by auto
  have present: "dcPrepareContext (full_conn dn c) \<noteq> None" "dcBeginTx (full_conn dn c) \<noteq> None" "dcExec (full_conn dn c) \<noteq> None"
    "dcExecContext (full_conn dn c) \<noteq> None" "dcQuery (full_conn dn c) \<noteq> None" "dcQueryContext (full_conn dn c) \<noteq> None"
    by (simp_all add: full_conn_def)
  have same: "dcPrepare (full_conn dn c) = dcPrepare c" "dcClose (full_conn dn c) = dcClose c" "dcBegin (full_conn dn c) = dcBegin c"
    by (simp_all add: full_conn_def)
  have fields: "dcPrepare (profileSQLConn dn config c) = (\<lambda>q. prepared dn config c q (dcPrepare c q))"
    "dcPrepareContext (profileSQLConn dn config c) = Some (connPrepareContext dn config c)"
    "dcClose (profileSQLConn dn config c) = on_db (dcClose c)" "dcBegin (profileSQLConn dn config c) = on_db (dcBegin c)"
    "dcBeginTx (profileSQLConn dn config c) = Some (connBeginTx dn c)"
    "dcExec (profileSQLConn dn config c) = Some (connExec dn config c)"
    "dcExecContext (profileSQLConn dn config c) = Some (connExecContext dn config c)"
    "dcQuery (profileSQLConn dn config c) = Some (connQuery dn config c)"
    "dcQueryContext (profileSQLConn dn config c) = Some (connQueryContext dn config c)"
    by (simp_all add: profileSQLConn_def)
  show ?thesis
    unfolding conn_as_def fields same
    using prepared_as [OF assms] conn_prepare_as [OF assms] conn_tx_as conn_exec_as [OF assms] conn_query_as [OF assms]
    by (intro conjI conn_rest_as some present on_db_acts) (auto simp: rel_fun_def)
qed

definition conn_answer :: "(sqlCtx \<Rightarrow> 'd \<Rightarrow> sqlError option) \<Rightarrow> sqlError + ('w, 'x, 'd) sqlWorld driverConn \<Rightarrow>
    sqlError + 'd driverConn \<Rightarrow> bool" where
  "conn_answer dn A a \<longleftrightarrow> rel_sum (=) (conn_as dn) A (map_sum id (full_conn dn) a)"

definition connector_as :: "(sqlCtx \<Rightarrow> 'd \<Rightarrow> sqlError option) \<Rightarrow> ('w, 'x, 'd) sqlWorld connector \<Rightarrow> 'd connector \<Rightarrow> bool" where
  "connector_as dn K k \<longleftrightarrow> (\<forall>ctx. acts_as (conn_answer dn) (K ctx) (k ctx))"

definition plain_connector :: "(sqlCtx \<Rightarrow> 'd \<Rightarrow> sqlError option) \<Rightarrow> 'd sqlDriver \<Rightarrow> string \<Rightarrow> 'd \<Rightarrow> 'd \<times> (sqlError + 'd connector)" where
  "plain_connector dn drv dsn = (case sdOpenConnector drv of Some f \<Rightarrow> f dsn | None \<Rightarrow> \<lambda>d. (d, Inr (dsnConnect dn drv dsn)))"

lemma conn_answer_profiled:
  assumes "\<not> sqExplain config"
  shows "conn_answer dn (map_sum id (profileSQLConn dn config) x) x"
  by (cases x) (simp_all add: conn_answer_def profiled_conn_as [OF assms])

lemma connector_profiled:
  assumes "\<not> sqExplain config"
  shows "connector_as dn (connectorConnect dn config k) k"
  by (simp add: connector_as_def acts_as_def connectorConnect_def Let_def case_prod_beta conn_answer_profiled [OF assms])

lemma driver_profiled:
  assumes "\<not> sqExplain config"
  shows "acts_as (conn_answer dn) (driverOpen dn config drv dsn) (sdOpen drv dsn)"
    "acts_as (rel_sum (=) (connector_as dn)) (driverOpenConnector dn config drv dsn) (plain_connector dn drv dsn)"
proof -
  show "acts_as (conn_answer dn) (driverOpen dn config drv dsn) (sdOpen drv dsn)"
    by (simp add: acts_as_def driverOpen_def Let_def case_prod_beta conn_answer_profiled [OF assms])
  have "rel_sum (=) (connector_as dn) (map_sum id (connectorConnect dn config) x) x" for x
    by (cases x) (simp_all add: connector_profiled [OF assms])
  then show "acts_as (rel_sum (=) (connector_as dn)) (driverOpenConnector dn config drv dsn) (plain_connector dn drv dsn)"
    by (auto simp: acts_as_def driverOpenConnector_def plain_connector_def Let_def case_prod_beta
        connector_profiled [OF assms] split: option.split)
qed


text \<open>A database of one counter.\<close>

definition counter_conn :: "nat driverConn" where
  "counter_conn =
     \<lparr>dcPrepare = (\<lambda>q d. (d, Inl (SqlError ''no statements''))), dcPrepareContext = None, dcClose = (\<lambda>d. (d, None)),
      dcBegin = (\<lambda>d. (d, Inr 7)), dcBeginTx = None,
      dcExec = Some (\<lambda>q vs d. (d + length vs, Some \<lparr>dlRowsAffected = Inr (int (length vs))\<rparr>, None)),
      dcExecContext = None, dcQuery = None, dcQueryContext = None, dcPing = None, dcResetSession = None,
      dcIsValid = None, dcCheckNamedValue = None\<rparr>"

definition counter_driver :: "nat sqlDriver" where
  "counter_driver = \<lparr>sdOpen = (\<lambda>dsn d. (d, Inr counter_conn)), sdOpenConnector = None\<rparr>"

lemma conn_as_exec:
  assumes "conn_as dn (profileSQLConn dn config c :: ('w, 'x, 'd) sqlWorld driverConn) (full_conn dn c)"
  shows "swDB (fst (connExecContext dn config c ctx q args (s :: ('w, 'x, 'd) sqlWorld))) = fst (the (dcExecContext (full_conn dn c)) ctx q args (swDB s))"
proof -
  have "rel_option (rel_fun (=) (rel_fun (=) (rel_fun (=) (acts_as (=)))))
      (Some (connExecContext dn config c :: _ \<Rightarrow> _ \<Rightarrow> _ \<Rightarrow> ('w, 'x, 'd) sqlWorld \<Rightarrow> _)) (dcExecContext (full_conn dn c))"
    using assms by (simp add: conn_as_def profileSQLConn_def)
  then show ?thesis by (cases "dcExecContext (full_conn dn c)") (simp_all add: rel_fun_def acts_as_def)
qed


subsection \<open>What is recorded\<close>

text \<open>Only the sources of time and stacks were read.\<close>

definition only_ticks :: "('w, 'x) Profiler \<Rightarrow> ('w, 'x) Profiler \<Rightarrow> bool" where
  "only_ticks p p' \<longleftrightarrow> (\<exists>n. p' = p\<lparr>pTick := n\<rparr>)"

lemma only_ticks_refl [simp]: "only_ticks p p"
  unfolding only_ticks_def by (rule exI [of _ "pTick p"]) simp

lemma only_ticks_trans [trans]: "only_ticks p q \<Longrightarrow> only_ticks q r \<Longrightarrow> only_ticks p r"
  by (auto simp: only_ticks_def)

lemma only_ticks_sources [simp]: "only_ticks p (fst (clock_now p))" "only_ticks p (fst (CaptureQueryCallsite p))"
proof -
  show "only_ticks p (fst (clock_now p))" by (auto simp: only_ticks_def clock_now_def tick_def)
  then show "only_ticks p (fst (CaptureQueryCallsite p))"
    by (auto simp: CaptureQueryCallsite_def CaptureCallsite_def clock_now_def)
qed

text \<open>A part of a call that leaves the records alone.\<close>

definition unrecorded :: "('w, 'x, 'd) sqlWorld \<Rightarrow> ('w, 'x, 'd) sqlWorld \<Rightarrow> bool" where
  "unrecorded s s' \<longleftrightarrow> only_ticks (swProfiler s) (swProfiler s') \<and> swNextRows s' = swNextRows s \<and> swFinished s' = swFinished s"

lemma unrecorded_refl [simp]: "unrecorded s s"
  by (simp add: unrecorded_def)

lemma unrecorded_trans [trans]: "unrecorded s t \<Longrightarrow> unrecorded t u \<Longrightarrow> unrecorded s u"
  by (auto simp: unrecorded_def intro: only_ticks_trans)

lemma unrecorded_on [simp]: "unrecorded s (fst (on_db f s))"
    "unrecorded s (fst (on_profiler clock_now s))" "unrecorded s (fst (on_profiler CaptureQueryCallsite s))"
  by (simp_all add: unrecorded_def)

lemma unrecorded_steps:
  "unrecorded s t \<Longrightarrow> unrecorded s (fst (on_db f t))" "unrecorded s t \<Longrightarrow> unrecorded s (fst (on_profiler clock_now t))"
  by (rule unrecorded_trans, assumption, simp)+

lemma explain_unrecorded: "unrecorded s (fst (sql_explain dn config c ctx q args s))"
  by (auto simp: sql_explain_def Let_def case_prod_beta unrecorded_steps split: sum.split option.split)

lemma before_call_unrecorded: "unrecorded s (fst (before_call dn config c ctx q args s))"
proof -
  have "unrecorded s (fst (sql_explain dn config c ctx q args (fst (on_profiler CaptureQueryCallsite s))))"
    by (rule unrecorded_trans [OF _ explain_unrecorded]) simp
  then show ?thesis by (simp add: before_call_def Let_def case_prod_beta unrecorded_steps)
qed

text \<open>Using rows to their end or not, in any order of calls.\<close>

datatype rows_call = CallNext | CallClose | CallNextSet

fun rows_step :: "'s driverRows \<Rightarrow> rows_call \<Rightarrow> 's \<Rightarrow> 's \<times> sqlError option" where
  "rows_step r CallNext s = (case drNext r s of (s, vs, e) \<Rightarrow> (s, e))"
| "rows_step r CallClose s = drClose r s"
| "rows_step r CallNextSet s = (case drResultSets r of None \<Rightarrow> (s, Some EndOfRows) | Some (has, nxt) \<Rightarrow> nxt s)"

definition run_rows :: "'s driverRows \<Rightarrow> rows_call list \<Rightarrow> 's \<Rightarrow> 's" where
  "run_rows r cs s = fold (\<lambda>c s. fst (rows_step r c s)) cs s"

text \<open>The error with which the first call ends the rows; reaching the end of a result set with another behind it does not.\<close>

fun first_end :: "'d driverRows \<Rightarrow> rows_call list \<Rightarrow> 'd \<Rightarrow> sqlError option option" where
  "first_end r [] d = None"
| "first_end r (c # cs) d =
     (let (d, e) = rows_step r c d;
          ended = (case c of CallNext \<Rightarrow> e \<noteq> None \<and> \<not> (e = Some EndOfRows \<and> has_next_set r d)
            | CallClose \<Rightarrow> True | CallNextSet \<Rightarrow> e \<noteq> None)
      in if ended then Some (if e = Some EndOfRows then None else e) else first_end r cs d)"

lemma rows_step_finished:
  assumes "n \<in> set (swFinished s)"
  shows "swProfiler (fst (rows_step (profiled_rows rec n r) c s)) = swProfiler s \<and>
    n \<in> set (swFinished (fst (rows_step (profiled_rows rec n r) c s)))"
  using assms by (cases c) (auto simp: profiled_rows_def finish_rows_def Let_def case_prod_beta split: option.split)

lemma run_rows_finished: "n \<in> set (swFinished s) \<Longrightarrow> swProfiler (run_rows (profiled_rows rec n r) cs s) = swProfiler s"
proof (induction cs arbitrary: s)
  case (Cons c cs)
  show ?case using Cons.IH rows_step_finished [OF Cons.prems] by (simp add: run_rows_def)
qed (simp add: run_rows_def)

lemma has_next_full [simp]: "has_next_set (full_rows r) d = has_next_set r d"
  by (simp add: has_next_set_def full_rows_def split: option.split)

lemma rows_recorded:
  "n \<notin> set (swFinished s) \<Longrightarrow> swProfiler (run_rows (profiled_rows rec n r) cs s) =
     (case first_end (full_rows r) cs (swDB s) of None \<Rightarrow> swProfiler s | Some e \<Rightarrow> rec None e (swProfiler s))"
proof (induction cs arbitrary: s)
  case (Cons c cs)
  let ?t = "fst (rows_step (profiled_rows rec n r) c s)"
  have db: "rows_step (full_rows r) c (swDB s) = (swDB ?t, snd (rows_step (profiled_rows rec n r) c s))"
    by (cases c) (auto simp: full_rows_def profiled_rows_def Let_def case_prod_beta prod_eq_iff split: option.split)
  define e where "e = snd (rows_step (profiled_rows rec n r) c s)"
  have e: "rows_step (full_rows r) c (swDB s) = (swDB ?t, e)" using db by (simp add: e_def)
  define ended where "ended \<longleftrightarrow> (case c of CallNext \<Rightarrow> e \<noteq> None \<and> \<not> (e = Some EndOfRows \<and> has_next_set r (swDB ?t))
            | CallClose \<Rightarrow> True | CallNextSet \<Rightarrow> e \<noteq> None)"
  have first: "first_end (full_rows r) (c # cs) (swDB s) =
      (if ended then Some (if e = Some EndOfRows then None else e) else first_end (full_rows r) cs (swDB ?t))"
    using e by (cases c) (simp_all add: ended_def del: rows_step.simps)
  have t: "(if ended then swProfiler ?t = rec None (if e = Some EndOfRows then None else e) (swProfiler s) \<and> n \<in> set (swFinished ?t)
      else swProfiler ?t = swProfiler s \<and> n \<notin> set (swFinished ?t))"
    using Cons.prems
    by (cases c) (auto simp: e_def ended_def profiled_rows_def full_rows_def finish_rows_def Let_def case_prod_beta
        split: option.splits)
  have run: "run_rows (profiled_rows rec n r) (c # cs) s = run_rows (profiled_rows rec n r) cs ?t"
    by (simp add: run_rows_def)
  show ?case
  proof (cases ended)
    case True
    then show ?thesis using t by (simp add: run first run_rows_finished del: first_end.simps)
  next
    case False
    then show ?thesis using t Cons.IH [of ?t] by (simp add: run first del: first_end.simps split: option.split)
  qed
qed (simp add: run_rows_def)

text \<open>Recorded by one \<open>LogQueryContext\<close>, or not at all.\<close>

definition recorded_as :: "sqlConfig \<Rightarrow> sqlCtx \<Rightarrow> string \<Rightarrow> driverResult option \<Rightarrow> sqlError option \<Rightarrow>
    ('w, 'x) Profiler \<Rightarrow> ('w, 'x) Profiler \<Rightarrow> bool" where
  "recorded_as config ctx q r e p p' \<longleftrightarrow>
     (\<exists>p0 t callsite plan. only_ticks p p0 \<and> p' = sql_record config ctx t q r e callsite plan p0)"

definition recorded_or_failed :: "sqlConfig \<Rightarrow> sqlCtx \<Rightarrow> string \<Rightarrow> ('w, 'x) Profiler \<Rightarrow>
    ('w, 'x) Profiler \<times> driverResult option \<times> sqlError option \<Rightarrow> bool" where
  "recorded_or_failed config ctx q p answer = (case answer of (p', r, e) \<Rightarrow>
     if e = None then recorded_as config ctx q r e p p' else recorded_as config ctx q r e p p' \<or> only_ticks p p')"

lemma recorded_later: "only_ticks p q \<Longrightarrow> recorded_or_failed config ctx sql q a \<Longrightarrow> recorded_or_failed config ctx sql p a"
  unfolding recorded_or_failed_def recorded_as_def by (auto split: prod.splits if_splits intro: only_ticks_trans)

text \<open>\<open>ExecContext\<close> of \<open>database/sql\<close> on a connection: what the connection declines is prepared and executed.\<close>

definition sql_db_exec :: "'s driverConn \<Rightarrow> sqlCtx \<Rightarrow> string \<Rightarrow> namedValue list \<Rightarrow> 's \<Rightarrow> 's execAnswer" where
  "sql_db_exec C ctx q args s =
     (case the (dcExecContext C) ctx q args s of (s, r, e) \<Rightarrow>
        if e \<noteq> Some ErrSkip then (s, r, e)
        else case the (dcPrepareContext C) ctx q s of
            (s, Inl e) \<Rightarrow> (s, None, Some e)
          | (s, Inr t) \<Rightarrow> (case the (dsExecContext t) ctx args s of (s, r, e) \<Rightarrow> (fst (dsClose t s), r, e)))"

lemma exec_with_profiler [simp]: "swProfiler (fst (exec_with rec f s)) = rec (fst (snd (f (swDB s)))) (snd (snd (f (swDB s)))) (swProfiler s)"
  by (simp add: exec_with_def Let_def case_prod_beta)

lemma conn_exec_recorded:
  assumes "connExecContext dn config c ctx q args s = (s1, r, e)"
  shows "if e = Some ErrSkip then only_ticks (swProfiler s) (swProfiler s1)
    else recorded_or_failed config ctx q (swProfiler s) (swProfiler s1, r, e)"
proof -
  obtain s0 cs plan t where b: "before_call dn config c ctx q args s = (s0, cs, plan, t)" by (metis prod_cases4)
  have 0: "only_ticks (swProfiler s) (swProfiler s0)"
    using before_call_unrecorded [of s dn config c ctx q args] by (simp add: b unrecorded_def)
  have *: "recorded_as config ctx q x y (swProfiler s) (sql_record config ctx t q x y cs plan (swProfiler s0))" for x y
    using 0 by (auto simp: recorded_as_def)
  show ?thesis
    using assms 0 * unfolding connExecContext_def b Let_def prod.case
    by (auto simp: recorded_or_failed_def conn_record_def exec_with_def Let_def case_prod_beta
        split: option.splits sum.splits)
qed

lemma stmt_exec_recorded:
  assumes "stmtExecContext dn config conn q inner ctx args s = (s1, r, e)"
  shows "recorded_or_failed config ctx q (swProfiler s) (swProfiler s1, r, e)"
proof -
  obtain s0 cs plan t where b: "before_call dn config conn ctx q args s = (s0, cs, plan, t)" by (metis prod_cases4)
  have 0: "only_ticks (swProfiler s) (swProfiler s0)"
    using before_call_unrecorded [of s dn config conn ctx q args] by (simp add: b unrecorded_def)
  have *: "recorded_as config ctx q x y (swProfiler s) (sql_record config ctx t q x y cs plan (swProfiler s0))" for x y
    using 0 by (auto simp: recorded_as_def)
  show ?thesis
    using assms 0 * unfolding stmtExecContext_def b Let_def prod.case
    by (auto simp: recorded_or_failed_def exec_with_def Let_def case_prod_beta split: option.splits sum.splits)
qed

lemma prepared_unrecorded:
  assumes "prepared dn config c q f s = (s1, x)"
  shows "swProfiler s1 = swProfiler s \<and> (case x of Inl e \<Rightarrow> True | Inr t \<Rightarrow> \<exists>inner. t = profiled_stmt dn config c q inner)"
proof -
  obtain d y where f: "f (swDB s) = (d, y)" by fastforce
  show ?thesis using assms by (cases y) (auto simp: prepared_def on_db_def f)
qed

lemma conn_prepare_unrecorded:
  assumes "connPrepareContext dn config c ctx q s = (s1, x)"
  shows "swProfiler s1 = swProfiler s \<and> (case x of Inl e \<Rightarrow> True | Inr t \<Rightarrow> \<exists>inner. t = profiled_stmt dn config c q inner)"
  using assms by (auto simp: connPrepareContext_def split: option.splits dest: prepared_unrecorded)

lemma db_exec_recorded:
  assumes "sql_db_exec (profileSQLConn dn config c) ctx q args s = (s', r, e)"
  shows "recorded_or_failed config ctx q (swProfiler s) (swProfiler s', r, e)"
proof -
  obtain s1 r1 e1 where 1: "connExecContext dn config c ctx q args s = (s1, r1, e1)" by (metis prod_cases3)
  obtain s2 x where 2: "connPrepareContext dn config c ctx q s1 = (s2, x)" by fastforce
  show ?thesis
  proof (cases "e1 = Some ErrSkip")
    case False
    then show ?thesis using assms 1 conn_exec_recorded [OF 1] by (simp add: sql_db_exec_def profileSQLConn_def)
  next
    case skipped: True
    have ticks: "only_ticks (swProfiler s) (swProfiler s2)"
      using conn_exec_recorded [OF 1] conn_prepare_unrecorded [OF 2] skipped by simp
    show ?thesis
    proof (cases x)
      case (Inl err)
      then show ?thesis using assms 1 2 skipped ticks by (auto simp: sql_db_exec_def profileSQLConn_def recorded_or_failed_def)
    next
      case (Inr t)
      then obtain inner where t: "t = profiled_stmt dn config c q inner" using conn_prepare_unrecorded [OF 2] by auto
      obtain s3 r3 e3 where 3: "stmtExecContext dn config c q inner ctx args s2 = (s3, r3, e3)" by (metis prod_cases3)
      have "r = r3" "e = e3" "swProfiler s' = swProfiler s3"
        using assms 1 2 3 skipped Inr t by (auto simp: sql_db_exec_def profileSQLConn_def profiled_stmt_def)
      then show ?thesis using recorded_later [OF ticks stmt_exec_recorded [OF 3]] by simp
    qed
  qed
qed

definition reaches_query :: "(sqlCtx \<Rightarrow> 'd \<Rightarrow> sqlError option) \<Rightarrow> 'd driverConn \<Rightarrow> sqlCtx \<Rightarrow> namedValue list \<Rightarrow> 'd \<Rightarrow> bool" where
  "reaches_query dn c ctx args d \<longleftrightarrow>
     dcQueryContext c \<noteq> None \<or> (dcQuery c \<noteq> None \<and> \<not> isl (legacy_values dn ctx args d))"

lemma query_with_fresh:
  assumes "\<forall>n\<in>set (swFinished s). n < swNextRows s"
    and "query_with rec f s = (s1, Some R, None)" "f (swDB s) = (d, inner, e)"
  shows "swProfiler (run_rows R cs s1) =
     (case first_end (full_rows (the inner)) cs d of None \<Rightarrow> swProfiler s | Some e \<Rightarrow> rec None e (swProfiler s))"
  using assms(2,3) rows_recorded [of "swNextRows s" "(s\<lparr>swDB := d, swNextRows := swNextRows s + 1\<rparr>)" rec "the inner" cs] assms(1)
  by (auto simp: query_with_def on_db_def Let_def split: option.splits)

text \<open>What the profiler holds after the answer of a query, or after some calls on its rows.\<close>

definition recorded_when_ended :: "('w, 'x) recorder \<Rightarrow> rows_call list \<Rightarrow> ('w, 'x) Profiler \<Rightarrow> 'd queryAnswer \<Rightarrow>
    ('w, 'x, 'd) sqlWorld queryAnswer \<Rightarrow> bool" where
  "recorded_when_ended rec cs p answer wrapped =
     (case answer of (d, inner, e) \<Rightarrow> case wrapped of (s1, rows, err) \<Rightarrow>
        if inner \<noteq> None \<and> e = None then
          swProfiler (run_rows (the rows) cs s1) =
            (case first_end (full_rows (the inner)) cs d of None \<Rightarrow> p | Some e \<Rightarrow> rec None e p)
        else swProfiler s1 = rec None e p)"

lemma query_with_recorded:
  assumes "\<forall>n\<in>set (swFinished s). n < swNextRows s"
  shows "recorded_when_ended rec cs (swProfiler s) (f (swDB s)) (query_with rec f s)"
proof -
  obtain d inner e where f: "f (swDB s) = (d, inner, e)" by (metis prod_cases3)
  show ?thesis
  proof (cases "inner \<noteq> None \<and> e = None")
    case True
    then obtain s1 R where q: "query_with rec f s = (s1, Some R, None)"
      by (auto simp: query_with_def on_db_def f Let_def)
    show ?thesis using query_with_fresh [OF assms q f, of cs] True by (simp add: f q recorded_when_ended_def)
  next
    case False
    then show ?thesis
      by (auto simp: query_with_def on_db_def f Let_def recorded_when_ended_def split: option.splits prod.splits)
  qed
qed


definition counter_world :: "('w, 'x) Profiler \<Rightarrow> ('w, 'x, nat) sqlWorld" where
  "counter_world p = \<lparr>swProfiler = p, swDB = 4, swNextRows = 0, swFinished = []\<rparr>"


subsection \<open>Plans are asked for with a bounded effort\<close>

lemma valid_prefix_length: "length (valid_prefix s) \<le> length s"
proof (induction s rule: valid_prefix.induct)
  case (1 s)
  then show ?case by (subst valid_prefix.simps) auto
qed

lemma appendPlanText_bound:
  "length out \<le> m \<Longrightarrow> length (fst (appendPlanText out v m)) \<le> m"
  using valid_prefix_length [of "take (m - length out) v"] by (auto simp: appendPlanText_def Let_def)

lemma read_plan_rows_spec:
  "length out \<le> m \<Longrightarrow> case read_plan_rows r cols m n out d of (d', out2, err) \<Rightarrow>
     length out2 \<le> m + 4 \<and> (\<exists>k\<le>n. d' = ((\<lambda>d. fst (drNext r d)) ^^ k) d)"
proof (induction n arbitrary: out d)
  case (Suc n)
  obtain d1 vs err where nxt: "drNext r d = (d1, vs, err)" by (metis prod_cases3)
  show ?case
  proof (cases err)
    case (Some e)
    then show ?thesis using Suc.prems by (auto simp: nxt intro!: exI [of _ 1])
  next
    case None
    define line where "line = (if out \<noteq> [] then newline @ formatPlanRow cols vs else formatPlanRow cols vs)"
    obtain out' ok where a: "appendPlanText out line m = (out', ok)" by fastforce
    have len: "length out' \<le> m" using appendPlanText_bound [OF Suc.prems, of line] by (simp add: a)
    have run: "read_plan_rows r cols m (Suc n) out d =
        (if ok then read_plan_rows r cols m n out' d1 else (d1, out' @ newline @ ellipsis, None))"
      using a by (simp add: nxt None line_def Let_def split: bool.split)
    show ?thesis
    proof (cases ok)
      case True
      obtain d2 out2 err2 where r: "read_plan_rows r cols m n out' d1 = (d2, out2, err2)" by (metis prod_cases3)
      then obtain k where k: "length out2 \<le> m + 4" "k \<le> n" "d2 = ((\<lambda>d. fst (drNext r d)) ^^ k) d1"
        using Suc.IH [OF len, of d1] by auto
      then have "d2 = ((\<lambda>d. fst (drNext r d)) ^^ Suc k) d" by (simp add: funpow_Suc_right nxt del: funpow.simps(2))
      moreover have "read_plan_rows r cols m (Suc n) out d = (d2, out2, err2)" using run True r by simp
      ultimately show ?thesis using k(1,2) by (auto simp del: read_plan_rows.simps intro!: exI [of _ "Suc k"])
    next
      case False
      then have "read_plan_rows r cols m (Suc n) out d = (d1, out' @ newline @ ellipsis, None)" using run by simp
      then show ?thesis using len
        by (auto simp: nxt newline_def ellipsis_def simp del: read_plan_rows.simps intro!: exI [of _ 1])
    qed
  qed
qed (simp add: newline_def ellipsis_def)

text \<open>A plan for which at most one command was sent and a bounded number of rows was read.\<close>

definition asked_once :: "(sqlCtx \<Rightarrow> 'd \<Rightarrow> sqlError option) \<Rightarrow> sqlConfig \<Rightarrow> 'd driverConn \<Rightarrow> sqlCtx \<Rightarrow> string \<Rightarrow>
    namedValue list \<Rightarrow> 'd \<Rightarrow> 'd \<Rightarrow> QueryPlan \<Rightarrow> bool" where
  "asked_once dn config c ctx q args db db' p \<longleftrightarrow>
     (case explainCommand (sqDriver config) q of
        Inl e \<Rightarrow> db' = db \<and> qpError p = sql_error_text e
      | Inr cmd \<Rightarrow>
          \<exists>t. case queryDriver dn (ctx\<lparr>scTimeouts := t # scTimeouts ctx\<rparr>) c cmd args db of
            (d, rows, Some e) \<Rightarrow> db' = d \<and> qpError p = sql_error_text e
          | (d, None, None) \<Rightarrow> db' = d
          | (d, Some r, None) \<Rightarrow>
              \<exists>k \<le> (if sqExplainMaxRows config \<le> 0 then 100 else nat (sqExplainMaxRows config)).
                db' = fst (drClose r (((\<lambda>d. fst (drNext r d)) ^^ k) d)))"

lemma explain_answered:
  assumes x: "sql_explain dn config c ctx q args s = (s', plan)"
    and on: "sqExplain config \<and> explainableSQL q" and cmd: "explainCommand (sqDriver config) q = Inr cmd"
    and t: "t = (if sqExplainTimeout config \<le> 0 then 750000000 else sqExplainTimeout config)"
    and a: "queryDriver dn (ctx\<lparr>scTimeouts := t # scTimeouts ctx\<rparr>) c cmd args (swDB s) = (d, rows, err)"
  shows "\<exists>p. plan = Some p \<and>
    (case (rows, err) of
       (Some r, None) \<Rightarrow>
         (case readPlan r (if sqExplainMaxRows config \<le> 0 then 100 else nat (sqExplainMaxRows config)) defaultExplainMaxBytes d of
            (d, out, e) \<Rightarrow> swDB s' = fst (drClose r d) \<and> qpText p = out \<and> (if qpError p = [] then True else qpIssues p = []))
     | _ \<Rightarrow> swDB s' = d \<and> qpText p = [] \<and> qpIssues p = [] \<and> qpError p = (case err of Some e \<Rightarrow> sql_error_text e | None \<Rightarrow> []))"
  using x a on cmd unfolding sql_explain_def Let_def t [symmetric]
  by (cases err; cases rows) (auto simp: case_prod_beta on_db_def split: option.splits)

lemma explain_effort:
  assumes x: "sql_explain dn config c ctx q args s = (s', plan)" and on: "sqExplain config \<and> explainableSQL q"
  shows "\<exists>p. plan = Some p \<and> length (qpText p) \<le> 64 * 1024 + 4 \<and> (if qpError p = [] then True else qpIssues p = []) \<and>
    asked_once dn config c ctx q args (swDB s) (swDB s') p"
proof (cases "explainCommand (sqDriver config) q")
  case (Inl e)
  then show ?thesis using x on by (auto simp: sql_explain_def Let_def asked_once_def)
next
  case cmd: (Inr cmd)
  define t where "t = (if sqExplainTimeout config \<le> 0 then 750000000 else sqExplainTimeout config)"
  define m where "m = (if sqExplainMaxRows config \<le> 0 then 100 else nat (sqExplainMaxRows config))"
  obtain d rows err where a: "queryDriver dn (ctx\<lparr>scTimeouts := t # scTimeouts ctx\<rparr>) c cmd args (swDB s) = (d, rows, err)"
    by (metis prod_cases3)
  note ans = explain_answered [OF x on cmd t_def a, folded m_def]
  show ?thesis
  proof (cases "rows = None \<or> err \<noteq> None")
    case True
    then show ?thesis using ans
      by (auto simp: asked_once_def cmd split: option.splits intro!: exI [of _ t] simp: a)
  next
    case False
    then obtain r where r: "rows = Some r" "err = None" by auto
    obtain d2 out err2 where rd: "readPlan r m defaultExplainMaxBytes d = (d2, out, err2)" by (metis prod_cases3)
    obtain k where out: "length out \<le> 64 * 1024 + 4" and k: "k \<le> m" "d2 = ((\<lambda>d. fst (drNext r d)) ^^ k) d"
      using read_plan_rows_spec [where out = "[]" and m = defaultExplainMaxBytes and r = r and cols = "drColumns r d" and n = m and d = d] rd
      by (auto simp: readPlan_def defaultExplainMaxBytes_def)
    from ans r rd obtain p where p: "plan = Some p" "swDB s' = fst (drClose r d2)" "qpText p = out"
      "if qpError p = [] then True else qpIssues p = []" by auto
    have "asked_once dn config c ctx q args (swDB s) (swDB s') p"
      unfolding asked_once_def cmd sum.case m_def [symmetric] using a r p(2) k by (intro exI [of _ t]) auto
    then show ?thesis using p out by simp
  qed
qed


end
