(* ===== verification/StoreBackend.thy ===== *)
theory StoreBackend
  imports StoreRestart
begin

text \<open>
  The contract between the event store and an external \<open>EntryStorage\<close>, and what the store makes
  of it under concurrency: as long as no storage error is reported, the back end followed by
  the records still waiting is the retained window, in its order, and the back end's cursor
  followed by theirs is the store's cursor.
\<close>

subsection \<open>Records in the order of their cursors\<close>

fun ascend :: "nat \<Rightarrow> storeJournalRecord list \<Rightarrow> nat \<Rightarrow> bool" where
  "ascend lo [] hi = (lo = hi)"
| "ascend lo (r # rs) hi =
     (if jrOperation r = ''clear'' then lo < jrCursor r \<and> ascend (jrCursor r) rs hi
      else if jrOperation r = ''put'' then
        (case jrEntry r of None \<Rightarrow> False
         | Some e \<Rightarrow> eID e \<noteq> [] \<and> lo < eCursor e \<and> eCursor e \<le> jrCursor r \<and> ascend (jrCursor r) rs hi)
      else jrOperation r = ''delete'' \<and> jrEntry r \<noteq> None \<and> ascend lo rs hi)"

lemma ascend_append: "ascend lo (rs @ qs) hi \<longleftrightarrow> (\<exists>m. ascend lo rs m \<and> ascend m qs hi)"
  by (induction rs arbitrary: lo) (auto split: option.split)

lemma ascend_records [simp]:
  "ascend lo (deleteRecord i # rs) hi = ascend lo rs hi"
  "ascend lo (clearRecord c # rs) hi = (lo < c \<and> ascend c rs hi)"
  "ascend lo (putRecord e c # rs) hi = (eID e \<noteq> [] \<and> lo < eCursor e \<and> eCursor e \<le> c \<and> ascend c rs hi)"
  by (simp_all add: deleteRecord_def clearRecord_def putRecord_def)

declare ascend.simps(2) [simp del]

lemma ascend_deletes [simp]: "ascend lo (deletes v @ rs) hi = ascend lo rs hi"
  by (induction v) simp_all

lemma ascend_deletes_only [simp]: "ascend lo (deletes v) hi = (lo = hi)"
  using ascend_deletes [of lo v "[]" hi] by simp

lemma mem_step_ascends:
  assumes ok: "store_ok s" and op: "op_ok m" and st: "storing s"
  shows "case mem_step m s of (s', b) \<Rightarrow> ascend (sNextCursor s) (sbRecords b) (sNextCursor s')"
proof (cases m)
  case (MPut now e)
  have inv: "store_inv s" using ok by (rule store_ok_inv)
  have e: "eID e \<noteq> []" using op MPut by simp
  consider "sIsClosed s" | "\<not> sIsClosed s" "entrySize e > sMaxBytes s"
    | "\<not> sIsClosed s" "\<not> entrySize e > sMaxBytes s" by blast
  then show ?thesis
  proof cases
    case 1
    then show ?thesis by (simp add: MPut put_closed noBatch_def)
  next
    case 2
    obtain s' where "put now e s = (s', batch_for s (deletes (stale now s)), False)" "sNextCursor s' = sNextCursor s"
      using put_rejected_spec [OF inv 2, of now] by metis
    then show ?thesis by (simp add: MPut batch_for_def noBatch_def)
  next
    case 3
    obtain s' k rs where "put now e s = (s', batch_for s rs, True)"
      "rs = deletes (stale now s) @ deletes (take k (window e now s)) @
         [putRecord (e\<lparr>eCursor := sNextCursor s + 1\<rparr>) (sNextCursor s + 1)]"
      "sNextCursor s' = sNextCursor s + 1"
      using put_accepted_spec [OF inv 3, of now] by metis
    then show ?thesis using st e by (simp add: MPut batch_for_def)
  qed
next
  case MClear
  obtain s' where "clear s = (s', batch_for s [clearRecord (sNextCursor s + 1)])" "sNextCursor s' = sNextCursor s + 1"
    using clear_spec [OF store_ok_inv [OF ok]] by metis
  then show ?thesis using st by (simp add: MClear batch_for_def)
next
  case (MQuery now)
  obtain s' where "purged now s = (s', batch_for s (deletes (stale now s)))" "sNextCursor s' = sNextCursor s"
    using purged_spec [OF store_ok_inv [OF ok], of now] by metis
  then show ?thesis by (simp add: MQuery batch_for_def noBatch_def)
next
  case (MUnsubscribe i)
  then show ?thesis using quiet_ops(2) [of s i] by (simp add: quiet_def noBatch_def)
next
  case (MReceive i)
  then show ?thesis using quiet_ops(3) [of s i] by (simp add: quiet_def noBatch_def)
next
  case MSubscribe
  then show ?thesis using quiet_ops(1) [of s] by (simp add: quiet_def noBatch_def)
next
  case MClose
  then show ?thesis using quiet_ops(4) [of s] by (simp add: quiet_def noBatch_def)
qed

subsection \<open>Replaying what a back end holds\<close>

lemma replay_one:
  assumes inv: "store_inv s"
  shows "store_inv (replayRecord (compactRecord e) s) \<and>
    view (replayRecord (compactRecord e) s) = apply_record (compactRecord e) (view s) \<and>
    conf (replayRecord (compactRecord e) s) = conf s \<and>
    sStorageIssued (replayRecord (compactRecord e) s) = sStorageIssued s \<and>
    sNextCursor (replayRecord (compactRecord e) s) \<le> max (sNextCursor s) (eCursor e)"
  using replayRecord_spec [OF inv, of "compactRecord e"] rest_fields [OF insert_entry_spec(3) [OF inv, of e]]
  by (auto simp: replayRecord_def compactRecord_def Let_def)

lemma replay_all:
  assumes "store_inv s" "list_all (\<lambda>e. eCursor e \<le> n) v" "sNextCursor s \<le> n"
  shows "store_inv (fold (\<lambda>e. replayRecord (compactRecord e)) v s) \<and>
    view (fold (\<lambda>e. replayRecord (compactRecord e)) v s) = apply_records (map compactRecord v) (view s) \<and>
    conf (fold (\<lambda>e. replayRecord (compactRecord e)) v s) = conf s \<and>
    sStorageIssued (fold (\<lambda>e. replayRecord (compactRecord e)) v s) = sStorageIssued s \<and>
    sNextCursor (fold (\<lambda>e. replayRecord (compactRecord e)) v s) \<le> n"
  using assms
proof (induction v arbitrary: s)
  case (Cons e v)
  note one = replay_one [OF Cons.prems(1), of e]
  have "sNextCursor (replayRecord (compactRecord e) s) \<le> n" using one Cons.prems by (auto intro: order_trans)
  then show ?case using Cons.IH [of "replayRecord (compactRecord e) s"] one Cons.prems by simp
qed simp

lemma dropped_window:
  assumes "distinct (map eID v)"
  shows "apply_records (deletes (takeWhile p v) @ deletes (take k (dropWhile p v))) v = drop k (dropWhile p v)"
proof -
  have "v = takeWhile p v @ dropWhile p v" by simp
  then have "takeWhile p v = take (length (takeWhile p v)) v" "dropWhile p v = drop (length (takeWhile p v)) v"
    by (metis append_eq_conv_conj)+
  then have 1: "apply_records (deletes (takeWhile p v)) v = dropWhile p v"
    using filter_not_take [OF assms, of "length (takeWhile p v)"] by (simp add: apply_deletes)
  have "distinct (map eID (dropWhile p v))"
    using assms by (metis distinct_append map_append takeWhile_dropWhile_id)
  from filter_not_take [OF this, of k] 1 show ?thesis by (simp add: apply_deletes)
qed

subsection \<open>The contract\<close>

text \<open>No error was reported, and none is about to be.\<close>

definition fault_free :: "'x sys \<Rightarrow> bool" where
  "fault_free y = (case y of Sys s d p a \<Rightarrow> sStorageError s = [] \<and>
     (case a of None \<Rightarrow> True | Some (n, rs, err) \<Rightarrow> err = None))"

definition told :: "(nat \<times> storeJournalRecord list \<times> string option) option \<Rightarrow> bool" where
  "told a = (case a of Some (n, rs, err) \<Rightarrow> err \<noteq> Some [] | None \<Rightarrow> True)"

definition in_step :: "('x \<Rightarrow> bool) \<Rightarrow> ('x \<Rightarrow> Entry list) \<Rightarrow> ('x \<Rightarrow> nat) \<Rightarrow> storeJournalRecord list \<Rightarrow> 'x \<Rightarrow> 'x entryStore \<Rightarrow> bool" where
  "in_step ok content cursor rs x s \<longleftrightarrow>
     ok x \<and> ascend (cursor x) rs (sNextCursor s) \<and> apply_records rs (content x) = view s"

definition mirrors :: "('x \<Rightarrow> bool) \<Rightarrow> ('x \<Rightarrow> Entry list) \<Rightarrow> ('x \<Rightarrow> nat) \<Rightarrow> 'x sys \<Rightarrow> bool" where
  "mirrors ok content cursor y = (case y of Sys s d p a \<Rightarrow>
     sStorageKind s \<noteq> storageKindMemory \<and> sStorageKind s \<noteq> storageKindJournal \<and> told a \<and>
     (\<exists>x. sStorage s = Some x \<and> (fault_free y \<longrightarrow> in_step ok content cursor (outstanding y) x s)))"

locale entry_backend =
  fixes es :: "'x EntryStorage" and ok :: "'x \<Rightarrow> bool" and content :: "'x \<Rightarrow> Entry list" and cursor :: "'x \<Rightarrow> nat"
  assumes load: "ok x \<Longrightarrow> esLoad es x = (content x, cursor x, None)"
    and content_ok: "ok x \<Longrightarrow> ids_ok (content x) \<and> cursors_ok (cursor x) (content x)"
    and put_law: "ok x \<Longrightarrow> eID e \<noteq> [] \<Longrightarrow> cursor x < eCursor e \<Longrightarrow> eCursor e \<le> n \<Longrightarrow> esPut es x e n = (x', None) \<Longrightarrow>
      ok x' \<and> content x' = drop_id (eID e) (content x) @ [e] \<and> cursor x' = n"
    and delete_law: "ok x \<Longrightarrow> esDelete es x i = (x', None) \<Longrightarrow>
      ok x' \<and> content x' = drop_id i (content x) \<and> cursor x' = cursor x"
    and clear_law: "ok x \<Longrightarrow> cursor x < n \<Longrightarrow> esClear es x n = (x', None) \<Longrightarrow> ok x' \<and> content x' = [] \<and> cursor x' = n"
    and errors_tell: "snd (esPut es x e n) \<noteq> Some []" "snd (esDelete es x i) \<noteq> Some []" "snd (esClear es x n) \<noteq> Some []"
begin

text \<open>Writing one record.\<close>

lemma persist_external:
  assumes kind: "sStorageKind s \<noteq> storageKindJournal" and x: "sStorage s = Some x"
    and run: "persistRecord es io r s d = (s', d', e)"
  shows "\<exists>x'. sStorage s' = Some x' \<and> d' = d \<and> e \<noteq> Some [] \<and> sStorageError s' = sStorageError s \<and>
    (if e = None \<and> ok x \<and> ascend (cursor x) (r # rs) hi then
       ok x' \<and> ascend (cursor x') rs hi \<and> content x' = apply_record r (content x) else True)"
proof -
  consider (clear) "jrOperation r = ''clear''" | (put) en where "jrOperation r = ''put''" "jrEntry r = Some en"
    | (delete) en where "jrOperation r = ''delete''" "jrEntry r = Some en"
    | (other) "jrOperation r \<noteq> ''clear''" "jrEntry r = None \<or> jrOperation r \<notin> {''put'', ''delete''}"
    by (cases "jrEntry r") auto
  then show ?thesis
  proof cases
    case clear
    obtain x' err where c: "esClear es x (jrCursor r) = (x', err)" by fastforce
    then have "s' = s\<lparr>sStorage := Some x'\<rparr>" "d' = d" "e = err" using run kind x clear by (simp_all add: persistRecord_def)
    then show ?thesis using clear c errors_tell(3) [of x "jrCursor r"] clear_law [of x "jrCursor r" x']
      by (auto simp: apply_record_def ascend.simps(2))
  next
    case put
    obtain x' err where c: "esPut es x en (jrCursor r) = (x', err)" by fastforce
    then have "s' = s\<lparr>sStorage := Some x'\<rparr>" "d' = d" "e = err" using run kind x put by (simp_all add: persistRecord_def)
    then show ?thesis using put c errors_tell(1) [of x en "jrCursor r"] put_law [of x en "jrCursor r" x']
      by (auto simp: apply_record_def ascend.simps(2))
  next
    case delete
    obtain x' err where c: "esDelete es x (eID en) = (x', err)" by fastforce
    then have "s' = s\<lparr>sStorage := Some x'\<rparr>" "d' = d" "e = err" using run kind x delete by (simp_all add: persistRecord_def)
    then show ?thesis using delete c errors_tell(2) [of x "eID en"] delete_law [of x "eID en" x']
      by (auto simp: apply_record_def ascend.simps(2))
  next
    case other
    then have "s' = s" "d' = d" "e = None" using run kind x
      by (auto simp: persistRecord_def split: if_splits option.splits)
    then show ?thesis using other x by (auto simp: apply_record_def ascend.simps(2) split: option.splits)
  qed
qed

text \<open>Every step of the system keeps the back end in step with the window.\<close>

lemma mirrors_step:
  assumes "sys_step es P y z" "numbering_ok y" "mirrors ok content cursor y"
  shows "mirrors ok content cursor z"
  using assms
proof (induction rule: sys_step.induct)
  case (critical m s s' b d p a)
  have lg: "logged s s' b"
    using mem_step_logged [of s m] critical by (auto simp: numbering_ok_def split: option.splits)
  have kept: "sStorageKind s' = sStorageKind s" "sStorage s' = sStorage s" "sStorageError s' = sStorageError s"
    using lg by (simp_all add: logged_def backend_def)
  have st: "storing s" using critical.prems(2) by (auto simp: mirrors_def storing_def)
  have v: "view s' = apply_records (sbRecords b) (view s)" using lg st by (simp add: logged_def)
  have asc: "ascend (sNextCursor s) (sbRecords b) (sNextCursor s')"
    using mem_step_ascends [OF _ critical.hyps(1) st] critical by (auto simp: numbering_ok_def split: option.splits)
  have out: "outstanding (Sys s' d (if sbSequence b = 0 then p else p @ [b]) a) =
      outstanding (Sys s d p a) @ sbRecords b"
    using lg by (auto simp: outstanding_def logged_def)
  have ff: "fault_free (Sys s' d (if sbSequence b = 0 then p else p @ [b]) a) = fault_free (Sys s d p a)"
    using kept by (simp add: fault_free_def)
  show ?case
    using critical.prems(2) kept v asc
    by (auto simp: mirrors_def out ff in_step_def ascend_append)
next
  case (take_turn b p s d)
  have "map sbSequence p = [sStorageDone s + 1..<sStorageIssued s + 1]"
    using take_turn.prems by (simp add: numbering_ok_def)
  from pending_head [OF this take_turn.hyps] have "p = b # remove1 b p" by blast
  then have out: "outstanding (Sys s d (remove1 b p) (Some (sbSequence b, sbRecords b, None))) =
      outstanding (Sys s d p None)"
    by (simp add: outstanding_def active_records_def) (metis concat.simps(2) list.simps(9))
  show ?case using take_turn.prems(2) by (simp add: mirrors_def out fault_free_def told_def)
next
  case (write_record io r s d s' d' e p n rs err)
  obtain x where x: "sStorage s = Some x" and kind: "sStorageKind s \<noteq> storageKindMemory" "sStorageKind s \<noteq> storageKindJournal"
    and tell: "err \<noteq> Some []"
    and step: "fault_free (Sys s d p (Some (n, r # rs, err))) \<Longrightarrow>
      in_step ok content cursor (r # rs @ concat (map sbRecords p)) x s"
    using write_record.prems(2) by (auto simp: mirrors_def told_def outstanding_def active_records_def)
  let ?rest = "rs @ concat (map sbRecords p)"
  have f: "front s' = front s" using persistRecord_front [OF write_record.hyps(2)] by simp
  note same = front_fields [OF f] front_window [OF f]
  obtain x' where x': "sStorage s' = Some x'" "e \<noteq> Some []" "sStorageError s' = sStorageError s"
    "if e = None \<and> ok x \<and> ascend (cursor x) (r # ?rest) (sNextCursor s) then
       ok x' \<and> ascend (cursor x') ?rest (sNextCursor s) \<and> content x' = apply_record r (content x) else True"
    using persist_external [OF kind(2) x, of io r d s' d' e "?rest"] write_record.hyps(2)
    by (auto simp: persistRecord_def kind(2))
  show ?case
  proof (cases "fault_free (Sys s' d' p (Some (n, rs, join_errors err e)))")
    case True
    then have none: "err = None" "e = None" "fault_free (Sys s d p (Some (n, r # rs, err)))"
      using x'(3) by (auto simp: fault_free_def join_errors_def split: option.splits)
    have "ok x" "ascend (cursor x) (r # ?rest) (sNextCursor s)" "apply_records (r # ?rest) (content x) = view s"
      using step [OF none(3)] by (simp_all add: in_step_def)
    then show ?thesis using x' none kind same True
      by (simp add: mirrors_def in_step_def told_def outstanding_def active_records_def join_errors_def)
  next
    case False
    have "join_errors err e \<noteq> Some []" using tell x'(2) by (auto simp: join_errors_def split: option.splits)
    then show ?thesis using False x'(1) kind same by (auto simp: mirrors_def told_def split: option.splits)
  qed
next
  case (finish s d p n err)
  let ?s = "setStorageError err (s\<lparr>sStorageDone := n\<rparr>)"
  have f: "front ?s = front s" by simp
  have kept: "sStorage ?s = sStorage s" by (simp add: setStorageError_def split: option.split)
  have ff: "fault_free (Sys ?s d p None) \<Longrightarrow> fault_free (Sys s d p (Some (n, [], err)))"
    using finish.prems(2) by (auto simp: fault_free_def mirrors_def told_def setStorageError_def split: option.splits if_splits)
  have out: "outstanding (Sys ?s d p None) = outstanding (Sys s d p (Some (n, [], err)))"
    by (simp add: outstanding_def active_records_def)
  show ?case
    using finish.prems(2) ff front_fields [OF f] front_window [OF f]
    by (auto simp: mirrors_def in_step_def kept out told_def [of None])
qed

lemma mirrors_reach:
  "sys_reach es P y z \<Longrightarrow> numbering_ok y \<Longrightarrow> mirrors ok content cursor y \<Longrightarrow> mirrors ok content cursor z \<and> numbering_ok z"
  by (induction rule: sys_reach.induct) (auto intro: mirrors_step numbering_step)

subsection \<open>Opening\<close>

lemma drop_spec:
  assumes "sStorageKind s \<noteq> storageKindJournal" "sStorage s = Some x"
  shows "case drop_records es (deletes v) s d of (s', d') \<Rightarrow>
    front s' = front s \<and> sStorageDone s' = sStorageDone s \<and> d' = d \<and>
    (\<exists>x'. sStorage s' = Some x' \<and> (sStorageError s' = [] \<longrightarrow> sStorageError s = [] \<and>
      (ok x \<longrightarrow> ok x' \<and> cursor x' = cursor x \<and> content x' = apply_records (deletes v) (content x))))"
  using assms
proof (induction v arbitrary: s d x)
  case (Cons e v)
  obtain s1 d1 err where run: "persistRecord es io_ok (deleteRecord (eID e)) s d = (s1, d1, err)" by (meson prod_cases3)
  obtain x1 where x1: "sStorage s1 = Some x1" "d1 = d" "err \<noteq> Some []" "sStorageError s1 = sStorageError s"
    "err = None \<and> ok x \<Longrightarrow> ok x1 \<and> cursor x1 = cursor x \<and> content x1 = drop_id (eID e) (content x)"
    using persist_external [OF Cons.prems run, of "[]" "cursor x"] by (auto split: if_splits)
  define s2 where "s2 = (case err of None \<Rightarrow> s1 | Some t \<Rightarrow> s1\<lparr>sStorageError := t\<rparr>)"
  have s2: "front s2 = front s1" "sStorage s2 = Some x1" "sStorageDone s2 = sStorageDone s1"
    "sStorageError s2 = [] \<longleftrightarrow> err = None \<and> sStorageError s = []"
    using x1 by (auto simp: s2_def split: option.split)
  have f: "front s2 = front s" "sStorageDone s2 = sStorageDone s" using s2 persistRecord_front [OF run] by simp_all
  then have kind: "sStorageKind s2 \<noteq> storageKindJournal" using Cons.prems(1) front_fields(7) [OF f(1)] by simp
  have go: "drop_records es (deletes (e # v)) s d = drop_records es (deletes v) s2 d"
    by (simp add: run s2_def x1(2))
  obtain s' d' where fin: "drop_records es (deletes v) s2 d = (s', d')" by fastforce
  obtain x' where "front s' = front s2" "sStorageDone s' = sStorageDone s2" "d' = d" "sStorage s' = Some x'"
    "sStorageError s' = [] \<longrightarrow> sStorageError s2 = [] \<and>
      (ok x1 \<longrightarrow> ok x' \<and> cursor x' = cursor x1 \<and> content x' = apply_records (deletes v) (content x1))"
    using Cons.IH [OF kind s2(2), of d] unfolding fin prod.case by blast
  then show ?case unfolding go fin using f s2(4) x1(5) by simp
qed simp

lemma opened:
  assumes c: "cStorage c = Some x" "cStorageKind c \<noteq> storageKindMemory" "cStorageKind c \<noteq> storageKindJournal" "config_ok c"
    and x: "ok x" and opn: "newEntryStore es io now c d = (s0, d0)"
  shows "numbering_ok (Sys s0 d0 [] None) \<and> mirrors ok content cursor (Sys s0 d0 [] None) \<and>
    view s0 = trim_window (cMaxEvents c) (cMaxBytes c) (dropWhile (expired now (cRetention c)) (content x)) \<and>
    sNextCursor s0 = cursor x"
proof -
  let ?e = "emptyStore c"
  have content: "distinct (map eID (content x))" "ids_ok (content x)" "cursors_ok (cursor x) (content x)"
    using content_ok [OF x] by (auto simp: ids_ok_def)
  define s1 where "s1 = fold (\<lambda>e. replayRecord (compactRecord e)) (content x) ?e"
  define s2 where "s2 = s1\<lparr>sNextCursor := cursor x\<rparr>"
  have "list_all (\<lambda>e. eCursor e \<le> cursor x) (content x)" using content(3) by (simp add: cursors_ok_def list_all_iff)
  note all = replay_all [OF emptyStore_inv(1) this, of c]
  have s1: "store_inv s1" "view s1 = content x" "conf s1 = conf ?e" "sStorageIssued s1 = 0" "sNextCursor s1 \<le> cursor x"
    using all apply_compact [OF content(2)] emptyStore_inv(2) [of c]
    by (simp_all add: s1_def emptyStore_def)
  have s2: "store_inv s2" "view s2 = content x" "conf s2 = conf ?e"
    using s1 view_cong [of s2 s1] store_inv_cong [of s2 s1] by (simp_all add: s2_def)
  obtain s3 where s3: "purgeExpired now s2 = (s3, deletes (stale now s2))" "store_inv s3" "view s3 = live now s2" "rest s3 = rest s2"
    using purge_spec [OF s2(1)] by blast
  obtain s4 k where s4: "evict s3 = (s4, deletes (take k (view s3)))" "store_inv s4" "view s4 = drop k (view s3)"
    "drop k (view s3) = trim_window (sMaxEvents s3) (sMaxBytes s3) (view s3)" "rest s4 = rest s3"
    using evict_spec [OF s3(2)] by blast
  have r4: "rest s4 = rest s2" using s3(4) s4(5) by simp
  note f4 = rest_fields [OF r4] and c4 = conf_rest [OF r4]
  have conf4: "conf s4 = conf ?e" using c4 s2(3) by simp
  have e: "sStorage s4 = Some x" "sStorageKind s4 = cStorageKind c" "sStorageError s4 = []" "sStorageDone s4 = 0"
    "sRetention s2 = cRetention c" "sMaxEvents s3 = cMaxEvents c" "sMaxBytes s3 = cMaxBytes c" "sMaxEvents s4 = cMaxEvents c"
    "sMaxBytes s4 = cMaxBytes c"
    using conf4 s2(3) conf_rest [OF s3(4)] c(1) by (simp_all add: conf_def emptyStore_def)
  define v where "v = takeWhile (expired now (cRetention c)) (content x) @ take k (dropWhile (expired now (cRetention c)) (content x))"
  have recs: "deletes (stale now s2) @ deletes (take k (view s3)) = deletes v"
    by (simp add: v_def deletes_def stale_def live_def s3(3) s2(2) e(5))
  have win: "view s4 = apply_records (deletes v) (content x)"
    using dropped_window [OF content(1), of "expired now (cRetention c)" k] s4(3)
    by (simp add: v_def deletes_def live_def s3(3) s2(2) e(5))
  have trimmed: "view s4 = trim_window (cMaxEvents c) (cMaxBytes c) (dropWhile (expired now (cRetention c)) (content x))"
    using s4(3,4) by (simp add: s3(3) live_def s2(2) e)
  have cur: "sNextCursor s4 = cursor x" using f4(1) by (simp add: s2_def)
  have load': "esLoad es x = (content x, cursor x, None)" by (rule load [OF x])
  have "newEntryStore es io now c d = drop_records es (deletes v) s4 d"
  proof -
    have cur: "(if cursor x > sNextCursor s1 then s1\<lparr>sNextCursor := cursor x\<rparr> else s1) = s2"
      using s1(5) by (cases s1) (auto simp: s2_def)
    have "openExternalStorage es x now ?e d = drop_records es (deletes v) s4 d"
      unfolding openExternalStorage_def load' Let_def prod.case option.case compactRecord_def [symmetric] s1_def [symmetric] cur
        s3(1) s4(1) recs ..
    moreover have "sStorage ?e = Some x" "sStorageKind ?e \<noteq> storageKindMemory" using c by (simp_all add: emptyStore_def)
    ultimately show ?thesis by (simp add: newEntryStore_def openStorage_def)
  qed
  then have run: "drop_records es (deletes v) s4 d = (s0, d0)" using opn by simp
  obtain x' where s0: "front s0 = front s4" "sStorageDone s0 = sStorageDone s4" "sStorage s0 = Some x'"
    "sStorageError s0 = [] \<longrightarrow> ok x' \<and> cursor x' = cursor x \<and> content x' = apply_records (deletes v) (content x)"
    using drop_spec [OF _ e(1), where v = v and d = d] run x c(3) e(2) by auto
  note f0 = front_fields [OF s0(1)] and w0 = front_window [OF s0(1)]
  have "suffix (view s4) (content x)"
    unfolding trimmed using trim_window_suffix suffix_dropWhile by (metis suffix_order.trans)
  then have "cursors_ok (cursor x) (view s4)" using content(3) cursors_ok_suffix by blast
  moreover have "0 < cMaxEvents c" "0 < cMaxBytes c" using c(4) by (simp_all add: config_ok_def)
  moreover have "fits (cMaxEvents c) (cMaxBytes c) (view s4)"
    using trim_window_fits [of "cMaxEvents c" "cMaxBytes c"] \<open>0 < cMaxEvents c\<close> \<open>0 < cMaxBytes c\<close> by (simp add: trimmed)
  ultimately have "store_ok s4" using s4(2) e cur by (simp add: store_ok_def)
  then have ok0: "store_ok s0" using w0 by simp
  have num: "numbering_ok (Sys s0 d0 [] None)"
    using ok0 f0 s0(2) e(4) f4(17) s1(4) by (simp add: numbering_ok_def s2_def)
  have "mirrors ok content cursor (Sys s0 d0 [] None)"
    using s0 f0 w0 e(2) c(2,3) cur win
    by (auto simp: mirrors_def told_def fault_free_def in_step_def outstanding_def active_records_def)
  then show ?thesis using num w0 trimmed f0 cur by simp
qed

lemma backend_mirrors:
  assumes c: "cStorage c = Some x" "cStorageKind c \<noteq> storageKindMemory" "cStorageKind c \<noteq> storageKindJournal" "config_ok c"
    and x: "ok x" and opn: "newEntryStore es io now c d = (s0, d0)"
    and run: "sys_reach es P (Sys s0 d0 [] None) (Sys s d' p a)" and ff: "fault_free (Sys s d' p a)"
  shows "\<exists>y. sStorage s = Some y \<and> ok y \<and> apply_records (active_records a @ concat (map sbRecords p)) (content y) = view s \<and>
    ascend (cursor y) (active_records a @ concat (map sbRecords p)) (sNextCursor s)"
  using mirrors_reach [OF run] opened [OF c x opn] ff
  by (auto simp: mirrors_def in_step_def outstanding_def)

end

subsection \<open>Reserved names\<close>

text \<open>
  A back end whose name is one of the two built-in kinds is taken for it: nothing is ever handed
  to it for writing, and one named \<open>memory\<close> is not even read.
\<close>

lemma reserved_names_ignored:
  assumes "trim_space (esName es x) \<in> {''memory'', ''disk''}"
  shows "\<not> storing (emptyStore (configured (opts @ [OStorage es (Some x)])))"
  using assms by (auto simp: configured_def WithStorage_def storing_def emptyStore_def Let_def)

end
