(* ===== verification/Sqlite.thy ===== *)
theory Sqlite
  imports StoreBackend ContractsRoundtrip
begin

text \<open>
  The SQLite back end, \<open>storage/sqlite/sqlite.go\<close>.  The database is the rows of its two tables;
  the statements mean what SQL says (a unique cursor, an upsert by id, an order by cursor, a
  transaction that is applied as a whole or not at all).  Whether a call of \<open>database/sql\<close>
  succeeds is an answer of the environment: \<open>dbAnswers\<close> holds those to the calls that write,
  in their order (a missing one is a success), \<open>dbReads\<close> those to the reads of \<open>Load\<close>.
\<close>

subsection \<open>The database\<close>

text \<open>A row: id, cursor, time of recording, payload.\<close>

type_synonym entryRow = "string \<times> nat \<times> int \<times> json"

record sqliteDB =
  dbRows :: "entryRow list"
  dbNext :: "int option"
  dbAnswers :: "string option list"
  dbReads :: "string option list"

definition sql_answer :: "sqliteDB \<Rightarrow> sqliteDB \<times> string option" where
  "sql_answer db = (case dbAnswers db of [] \<Rightarrow> (db, None) | a # as \<Rightarrow> (db\<lparr>dbAnswers := as\<rparr>, a))"

definition read_answer :: "nat \<Rightarrow> sqliteDB \<Rightarrow> string option" where
  "read_answer i db = (if i < length (dbReads db) then dbReads db ! i else None)"

definition upsert_row :: "entryRow \<Rightarrow> entryRow list \<Rightarrow> entryRow list option" where
  "upsert_row r rows =
     (if list_ex (\<lambda>q. fst q \<noteq> fst r \<and> fst (snd q) = fst (snd r)) rows then None
      else Some (filter (\<lambda>q. fst q \<noteq> fst r) rows @ [r]))"

definition maxInt64 :: nat where "maxInt64 = 2 ^ 63 - 1"

subsection \<open>Decoding an entry\<close>

definition dec_entry :: "json \<Rightarrow> Entry option" where
  "dec_entry j = do {
     kvs \<leftarrow> obj_fields j;
     c \<leftarrow> get_int kvs ''cursor''; i \<leftarrow> get_str kvs ''id''; k \<leftarrow> get_str kvs ''kind'';
     r \<leftarrow> get_str kvs ''request_id''; p \<leftarrow> get_str kvs ''parent_id'';
     og \<leftarrow> get_str kvs ''origin_request_id''; pr \<leftarrow> get_str kvs ''process'';
     inst \<leftarrow> get_str kvs ''instance''; st \<leftarrow> get_time kvs ''started_at'';
     rc \<leftarrow> get_time kvs ''recorded_at''; du \<leftarrow> get_int kvs ''duration_ns'';
     tg \<leftarrow> get_map as_str kvs ''tags''; d \<leftarrow> get_any kvs ''data'';
     (if c < 0 then None
      else Some \<lparr>eCursor = nat c, eID = i, eKind = k, eRequestID = r, eParentID = p, eOriginRequestID = og,
        eProcess = pr, eInstance = inst, eStartedAt = st, eRecordedAt = rc, eDurationNS = du, eTags = tg,
        eData = (case d of None \<Rightarrow> JNull | Some v \<Rightarrow> v)\<rparr>) }"

lemma entry_roundtrip [simp]: "dec_entry (enc_entry e) = Some e"
  by (cases e) (simp add: enc_entry_def dec_entry_def json_fields get_any_def)

subsection \<open>The operations\<close>

text \<open>The rows that decode to an entry with an id, and the errors of the others.\<close>

definition load_row :: "entryRow \<Rightarrow> Entry list \<times> string option" where
  "load_row r =
     (case dec_entry (snd (snd (snd r))) of
        None \<Rightarrow> ([], Some ''decode sqlite entry: invalid document'')
      | Some e \<Rightarrow> (if eID e \<noteq> [] then [e] else [], None))"

definition sqliteLoad :: "sqliteDB \<Rightarrow> Entry list \<times> nat \<times> string option" where
  "sqliteLoad db =
     (case read_answer 0 db of
        Some err \<Rightarrow> ([], 0, Some (''load sqlite entries: '' @ err))
      | None \<Rightarrow>
          let loaded = map load_row (sort_key (\<lambda>r. fst (snd r)) (dbRows db));
              entries = concat (map fst loaded);
              loadErr = fold (\<lambda>(es, e) err. join_errors err e) loaded None;
              loadErr = join_errors loadErr (map_option (\<lambda>e. ''iterate sqlite entries: '' @ e) (read_answer 1 db));
              (nextCursor, loadErr) = (case (read_answer 2 db, dbNext db) of
                 (Some e, _) \<Rightarrow> (0, join_errors loadErr (Some (''load sqlite cursor: '' @ e)))
               | (None, None) \<Rightarrow> (0, join_errors loadErr (Some ''load sqlite cursor: sql: no rows in result set''))
               | (None, Some n) \<Rightarrow> (n, loadErr));
              (nextCursor, loadErr) = (if nextCursor < 0
                 then (0, join_errors loadErr (Some ''load sqlite cursor: negative value'')) else (nextCursor, loadErr))
          in (entries, nat nextCursor, loadErr))"

definition persistCursor :: "nat \<Rightarrow> sqliteDB \<Rightarrow> sqliteDB \<times> string option" where
  "persistCursor nextCursor db =
     (if nextCursor > maxInt64 then (db, Some ''persist sqlite cursor: value exceeds sqlite integer range'')
      else case sql_answer db of
          (db, Some err) \<Rightarrow> (db, Some (''persist sqlite cursor: '' @ err))
        | (db, None) \<Rightarrow> (db\<lparr>dbNext := Some (int nextCursor)\<rparr>, None))"

text \<open>A transaction that did not commit leaves the tables of \<open>db0\<close>.\<close>

definition rolled_back :: "sqliteDB \<Rightarrow> sqliteDB \<Rightarrow> sqliteDB" where
  "rolled_back db0 db = db\<lparr>dbRows := dbRows db0, dbNext := dbNext db0\<rparr>"

definition sql_commit :: "sqliteDB \<Rightarrow> string \<Rightarrow> sqliteDB \<Rightarrow> sqliteDB \<times> string option" where
  "sql_commit db0 prefx db =
     (case sql_answer db of (db, Some err) \<Rightarrow> (rolled_back db0 db, Some (prefx @ err)) | (db, None) \<Rightarrow> (db, None))"

definition sqlitePut :: "sqliteDB \<Rightarrow> Entry \<Rightarrow> nat \<Rightarrow> sqliteDB \<times> string option" where
  "sqlitePut db0 e nextCursor =
     (if nextCursor > maxInt64 \<or> eCursor e > maxInt64
      then (db0, Some ''persist sqlite entry: cursor exceeds sqlite integer range'')
      else
        case sql_answer db0 of
          (db, Some err) \<Rightarrow> (db, Some (''begin sqlite entry transaction: '' @ err))
        | (db, None) \<Rightarrow>
            (case sql_answer db of
               (db, Some err) \<Rightarrow> (db, Some (''persist sqlite entry: '' @ err))
             | (db, None) \<Rightarrow>
                 (case upsert_row (eID e, eCursor e, eRecordedAt e, enc_entry e) (dbRows db) of
                    None \<Rightarrow> (db, Some ''persist sqlite entry: UNIQUE constraint failed: webpprof_entries.cursor'')
                  | Some rows \<Rightarrow>
                      (case persistCursor nextCursor (db\<lparr>dbRows := rows\<rparr>) of
                         (db, Some err) \<Rightarrow> (rolled_back db0 db, Some err)
                       | (db, None) \<Rightarrow> sql_commit db0 ''commit sqlite entry: '' db))))"

definition sqliteDelete :: "sqliteDB \<Rightarrow> string \<Rightarrow> sqliteDB \<times> string option" where
  "sqliteDelete db i =
     (case sql_answer db of
        (db, Some err) \<Rightarrow> (db, Some (''delete sqlite entry: '' @ err))
      | (db, None) \<Rightarrow> (db\<lparr>dbRows := filter (\<lambda>r. fst r \<noteq> i) (dbRows db)\<rparr>, None))"

definition sqliteClear :: "sqliteDB \<Rightarrow> nat \<Rightarrow> sqliteDB \<times> string option" where
  "sqliteClear db0 nextCursor =
     (case sql_answer db0 of
        (db, Some err) \<Rightarrow> (db, Some (''begin sqlite clear transaction: '' @ err))
      | (db, None) \<Rightarrow>
          (case sql_answer db of
             (db, Some err) \<Rightarrow> (db, Some (''clear sqlite entries: '' @ err))
           | (db, None) \<Rightarrow>
               (case persistCursor nextCursor (db\<lparr>dbRows := []\<rparr>) of
                  (db, Some err) \<Rightarrow> (rolled_back db0 db, Some err)
                | (db, None) \<Rightarrow> sql_commit db0 ''commit sqlite clear: '' db)))"

definition sqliteStorage :: "sqliteDB EntryStorage" where
  "sqliteStorage = \<lparr>esName = (\<lambda>db. ''sqlite''), esLoad = sqliteLoad, esPut = sqlitePut, esDelete = sqliteDelete,
     esClear = sqliteClear, esClose = sql_answer\<rparr>"

subsection \<open>Opening\<close>

record openAnswers =
  oaMkdir :: "string option"
  oaOpen :: "string option"
  oaStatements :: "string option list"
  oaChmod :: "string option"

text \<open>\<open>Open\<close> on the tables a file holds (\<open>None\<close>: the file has none yet).\<close>

definition sqliteOpen :: "openAnswers \<Rightarrow> string \<Rightarrow> sqliteDB option \<Rightarrow> string + sqliteDB" where
  "sqliteOpen io path file =
     (if path = [] then Inl ''sqlite storage path is required''
      else case oaMkdir io of Some err \<Rightarrow> Inl (''create sqlite storage directory: '' @ err) | None \<Rightarrow>
      case oaOpen io of Some err \<Rightarrow> Inl (''open sqlite storage: '' @ err) | None \<Rightarrow>
      case List.map_filter id (take 4 (oaStatements io)) of err # errs \<Rightarrow> Inl (''initialize sqlite storage: '' @ err) | [] \<Rightarrow>
      case oaChmod io of Some err \<Rightarrow> Inl (''set sqlite storage permissions: '' @ err) | None \<Rightarrow>
        Inr (case file of
          None \<Rightarrow> \<lparr>dbRows = [], dbNext = Some 0, dbAnswers = [], dbReads = []\<rparr>
        | Some db \<Rightarrow> db\<lparr>dbNext := Some (case dbNext db of None \<Rightarrow> 0 | Some n \<Rightarrow> n)\<rparr>))"

subsection \<open>The contract of the store\<close>

definition row_entry :: "entryRow \<Rightarrow> Entry" where
  "row_entry r = (case dec_entry (snd (snd (snd r))) of None \<Rightarrow> zeroEntry | Some e \<Rightarrow> e)"

definition row_ok :: "entryRow \<Rightarrow> bool" where
  "row_ok r \<longleftrightarrow> dec_entry (snd (snd (snd r))) = Some (row_entry r) \<and> eID (row_entry r) = fst r \<and> fst r \<noteq> [] \<and>
     eCursor (row_entry r) = fst (snd r)"

definition sqlite_cursor :: "sqliteDB \<Rightarrow> nat" where
  "sqlite_cursor db = (case dbNext db of None \<Rightarrow> 0 | Some n \<Rightarrow> nat n)"

definition sqlite_content :: "sqliteDB \<Rightarrow> Entry list" where
  "sqlite_content db = map row_entry (sort_key (\<lambda>r. fst (snd r)) (dbRows db))"

definition sqlite_ok :: "sqliteDB \<Rightarrow> bool" where
  "sqlite_ok db \<longleftrightarrow> list_all row_ok (dbRows db) \<and> distinct (map fst (dbRows db)) \<and>
     distinct (map (\<lambda>r. fst (snd r)) (dbRows db)) \<and>
     list_all (\<lambda>r. 0 < fst (snd r) \<and> fst (snd r) \<le> sqlite_cursor db) (dbRows db) \<and>
     (case dbNext db of None \<Rightarrow> False | Some n \<Rightarrow> 0 \<le> n) \<and> list_all ((=) None) (dbReads db)"

end
