(* ===== verification/SqliteProps.thy ===== *)
theory SqliteProps
  imports Sqlite
begin

text \<open>
  The SQLite back end keeps the contract of the store, so the window of a store that uses it is
  on disk whenever nothing waits, and a restart goes on where it stopped.
\<close>

subsection \<open>Rows in the order of their cursors\<close>

abbreviation row_cursor :: "entryRow \<Rightarrow> nat" where "row_cursor r \<equiv> fst (snd r)"

lemma insort_snoc: "f y \<le> f x \<Longrightarrow> insort_key f y (zs @ [x]) = insort_key f y zs @ [x]"
  by (induction zs) simp_all

lemma sort_key_snoc: "\<forall>y \<in> set ys. f y \<le> f x \<Longrightarrow> sort_key f (ys @ [x]) = sort_key f ys @ [x]"
  by (induction ys) (simp_all add: insort_snoc)

lemma entries_filtered:
  "list_all row_ok rows \<Longrightarrow> map row_entry (filter (\<lambda>r. fst r \<noteq> i) rows) = drop_id i (map row_entry rows)"
  by (induction rows) (auto simp: row_ok_def)

lemma sorted_ok: "list_all P rows \<Longrightarrow> list_all P (sort_key f rows)"
  by (simp add: list_all_iff)

lemma content_filtered:
  "list_all row_ok rows \<Longrightarrow>
     map row_entry (sort_key row_cursor (filter (\<lambda>r. fst r \<noteq> i) rows)) = drop_id i (map row_entry (sort_key row_cursor rows))"
  using entries_filtered [of "sort_key row_cursor rows" i] by (simp add: sorted_ok filter_sort)

lemma entry_fields: "list_all row_ok rows \<Longrightarrow> map eID (map row_entry rows) = map fst rows \<and>
    map eCursor (map row_entry rows) = map row_cursor rows"
  by (induction rows) (simp_all add: row_ok_def)

lemma distinct_sorted: "distinct (map g (sort_key f rows)) = distinct (map g rows)"
  by (simp add: distinct_map)

lemma sqlite_content_ok:
  assumes "sqlite_ok db"
  shows "ids_ok (sqlite_content db) \<and> cursors_ok (sqlite_cursor db) (sqlite_content db)"
proof -
  let ?rows = "sort_key row_cursor (dbRows db)"
  have ok: "list_all row_ok ?rows" and f: "list_all (\<lambda>r. 0 < row_cursor r \<and> row_cursor r \<le> sqlite_cursor db) ?rows"
    using assms by (simp_all add: sqlite_ok_def sorted_ok)
  note e = entry_fields [OF ok]
  have "distinct (map eID (map row_entry ?rows))" "distinct (map eCursor (map row_entry ?rows))"
    unfolding e [THEN conjunct1] e [THEN conjunct2] distinct_sorted using assms by (simp_all add: sqlite_ok_def)
  moreover have "sorted (map eCursor (map row_entry ?rows))" unfolding e [THEN conjunct2] by simp
  ultimately have "distinct (map eID (map row_entry ?rows))" "sorted_wrt (<) (map eCursor (map row_entry ?rows))"
    by (simp_all add: strict_sorted_iff del: map_map)
  moreover have "[] \<notin> eID ` set (map row_entry ?rows)" using ok by (auto simp: list_all_iff row_ok_def)
  moreover have "list_all (\<lambda>e. 0 < eCursor e \<and> eCursor e \<le> sqlite_cursor db) (map row_entry ?rows)"
    using ok f by (auto simp: list_all_iff row_ok_def)
  ultimately show ?thesis
    by (simp add: sqlite_content_def ids_ok_def cursors_ok_def del: map_map)
qed

subsection \<open>The operations\<close>

lemma read_none: "list_all ((=) None) (dbReads db) \<Longrightarrow> read_answer i db = None"
  by (auto simp: read_answer_def list_all_length)

lemma sqlite_loads:
  assumes "sqlite_ok db"
  shows "sqliteLoad db = (sqlite_content db, sqlite_cursor db, None)"
proof -
  let ?rows = "sort_key row_cursor (dbRows db)"
  have "list_all row_ok ?rows" using assms by (simp add: sqlite_ok_def sorted_ok)
  then have rows: "map load_row ?rows = map (\<lambda>r. ([row_entry r], None)) ?rows"
    by (auto simp: list_all_iff row_ok_def load_row_def)
  moreover have "fold (\<lambda>(es, e) err. join_errors err e) (map (\<lambda>r. ([row_entry r], None)) rows) None = None" for rows
    by (induction rows) (simp_all add: join_errors_def)
  moreover have "concat (map fst (map (\<lambda>r. ([row_entry r], None :: string option)) rows)) = map row_entry rows" for rows
    by (induction rows) simp_all
  moreover obtain n where "dbNext db = Some n" "0 \<le> n" using assms by (auto simp: sqlite_ok_def split: option.splits)
  moreover have "read_answer i db = None" for i using assms by (simp add: sqlite_ok_def read_none)
  ultimately show ?thesis
    unfolding sqliteLoad_def rows Let_def
    by (simp add: sqlite_content_def sqlite_cursor_def join_errors_def)
qed

lemma sql_answer_tables:
  "sql_answer db = (db', a) \<Longrightarrow> dbRows db' = dbRows db \<and> dbNext db' = dbNext db \<and> dbReads db' = dbReads db"
  by (auto simp: sql_answer_def split: list.splits)

lemma sql_answer_cases:
  obtains db' a where "sql_answer db = (db', a)" "dbRows db' = dbRows db" "dbNext db' = dbNext db" "dbReads db' = dbReads db"
proof -
  obtain db' a where "sql_answer db = (db', a)" by fastforce
  with sql_answer_tables [OF this] that show thesis by blast
qed

text \<open>A transaction that succeeds.\<close>

lemma persistCursor_done:
  assumes "persistCursor n db = (db', None)"
  shows "n \<le> maxInt64 \<and> dbNext db' = Some (int n) \<and> dbRows db' = dbRows db \<and> dbReads db' = dbReads db"
proof -
  obtain db1 a where "sql_answer db = (db1, a)" "dbRows db1 = dbRows db" "dbReads db1 = dbReads db"
    using sql_answer_cases by metis
  with assms show ?thesis by (cases a) (auto simp: persistCursor_def split: if_splits)
qed

lemma commit_done:
  assumes "sql_commit db0 t db = (db', None)"
  shows "dbRows db' = dbRows db \<and> dbNext db' = dbNext db \<and> dbReads db' = dbReads db"
proof -
  obtain db1 a where a: "sql_answer db = (db1, a)" "dbRows db1 = dbRows db" "dbNext db1 = dbNext db" "dbReads db1 = dbReads db"
    using sql_answer_cases by metis
  with assms show ?thesis by (cases a) (auto simp: sql_commit_def)
qed

lemma put_done:
  assumes "sqlitePut db e n = (db', None)"
  shows "upsert_row (eID e, eCursor e, eRecordedAt e, enc_entry e) (dbRows db) = Some (dbRows db') \<and>
    dbNext db' = Some (int n) \<and> dbReads db' = dbReads db"
proof -
  have small: "\<not> (n > maxInt64 \<or> eCursor e > maxInt64)" using assms by (auto simp: sqlitePut_def)
  obtain db1 a where 1: "sql_answer db = (db1, a)" "dbRows db1 = dbRows db" "dbReads db1 = dbReads db"
    using sql_answer_cases by metis
  obtain db2 b where 2: "sql_answer db1 = (db2, b)" "dbRows db2 = dbRows db1" "dbReads db2 = dbReads db1"
    using sql_answer_cases by metis
  have ab: "a = None" "b = None"
    using assms 1(1) 2(1) by (cases a; cases b; simp add: sqlitePut_def small)+
  obtain rows where 3: "upsert_row (eID e, eCursor e, eRecordedAt e, enc_entry e) (dbRows db) = Some rows"
    using assms 1 2 ab by (cases "upsert_row (eID e, eCursor e, eRecordedAt e, enc_entry e) (dbRows db)")
      (simp_all add: sqlitePut_def small)
  obtain db3 c where 4: "persistCursor n (db2\<lparr>dbRows := rows\<rparr>) = (db3, c)" by fastforce
  have c: "c = None" "sql_commit db ''commit sqlite entry: '' db3 = (db', None)"
    using assms 1 2 3 4 ab by (cases c; simp add: sqlitePut_def small)+
  show ?thesis using persistCursor_done [of n "db2\<lparr>dbRows := rows\<rparr>" db3] commit_done [OF c(2)] 1 2 3 4 c(1) by simp
qed

lemma clear_done:
  assumes "sqliteClear db n = (db', None)"
  shows "dbRows db' = [] \<and> dbNext db' = Some (int n) \<and> dbReads db' = dbReads db"
proof -
  obtain db1 a where 1: "sql_answer db = (db1, a)" "dbReads db1 = dbReads db"
    using sql_answer_cases by metis
  obtain db2 b where 2: "sql_answer db1 = (db2, b)" "dbReads db2 = dbReads db1"
    using sql_answer_cases by metis
  have ab: "a = None" "b = None"
    using assms 1(1) 2(1) by (cases a; cases b; simp add: sqliteClear_def)+
  obtain db3 c where 4: "persistCursor n (db2\<lparr>dbRows := []\<rparr>) = (db3, c)" by fastforce
  have c: "c = None" "sql_commit db ''commit sqlite clear: '' db3 = (db', None)"
    using assms 1 2 4 ab by (cases c; simp add: sqliteClear_def)+
  show ?thesis using persistCursor_done [of n "db2\<lparr>dbRows := []\<rparr>" db3] commit_done [OF c(2)] 1 2 4 c(1) by simp
qed

lemma put_keeps:
  assumes ok: "sqlite_ok db" and e: "eID e \<noteq> []" "sqlite_cursor db < eCursor e" "eCursor e \<le> n"
    and run: "sqlitePut db e n = (db', None)"
  shows "sqlite_ok db' \<and> sqlite_content db' = drop_id (eID e) (sqlite_content db) @ [e] \<and> sqlite_cursor db' = n"
proof -
  let ?r = "(eID e, eCursor e, eRecordedAt e, enc_entry e)" and ?rows = "filter (\<lambda>r. fst r \<noteq> eID e) (dbRows db)"
  have db': "dbRows db' = ?rows @ [?r]" "dbNext db' = Some (int n)" "dbReads db' = dbReads db"
    using put_done [OF run] by (auto simp: upsert_row_def split: if_splits)
  have r: "row_entry ?r = e" "row_ok ?r" using e(1) by (simp_all add: row_entry_def row_ok_def)
  have rows: "list_all row_ok (dbRows db)" "\<forall>r \<in> set (dbRows db). 0 < row_cursor r \<and> row_cursor r \<le> sqlite_cursor db"
    using ok by (simp_all add: sqlite_ok_def list_all_iff)
  then have below: "\<forall>r \<in> set ?rows. row_cursor r < eCursor e" using e(2) by fastforce
  then have "\<forall>r \<in> set ?rows. row_cursor r \<le> row_cursor ?r" by force
  then have "sqlite_content db' = drop_id (eID e) (sqlite_content db) @ [e]"
    by (simp add: sqlite_content_def db' sort_key_snoc content_filtered [OF rows(1)] r)
  moreover have "sqlite_ok db'"
    unfolding sqlite_ok_def sqlite_cursor_def db'
    using ok r(2) e rows below
    by (auto simp: sqlite_ok_def list_all_iff distinct_map_filter less_imp_le)
  ultimately show ?thesis by (simp add: sqlite_cursor_def db')
qed

lemma delete_keeps:
  assumes ok: "sqlite_ok db" and run: "sqliteDelete db i = (db', None)"
  shows "sqlite_ok db' \<and> sqlite_content db' = drop_id i (sqlite_content db) \<and> sqlite_cursor db' = sqlite_cursor db"
proof -
  obtain db1 a where a: "sql_answer db = (db1, a)" "dbRows db1 = dbRows db" "dbNext db1 = dbNext db" "dbReads db1 = dbReads db"
    using sql_answer_cases by metis
  have db': "dbRows db' = filter (\<lambda>r. fst r \<noteq> i) (dbRows db)" "dbNext db' = dbNext db" "dbReads db' = dbReads db"
    using run a by (cases a; auto simp: sqliteDelete_def)+
  have cur: "sqlite_cursor db' = sqlite_cursor db" by (simp add: sqlite_cursor_def db')
  have rows: "list_all row_ok (dbRows db)" using ok by (simp add: sqlite_ok_def)
  have "sqlite_ok db'" using ok
    unfolding sqlite_ok_def cur db' by (auto simp: distinct_map_filter list_all_iff)
  then show ?thesis by (simp add: cur sqlite_content_def db' content_filtered [OF rows])
qed

lemma clear_keeps:
  assumes ok: "sqlite_ok db" and run: "sqliteClear db n = (db', None)"
  shows "sqlite_ok db' \<and> sqlite_content db' = [] \<and> sqlite_cursor db' = n"
  using clear_done [OF run] ok by (simp add: sqlite_ok_def sqlite_content_def sqlite_cursor_def)

lemma cursor_text: "persistCursor n db = (db', Some err) \<Longrightarrow> err \<noteq> []"
  by (auto simp: persistCursor_def split: prod.splits option.splits if_splits)

lemma commit_text: "t \<noteq> [] \<Longrightarrow> snd (sql_commit db0 t db) \<noteq> Some []"
  by (auto simp: sql_commit_def split: prod.split option.split)

lemma errors_have_text:
  "snd (sqlitePut db e n) \<noteq> Some []" "snd (sqliteDelete db i) \<noteq> Some []" "snd (sqliteClear db n) \<noteq> Some []"
proof -
  have tail: "snd (case persistCursor n d of (x, Some err) \<Rightarrow> (rolled_back db x, Some err) | (x, None) \<Rightarrow> sql_commit db t x) \<noteq> Some []"
    if "t \<noteq> []" for d t
  proof -
    obtain x c where c: "persistCursor n d = (x, c)" by fastforce
    show ?thesis using cursor_text [of n d x] commit_text [OF that] by (cases c) (simp_all add: c)
  qed
  obtain d1 a where a: "sql_answer db = (d1, a)" by fastforce
  obtain d2 b where b: "sql_answer d1 = (d2, b)" by fastforce
  show "snd (sqliteDelete db i) \<noteq> Some []" by (cases a) (simp_all add: sqliteDelete_def a)
  show "snd (sqliteClear db n) \<noteq> Some []" by (cases a; cases b) (simp_all add: sqliteClear_def a b tail)
  show "snd (sqlitePut db e n) \<noteq> Some []"
    by (cases a; cases b; cases "upsert_row (eID e, eCursor e, eRecordedAt e, enc_entry e) (dbRows d2)")
      (simp_all add: sqlitePut_def a b tail)
qed

lemmas sqlite_methods = sqliteStorage_def EntryStorage.simps

interpretation sqlite: entry_backend sqliteStorage sqlite_ok sqlite_content sqlite_cursor
proof (unfold_locales, unfold sqlite_methods, goal_cases)
  case (1 x)
  then show ?case by (rule sqlite_loads)
next
  case (2 x)
  then show ?case by (rule sqlite_content_ok)
next
  case (3 x e n x')
  then show ?case by (rule put_keeps)
next
  case (4 x i x')
  then show ?case by (rule delete_keeps)
next
  case (5 x n x')
  then show ?case using clear_keeps [OF 5(1,3)] by simp
qed (rule errors_have_text)+

subsection \<open>The window on disk\<close>

lemma sqlite_config:
  "cStorage (configured (opts @ [OStorage sqliteStorage (Some db)])) = Some db"
  "cStorageKind (configured (opts @ [OStorage sqliteStorage (Some db)])) = ''sqlite''"
  by (simp_all add: configured_def WithStorage_def sqliteStorage_def trim_space_def trim_by_def is_space_def byte_def Let_def)

text \<open>
  C7. The SQLite back end mirrors the window.  A profiler is started on a database (a fresh one or
  one an earlier profiler left), and recordings, clears, queries and subscriptions interleave
  in any way with the writing of the numbered batches.  As long as no storage error is reported,
  whatever the driver answered, the entries in the database followed by the records still
  waiting are exactly the retained entries, in their order.  Once nothing is waiting a restart
  on the database finds these entries, less those that have expired or no longer fit, and goes
  on with the same cursor.
\<close>
theorem sqlite_mirrors_window:
  assumes "sqlite_ok db"
    and "newEntryStore sqliteStorage io now (configured (opts @ [OStorage sqliteStorage (Some db)])) d = (s0, d0)"
    and "sys_reach sqliteStorage P (Sys s0 d0 [] None) (Sys s d' p a)"
    and "sStorageError s = []" and "case a of None \<Rightarrow> True | Some (n, rs, err) \<Rightarrow> err = None"
  shows "\<exists>db'. sStorage s = Some db' \<and> sqlite_ok db' \<and>
    apply_records (active_records a @ concat (map sbRecords p)) (fst (sqliteLoad db')) = view s \<and>
    (if active_records a @ concat (map sbRecords p) = [] then
       let c = configured (opts' @ [OStorage sqliteStorage (Some db')]);
           s1 = fst (newEntryStore sqliteStorage io' now' c d'')
       in view s1 = trim_window (cMaxEvents c) (cMaxBytes c) (dropWhile (\<lambda>e. eRecordedAt e < now' - cRetention c) (view s)) \<and>
          sNextCursor s1 = sNextCursor s
     else True)"
proof -
  note kind = sqlite_config
  obtain y where y: "sStorage s = Some y" "sqlite_ok y"
    "apply_records (active_records a @ concat (map sbRecords p)) (sqlite_content y) = view s"
    "ascend (sqlite_cursor y) (active_records a @ concat (map sbRecords p)) (sNextCursor s)"
    using sqlite.backend_mirrors [OF kind(1) _ _ configured_ok assms(1,2,3)] assms(4,5)
    by (auto simp: fault_free_def kind(2))
  define rs where "rs = active_records a @ concat (map sbRecords p)"
  have again: "let c = configured (opts' @ [OStorage sqliteStorage (Some y)]);
           s1 = fst (newEntryStore sqliteStorage io' now' c d'')
       in view s1 = trim_window (cMaxEvents c) (cMaxBytes c) (dropWhile (\<lambda>e. eRecordedAt e < now' - cRetention c) (view s)) \<and>
          sNextCursor s1 = sNextCursor s" if "rs = []"
  proof -
    obtain s1 d1 where o1: "newEntryStore sqliteStorage io' now' (configured (opts' @ [OStorage sqliteStorage (Some y)])) d'' = (s1, d1)"
      by fastforce
    have "view s = sqlite_content y" "sNextCursor s = sqlite_cursor y" using y(3,4) that unfolding rs_def [symmetric] by simp_all
    then show ?thesis
      using sqlite.opened [OF kind(1) _ _ configured_ok y(2) o1] by (simp add: kind(2) o1 expired_def [abs_def] Let_def)
  qed
  show ?thesis unfolding rs_def [symmetric]
    using y(1,2,3) again by (intro exI [of _ y] conjI) (auto simp: sqlite_loads [OF y(2)] rs_def [symmetric])
qed

definition freshDB :: sqliteDB where
  "freshDB = \<lparr>dbRows = [], dbNext = Some 0, dbAnswers = [], dbReads = []\<rparr>"

lemma freshDB_ok: "sqlite_ok freshDB" "sqlite_content freshDB = []" "sqlite_cursor freshDB = 0"
  by (simp_all add: freshDB_def sqlite_ok_def sqlite_content_def sqlite_cursor_def)

definition freshConfig :: "(unit, sqliteDB) config" where
  "freshConfig = configured ([] @ [OStorage sqliteStorage (Some freshDB)])"

lemma freshConfig_facts:
  "config_ok freshConfig" "cStorage freshConfig = Some freshDB" "cStorageKind freshConfig = ''sqlite''"
  unfolding freshConfig_def by (rule configured_ok sqlite_config)+

lemma fresh_opened: "newEntryStore sqliteStorage io now freshConfig d = (emptyStore freshConfig, d)"
proof -
  let ?s = "emptyStore freshConfig"
  have ok: "store_ok ?s" by (intro emptyStore_ok freshConfig_facts)
  then have "fits (sMaxEvents ?s) (sMaxBytes ?s) (view ?s)" by (simp add: store_ok_def)
  then have ev: "evict ?s = (?s, [])" by (intro evict_nothing emptyStore_inv)
  have pu: "purgeExpired now ?s = (?s, [])" by (intro purge_nothing emptyStore_inv)
  have "sStorage ?s = Some freshDB" "sStorageKind ?s = ''sqlite''"
    using freshConfig_facts by (simp_all add: emptyStore_def)
  moreover have "esLoad sqliteStorage freshDB = ([], 0, None)"
    using sqlite_loads [OF freshDB_ok(1)] freshDB_ok by (simp add: sqliteStorage_def)
  ultimately show ?thesis
    by (simp add: newEntryStore_def openStorage_def openExternalStorage_def pu ev)
qed

lemma sqlite_mirrors_window_witness:
  "\<exists>s b db'. sys_reach sqliteStorage (\<lambda>io. True) (Sys (emptyStore freshConfig) [] [] None) (Sys s [] [b] None) \<and>
     sbRecords b = [clearRecord 1] \<and> sStorage s = Some db' \<and>
     apply_records (active_records None @ concat (map sbRecords [b])) (fst (sqliteLoad db')) = view s"
proof -
  let ?s = "emptyStore freshConfig"
  have ok: "store_ok ?s" by (intro emptyStore_ok freshConfig_facts)
  have st: "storing ?s" "sNextCursor ?s = 0" "sStorageError ?s = []"
    using freshConfig_facts by (simp_all add: storing_def emptyStore_def)
  obtain s where s: "clear ?s = (s, batch_for ?s [clearRecord (sNextCursor ?s + 1)])" "conf s = conf ?s"
    using clear_spec [OF store_ok_inv [OF ok]] by metis
  define b where "b = batch_for ?s [clearRecord 1]"
  have b: "sbRecords b = [clearRecord 1]" "sbSequence b \<noteq> 0" using st by (simp_all add: b_def batch_for_def)
  have "sys_step sqliteStorage (\<lambda>io. True) (Sys ?s [] [] None) (Sys s [] (if sbSequence b = 0 then [] else [] @ [b]) None)"
    by (rule sys_step.critical [of MClear]) (use s st in \<open>simp_all add: b_def\<close>)
  then have r: "sys_reach sqliteStorage (\<lambda>io. True) (Sys ?s [] [] None) (Sys s [] [b] None)"
    using b(2) by (auto intro: sys_reach.intros)
  have err: "sStorageError s = []" using s(2) st(3) by (simp add: conf_def)
  note opn = fresh_opened [unfolded freshConfig_def]
  obtain db' where "sStorage s = Some db'"
    "apply_records (active_records None @ concat (map sbRecords [b])) (fst (sqliteLoad db')) = view s"
    using sqlite_mirrors_window [OF freshDB_ok(1) opn r [unfolded freshConfig_def] err,
        where opts' = "[] :: (unit, sqliteDB) Opt list" and io' = open_ok and now' = 0 and d'' = "[]"] by auto
  with r b(1) show ?thesis by (intro exI [of _ s] exI [of _ b] exI [of _ db'] conjI)
qed

end
