(* ===== verification/Lifecycle.thy ===== *)
theory Lifecycle
  imports Entities
begin

text \<open>
  The process-wide profiler: construction, the dedicated server and shutting down (\<open>server.go\<close>,
  the first part of \<open>profiler.go\<close>), and the values an integration keeps (\<open>integration.go\<close>).

  Profilers are objects numbered in the order of their construction.  Every operation holds
  \<open>defaultProfilerMu\<close> while it works, so it is one function of the state; an operation that finds
  the mutex locked for ever \<open>Blocks\<close>.  What the system answers (listening, the closing of a
  server, the storage, clock and random source of a new profiler) is an argument, as are the
  router of the application and the parser of patterns of \<open>http.ServeMux\<close>.
\<close>

subsection \<open>State\<close>

text \<open>One profiler, with the server it owns; \<open>poOnce\<close> tells that \<open>closeOnce\<close> has run.\<close>

record ('w, 'x) profObject =
  poProfiler :: "('w, 'x) Profiler"
  poSessionToken :: string
  poServer :: bool
  poServerAddr :: string
  poOnce :: bool

record ('w, 'x) process =
  prDefault :: "nat option"
  prLocked :: bool
  prObjects :: "('w, 'x) profObject list"
  prServing :: "nat list"

definition newProcess :: "('w, 'x) process" where
  "newProcess = \<lparr>prDefault = None, prLocked = False, prObjects = [], prServing = []\<rparr>"

datatype 'v outcome = Returned 'v | PanicsWith string | Blocks

text \<open>What a new profiler finds outside the program.\<close>

record 'x newEnv =
  nvStorage :: "'x EntryStorage"
  nvIO :: openIO
  nvNow :: instant
  nvJournal :: journal
  nvToken :: string
  nvIDs :: "nat \<Rightarrow> string"
  nvClock :: "nat \<Rightarrow> instant"
  nvSamples :: "nat \<Rightarrow> nat option"
  nvStack :: "nat \<Rightarrow> rawFrame list"

definition newProfilerWithConfig :: "'x newEnv \<Rightarrow> ('w, 'x) config \<Rightarrow> ('w, 'x) profObject" where
  "newProfilerWithConfig env c =
     \<lparr>poProfiler =
        \<lparr>pConfig = c, pStore = fst (newEntryStore (nvStorage env) (nvIO env) (nvNow env) c (nvJournal env)),
         pIsDefault = True, pBatches = [], pRemaining = cRequestLimit c, pCaptures = [], pNextCapture = 0,
         pIDs = nvIDs env, pClock = nvClock env, pSamples = nvSamples env, pStack = nvStack env, pTick = 0\<rparr>,
      poSessionToken = nvToken env, poServer = False, poServerAddr = [], poOnce = False\<rparr>"

definition validateAuthentication :: "('w, 'x) config \<Rightarrow> string option" where
  "validateAuthentication c =
     (if cToken c = [] \<and> \<not> cUnsafeNoAuth c
      then Some ''webpprof: authentication is required; configure WithToken or explicitly opt in with WithUnsafeUnauthenticatedAccess''
      else None)"

subsection \<open>Registration\<close>

text \<open>
  A router takes a pattern or panics.  The router of the application is a function \<open>handle\<close> on its
  state; \<open>Start\<close> makes a \<open>ServeMux\<close> of its own, which holds no pattern yet and panics where one
  does not parse.
\<close>

definition register :: "('r \<Rightarrow> string \<Rightarrow> 'r option) \<Rightarrow> ('w, 'x) config \<Rightarrow> 'r \<Rightarrow> 'r option" where
  "register handle c router =
     (case handle router (cBasePath c) of
        None \<Rightarrow> None
      | Some router \<Rightarrow> handle router (cBasePath c @ ''/''))"

definition mux_handle :: "(string \<Rightarrow> bool) \<Rightarrow> string list \<Rightarrow> string \<Rightarrow> string list option" where
  "mux_handle parses mux pattern = (if parses pattern \<and> pattern \<notin> set mux then Some (mux @ [pattern]) else None)"

subsection \<open>Construction\<close>

text \<open>The router a call of \<open>New\<close> is given (\<open>None\<close> for nil) is returned with what was mounted on it.\<close>

definition New :: "('r \<Rightarrow> string \<Rightarrow> 'r option) \<Rightarrow> 'x newEnv \<Rightarrow> 'r option \<Rightarrow> ('w, 'x) Opt list \<Rightarrow>
    ('w, 'x) process \<Rightarrow> ('w, 'x) process \<times> nat outcome" where
  "New handle env router opts s =
     (if prLocked s then (s, Blocks)
      else case prDefault s of
        Some i \<Rightarrow> (s, Returned i)
      | None \<Rightarrow>
          (case router of
             None \<Rightarrow> (s, PanicsWith ''webpprof: nil router'')
           | Some r \<Rightarrow>
               let c = configured opts; ob = newProfilerWithConfig env c; i = length (prObjects s);
                   s = s\<lparr>prObjects := prObjects s @ [ob]\<rparr>
               in case register handle c r of
                    None \<Rightarrow> (s, PanicsWith ''http: invalid or conflicting pattern'')
                  | Some r \<Rightarrow> (s\<lparr>prDefault := Some i\<rparr>, Returned i)))"

definition NewIf :: "bool \<Rightarrow> ('r \<Rightarrow> string \<Rightarrow> 'r option) \<Rightarrow> 'x newEnv \<Rightarrow> 'r option \<Rightarrow> ('w, 'x) Opt list \<Rightarrow>
    ('w, 'x) process \<Rightarrow> ('w, 'x) process \<times> nat option outcome" where
  "NewIf enabled handle env router opts s =
     (if \<not> enabled then (s, Returned None)
      else case New handle env router opts s of
        (s, Returned i) \<Rightarrow> (s, Returned (Some i))
      | (s, PanicsWith e) \<Rightarrow> (s, PanicsWith e)
      | (s, Blocks) \<Rightarrow> (s, Blocks))"

text \<open>\<open>Default\<close> and \<open>Enabled\<close> read the pointer without the mutex.\<close>

definition Default :: "('w, 'x) process \<Rightarrow> nat option" where "Default s = prDefault s"

definition Enabled :: "('w, 'x) process \<Rightarrow> bool" where "Enabled s = (Default s \<noteq> None)"

definition object_at :: "('w, 'x) process \<Rightarrow> nat \<Rightarrow> ('w, 'x) profObject" where
  "object_at s i = prObjects s ! i"

definition BasePath :: "('w, 'x) profObject option \<Rightarrow> string" where
  "BasePath p = (case p of None \<Rightarrow> [] | Some ob \<Rightarrow> cBasePath (pConfig (poProfiler ob)))"

definition BodyLimit :: "('w, 'x) profObject option \<Rightarrow> int" where
  "BodyLimit p = (case p of None \<Rightarrow> 0 | Some ob \<Rightarrow> cBodyLimit (pConfig (poProfiler ob)))"

definition profilerURL :: "('w, 'x) profObject option \<Rightarrow> string" where
  "profilerURL p =
     (case p of None \<Rightarrow> []
      | Some ob \<Rightarrow>
          if poServerAddr ob = [] then []
          else ''http://'' @ poServerAddr ob @ trim_right (\<lambda>c. c = CHR ''/'') (BasePath p) @ ''/'')"

definition defaultURL :: "('w, 'x) process \<Rightarrow> string" where
  "defaultURL s = (case Default s of None \<Rightarrow> [] | Some i \<Rightarrow> profilerURL (Some (object_at s i)))"

text \<open>
  \<open>Start\<close>.  The mutex is unlocked at each return by hand; a panic in \<open>register\<close> leaves it locked.
  \<open>listen\<close> is the address the listener got, or the error.
\<close>

definition Start :: "(string \<Rightarrow> bool) \<Rightarrow> 'x newEnv \<Rightarrow> (string \<Rightarrow> string + string) \<Rightarrow> string \<Rightarrow> ('w, 'x) Opt list \<Rightarrow>
    ('w, 'x) process \<Rightarrow> ('w, 'x) process \<times> (string + nat) outcome" where
  "Start parses env listen addr opts s =
     (if prLocked s then (s, Blocks)
      else case prDefault s of
        Some i \<Rightarrow>
          (if profilerURL (Some (object_at s i)) = []
           then (s, Returned (Inl ''webpprof: profiler already initialized without a server''))
           else (s, Returned (Inr i)))
      | None \<Rightarrow>
          if trim_space addr = [] then (s, Returned (Inl ''webpprof: listen address is required''))
          else
            let c = configured opts in
            case validateAuthentication c of
              Some err \<Rightarrow> (s, Returned (Inl err))
            | None \<Rightarrow>
                (case listen addr of
                   Inl err \<Rightarrow> (s, Returned (Inl (''webpprof: listen on '' @ addr @ '': '' @ err)))
                 | Inr bound \<Rightarrow>
                     let ob = newProfilerWithConfig env c; i = length (prObjects s)
                     in case register (mux_handle parses) c [] of
                          None \<Rightarrow> (s\<lparr>prLocked := True, prObjects := prObjects s @ [ob]\<rparr>,
                            PanicsWith ''http: invalid pattern'')
                        | Some mux \<Rightarrow>
                            (s\<lparr>prObjects := prObjects s @ [ob\<lparr>poServer := True, poServerAddr := bound\<rparr>],
                               prDefault := Some i, prServing := i # prServing s\<rparr>, Returned (Inr i))))"

subsection \<open>Shutting down\<close>

text \<open>
  \<open>Close\<close> and \<open>Shutdown\<close> differ in the call on the server only, whose answer is \<open>serverErr\<close>; the
  batches still being written when the store closes are those of its system (StoreSystem).
\<close>

definition stop_profiler :: "string option \<Rightarrow> nat \<Rightarrow> ('w, 'x) process \<Rightarrow> ('w, 'x) process \<times> string option" where
  "stop_profiler serverErr i s =
     (let ob = object_at s i;
          err = (if poServer ob then serverErr else None);
          s = (if poServer ob then s\<lparr>prServing := removeAll i (prServing s)\<rparr> else s);
          ob = ob\<lparr>poServer := False, poServerAddr := []\<rparr>;
          ob = (if poOnce ob then ob
                else ob\<lparr>poOnce := True, poProfiler := (poProfiler ob)\<lparr>pStore := close_store (pStore (poProfiler ob))\<rparr>\<rparr>);
          s = s\<lparr>prObjects := (prObjects s)[i := ob]\<rparr>
      in (if prDefault s = Some i then s\<lparr>prDefault := None\<rparr> else s, err))"

definition Close :: "string option \<Rightarrow> nat option \<Rightarrow> ('w, 'x) process \<Rightarrow> ('w, 'x) process \<times> string option outcome" where
  "Close closeErr p s =
     (case p of None \<Rightarrow> (s, Returned None)
      | Some i \<Rightarrow>
          if prLocked s then (s, Blocks)
          else let (s, err) = stop_profiler closeErr i s in (s, Returned err))"

definition profilerShutdown :: "string option \<Rightarrow> nat option \<Rightarrow> ('w, 'x) process \<Rightarrow> ('w, 'x) process \<times> string option outcome" where
  "profilerShutdown shutdownErr p s =
     (case p of None \<Rightarrow> (s, Returned None)
      | Some i \<Rightarrow>
          if prLocked s then (s, Blocks)
          else let (s, err) = stop_profiler shutdownErr i s in (s, Returned err))"

definition Shutdown :: "string option \<Rightarrow> ('w, 'x) process \<Rightarrow> ('w, 'x) process \<times> string option outcome" where
  "Shutdown shutdownErr s =
     (case Default s of None \<Rightarrow> (s, Returned None) | Some i \<Rightarrow> profilerShutdown shutdownErr (Some i) s)"

subsection \<open>Values an integration keeps\<close>

text \<open>
  A scope: the profiler and the name of the integration.  The keys of \<open>integrationValues\<close> are
  pairs of that name and a key, of which \<open>comparable\<close> tells whether its type is comparable; the
  map of the profiler is \<open>m\<close>.
\<close>

record scope =
  soProfiler :: bool
  soName :: string

definition valueKey :: "('k \<Rightarrow> bool) \<Rightarrow> scope \<Rightarrow> 'k option \<Rightarrow> (string \<times> 'k option) option" where
  "valueKey comparable sc key =
     (case key of
        None \<Rightarrow> Some (soName sc, None)
      | Some k \<Rightarrow> if \<not> comparable k then None else Some (soName sc, Some k))"

definition scopeLoad :: "('k \<Rightarrow> bool) \<Rightarrow> scope \<Rightarrow> 'k option \<Rightarrow> ((string \<times> 'k option) \<times> 'v) list \<Rightarrow> 'v option" where
  "scopeLoad comparable sc key m =
     (if \<not> soProfiler sc then None
      else case valueKey comparable sc key of None \<Rightarrow> None | Some vk \<Rightarrow> map_get m vk)"

definition scopeStore :: "('k \<Rightarrow> bool) \<Rightarrow> scope \<Rightarrow> 'k option \<Rightarrow> 'v \<Rightarrow> ((string \<times> 'k option) \<times> 'v) list \<Rightarrow>
    ((string \<times> 'k option) \<times> 'v) list" where
  "scopeStore comparable sc key v m =
     (if \<not> soProfiler sc then m
      else case valueKey comparable sc key of None \<Rightarrow> m | Some vk \<Rightarrow> map_put vk v m)"

definition LoadOrStore :: "('k \<Rightarrow> bool) \<Rightarrow> scope \<Rightarrow> 'k option \<Rightarrow> 'v \<Rightarrow> ((string \<times> 'k option) \<times> 'v) list \<Rightarrow>
    ((string \<times> 'k option) \<times> 'v) list \<times> 'v \<times> bool" where
  "LoadOrStore comparable sc key v m =
     (if \<not> soProfiler sc then (m, v, False)
      else case valueKey comparable sc key of
        None \<Rightarrow> (m, v, False)
      | Some vk \<Rightarrow>
          (case map_get m vk of Some old \<Rightarrow> (m, old, True) | None \<Rightarrow> (map_put vk v m, v, False)))"

text \<open>An integration is a name and a function that wraps a value in a scope; it may be nil.\<close>

definition ProfileWith :: "bool \<Rightarrow> 'v \<Rightarrow> (string \<times> (scope \<Rightarrow> 'v \<Rightarrow> 'v)) option \<Rightarrow> 'v" where
  "ProfileWith has_profiler value integration =
     (case integration of
        None \<Rightarrow> value
      | Some (name, wrap) \<Rightarrow>
          if \<not> has_profiler then value else wrap \<lparr>soProfiler = True, soName = name\<rparr> value)"

definition ProfileDefault :: "('w, 'x) process \<Rightarrow> 'v \<Rightarrow> (string \<times> (scope \<Rightarrow> 'v \<Rightarrow> 'v)) option \<Rightarrow> 'v" where
  "ProfileDefault s value integration = ProfileWith (Default s \<noteq> None) value integration"

end
