(* ===== verification/Recording.thy ===== *)
theory Recording
  imports CaptureFacts
begin

text \<open>
  The contract of a predicate on profilers that recording never breaks: it survives steps that
  touch neither store nor configuration, and putting an enabled and redacted entry.  In the locale
  every call of the recording interface keeps such a predicate, so that integrations inherit it
  (\<open>Integrations\<close>); it is interpreted on the invariant of recording and on the store being open
  or closed.
\<close>

locale recording_invariant =
  fixes P :: "('w, 'x) Profiler \<Rightarrow> bool"
  assumes idle_step: "idle p p' \<Longrightarrow> P p \<Longrightarrow> P p'"
    and put_step: "P p \<Longrightarrow> eKind e \<notin> set (cDisabledKinds (pConfig p)) \<Longrightarrow> redact (eData e) = eData e \<Longrightarrow>
      pConfig q = pConfig p \<Longrightarrow> pStore q = fst (put now e (pStore p)) \<Longrightarrow> P q"
begin

lemma record_keeps: "P p \<Longrightarrow> P (record_entry kind m v p)"
proof (cases "kind \<in> set (cDisabledKinds (pConfig p))")
  case True
  then show "P p \<Longrightarrow> P (record_entry kind m v p)" by (simp add: record_entry_def)
next
  case False
  assume P: "P p"
  obtain p1 eid where p1: "(if mID m = [] then newID p else (p, mID m)) = (p1, eid)" by fastforce
  obtain p2 st where p2: "(if mStartedAt m = 0 then clock_now p1 else (p1, mStartedAt m)) = (p2, st)" by fastforce
  have idle: "idle p p2"
    using p1 p2 idle_sources idle_trans idle_refl by (metis fst_conv)
  have P2: "P p2" by (rule idle_step [OF idle P])
  show ?thesis
  proof (cases "marshalRedacted v")
    case None
    then show ?thesis using False P2 by (simp add: record_entry_def p1 p2)
  next
    case (Some d)
    define e where "e = entry_of kind m eid st (pClock p2 (pTick p2)) d"
    obtain s b k where s: "put (pClock p2 (pTick p2 + 1)) e (pStore p2) = (s, b, k)" by (metis prod_cases3)
    have "record_entry kind m v p = (tick (tick p2))\<lparr>pStore := s,
        pBatches := pBatches p2 @ (if sbSequence b = 0 then [] else [b])\<rparr>"
      using False Some s by (simp add: record_entry_def p1 p2 clock_now_def tick_def e_def entry_of_def)
    moreover have "P q" if "pStore q = s" "pConfig q = pConfig p2" for q
      by (rule put_step [OF P2, where now = "pClock p2 (pTick p2 + 1)" and e = e])
        (use False idle marshalRedacted_redacted [OF Some] s that in \<open>simp_all add: e_def entry_of_def idle_def\<close>)
    ultimately show ?thesis by (simp add: tick_def)
  qed
qed

lemmas idle_keeps = idle_step [OF idle_prepare] idle_step [OF idle_append] idle_step [OF idle_tick]
  idle_step [OF idle_sources(1)] idle_step [OF idle_sources(2)] idle_step [OF idle_sources(3)]
  idle_step [OF idle_should] idle_step [OF idle_begin] idle_step [OF idle_addtags]
  idle_step [OF idle_setroute] idle_step [OF idle_withtags]

lemma log_keeps:
  "P p \<Longrightarrow> P (LogQuery q p)" "P p \<Longrightarrow> P (LogEmail em p)" "P p \<Longrightarrow> P (LogCache ca p)" "P p \<Longrightarrow> P (LogJob jo p)"
  "P p \<Longrightarrow> P (LogLog lo p)" "P p \<Longrightarrow> P (LogHTTPCall hc p)" "P p \<Longrightarrow> P (LogSchedule sc p)"
  "P p \<Longrightarrow> P (LogCallable cl p)" "P p \<Longrightarrow> P (LogTask ta p)" "P p \<Longrightarrow> P (LogException ex p)"
  "P p \<Longrightarrow> P (LogEvent ev p)" "P p \<Longrightarrow> P (LogMiddleware mw p)"
  by (simp_all add: LogQuery_def LogEmail_def LogCache_def LogJob_def LogLog_def LogHTTPCall_def LogSchedule_def
      LogCallable_def LogTask_def LogException_def LogEvent_def LogMiddleware_def
      record_keeps idle_keeps case_prod_beta Let_def)

lemma attached_keeps: "(\<And>v p. P p \<Longrightarrow> P (f v p)) \<Longrightarrow> P p \<Longrightarrow> P (log_attached f i ts vs p)"
  by (induction vs arbitrary: p) (simp_all add: log_attached_def)

lemma request_keeps: "P p \<Longrightarrow> P (LogRequest r p)"
proof -
  assume P: "P p"
  obtain p1 rid where p1: "(if mID r = [] then newID p else (p, mID r)) = (p1, rid)" by fastforce
  have "idle p p1" using p1 by (metis fst_conv idle_refl idle_sources(1))
  then have "P p1" using P idle_step by blast
  then show ?thesis using P by (simp add: LogRequest_def p1 Let_def record_keeps attached_keeps log_keeps)
qed

lemma finish_keeps: "P p \<Longrightarrow> P (Finish i res p)"
proof -
  assume P: "P p"
  have "P ((tick p)\<lparr>pCaptures := x\<rparr>)" for x by (rule idle_step [OF _ P]) (simp add: idle_def tick_def)
  then show ?thesis using P by (simp add: Finish_def clock_now_def Let_def request_keeps split: option.split)
qed

lemma log_context_keeps:
  "P p \<Longrightarrow> P (LogQueryContext ctx q p)" "P p \<Longrightarrow> P (LogEmailContext ctx em p)"
  "P p \<Longrightarrow> P (LogCacheContext ctx ca p)" "P p \<Longrightarrow> P (LogJobContext ctx jo p)"
  "P p \<Longrightarrow> P (LogLogContext ctx lo p)" "P p \<Longrightarrow> P (LogHTTPCallContext ctx hc p)"
  "P p \<Longrightarrow> P (LogScheduleContext ctx sc p)" "P p \<Longrightarrow> P (LogCallableContext ctx cl p)"
  "P p \<Longrightarrow> P (LogTaskContext ctx ta p)" "P p \<Longrightarrow> P (LogExceptionContext ctx ex p)"
  "P p \<Longrightarrow> P (LogEventContext ctx ev p)" "P p \<Longrightarrow> P (LogMiddlewareContext ctx mw p)"
  by (simp_all add: LogQueryContext_def LogEmailContext_def LogCacheContext_def LogJobContext_def LogLogContext_def
      LogHTTPCallContext_def LogScheduleContext_def LogCallableContext_def LogTaskContext_def
      LogExceptionContext_def LogEventContext_def LogMiddlewareContext_def
      log_keeps idle_keeps case_prod_beta Let_def split: option.split)

lemma api_keeps: "P p \<Longrightarrow> P (api_step a p)"
  by (cases a) (simp_all add: log_keeps log_context_keeps request_keeps finish_keeps capture_defs idle_keeps)

lemma api_run_keeps: "P p \<Longrightarrow> P (api_run calls p)"
  by (induction calls arbitrary: p) (simp_all add: api_run_def api_keeps)

end

interpretation recorded: recording_invariant "prof_ok c" for c
proof
  show "idle p p' \<Longrightarrow> prof_ok c p \<Longrightarrow> prof_ok c p'" for p p' by (rule idle_ok)
next
  fix p q :: "('a, 'b) Profiler" and e :: Entry and now :: instant
  assume "prof_ok c p" "eKind e \<notin> set (cDisabledKinds (pConfig p))" "redact (eData e) = eData e"
    "pConfig q = pConfig p" "pStore q = fst (put now e (pStore p))"
  then show "prof_ok c q"
    using put_ok [of "pStore p" now e] put_entries [of "pStore p" "entry_ok c" e now]
    by (simp add: prof_ok_def entry_ok_def)
qed

subsection \<open>Open and closed stores\<close>

lemma removeOldest_open: "sIsClosed (fst (removeOldest s)) = sIsClosed s"
  by (simp add: removeOldest_def Let_def split: prod.split option.split)

lemma purgeExpired_open [simp]: "sIsClosed (fst (purgeExpired now s)) = sIsClosed s"
proof (induction "order_len (sOrder s)" arbitrary: s rule: less_induct)
  case less
  obtain s1 r where r: "removeOldest s = (s1, r)" by fastforce
  show ?case
  proof (cases "order_len (sOrder s) = 0")
    case False
    let ?s1 = "s1\<lparr>sEvicted := sEvicted s1 + 1\<rparr>"
    have "sIsClosed (fst (purgeExpired now ?s1)) = sIsClosed s"
      using less [of ?s1] removeOldest_dec [OF r [symmetric] False] removeOldest_open [of s] r by simp
    then show ?thesis using False by (subst purgeExpired.simps) (simp add: r Let_def case_prod_beta)
  qed (subst purgeExpired.simps, simp)
qed

lemma evict_open [simp]: "sIsClosed (fst (evict s)) = sIsClosed s"
proof (induction "order_len (sOrder s)" arbitrary: s rule: less_induct)
  case less
  obtain s1 r where r: "removeOldest s = (s1, r)" by fastforce
  show ?case
  proof (cases "order_len (sOrder s) = 0")
    case False
    let ?s1 = "s1\<lparr>sEvicted := sEvicted s1 + 1\<rparr>"
    have "sIsClosed (fst (evict ?s1)) = sIsClosed s"
      using less [of ?s1] removeOldest_dec [OF r [symmetric] False] removeOldest_open [of s] r by simp
    then show ?thesis using False by (subst evict.simps) (simp add: r Let_def case_prod_beta)
  qed (subst evict.simps, simp)
qed

lemma insert_open [simp]: "sIsClosed (insert_entry e s) = sIsClosed s"
  by (simp add: insert_entry_def removeOrder_def Let_def split: option.split)

lemma broadcast_open [simp]: "sIsClosed (broadcast m s) = sIsClosed s"
proof -
  have "sIsClosed (fold (offer m) xs s) = sIsClosed s" for xs s
    by (induction xs arbitrary: s) (simp_all add: offer_def split: option.split)
  then show ?thesis by (simp add: broadcast_def)
qed

lemma batch_open [simp]: "sIsClosed (fst (storageBatchLocked rs s)) = sIsClosed s"
  by (simp add: storageBatchLocked_def Let_def)

lemma put_open [simp]: "sIsClosed (fst (put now e s)) = sIsClosed s"
  using purgeExpired_open [of now s]
  by (simp add: put_def Let_def case_prod_beta)

lemma replay_open [simp]: "sIsClosed (replayRecord r s) = sIsClosed s"
  by (simp add: replayRecord_def removeMemory_def removeOrder_def Let_def split: option.split)

lemma replay_journal_open: "sIsClosed (fst (replay_journal ls s good)) = sIsClosed s"
  by (induction ls s good rule: replay_journal.induct) simp_all

lemma compact_open: "compactJournal io s d = (s', d', err) \<Longrightarrow> sIsClosed s' = sIsClosed s"
  by (auto simp: compactJournal_def Let_def split: if_splits)

lemma append_open: "appendJournal io r s d = (s', d', err) \<Longrightarrow> sIsClosed s' = sIsClosed s"
  by (auto simp: appendJournal_def Let_def split: fileHandle.splits option.splits if_splits dest!: compact_open)

lemma persist_open: "persistRecord es io r s d = (s', d', err) \<Longrightarrow> sIsClosed s' = sIsClosed s"
  by (auto simp: persistRecord_def split: prod.splits option.splits if_splits dest!: compact_open append_open)

lemma drop_records_open: "sIsClosed (fst (drop_records es rs s d)) = sIsClosed s"
proof (induction es rs s d rule: drop_records.induct)
  case (2 es r rs s d)
  then show ?case
    by (auto split: prod.split option.split dest: persist_open)
qed simp

lemma replay_all_open:
  "sIsClosed (fold (\<lambda>e. replayRecord \<lparr>jrOperation = ''put'', jrEntry = Some e, jrCursor = 0\<rparr>) entries s) = sIsClosed s"
  by (induction entries arbitrary: s) simp_all

lemma open_external_open: "sIsClosed (fst (openExternalStorage es x now s disk)) = sIsClosed s"
  by (simp add: openExternalStorage_def Let_def case_prod_beta drop_records_open replay_all_open
      split: option.split)

lemma open_journal_open: "sIsClosed (fst (openJournalStorage io now s disk)) = sIsClosed s"
proof -
  obtain t good torn where r: "replay_journal disk s [] = (t, good, torn)" by (metis prod_cases3)
  have "sIsClosed t = sIsClosed s" using replay_journal_open [of disk s "[]"] r by simp
  then show ?thesis by (simp add: openJournalStorage_def r Let_def split: option.split)
qed

lemma new_store_open [simp]: "\<not> sIsClosed (fst (newEntryStore es io now c disk))"
  by (simp add: newEntryStore_def openStorage_def emptyStore_def open_external_open open_journal_open
      split: option.split)

interpretation openness: recording_invariant "\<lambda>p. sIsClosed (pStore p) = b" for b
  by unfold_locales (simp_all add: idle_def)

end
