(* ===== verification/LifecycleProps.thy ===== *)
theory LifecycleProps
  imports Lifecycle Recording
begin

text \<open>
  What holds of the process-wide profiler after any sequence of calls, and of the values of
  integrations: one store at most is open and one server at most listens, except for those a
  panicking registration leaves behind.
\<close>

subsection \<open>Any use of the process\<close>

datatype ('w, 'x, 'r) lifeCall =
    CallNew "'r \<Rightarrow> string \<Rightarrow> 'r option" "'x newEnv" "'r option" "('w, 'x) Opt list"
  | CallStart "string \<Rightarrow> bool" "'x newEnv" "string \<Rightarrow> string + string" string "('w, 'x) Opt list"
  | CallClose "string option" "nat option"
  | CallShutdown "string option" "nat option"
  | CallShutdownDefault "string option"
  | CallRecord nat "apiCall list"

text \<open>
  \<open>lrGiven\<close> are the profilers the application holds a reference to, the only ones it can name;
  \<open>lrLost\<close> those whose construction ended in a panic.
\<close>

record ('w, 'x) lifeRun =
  lrProcess :: "('w, 'x) process"
  lrGiven :: "nat list"
  lrLost :: "nat list"

definition newRun :: "('w, 'x) lifeRun" where
  "newRun = \<lparr>lrProcess = newProcess, lrGiven = [], lrLost = []\<rparr>"

definition lost_objects :: "('w, 'x) process \<Rightarrow> ('w, 'x) process \<Rightarrow> nat list" where
  "lost_objects s s' = [length (prObjects s)..<length (prObjects s')]"

fun life_step :: "('w, 'x, 'r) lifeCall \<Rightarrow> ('w, 'x) lifeRun \<Rightarrow> ('w, 'x) lifeRun" where
  "life_step (CallNew handle env router opts) r =
     (case New handle env router opts (lrProcess r) of
        (s, Returned i) \<Rightarrow> r\<lparr>lrProcess := s, lrGiven := i # lrGiven r\<rparr>
      | (s, _) \<Rightarrow> r\<lparr>lrProcess := s, lrLost := lost_objects (lrProcess r) s @ lrLost r\<rparr>)"
| "life_step (CallStart parses env listen addr opts) r =
     (case Start parses env listen addr opts (lrProcess r) of
        (s, Returned (Inr i)) \<Rightarrow> r\<lparr>lrProcess := s, lrGiven := i # lrGiven r\<rparr>
      | (s, _) \<Rightarrow> r\<lparr>lrProcess := s, lrLost := lost_objects (lrProcess r) s @ lrLost r\<rparr>)"
| "life_step (CallClose err p) r =
     (if set_option p \<subseteq> set (lrGiven r) then r\<lparr>lrProcess := fst (Close err p (lrProcess r))\<rparr> else r)"
| "life_step (CallShutdown err p) r =
     (if set_option p \<subseteq> set (lrGiven r) then r\<lparr>lrProcess := fst (profilerShutdown err p (lrProcess r))\<rparr> else r)"
| "life_step (CallShutdownDefault err) r = r\<lparr>lrProcess := fst (Shutdown err (lrProcess r))\<rparr>"
| "life_step (CallRecord i calls) r =
     (if i \<in> set (lrGiven r) then
        (let s = lrProcess r; ob = object_at s i
         in r\<lparr>lrProcess := s\<lparr>prObjects := (prObjects s)[i := ob\<lparr>poProfiler := api_run calls (poProfiler ob)\<rparr>]\<rparr>\<rparr>)
      else r)"

definition life_run :: "('w, 'x, 'r) lifeCall list \<Rightarrow> ('w, 'x) lifeRun \<Rightarrow> ('w, 'x) lifeRun" where
  "life_run calls r = fold life_step calls r"

subsection \<open>One open profiler\<close>

definition store_closed :: "('w, 'x) profObject \<Rightarrow> bool" where
  "store_closed ob = sIsClosed (pStore (poProfiler ob))"

definition open_profilers :: "('w, 'x) process \<Rightarrow> nat list" where
  "open_profilers s = filter (\<lambda>i. \<not> store_closed (object_at s i)) [0..<length (prObjects s)]"

definition object_ok :: "('w, 'x) profObject \<Rightarrow> bool" where
  "object_ok ob \<longleftrightarrow> poOnce ob = store_closed ob \<and> (if poServer ob then \<not> poOnce ob else poServerAddr ob = [])"

definition life_inv :: "('w, 'x) lifeRun \<Rightarrow> bool" where
  "life_inv r \<longleftrightarrow>
     (let s = lrProcess r; n = length (prObjects s) in
      (\<forall>i<n. object_ok (object_at s i) \<and>
        (store_closed (object_at s i) \<longleftrightarrow> i \<notin> set (lrLost r) \<and> prDefault s \<noteq> Some i) \<and>
        (poServer (object_at s i) \<longleftrightarrow> i \<in> set (prServing s))) \<and>
      set_option (prDefault s) \<subseteq> set (lrGiven r) \<and> set (lrGiven r) \<union> set (lrLost r) \<subseteq> {..<n} \<and>
      set (prServing s) \<subseteq> set_option (prDefault s) \<and>
      set (lrGiven r) \<inter> set (lrLost r) = {} \<and> (prLocked s \<longrightarrow> lrLost r \<noteq> []))"

lemma new_object_open [simp]: "\<not> store_closed (newProfilerWithConfig env c)"
  by (simp add: store_closed_def newProfilerWithConfig_def)

lemma new_object_ok [simp]: "object_ok (newProfilerWithConfig env c)"
  by (simp add: object_ok_def) (simp add: newProfilerWithConfig_def)

lemma new_object_idle [simp]: "\<not> poServer (newProfilerWithConfig env c)" "\<not> poOnce (newProfilerWithConfig env c)"
  by (simp_all add: newProfilerWithConfig_def)

lemma close_store_closed [simp]: "sIsClosed (close_store s)"
proof -
  have "sIsClosed (fold drop_subscriber xs s) = sIsClosed s" for xs and s :: "'a entryStore"
    by (induction xs arbitrary: s) (simp_all add: drop_subscriber_def split: option.split)
  then show ?thesis by (simp add: close_store_def close_subscribers_def)
qed

text \<open>A new object: kept as the default, or lost.\<close>

lemma life_add:
  assumes inv: "life_inv r" and none: "prDefault (lrProcess r) = None"
    and ob: "object_ok ob" "\<not> store_closed ob" and s: "s = lrProcess r"
  shows "life_inv (r\<lparr>lrProcess := s\<lparr>prObjects := prObjects s @ [ob], prDefault := Some (length (prObjects s)),
      prServing := (if poServer ob then length (prObjects s) # prServing s else prServing s)\<rparr>,
      lrGiven := length (prObjects s) # lrGiven r\<rparr>)"
    and "\<not> poServer ob \<Longrightarrow> life_inv (r\<lparr>lrProcess := s\<lparr>prLocked := b, prObjects := prObjects s @ [ob]\<rparr>,
      lrLost := length (prObjects s) # lrLost r\<rparr>)"
  using inv none ob unfolding s
  by (auto simp: life_inv_def Let_def object_at_def nth_append less_Suc_eq)

lemma stop_shape:
  assumes "object_ok (object_at s i)"
  obtains ob where "store_closed ob" "object_ok ob" "\<not> poServer ob"
    "fst (stop_profiler err i s) = s\<lparr>prObjects := (prObjects s)[i := ob],
       prDefault := (if prDefault s = Some i then None else prDefault s),
       prServing := (if poServer (object_at s i) then removeAll i (prServing s) else prServing s)\<rparr>"
proof -
  let ?ob = "(object_at s i)\<lparr>poServer := False, poServerAddr := []\<rparr>"
  define ob where "ob = (if poOnce ?ob then ?ob else
    ?ob\<lparr>poOnce := True, poProfiler := (poProfiler ?ob)\<lparr>pStore := close_store (pStore (poProfiler ?ob))\<rparr>\<rparr>)"
  show ?thesis
  proof (rule that [of ob])
    show "store_closed ob" "object_ok ob" "\<not> poServer ob"
      using assms by (simp_all add: ob_def object_ok_def store_closed_def)
    show "fst (stop_profiler err i s) = s\<lparr>prObjects := (prObjects s)[i := ob],
       prDefault := (if prDefault s = Some i then None else prDefault s),
       prServing := (if poServer (object_at s i) then removeAll i (prServing s) else prServing s)\<rparr>"
      by (simp add: stop_profiler_def ob_def Let_def)
  qed
qed

lemma life_invD:
  assumes "life_inv r"
  shows "j < length (prObjects (lrProcess r)) \<Longrightarrow> object_ok (object_at (lrProcess r) j)"
    "j < length (prObjects (lrProcess r)) \<Longrightarrow>
       store_closed (object_at (lrProcess r) j) \<longleftrightarrow> j \<notin> set (lrLost r) \<and> prDefault (lrProcess r) \<noteq> Some j"
    "j < length (prObjects (lrProcess r)) \<Longrightarrow> poServer (object_at (lrProcess r) j) \<longleftrightarrow> j \<in> set (prServing (lrProcess r))"
    "set_option (prDefault (lrProcess r)) \<subseteq> set (lrGiven r)" "set (prServing (lrProcess r)) \<subseteq> set_option (prDefault (lrProcess r))"
    "j \<in> set (lrGiven r) \<Longrightarrow> j < length (prObjects (lrProcess r)) \<and> j \<notin> set (lrLost r)"
    "j \<in> set (lrLost r) \<Longrightarrow> j < length (prObjects (lrProcess r))"
    "prLocked (lrProcess r) \<Longrightarrow> lrLost r \<noteq> []"
  using assms by (auto simp: life_inv_def Let_def)

text \<open>Replacing one object the application holds.\<close>

lemma life_replace:
  assumes inv: "life_inv r" and i: "i \<in> set (lrGiven r)" and ok: "object_ok ob"
    and d: "d = None \<or> d = prDefault (lrProcess r)" "store_closed ob \<longleftrightarrow> d \<noteq> Some i"
      "\<And>j. j \<noteq> i \<Longrightarrow> prDefault (lrProcess r) = Some j \<Longrightarrow> d = Some j"
    and v: "v = prServing (lrProcess r) \<or> v = removeAll i (prServing (lrProcess r))" "poServer ob \<longleftrightarrow> i \<in> set v"
      "set v \<subseteq> set_option d"
  shows "life_inv (r\<lparr>lrProcess := (lrProcess r)\<lparr>prObjects := (prObjects (lrProcess r))[i := ob],
    prDefault := d, prServing := v\<rparr>\<rparr>)"
proof -
  note I = life_invD [OF inv]
  have n: "i < length (prObjects (lrProcess r))" "i \<notin> set (lrLost r)" using I(6) [OF i] by simp_all
  have away: "object_at ((lrProcess r)\<lparr>prObjects := (prObjects (lrProcess r))[i := ob], prDefault := d, prServing := v\<rparr>) j =
      (if j = i then ob else object_at (lrProcess r) j)" for j
    using n by (simp add: object_at_def nth_list_update)
  have closed: "store_closed (object_at (lrProcess r) j) \<longleftrightarrow> j \<notin> set (lrLost r) \<and> d \<noteq> Some j"
    if "j < length (prObjects (lrProcess r))" "j \<noteq> i" for j
    using I(2) [OF that(1)] d(1) d(3) [OF that(2)] by auto
  have server: "poServer (object_at (lrProcess r) j) \<longleftrightarrow> j \<in> set v"
    if "j < length (prObjects (lrProcess r))" "j \<noteq> i" for j
    using I(3) [OF that(1)] v(1) that(2) by auto
  have "set_option d \<subseteq> set (lrGiven r)" using d(1) I(4) by auto
  then show ?thesis
    using I(1) I(6,7,8) ok d(2) v(2,3) n closed server
    unfolding life_inv_def by (auto simp: Let_def away)
qed

lemma life_stop:
  assumes inv: "life_inv r" and i: "i \<in> set (lrGiven r)"
  shows "life_inv (r\<lparr>lrProcess := fst (stop_profiler err i (lrProcess r))\<rparr>)"
proof -
  note I = life_invD [OF inv]
  have n: "i < length (prObjects (lrProcess r))" using I(6) [OF i] by simp
  obtain ob where ob: "store_closed ob" "object_ok ob" "\<not> poServer ob"
    "fst (stop_profiler err i (lrProcess r)) = (lrProcess r)\<lparr>prObjects := (prObjects (lrProcess r))[i := ob],
       prDefault := (if prDefault (lrProcess r) = Some i then None else prDefault (lrProcess r)),
       prServing := (if poServer (object_at (lrProcess r) i) then removeAll i (prServing (lrProcess r)) else prServing (lrProcess r))\<rparr>"
    using stop_shape [OF I(1) [OF n]] by blast
  have "set (if poServer (object_at (lrProcess r) i) then removeAll i (prServing (lrProcess r)) else prServing (lrProcess r)) \<subseteq>
      set_option (if prDefault (lrProcess r) = Some i then None else prDefault (lrProcess r))"
    by (rule subsetI) (use I(3) [OF n] I(5) in \<open>auto split: if_splits\<close>)
  then show ?thesis
    unfolding ob(4) using I(3) [OF n] ob(1,3) by (intro life_replace [OF inv i ob(2)]) auto
qed

lemma life_record:
  assumes inv: "life_inv r"
  shows "life_inv (life_step (CallRecord i calls) r)"
proof (cases "i \<in> set (lrGiven r)")
  case True
  let ?s = "lrProcess r" let ?ob = "object_at ?s i"
  define new where "new = ?ob\<lparr>poProfiler := api_run calls (poProfiler ?ob)\<rparr>"
  note I = life_invD [OF inv]
  have n: "i < length (prObjects ?s)" "i \<notin> set (lrLost r)" using I(6) [OF True] by simp_all
  have same: "store_closed new = store_closed ?ob" "object_ok new = object_ok ?ob" "poServer new = poServer ?ob"
    using openness.api_run_keeps [of "poProfiler ?ob" "store_closed ?ob" calls]
    by (simp_all add: store_closed_def object_ok_def new_def)
  have "life_inv (r\<lparr>lrProcess := ?s\<lparr>prObjects := (prObjects ?s)[i := new], prDefault := prDefault ?s, prServing := prServing ?s\<rparr>\<rparr>)"
    using I(2,3) [OF n(1)] n(2) I(1) [OF n(1)] I(5) same by (intro life_replace [OF inv True]) auto
  then show ?thesis using True by (simp add: Let_def flip: new_def)
qed (simp add: inv)

lemma nothing_lost [simp]: "prObjects s' = prObjects s \<Longrightarrow> lost_objects s s' = []"
  by (simp add: lost_objects_def)

lemma one_lost [simp]: "prObjects s' = prObjects s @ [ob] \<Longrightarrow> lost_objects s s' = [length (prObjects s)]"
  by (simp add: lost_objects_def)

lemma life_known:
  "life_inv r \<Longrightarrow> prDefault (lrProcess r) = Some i \<Longrightarrow> life_inv (r\<lparr>lrGiven := i # lrGiven r\<rparr>)"
  using life_invD(4) [of r] by (simp add: life_inv_def Let_def insert_absorb)

lemma still_unlocked: "\<not> prLocked s \<Longrightarrow> s\<lparr>prLocked := False, prObjects := xs\<rparr> = s\<lparr>prObjects := xs\<rparr>"
  by (cases s) simp

lemma life_new:
  assumes inv: "life_inv r"
  shows "life_inv (life_step (CallNew handle env router opts) r)"
proof -
  let ?s = "lrProcess r" let ?ob = "newProfilerWithConfig env (configured opts)"
  consider "prLocked ?s" | i where "\<not> prLocked ?s" "prDefault ?s = Some i"
    | "\<not> prLocked ?s" "prDefault ?s = None" "router = None"
    | rt where "\<not> prLocked ?s" "prDefault ?s = None" "router = Some rt" by blast
  then show ?thesis
  proof cases
    case 2
    then show ?thesis using life_known [OF inv] by (simp add: New_def)
  next
    case 4
    show ?thesis
    proof (cases "register handle (configured opts) rt")
      case None
      then show ?thesis
        using 4 life_add(2) [OF inv 4(2) new_object_ok new_object_open refl, where b = False]
        by (simp add: New_def Let_def still_unlocked)
    next
      case (Some rt')
      then show ?thesis
        using 4 life_add(1) [OF inv 4(2) new_object_ok new_object_open refl] by (simp add: New_def Let_def)
    qed
  qed (simp_all add: New_def inv)
qed

lemma served_object_ok: "object_ok (newProfilerWithConfig env c\<lparr>poServer := True, poServerAddr := a\<rparr>)"
  "\<not> store_closed (newProfilerWithConfig env c\<lparr>poServer := True, poServerAddr := a\<rparr>)"
  by (simp_all add: newProfilerWithConfig_def object_ok_def store_closed_def)

lemma life_start:
  assumes inv: "life_inv r"
  shows "life_inv (life_step (CallStart parses env listen addr opts) r)"
proof -
  let ?s = "lrProcess r" let ?c = "configured opts"
  consider "prLocked ?s" | i where "\<not> prLocked ?s" "prDefault ?s = Some i"
    | "\<not> prLocked ?s" "prDefault ?s = None" "trim_space addr = []"
    | err where "\<not> prLocked ?s" "prDefault ?s = None" "trim_space addr \<noteq> []" "validateAuthentication ?c = Some err"
    | "\<not> prLocked ?s" "prDefault ?s = None" "trim_space addr \<noteq> []" "validateAuthentication ?c = None" by blast
  then show ?thesis
  proof cases
    case 2
    then show ?thesis using inv life_known [OF inv] by (simp add: Start_def)
  next
    case 5
    show ?thesis
    proof (cases "listen addr")
      case (Inl err)
      then show ?thesis using 5 inv by (simp add: Start_def Let_def)
    next
      case (Inr bound)
      show ?thesis
      proof (cases "register (mux_handle parses) ?c []")
        case None
        then show ?thesis
          using 5 Inr life_add(2) [OF inv 5(2) new_object_ok new_object_open refl, where b = True]
          by (simp add: Start_def Let_def)
      next
        case (Some mux)
        then show ?thesis
          using 5 Inr life_add(1) [OF inv 5(2) served_object_ok refl] by (simp add: Start_def Let_def)
      qed
    qed
  qed (simp_all add: Start_def inv)
qed

lemma life_close:
  "life_inv r \<Longrightarrow> set_option p \<subseteq> set (lrGiven r) \<Longrightarrow> life_inv (r\<lparr>lrProcess := fst (Close err p (lrProcess r))\<rparr>)"
  "life_inv r \<Longrightarrow> set_option p \<subseteq> set (lrGiven r) \<Longrightarrow> life_inv (r\<lparr>lrProcess := fst (profilerShutdown err p (lrProcess r))\<rparr>)"
  using life_stop [of r _ err] by (auto simp: Close_def profilerShutdown_def case_prod_beta split: option.split)

lemma life_step_inv: "life_inv r \<Longrightarrow> life_inv (life_step c r)"
proof (cases c)
  case (CallShutdownDefault err)
  assume "life_inv r"
  then show ?thesis
    using CallShutdownDefault life_close(2) [of r _ err] life_invD(4) [of r]
    by (auto simp: Shutdown_def Default_def split: option.split)
qed (simp_all only: life_new life_start life_record, simp_all add: life_close)

lemma life_run_inv: "life_inv r \<Longrightarrow> life_inv (life_run calls r)"
  by (induction calls arbitrary: r) (simp_all add: life_run_def life_step_inv)


subsection \<open>Single calls\<close>

text \<open>Closing again changes nothing and reports nothing, whichever of the two calls it is.\<close>

lemma stop_twice:
  assumes "i < length (prObjects s)"
  shows "stop_profiler err' i (fst (stop_profiler err i s)) = (fst (stop_profiler err i s), None)"
proof -
  let ?ob = "(object_at s i)\<lparr>poServer := False, poServerAddr := []\<rparr>"
  define ob where "ob = (if poOnce ?ob then ?ob else
    ?ob\<lparr>poOnce := True, poProfiler := (poProfiler ?ob)\<lparr>pStore := close_store (pStore (poProfiler ?ob))\<rparr>\<rparr>)"
  have ob: "\<not> poServer ob" "poServerAddr ob = []" "poOnce ob" "ob\<lparr>poServer := False, poServerAddr := []\<rparr> = ob"
    by (simp_all add: ob_def)
  obtain t where t: "fst (stop_profiler err i s) = t" "prObjects t = (prObjects s)[i := ob]" "prDefault t \<noteq> Some i"
    by (simp add: stop_profiler_def ob_def Let_def)
  then have at: "object_at t i = ob" "(prObjects t)[i := ob] = prObjects t"
    using assms by (simp_all add: object_at_def)
  show ?thesis unfolding t(1) using t(3) by (simp add: stop_profiler_def Let_def ob at)
qed

text \<open>A failed registration costs a profiler: its store is open, and nobody can close it.\<close>

lemma failed_registration_leaks:
  assumes "\<not> prLocked s" "prDefault s = None" "register handle (configured opts) rt = None"
  shows "let (t, res) = New handle env (Some rt) opts s in
    (\<exists>e. res = PanicsWith e) \<and> \<not> prLocked t \<and> prDefault t = None \<and>
    (\<exists>ob. prObjects t = prObjects s @ [ob] \<and> \<not> store_closed ob)"
  using assms by (simp add: New_def Let_def)

text \<open>And in \<open>Start\<close> it costs the mutex: every later call blocks.\<close>

lemma failed_start_blocks:
  assumes "\<not> prLocked s" "prDefault s = None" "trim_space addr \<noteq> []"
    "validateAuthentication (configured opts :: ('w, 'x) config) = None" "listen addr = Inr bound"
    "register (mux_handle parses) (configured opts :: ('w, 'x) config) [] = None"
  shows "let (t, res) = Start parses env listen addr (opts :: ('w, 'x) Opt list) s in
    (\<exists>e. res = PanicsWith e) \<and> snd (New handle env' router opts' t) = Blocks \<and>
    snd (Start parses' env' listen' addr' opts' t) = Blocks \<and> snd (Close err (Some i) t) = Blocks"
  using assms by (simp add: Start_def Let_def New_def Close_def)

subsection \<open>Values of integrations\<close>

text \<open>
  A stored value is found again under its key by the same integration and by no other one, and
  the first value stays.
\<close>

lemma scope_found:
  assumes "soProfiler sc" "valueKey comparable sc key \<noteq> None"
  shows "scopeLoad comparable sc key (scopeStore comparable sc key v m) = Some v"
    and "scopeLoad comparable sc key m = Some old \<Longrightarrow> LoadOrStore comparable sc key v m = (m, old, True)"
    and "scopeLoad comparable sc key m = None \<Longrightarrow>
      LoadOrStore comparable sc key v m = (scopeStore comparable sc key v m, v, False)"
  using assms by (auto simp: scopeLoad_def scopeStore_def LoadOrStore_def)

lemma scope_apart:
  assumes "soName sc \<noteq> soName sc'"
  shows "scopeLoad comparable sc key (scopeStore comparable' sc' key' v m) = scopeLoad comparable sc key m"
  using assms by (auto simp: scopeLoad_def scopeStore_def valueKey_def split: option.split if_splits)

end
