(* ===== verification/Integrations.thy ===== *)
theory Integrations
  imports Lifecycle HttpCapture
begin

text \<open>
  The integrations that wrap one call each: commands (\<open>profiler/callable\<close>), scheduled tasks
  (\<open>profiler/schedule\<close>), mail (\<open>profiler/email\<close>, \<open>profiler/gomail\<close>), queues and messages
  (\<open>profiler/asynq\<close>, \<open>profiler/kafka\<close>, \<open>profiler/nats\<close>) and Redis (\<open>profiler/goredis\<close>).

  The wrapped function is a parameter that acts on the state \<open>'d\<close> of the application and of its
  libraries and on the profiler, since what it calls may record too.  \<open>None\<close> for a context is nil.
\<close>

type_synonym ('d, 'w, 'x) world = "'d \<times> ('w, 'x) Profiler"

type_synonym ('d, 'w, 'x, 'r) action = "('d, 'w, 'x) world \<Rightarrow> ('d, 'w, 'x) world \<times> 'r"

definition errorString :: "string option \<Rightarrow> string" where
  "errorString err = (case err of None \<Rightarrow> [] | Some e \<Rightarrow> e)"

subsection \<open>Commands and scheduled tasks\<close>

definition callable_result :: "unit callOutcome \<Rightarrow> Callable \<Rightarrow> Callable" where
  "callable_result outcome v =
     (case outcome of
        Panicked e \<Rightarrow> v\<lparr>clState := ''panicked'', clPanic := paText e\<rparr>
      | Finished u (Some err) \<Rightarrow> v\<lparr>clState := ''failed'', clError := err\<rparr>
      | Finished u None \<Rightarrow> v)"

definition callableProfile :: "string \<Rightarrow> (goContext option \<Rightarrow> ('d, 'w, 'x, unit callOutcome) action) \<Rightarrow>
    goContext option \<Rightarrow> ('d, 'w, 'x, unit callOutcome) action" where
  "callableProfile name command ctx s =
     (if \<not> RecordingEnabled ctx then command ctx s
      else
        let (d, p) = s; rootCtx = WithoutCorrelation ctx; (p, invocationID) = newID p;
            commandCtx = WithParentEntry (Some rootCtx) invocationID;
            (p, start) = clock_now p;
            ((d, p), outcome) = command (Some commandCtx) (d, p);
            (p, stop) = clock_now p;
            v = zeroCallable\<lparr>mID := invocationID, mStartedAt := start, mDuration := stop - start,
              clName := name, clState := ''succeeded''\<rparr>
        in ((d, LogCallableContext (Some rootCtx) (callable_result outcome v) p), outcome))"

definition scheduleProfile :: "string \<Rightarrow> (goContext option \<Rightarrow> ('d, 'w, 'x, recoveredPanic option) action) \<Rightarrow>
    goContext option \<Rightarrow> ('d, 'w, 'x, recoveredPanic option) action" where
  "scheduleProfile name task ctx s =
     (if \<not> RecordingEnabled ctx then task ctx s
      else
        let (d, p) = s; rootCtx = WithoutCorrelation ctx; (p, invocationID) = newID p;
            taskCtx = WithParentEntry (Some rootCtx) invocationID;
            (p, start) = clock_now p;
            ((d, p), failure) = task (Some taskCtx) (d, p);
            (p, stop) = clock_now p;
            v = zeroSchedule\<lparr>mID := invocationID, mStartedAt := start, mDuration := stop - start,
              scName := name, scState := ''succeeded''\<rparr>;
            v = (case failure of None \<Rightarrow> v | Some e \<Rightarrow> v\<lparr>scState := ''panicked'', scPanic := paText e\<rparr>)
        in ((d, LogScheduleContext (Some rootCtx) v p), failure))"

subsection \<open>Mail\<close>

definition emailSend :: "(goContext option \<Rightarrow> Email \<Rightarrow> ('d, 'w, 'x, string option) action) \<Rightarrow>
    goContext option \<Rightarrow> Email \<Rightarrow> ('d, 'w, 'x, string option) action" where
  "emailSend inner ctx email s =
     (let (d, p) = s;
          (p, start) = (if mStartedAt email = 0 then clock_now p else (p, mStartedAt email));
          email = email\<lparr>mStartedAt := start\<rparr>;
          ((d, p), err) = inner ctx email (d, p);
          (p, stop) = clock_now p;
          email = email\<lparr>mDuration := stop - start, emStatus := ''sent''\<rparr>;
          email = (case err of None \<Rightarrow> email | Some e \<Rightarrow> email\<lparr>emStatus := ''failed'', emError := e\<rparr>)
      in ((d, LogEmailContext ctx email p), err))"

text \<open>What is read of a message of \<open>go-mail\<close>.\<close>

record mailMessage =
  mmFrom :: "Address list"
  mmTo :: "Address list"
  mmCc :: "Address list"
  mmBcc :: "Address list"
  mmSubject :: "string list"

definition firstAddress :: "Address list \<Rightarrow> Address" where
  "firstAddress values = (case values of [] \<Rightarrow> zeroAddress | a # _ \<Rightarrow> \<lparr>adName = adName a, adEmail = adEmail a\<rparr>)"

definition addresses :: "Address list \<Rightarrow> Address list" where
  "addresses values = map (\<lambda>a. \<lparr>adName = adName a, adEmail = adEmail a\<rparr>) values"

definition mail_event :: "instant \<Rightarrow> duration \<Rightarrow> string option \<Rightarrow> mailMessage option \<Rightarrow> Email" where
  "mail_event start elapsed err message =
     (let event = zeroEmail\<lparr>mStartedAt := start, mDuration := elapsed, emTransport := ''smtp'', emStatus := ''sent''\<rparr>;
          event = (case message of None \<Rightarrow> event
            | Some m \<Rightarrow>
                event\<lparr>emFrom := firstAddress (mmFrom m), emTo := addresses (mmTo m), emCC := addresses (mmCc m),
                  emBCC := addresses (mmBcc m),
                  emSubject := (case mmSubject m of [] \<Rightarrow> emSubject event | subject # _ \<Rightarrow> subject)\<rparr>)
      in case err of None \<Rightarrow> event | Some e \<Rightarrow> event\<lparr>emStatus := ''failed'', emError := e\<rparr>)"

definition DialAndSendWithContext :: "(goContext option \<Rightarrow> 'm list \<Rightarrow> ('d, 'w, 'x, string option) action) \<Rightarrow>
    ('m \<Rightarrow> 'd \<Rightarrow> mailMessage option) \<Rightarrow> goContext option \<Rightarrow> 'm list \<Rightarrow> ('d, 'w, 'x, string option) action" where
  "DialAndSendWithContext inner read ctx messages s =
     (let (d, p) = s; (p, start) = clock_now p;
          ((d, p), err) = inner ctx messages (d, p);
          (p, stop) = clock_now p
      in ((d, fold (\<lambda>m p. LogEmailContext ctx (mail_event start (stop - start) err (read m d)) p) messages p), err))"

subsection \<open>Payloads\<close>

text \<open>The bounded capture of a payload, which \<open>asynq\<close>, \<open>nats\<close> and \<open>kafka\<close> write out each.\<close>

definition payloadLimit :: "int \<Rightarrow> nat" where
  "payloadLimit limit = nat (if limit \<le> 0 then 4096 else limit)"

definition capture_payload :: "string \<Rightarrow> bool \<Rightarrow> int \<Rightarrow> string \<Rightarrow> Argument" where
  "capture_payload name capture limit payload =
     (let argument = \<lparr>arName = name, arType = ''bytes'', arValue = [], arSize = int (length payload), arTruncated = False\<rparr> in
      if \<not> capture then argument
      else if length payload > payloadLimit limit
        then argument\<lparr>arTruncated := True, arValue := take (payloadLimit limit) payload\<rparr>
      else argument\<lparr>arValue := payload\<rparr>)"

subsection \<open>Asynq\<close>

record asynqConfig =
  aqcConnection :: string
  aqcCapturePayload :: bool
  aqcPayloadLimit :: int

record asynqTask =
  aqtType :: string
  aqtPayload :: string

record taskInfo =
  tiID :: string
  tiQueue :: string
  tiMaxRetry :: int
  tiNextProcessAt :: instant

definition asynqTaskName :: "asynqTask option \<Rightarrow> string" where
  "asynqTaskName task = (case task of None \<Rightarrow> [] | Some t \<Rightarrow> aqtType t)"

definition asynqPayload :: "asynqTask option \<Rightarrow> asynqConfig \<Rightarrow> Argument list" where
  "asynqPayload task config =
     (case task of None \<Rightarrow> []
      | Some t \<Rightarrow>
          if aqtPayload t = [] then []
          else [capture_payload ''payload'' (aqcCapturePayload config) (aqcPayloadLimit config) (aqtPayload t)])"

definition EnqueueContext :: "(goContext option \<Rightarrow> asynqTask option \<Rightarrow> ('d, 'w, 'x, taskInfo option \<times> string option) action) \<Rightarrow>
    asynqConfig \<Rightarrow> goContext option \<Rightarrow> asynqTask option \<Rightarrow> ('d, 'w, 'x, taskInfo option \<times> string option) action" where
  "EnqueueContext inner config ctx task s =
     (let (d, p) = s; (p, start) = clock_now p; (p, callsite) = CaptureCallsite KindJob p;
          ((d, p), info, err) = inner ctx task (d, p);
          (p, stop) = clock_now p;
          job = zeroJob\<lparr>mStartedAt := start, mDuration := stop - start, joName := asynqTaskName task,
            joConnection := aqcConnection config, joState := ''dispatched'', joArguments := asynqPayload task config,
            joCallsite := callsite, joError := errorString err\<rparr>;
          job = (case info of None \<Rightarrow> job
            | Some i \<Rightarrow> job\<lparr>joQueue := tiQueue i, joMaxAttempts := tiMaxRetry i + 1,
                joAvailableAt := tiNextProcessAt i, mTags := [(''asynq.task_id'', tiID i)]\<rparr>);
          job = (case err of None \<Rightarrow> job | Some e \<Rightarrow> job\<lparr>joState := ''failed''\<rparr>)
      in ((d, LogJobContext ctx job p), info, err))"

definition Enqueue :: "(goContext option \<Rightarrow> asynqTask option \<Rightarrow> ('d, 'w, 'x, taskInfo option \<times> string option) action) \<Rightarrow>
    asynqConfig \<Rightarrow> asynqTask option \<Rightarrow> ('d, 'w, 'x, taskInfo option \<times> string option) action" where
  "Enqueue inner config task = EnqueueContext inner config (Some Background) task"

text \<open>What \<open>asynq\<close> keeps in the context of a worker; zero values outside of one.\<close>

record workerMeta =
  wmQueue :: string
  wmRetryCount :: int
  wmMaxRetry :: int
  wmTaskID :: string

definition asynqMiddleware :: "bool \<Rightarrow> (goContext option \<Rightarrow> workerMeta) \<Rightarrow> asynqConfig \<Rightarrow>
    (goContext option \<Rightarrow> asynqTask option \<Rightarrow> ('d, 'w, 'x, unit callOutcome) action) \<Rightarrow>
    goContext option \<Rightarrow> asynqTask option \<Rightarrow> ('d, 'w, 'x, unit callOutcome) action" where
  "asynqMiddleware has meta config handle ctx task s =
     (if \<not> has then handle ctx task s
      else
        let (d, p) = s; (p, start) = clock_now p; (p, callsite) = CaptureCallsite KindJob p;
            ((d, p), outcome) = handle ctx task (d, p)
        in case outcome of
             Panicked e \<Rightarrow> ((d, p), outcome)
           | Finished u err \<Rightarrow>
               let m = meta ctx; (p, stop) = clock_now p;
                   job = zeroJob\<lparr>mStartedAt := start, mDuration := stop - start, joName := asynqTaskName task,
                     joQueue := wmQueue m, joConnection := aqcConnection config,
                     joState := (case err of None \<Rightarrow> ''succeeded'' | Some e \<Rightarrow> ''failed''),
                     joAttempt := wmRetryCount m + 1, joMaxAttempts := wmMaxRetry m + 1,
                     joArguments := asynqPayload task config, joCallsite := callsite, joError := errorString err\<rparr>;
                   job = (if wmTaskID m \<noteq> [] then job\<lparr>mTags := [(''asynq.task_id'', wmTaskID m)]\<rparr> else job)
               in ((d, LogJobContext ctx job p), outcome))"

subsection \<open>Kafka\<close>

record kafkaConfig =
  kcConnection :: string
  kcTopic :: string
  kcGroupID :: string
  kcCaptureValue :: bool
  kcValueLimit :: int

record kafkaMessage =
  kmTopic :: string
  kmPartition :: int
  kmOffset :: int
  kmKey :: string
  kmValue :: string

definition messageArguments :: "kafkaMessage \<Rightarrow> kafkaConfig \<Rightarrow> Argument list" where
  "messageArguments m config =
     (let arguments = (if kmKey m \<noteq> []
            then [\<lparr>arName = ''key'', arType = ''bytes'', arValue = [], arSize = int (length (kmKey m)), arTruncated = False\<rparr>]
            else [])
      in if kmValue m = [] then arguments
         else arguments @ [capture_payload ''value'' (kcCaptureValue config) (kcValueLimit config) (kmValue m)])"

definition messageJob :: "kafkaMessage \<Rightarrow> kafkaConfig \<Rightarrow> string \<Rightarrow> instant \<Rightarrow> duration \<Rightarrow> SourceFrame list \<Rightarrow> string option \<Rightarrow> Job" where
  "messageJob m config state start elapsed callsite err =
     (let topic = (if kmTopic m = [] then kcTopic config else kmTopic m);
          ts = [(''messaging.system'', ''kafka''), (''messaging.topic'', topic),
            (''messaging.partition'', show_int (kmPartition m)), (''messaging.offset'', show_int (kmOffset m))];
          ts = (if kcGroupID config \<noteq> [] then map_put ''messaging.consumer_group'' (kcGroupID config) ts else ts)
      in zeroJob\<lparr>mStartedAt := start, mDuration := elapsed, mTags := ts, joName := topic, joQueue := topic,
           joConnection := kcConnection config, joState := state, joArguments := messageArguments m config,
           joCallsite := callsite, joError := errorString err\<rparr>)"

text \<open>The clock is read for every message of a batch.\<close>

fun log_messages :: "goContext option \<Rightarrow> kafkaConfig \<Rightarrow> instant \<Rightarrow> SourceFrame list \<Rightarrow> string option \<Rightarrow> kafkaMessage list \<Rightarrow>
    ('w, 'x) Profiler \<Rightarrow> ('w, 'x) Profiler" where
  "log_messages ctx config start callsite err [] p = p"
| "log_messages ctx config start callsite err (m # ms) p =
     (let (p, stop) = clock_now p
      in log_messages ctx config start callsite err ms
           (LogJobContext ctx (messageJob m config ''dispatched'' start (stop - start) callsite err) p))"

definition WriteMessages :: "(goContext option \<Rightarrow> kafkaMessage list \<Rightarrow> ('d, 'w, 'x, string option) action) \<Rightarrow>
    kafkaConfig \<Rightarrow> goContext option \<Rightarrow> kafkaMessage list \<Rightarrow> ('d, 'w, 'x, string option) action" where
  "WriteMessages inner config ctx messages s =
     (let (d, p) = s; (p, start) = clock_now p; (p, callsite) = CaptureCallsite KindJob p;
          ((d, p), err) = inner ctx messages (d, p)
      in ((d, log_messages ctx config start callsite err messages p), err))"

definition ReadMessage :: "(goContext option \<Rightarrow> ('d, 'w, 'x, kafkaMessage \<times> string option) action) \<Rightarrow>
    kafkaConfig \<Rightarrow> goContext option \<Rightarrow> ('d, 'w, 'x, kafkaMessage \<times> string option) action" where
  "ReadMessage inner config ctx s =
     (let (d, p) = s; (p, start) = clock_now p;
          ((d, p), message, err) = inner ctx (d, p);
          state = (case err of None \<Rightarrow> ''received'' | Some e \<Rightarrow> ''failed'');
          (p, stop) = clock_now p
      in ((d, LogJobContext ctx (messageJob message config state start (stop - start) [] err) p), message, err))"

subsection \<open>NATS\<close>

record natsConfig =
  ncConnection :: string
  ncCapturePayload :: bool
  ncPayloadLimit :: int

record natsMsg =
  nmSubject :: string
  nmData :: string

definition payloadArgument :: "string \<Rightarrow> bool \<Rightarrow> int \<Rightarrow> Argument list" where
  "payloadArgument payload capture limit =
     (if payload = [] then [] else [capture_payload ''payload'' capture limit payload])"

text \<open>\<open>record\<close>; \<open>has\<close> tells whether the client has a profiler.\<close>

definition natsRecord :: "bool \<Rightarrow> natsConfig \<Rightarrow> goContext option \<Rightarrow> string \<Rightarrow> string \<Rightarrow> string \<Rightarrow> string \<Rightarrow>
    instant \<Rightarrow> SourceFrame list \<Rightarrow> string option \<Rightarrow> ('w, 'x) Profiler \<Rightarrow> ('w, 'x) Profiler" where
  "natsRecord has config ctx subject queue state payload start callsite err p =
     (if \<not> has then p
      else
        let state = (case err of None \<Rightarrow> state | Some e \<Rightarrow> ''failed''); (p, stop) = clock_now p
        in LogJobContext ctx (zeroJob\<lparr>mStartedAt := start, mDuration := stop - start,
             mTags := [(''messaging.system'', ''nats''), (''messaging.subject'', subject)], joName := subject,
             joQueue := queue, joConnection := ncConnection config, joState := state,
             joArguments := payloadArgument payload (ncCapturePayload config) (ncPayloadLimit config),
             joCallsite := callsite, joError := errorString err\<rparr>) p)"

definition nats_callsite :: "bool \<Rightarrow> ('w, 'x) Profiler \<Rightarrow> ('w, 'x) Profiler \<times> SourceFrame list" where
  "nats_callsite has p = (if has then CaptureCallsite KindJob p else (p, []))"

definition PublishContext :: "(string \<Rightarrow> string \<Rightarrow> ('d, 'w, 'x, string option) action) \<Rightarrow> bool \<Rightarrow> natsConfig \<Rightarrow>
    goContext option \<Rightarrow> string \<Rightarrow> string \<Rightarrow> ('d, 'w, 'x, string option) action" where
  "PublishContext inner has config ctx subject payload s =
     (let (d, p) = s; (p, start) = clock_now p; (p, callsite) = nats_callsite has p;
          ((d, p), err) = inner subject payload (d, p)
      in ((d, natsRecord has config ctx subject [] ''dispatched'' payload start callsite err p), err))"

definition natsPublish :: "(string \<Rightarrow> string \<Rightarrow> ('d, 'w, 'x, string option) action) \<Rightarrow> bool \<Rightarrow> natsConfig \<Rightarrow>
    string \<Rightarrow> string \<Rightarrow> ('d, 'w, 'x, string option) action" where
  "natsPublish inner has config subject payload = PublishContext inner has config (Some Background) subject payload"

definition PublishMsg :: "(natsMsg option \<Rightarrow> ('d, 'w, 'x, string option) action) \<Rightarrow> bool \<Rightarrow> natsConfig \<Rightarrow>
    natsMsg option \<Rightarrow> ('d, 'w, 'x, string option) action" where
  "PublishMsg inner has config message s =
     (let (d, p) = s; (p, start) = clock_now p; (p, callsite) = nats_callsite has p;
          ((d, p), err) = inner message (d, p)
      in case message of
           None \<Rightarrow> ((d, natsRecord has config (Some Background) [] [] ''failed'' [] start callsite err p), err)
         | Some m \<Rightarrow>
             ((d, natsRecord has config (Some Background) (nmSubject m) [] ''dispatched'' (nmData m) start callsite err p), err))"

text \<open>A handler returns or panics; \<open>nil_panic\<close> is what a call of a nil handler raises.\<close>

definition wrapHandler :: "natsConfig \<Rightarrow> recoveredPanic \<Rightarrow> string \<Rightarrow> string \<Rightarrow>
    (natsMsg option \<Rightarrow> ('d, 'w, 'x, recoveredPanic option) action) option \<Rightarrow>
    natsMsg option \<Rightarrow> ('d, 'w, 'x, recoveredPanic option) action" where
  "wrapHandler config nil_panic subject queue handle message s =
     (let (d, p) = s; (p, start) = clock_now p;
          payload = (case message of None \<Rightarrow> [] | Some m \<Rightarrow> nmData m);
          actualSubject = (case message of None \<Rightarrow> subject | Some m \<Rightarrow> if nmSubject m \<noteq> [] then nmSubject m else subject);
          ((d, p), failure) = (case handle of None \<Rightarrow> ((d, p), Some nil_panic) | Some h \<Rightarrow> h message (d, p))
      in case failure of
           Some e \<Rightarrow> ((d, natsRecord True config (Some Background) actualSubject queue ''failed'' payload start []
               (Some (''panic: '' @ paText e)) p), failure)
         | None \<Rightarrow> ((d, natsRecord True config (Some Background) actualSubject queue ''succeeded'' payload start [] None p), failure))"

text \<open>The handler that reaches \<open>Subscribe\<close> and \<open>QueueSubscribe\<close> of the wrapped client.\<close>

definition subscribed_handler :: "bool \<Rightarrow> natsConfig \<Rightarrow> recoveredPanic \<Rightarrow> string \<Rightarrow> string \<Rightarrow>
    (natsMsg option \<Rightarrow> ('d, 'w, 'x, recoveredPanic option) action) option \<Rightarrow>
    (natsMsg option \<Rightarrow> ('d, 'w, 'x, recoveredPanic option) action) option" where
  "subscribed_handler has config nil_panic subject queue handle =
     (if \<not> has then handle else Some (wrapHandler config nil_panic subject queue handle))"

subsection \<open>Redis\<close>

datatype redisError = RedisNil | RedisError string

datatype redisArg = RedisStr string | RedisOther

record redisCommand =
  rdName :: string
  rdArgs :: "redisArg list"

definition redisCommandKey :: "redisCommand \<Rightarrow> string" where
  "redisCommandKey command =
     (case rdArgs command of a # RedisStr key # as \<Rightarrow> key | _ \<Rightarrow> [])"

definition redisRecord :: "string \<Rightarrow> goContext option \<Rightarrow> instant \<Rightarrow> redisCommand \<Rightarrow> redisError option \<Rightarrow>
    ('w, 'x) Profiler \<Rightarrow> ('w, 'x) Profiler" where
  "redisRecord store ctx start command err p =
     (let (p, stop) = clock_now p;
          event = zeroCache\<lparr>mStartedAt := start, mDuration := stop - start, caStore := store,
            caOperation := to_lower (rdName command), caKey := redisCommandKey command, caHit := (err = None)\<rparr>;
          event = (case err of Some (RedisError e) \<Rightarrow> event\<lparr>caError := e\<rparr> | _ \<Rightarrow> event)
      in LogCacheContext ctx event p)"

definition ProcessHook :: "(goContext option \<Rightarrow> redisCommand \<Rightarrow> ('d, 'w, 'x, redisError option) action) \<Rightarrow> string \<Rightarrow>
    goContext option \<Rightarrow> redisCommand \<Rightarrow> ('d, 'w, 'x, redisError option) action" where
  "ProcessHook follow store ctx command s =
     (let (d, p) = s; (p, start) = clock_now p; ((d, p), err) = follow ctx command (d, p)
      in ((d, redisRecord store ctx start command err p), err))"

text \<open>A pipeline; \<open>err_of\<close> reads the error a command carries after it ran.\<close>

definition ProcessPipelineHook :: "('d \<Rightarrow> nat \<Rightarrow> redisError option) \<Rightarrow>
    (goContext option \<Rightarrow> redisCommand list \<Rightarrow> ('d, 'w, 'x, redisError option) action) \<Rightarrow> string \<Rightarrow>
    goContext option \<Rightarrow> redisCommand list \<Rightarrow> ('d, 'w, 'x, redisError option) action" where
  "ProcessPipelineHook err_of follow store ctx commands s =
     (let (d, p) = s; (p, start) = clock_now p; ((d, p), err) = follow ctx commands (d, p)
      in ((d, fold (\<lambda>(i, command) p. redisRecord store ctx start command (err_of d i) p)
             (enumerate 0 commands) p), err))"

text \<open>\<open>Profile\<close> adds the hook to a client once per profiler; the hooks of the clients are counted.\<close>

definition redisProfile :: "('k \<Rightarrow> bool) \<Rightarrow> scope \<Rightarrow> 'k option \<Rightarrow> ((string \<times> 'k option) \<times> unit) list \<times> ('k \<Rightarrow> nat) \<Rightarrow>
    ((string \<times> 'k option) \<times> unit) list \<times> ('k \<Rightarrow> nat)" where
  "redisProfile comparable sc client s =
     (let (m, hooks) = s in
      if \<not> soProfiler sc then s
      else case client of
        None \<Rightarrow> s
      | Some k \<Rightarrow>
          (case LoadOrStore comparable sc client () m of
             (m, _, True) \<Rightarrow> (m, hooks)
           | (m, _, False) \<Rightarrow> (m, hooks(k := hooks k + 1))))"

end
