(* ===== verification/IntegrationProps.thy ===== *)
theory IntegrationProps
  imports Integrations Recording
begin

text \<open>
  The contract of the integrations that wrap one call: the application sees the wrapped function
  unchanged, and the profiler keeps every invariant of recording.  The locale \<open>call_wrapper\<close>
  states it for any wrapper and lifts it to programs of calls; it is interpreted on each of them.
\<close>

subsection \<open>Actions\<close>

text \<open>The application's part of an action is \<open>g\<close>, whatever the profiler holds.\<close>

definition acts_like :: "('d, 'w, 'x, 'r) action \<Rightarrow> ('d \<Rightarrow> 'd \<times> 'r) \<Rightarrow> bool" where
  "acts_like f g \<longleftrightarrow> (\<forall>d p. fst (fst (f (d, p))) = fst (g d) \<and> snd (f (d, p)) = snd (g d))"

definition keeps :: "(('w, 'x) Profiler \<Rightarrow> bool) \<Rightarrow> ('d, 'w, 'x, 'r) action \<Rightarrow> bool" where
  "keeps P f \<longleftrightarrow> (\<forall>d p. P p \<longrightarrow> P (snd (fst (f (d, p)))))"

lemma acts_likeE:
  assumes "acts_like f g"
  obtains p' where "f (d, p) = ((fst (g d), p'), snd (g d))"
  using assms unfolding acts_like_def by (metis prod.collapse)

lemma keepsD: "keeps P f \<Longrightarrow> P p \<Longrightarrow> f (d, p) = ((d', p'), r) \<Longrightarrow> P p'"
  unfolding keeps_def by (metis fst_conv snd_conv)

text \<open>\<open>n\<close> calls, each chosen from the answers so far.\<close>

fun call_run :: "('i \<Rightarrow> 's \<Rightarrow> 's \<times> 'r) \<Rightarrow> ('r list \<Rightarrow> 'i) \<Rightarrow> nat \<Rightarrow> 's \<times> 'r list \<Rightarrow> 's \<times> 'r list" where
  "call_run f pick 0 (s, rs) = (s, rs)"
| "call_run f pick (Suc n) (s, rs) = (case f (pick rs) s of (s, r) \<Rightarrow> call_run f pick n (s, rs @ [r]))"

locale call_wrapper =
  fixes wrap :: "(goContext option \<Rightarrow> 'i \<Rightarrow> ('d, 'w, 'x, 'r) action) \<Rightarrow> goContext option \<Rightarrow> 'i \<Rightarrow> ('d, 'w, 'x, 'r) action"
  assumes acts: "(\<And>c i. acts_like (f c i) (g i)) \<Longrightarrow> acts_like (wrap f c i) (g i)"
    and keeps_inv: "recording_invariant P \<Longrightarrow> (\<And>c i. keeps P (f c i)) \<Longrightarrow> keeps P (wrap f c i)"
begin

lemma run_as:
  assumes "\<And>c i. acts_like (f c i) (g i)"
  shows "map_prod fst id (call_run (\<lambda>(c, i). wrap f c i) pick n ((d, p), rs)) =
    call_run g (\<lambda>rs. snd (pick rs)) n (d, rs)"
proof (induction n arbitrary: d p rs)
  case (Suc n)
  obtain c i where ci: "pick rs = (c, i)" by force
  obtain d' r where g: "g i d = (d', r)" by force
  have "acts_like (wrap f c i) (g i)" by (rule acts [OF assms])
  from acts_likeE [OF this, of d p] obtain p' where "wrap f c i (d, p) = ((d', p'), r)"
    using g by (metis fst_conv snd_conv)
  then show ?case using Suc [of d' p' "rs @ [r]"] by (simp add: ci g)
qed simp

lemma run_keeps:
  assumes "recording_invariant P" "\<And>c i. keeps P (f c i)" "P p"
  shows "P (snd (fst (call_run (\<lambda>(c, i). wrap f c i) pick n ((d, p), rs))))"
  using assms(3)
proof (induction n arbitrary: d p rs)
  case (Suc n)
  obtain c i where ci: "pick rs = (c, i)" by force
  obtain d' p' r where w: "wrap f c i (d, p) = ((d', p'), r)" by (metis prod.collapse)
  have "P p'" by (rule keepsD [OF keeps_inv [OF assms(1,2)] Suc.prems w])
  then show ?case using Suc.IH [of p' d' "rs @ [r]"] by (simp add: ci w)
qed simp

end

subsection \<open>The wrappers\<close>

text \<open>The parts every wrapper is made of.\<close>

named_theorems sources

lemma sources_keep [sources]:
  "recording_invariant P \<Longrightarrow> P p \<Longrightarrow> P (fst (newID p))" "recording_invariant P \<Longrightarrow> P p \<Longrightarrow> P (fst (clock_now p))"
  "recording_invariant P \<Longrightarrow> P p \<Longrightarrow> P (fst (CaptureCallsite k p))"
  by (blast intro: recording_invariant.idle_step idle_sources)+

lemma nats_callsite_keeps [sources]: "recording_invariant P \<Longrightarrow> P p \<Longrightarrow> P (fst (nats_callsite has p))"
  by (simp add: nats_callsite_def sources_keep)

lemma log_messages_keeps [sources]:
  "recording_invariant P \<Longrightarrow> P p \<Longrightarrow> P (log_messages ctx config start callsite err ms p)"
proof (induction ms arbitrary: p)
  case (Cons m ms)
  then show ?case by (simp add: case_prod_beta sources_keep recording_invariant.log_context_keeps)
qed simp

lemma fold_keeps [sources]: "(\<And>x p. P p \<Longrightarrow> P (f x p)) \<Longrightarrow> P p \<Longrightarrow> P (fold f xs p)"
  by (induction xs arbitrary: p) simp_all

lemma redis_keeps [sources]: "recording_invariant P \<Longrightarrow> P p \<Longrightarrow> P (redisRecord store ctx start command err p)"
  by (simp add: redisRecord_def Let_def case_prod_beta sources_keep recording_invariant.log_context_keeps)

lemma nats_keeps [sources]:
  "recording_invariant P \<Longrightarrow> P p \<Longrightarrow> P (natsRecord has config ctx subject queue state payload start callsite err p)"
  by (simp add: natsRecord_def Let_def case_prod_beta sources_keep recording_invariant.log_context_keeps)

lemmas wrapper_defs = acts_like_def keeps_def Let_def case_prod_beta

interpretation command: call_wrapper "\<lambda>f c (i :: unit). callableProfile name (\<lambda>c. f c i) c"
  by unfold_locales
    (simp_all add: wrapper_defs callableProfile_def sources recording_invariant.log_context_keeps split: option.split callOutcome.split prod.split)

interpretation scheduled: call_wrapper "\<lambda>f c (i :: unit). scheduleProfile name (\<lambda>c. f c i) c"
  by unfold_locales
    (simp_all add: wrapper_defs scheduleProfile_def sources recording_invariant.log_context_keeps split: option.split callOutcome.split prod.split)

interpretation mail: call_wrapper "\<lambda>f c i. DialAndSendWithContext f read c i"
  by unfold_locales
    (simp_all add: wrapper_defs DialAndSendWithContext_def sources recording_invariant.log_context_keeps split: option.split callOutcome.split prod.split)

interpretation enqueue: call_wrapper "\<lambda>f c i. EnqueueContext f config c i"
  by unfold_locales
    (simp_all add: wrapper_defs EnqueueContext_def sources recording_invariant.log_context_keeps split: option.split callOutcome.split prod.split)

interpretation worker: call_wrapper "\<lambda>f c i. asynqMiddleware has meta config f c i"
  by unfold_locales
    (simp_all add: wrapper_defs asynqMiddleware_def sources recording_invariant.log_context_keeps split: option.split callOutcome.split prod.split)

interpretation kafka_writer: call_wrapper "\<lambda>f c i. WriteMessages f config c i"
  by unfold_locales
    (simp_all add: wrapper_defs WriteMessages_def sources recording_invariant.log_context_keeps split: option.split callOutcome.split prod.split)

interpretation kafka_reader: call_wrapper "\<lambda>f c (i :: unit). ReadMessage (\<lambda>c. f c i) config c"
  by unfold_locales
    (simp_all add: wrapper_defs ReadMessage_def sources recording_invariant.log_context_keeps split: option.split callOutcome.split prod.split)

interpretation nats_publisher: call_wrapper "\<lambda>f c i. case i of (subject, payload) \<Rightarrow> PublishContext (\<lambda>subject payload. f None (subject, payload)) has config c subject payload"
  by unfold_locales
    (simp_all add: wrapper_defs PublishContext_def sources recording_invariant.log_context_keeps split: option.split callOutcome.split prod.split)

interpretation nats_message: call_wrapper "\<lambda>f c i. PublishMsg (f None) has config i"
  by unfold_locales
    (simp_all add: wrapper_defs PublishMsg_def sources recording_invariant.log_context_keeps split: option.split callOutcome.split prod.split)

interpretation nats_handler: call_wrapper "\<lambda>f c i. wrapHandler config e subject queue (Some (f None)) i"
  by unfold_locales
    (simp_all add: wrapper_defs wrapHandler_def sources recording_invariant.log_context_keeps split: option.split callOutcome.split prod.split)

interpretation redis_command: call_wrapper "\<lambda>f c i. ProcessHook f store c i"
  by unfold_locales
    (simp_all add: wrapper_defs ProcessHook_def sources recording_invariant.log_context_keeps split: option.split callOutcome.split prod.split)

interpretation redis_pipeline: call_wrapper "\<lambda>f c i. ProcessPipelineHook err_of f store c i"
  by unfold_locales
    (simp_all add: wrapper_defs ProcessPipelineHook_def sources recording_invariant.log_context_keeps split: option.split callOutcome.split prod.split)

end
