(* ===== verification/CacheIntegration.thy ===== *)
theory CacheIntegration
  imports Integrations
begin

text \<open>
  The wrapper of a \<open>go-cache\<close> (\<open>profiler/gocache\<close>).  The operations of the cache contract are a
  datatype of calls, those of a lock another; a driver answers a call.  Values are of type \<open>'v\<close>,
  \<open>None\<close> being nil, callbacks of type \<open>'k\<close>.
\<close>

datatype ('v, 'k) cacheCall =
    CacheAdd string "'v option" duration
  | CacheDecrement string "int list"
  | CacheForever string "'v option"
  | CacheForget string
  | CacheFlush
  | CacheGet string "'v option list"
  | CacheGetBool string "bool list"
  | CacheGetInt string "int list"
  | CacheGetInt64 string "int list"
  | CacheGetString string "string list"
  | CacheHas string
  | CacheIncrement string "int list"
  | CachePut string "'v option" duration
  | CachePull string "'v option list"
  | CacheRemember string duration 'k
  | CacheRememberForever string 'k

datatype 'v cacheAnswer =
    AnsBool bool
  | AnsInt int
  | AnsString string
  | AnsValue "'v option"
  | AnsError "string option"
  | AnsIntError int "string option"
  | AnsValueError "'v option" "string option"

type_synonym ('v, 'k, 'd, 'w, 'x) cacheDriver = "('v, 'k) cacheCall \<Rightarrow> ('d, 'w, 'x, 'v cacheAnswer) action"

definition ans_bool :: "'v cacheAnswer \<Rightarrow> bool" where
  "ans_bool a = (case a of AnsBool b \<Rightarrow> b | _ \<Rightarrow> False)"

definition ans_error :: "'v cacheAnswer \<Rightarrow> string option" where
  "ans_error a = (case a of AnsError e \<Rightarrow> e | AnsIntError n e \<Rightarrow> e | AnsValueError v e \<Rightarrow> e | _ \<Rightarrow> None)"

definition ans_value :: "'v cacheAnswer \<Rightarrow> 'v option" where
  "ans_value a = (case a of AnsValue v \<Rightarrow> v | AnsValueError v e \<Rightarrow> v | _ \<Rightarrow> None)"

text \<open>The wrapped cache: its store label and the context it was derived with.\<close>

record profiledCache =
  pcStore :: string
  pcCtx :: "goContext option"

text \<open>\<open>record\<close>\<close>

definition cacheRecord :: "profiledCache \<Rightarrow> instant \<Rightarrow> string \<Rightarrow> string \<Rightarrow> bool \<Rightarrow> duration \<Rightarrow> string option \<Rightarrow>
    ('w, 'x) Profiler \<Rightarrow> ('w, 'x) Profiler" where
  "cacheRecord c start operation key hit ttl err p =
     (let (p, stop) = clock_now p;
          event = zeroCache\<lparr>mStartedAt := start, mDuration := stop - start, caStore := pcStore c,
            caOperation := operation, caKey := key, caHit := hit, caTTL := ttl\<rparr>;
          event = (case err of None \<Rightarrow> event | Some e \<Rightarrow> event\<lparr>caError := e\<rparr>)
      in LogCacheContext (pcCtx c) event p)"

text \<open>An operation whose own answer tells whether it hit, and one that asks \<open>Has\<close> first.\<close>

definition cache_timed :: "profiledCache \<Rightarrow> string \<Rightarrow> string \<Rightarrow> duration \<Rightarrow> ('v cacheAnswer \<Rightarrow> bool) \<Rightarrow>
    ('d, 'w, 'x, 'v cacheAnswer) action \<Rightarrow> ('d, 'w, 'x, 'v cacheAnswer) action" where
  "cache_timed c operation key ttl hit inner s =
     (let (d, p) = s; (p, start) = clock_now p; ((d, p), answer) = inner (d, p)
      in ((d, cacheRecord c start operation key (hit answer) ttl (ans_error answer) p), answer))"

definition cache_asked :: "('v, 'k, 'd, 'w, 'x) cacheDriver \<Rightarrow> profiledCache \<Rightarrow> string \<Rightarrow> string \<Rightarrow> duration \<Rightarrow>
    ('v, 'k) cacheCall \<Rightarrow> ('d, 'w, 'x, 'v cacheAnswer) action" where
  "cache_asked inner c operation key ttl call s =
     (let (d, p) = s; (p, start) = clock_now p; ((d, p), found) = inner (CacheHas key) (d, p);
          ((d, p), answer) = inner call (d, p)
      in ((d, cacheRecord c start operation key (ans_bool found) ttl (ans_error answer) p), answer))"

fun cacheOp :: "('v, 'k, 'd, 'w, 'x) cacheDriver \<Rightarrow> profiledCache \<Rightarrow> ('v, 'k, 'd, 'w, 'x) cacheDriver" where
  "cacheOp inner c (CacheAdd key v ttl) = cache_timed c ''add'' key ttl ans_bool (inner (CacheAdd key v ttl))"
| "cacheOp inner c (CacheDecrement key n) =
     cache_timed c ''decrement'' key 0 (\<lambda>a. ans_error a = None) (inner (CacheDecrement key n))"
| "cacheOp inner c (CacheForever key v) = cache_timed c ''forever'' key 0 ans_bool (inner (CacheForever key v))"
| "cacheOp inner c (CacheForget key) = cache_timed c ''forget'' key 0 ans_bool (inner (CacheForget key))"
| "cacheOp inner c CacheFlush = cache_timed c ''flush'' [] 0 ans_bool (inner CacheFlush)"
| "cacheOp inner c (CacheGet key def) =
     cache_timed c ''get'' key 0 (\<lambda>a. ans_value a \<noteq> None) (inner (CacheGet key def))"
| "cacheOp inner c (CacheGetBool key def) = cache_asked inner c ''get_bool'' key 0 (CacheGetBool key def)"
| "cacheOp inner c (CacheGetInt key def) = cache_asked inner c ''get_int'' key 0 (CacheGetInt key def)"
| "cacheOp inner c (CacheGetInt64 key def) = cache_asked inner c ''get_int64'' key 0 (CacheGetInt64 key def)"
| "cacheOp inner c (CacheGetString key def) = cache_asked inner c ''get_string'' key 0 (CacheGetString key def)"
| "cacheOp inner c (CacheHas key) = cache_timed c ''has'' key 0 ans_bool (inner (CacheHas key))"
| "cacheOp inner c (CacheIncrement key n) =
     cache_timed c ''increment'' key 0 (\<lambda>a. ans_error a = None) (inner (CacheIncrement key n))"
| "cacheOp inner c (CachePut key v ttl) =
     cache_timed c ''put'' key ttl (\<lambda>a. ans_error a = None) (inner (CachePut key v ttl))"
| "cacheOp inner c (CachePull key def) = cache_asked inner c ''pull'' key 0 (CachePull key def)"
| "cacheOp inner c (CacheRemember key ttl callback) =
     cache_asked inner c ''remember'' key ttl (CacheRemember key ttl callback)"
| "cacheOp inner c (CacheRememberForever key callback) =
     cache_asked inner c ''remember_forever'' key 0 (CacheRememberForever key callback)"

definition cacheWithContext :: "goContext option \<Rightarrow> profiledCache \<Rightarrow> profiledCache" where
  "cacheWithContext ctx c = c\<lparr>pcCtx := ctx\<rparr>"

definition newProfiledCache :: "string list \<Rightarrow> profiledCache" where
  "newProfiledCache stores =
     \<lparr>pcStore = (case stores of store # _ \<Rightarrow> if store \<noteq> [] then store else ''default'' | [] \<Rightarrow> ''default''),
      pcCtx = Some Background\<rparr>"

datatype lockCall = LockBlock duration | LockGet | LockRelease | LockForceRelease

text \<open>The lock of a key; its operations are recorded in the cache's context.\<close>

fun lockOp :: "(lockCall \<Rightarrow> ('d, 'w, 'x, bool) action) \<Rightarrow> profiledCache \<Rightarrow> string \<Rightarrow> lockCall \<Rightarrow> ('d, 'w, 'x, bool) action" where
  "lockOp inner c key call s =
     (let (d, p) = s; (p, start) = clock_now p; ((d, p), ok) = inner call (d, p);
          (operation, ttl) = (case call of LockBlock ttl \<Rightarrow> (''lock_block'', ttl) | LockGet \<Rightarrow> (''lock_get'', 0)
            | LockRelease \<Rightarrow> (''lock_release'', 0) | LockForceRelease \<Rightarrow> (''lock_force_release'', 0))
      in ((d, cacheRecord c start operation key ok ttl None p), ok))"

end
