(* ===== verification/QueueIntegration.thy ===== *)
theory QueueIntegration
  imports Integrations Snapshots
begin

text \<open>
  The wrapper of a \<open>go-queue\<close> (\<open>profiler/goqueue\<close>).  Wrapped jobs are shared by reference: the
  queue, its tasks and the application hold pointers to the same wrapper, and a task writes the
  queue and the connection it is sent to into it.  So wrappers live in a heap, a list that only
  grows, and a reference is a number.  The heap is part of the state the library acts on, for a
  synchronous dispatch runs the jobs.
\<close>

record 'j jobWrapper =
  jwInner :: 'j
  jwQueue :: string
  jwConnection :: string

type_synonym ('j, 'd, 'w, 'x, 'r) queueAction = "('j jobWrapper list \<times> 'd, 'w, 'x, 'r) action"

text \<open>A job of the application: one of its own or a wrapper of this profiler.\<close>

datatype 'j jobRef = PlainJob 'j | WrappedJob nat

definition profileQueueJob :: "'j jobRef \<Rightarrow> string \<Rightarrow> 'j jobWrapper list \<Rightarrow> 'j jobWrapper list \<times> nat" where
  "profileQueueJob job queue heap =
     (case job of
        WrappedJob n \<Rightarrow>
          (if queue = [] \<or> jwQueue (heap ! n) = queue then (heap, n)
           else (heap @ [\<lparr>jwInner = jwInner (heap ! n), jwQueue = queue, jwConnection = jwConnection (heap ! n)\<rparr>],
                 length heap))
      | PlainJob j \<Rightarrow> (heap @ [\<lparr>jwInner = j, jwQueue = queue, jwConnection = []\<rparr>], length heap))"

text \<open>One job after the other, as \<open>Chain\<close>, \<open>Register\<close> and \<open>ProfilerJobs\<close> do.\<close>

fun profileJobs :: "'j jobRef list \<Rightarrow> string \<Rightarrow> 'j jobWrapper list \<Rightarrow> 'j jobWrapper list \<times> nat list" where
  "profileJobs [] queue heap = (heap, [])"
| "profileJobs (job # jobs) queue heap =
     (case profileQueueJob job queue heap of
        (heap, n) \<Rightarrow> (case profileJobs jobs queue heap of (heap, ns) \<Rightarrow> (heap, n # ns)))"

definition registerJob :: "'j jobRef \<Rightarrow> string \<Rightarrow> 'j jobWrapper list \<Rightarrow> 'j jobWrapper list \<times> nat" where
  "registerJob job defaultQueue heap =
     (case job of WrappedJob n \<Rightarrow> (heap, n) | PlainJob j \<Rightarrow> profileQueueJob job defaultQueue heap)"

fun queueRegister :: "'j jobRef list \<Rightarrow> string \<Rightarrow> 'j jobWrapper list \<Rightarrow> 'j jobWrapper list \<times> nat list" where
  "queueRegister [] defaultQueue heap = (heap, [])"
| "queueRegister (job # jobs) defaultQueue heap =
     (case registerJob job defaultQueue heap of
        (heap, n) \<Rightarrow> (case queueRegister jobs defaultQueue heap of (heap, ns) \<Rightarrow> (heap, n # ns)))"

text \<open>An execution by a worker; \<open>signature\<close> and \<open>handle\<close> are the methods of the inner job.\<close>

definition jobHandle :: "('j \<Rightarrow> string) \<Rightarrow> ('j \<Rightarrow> 'a list \<Rightarrow> ('j, 'd, 'w, 'x, unit callOutcome) queueAction) \<Rightarrow>
    nat \<Rightarrow> 'a list \<Rightarrow> ('j, 'd, 'w, 'x, unit callOutcome) queueAction" where
  "jobHandle signature handle n args s =
     (let ((heap, d), p) = s; (p, start) = clock_now p;
          (((heap, d), p), outcome) = handle (jwInner (heap ! n)) args ((heap, d), p)
      in case outcome of
           Panicked e \<Rightarrow> (((heap, d), p), outcome)
         | Finished u err \<Rightarrow>
             let (p, stop) = clock_now p; j = heap ! n;
                 event = zeroJob\<lparr>mStartedAt := start, mDuration := stop - start, joName := signature (jwInner j),
                   joQueue := jwQueue j, joConnection := jwConnection j, joState := ''succeeded''\<rparr>;
                 event = (case err of None \<Rightarrow> event | Some e \<Rightarrow> event\<lparr>joState := ''failed'', joError := e\<rparr>)
             in (((heap, d), LogJobContext (Some Background) event p), outcome))"

definition jobNoRetry :: "('j \<Rightarrow> (string option \<Rightarrow> bool) option) \<Rightarrow> 'j jobWrapper \<Rightarrow> string option \<Rightarrow> bool" where
  "jobNoRetry noRetry j err = (case noRetry (jwInner j) of Some f \<Rightarrow> f err | None \<Rightarrow> False)"

subsection \<open>Tasks\<close>

text \<open>The task of the library is a value \<open>'t\<close> that its operations replace.\<close>

record 't queueTask =
  qtInner :: 't
  qtCtx :: "goContext option"
  qtJobs :: "nat list"
  qtArguments :: "Argument list list"
  qtAvailableAt :: instant

text \<open>Only the types of the arguments are kept.\<close>

definition queueArguments :: "string list \<Rightarrow> Argument list" where
  "queueArguments args = map (\<lambda>t. \<lparr>arName = [], arType = t, arValue = [], arSize = 0, arTruncated = False\<rparr>) args"

definition queueJob :: "(nat \<Rightarrow> string list \<Rightarrow> 't) \<Rightarrow> string \<Rightarrow> 'j jobRef \<Rightarrow> string list \<Rightarrow> 'j jobWrapper list \<Rightarrow>
    'j jobWrapper list \<times> 't queueTask" where
  "queueJob inner defaultQueue job args heap =
     (case profileQueueJob job defaultQueue heap of
        (heap, n) \<Rightarrow> (heap, \<lparr>qtInner = inner n args, qtCtx = None, qtJobs = [n],
          qtArguments = [queueArguments args], qtAvailableAt = 0\<rparr>))"

definition queueChain :: "((nat \<times> string list) list \<Rightarrow> 't) \<Rightarrow> string \<Rightarrow> ('j jobRef \<times> string list) list \<Rightarrow>
    'j jobWrapper list \<Rightarrow> 'j jobWrapper list \<times> 't queueTask" where
  "queueChain inner defaultQueue jobs heap =
     (case profileJobs (map fst jobs) defaultQueue heap of
        (heap, ns) \<Rightarrow> (heap, \<lparr>qtInner = inner (zip ns (map snd jobs)), qtCtx = None, qtJobs = ns,
          qtArguments = map (\<lambda>j. queueArguments (snd j)) jobs, qtAvailableAt = 0\<rparr>))"

definition taskWithContext :: "goContext option \<Rightarrow> 't queueTask \<Rightarrow> 't queueTask" where
  "taskWithContext ctx t = t\<lparr>qtCtx := ctx\<rparr>"

definition taskDelay :: "(instant \<Rightarrow> 't \<Rightarrow> 't) \<Rightarrow> instant \<Rightarrow> 't queueTask \<Rightarrow> 't queueTask" where
  "taskDelay delay at_time t = t\<lparr>qtAvailableAt := at_time, qtInner := delay at_time (qtInner t)\<rparr>"

definition set_jobs :: "('j jobWrapper \<Rightarrow> 'j jobWrapper) \<Rightarrow> nat list \<Rightarrow> 'j jobWrapper list \<Rightarrow> 'j jobWrapper list" where
  "set_jobs f ns heap = fold (\<lambda>n heap. heap[n := f (heap ! n)]) ns heap"

definition OnConnection :: "(string \<Rightarrow> 't \<Rightarrow> 't) \<Rightarrow> string \<Rightarrow> 'j jobWrapper list \<times> 't queueTask \<Rightarrow>
    'j jobWrapper list \<times> 't queueTask" where
  "OnConnection inner connection s =
     (let (heap, t) = s; t = t\<lparr>qtInner := inner connection (qtInner t)\<rparr>
      in (set_jobs (\<lambda>j. j\<lparr>jwConnection := connection\<rparr>) (qtJobs t) heap, t))"

definition OnQueue :: "(string \<Rightarrow> 't \<Rightarrow> 't) \<Rightarrow> string \<Rightarrow> 'j jobWrapper list \<times> 't queueTask \<Rightarrow>
    'j jobWrapper list \<times> 't queueTask" where
  "OnQueue inner queue s =
     (let (heap, t) = s; t = t\<lparr>qtInner := inner queue (qtInner t)\<rparr>
      in (set_jobs (\<lambda>j. j\<lparr>jwQueue := queue\<rparr>) (qtJobs t) heap, t))"

text \<open>\<open>Retries\<close> and \<open>RetryAfter\<close> only pass on.\<close>

definition taskRetries :: "('n \<Rightarrow> 't \<Rightarrow> 't) \<Rightarrow> 'n \<Rightarrow> 't queueTask \<Rightarrow> 't queueTask" where
  "taskRetries inner n t = t\<lparr>qtInner := inner n (qtInner t)\<rparr>"

text \<open>The loop of \<open>dispatch\<close> over the jobs; the clock is read for each.\<close>

fun log_dispatched :: "('j \<Rightarrow> string) \<Rightarrow> 't queueTask \<Rightarrow> instant \<Rightarrow> string \<Rightarrow> string option \<Rightarrow> 'j jobWrapper list \<Rightarrow>
    (nat \<times> Argument list) list \<Rightarrow> ('w, 'x) Profiler \<Rightarrow> ('w, 'x) Profiler" where
  "log_dispatched signature t start state err heap [] p = p"
| "log_dispatched signature t start state err heap ((n, arguments) # ns) p =
     (let (p, stop) = clock_now p; j = heap ! n;
          event = zeroJob\<lparr>mStartedAt := start, mDuration := stop - start, joName := signature (jwInner j),
            joQueue := jwQueue j, joConnection := jwConnection j, joState := state,
            joAvailableAt := qtAvailableAt t, joArguments := arguments\<rparr>;
          event = (case err of None \<Rightarrow> event | Some e \<Rightarrow> event\<lparr>joState := ''dispatch_failed'', joError := e\<rparr>)
      in log_dispatched signature t start state err heap ns (LogJobContext (qtCtx t) event p))"

definition taskSend :: "('j \<Rightarrow> string) \<Rightarrow> 't queueTask \<Rightarrow> string \<Rightarrow> ('j, 'd, 'w, 'x, string option) queueAction \<Rightarrow>
    ('j, 'd, 'w, 'x, string option) queueAction" where
  "taskSend signature t state send s =
     (let ((heap, d), p) = s; (p, start) = clock_now p; (((heap, d), p), err) = send ((heap, d), p)
      in (((heap, d), log_dispatched signature t start state err heap (zip (qtJobs t) (qtArguments t)) p), err))"

definition taskDispatch :: "('j \<Rightarrow> string) \<Rightarrow> ('t \<Rightarrow> ('j, 'd, 'w, 'x, string option) queueAction) \<Rightarrow> 't queueTask \<Rightarrow>
    ('j, 'd, 'w, 'x, string option) queueAction" where
  "taskDispatch signature inner t = taskSend signature t ''dispatched'' (inner (qtInner t))"

definition taskDispatchSync :: "('j \<Rightarrow> string) \<Rightarrow> ('t \<Rightarrow> ('j, 'd, 'w, 'x, string option) queueAction) \<Rightarrow> 't queueTask \<Rightarrow>
    ('j, 'd, 'w, 'x, string option) queueAction" where
  "taskDispatchSync signature inner t = taskSend signature t ''dispatched_sync'' (inner (qtInner t))"

subsection \<open>Statistics\<close>

text \<open>The statistics of the queue library and their copy for the dashboard.\<close>

record queueLibState =
  qlName :: string
  qlWorkersActive :: int
  qlWorkersTotal :: int
  qlProcessed :: nat
  qlSucceeded :: nat
  qlFailed :: nat
  qlPending :: int

record queueLibStats =
  qsStarted :: instant
  qsTotals :: queueLibState
  qsQueueStates :: "queueLibState list"

definition queue_state :: "queueLibState \<Rightarrow> QueueState" where
  "queue_state q = \<lparr>quName = qlName q, quWorkersActive = qlWorkersActive q, quWorkersTotal = qlWorkersTotal q,
     quProcessed = qlProcessed q, quSucceeded = qlSucceeded q, quFailed = qlFailed q, quPending = qlPending q\<rparr>"

definition goQueueStats :: "('w \<Rightarrow> queueLibStats \<times> string option) \<Rightarrow> 'w QueueStatsSource" where
  "goQueueStats reader ctx =
     (let (stats, err) = reader ctx; t = qsTotals stats
      in (\<lparr>qsSource = [], qsRecordedAt = 0, qsStartedAt = qsStarted stats, qsWorkersActive = qlWorkersActive t,
           qsWorkersTotal = qlWorkersTotal t, qsProcessed = qlProcessed t, qsSucceeded = qlSucceeded t,
           qsFailed = qlFailed t, qsPending = qlPending t, qsQueues = map queue_state (qsQueueStates stats),
           qsError = []\<rparr>, err))"

text \<open>Wrapping a queue registers its statistics where it has any.\<close>

definition queueProfile :: "('w \<Rightarrow> queueLibStats \<times> string option) option \<Rightarrow>
    (string \<times> 'w QueueStatsSource) list \<Rightarrow> (string \<times> 'w QueueStatsSource) list" where
  "queueProfile reader sources =
     (case reader of None \<Rightarrow> sources
      | Some f \<Rightarrow> RegisterQueueStats (Some (goQueueStats f)) [''go-queue''] sources)"

end
