(* ===== verification/LogIntegrations.thy ===== *)
theory LogIntegrations
  imports Integrations
begin

text \<open>
  The handlers of structured logging: \<open>log/slog\<close> (\<open>profiler/slog\<close>), zap (\<open>profiler/zap\<close>) and
  zerolog (\<open>profiler/zerolog\<close>).

  A value of \<open>slog\<close> after \<open>Resolve\<close> is a group or something else, of which is kept whether it is
  an error and what the JSON encoder makes of it.  The captured fields are nested maps; a map in
  them is only ever one the handler made for a group.
\<close>

datatype slogValue = SlogNil | SlogAny anyval | SlogErr string | SlogGroup "(string \<times> slogValue) list"
  | SlogValuer slogValue

datatype fieldTree = FieldLeaf anyval | FieldMap "(string \<times> fieldTree) list"

text \<open>\<open>Resolve\<close> follows values that compute their value; the zero value has the nil value.\<close>

fun slog_resolve :: "slogValue \<Rightarrow> slogValue" where
  "slog_resolve (SlogValuer v) = slog_resolve v"
| "slog_resolve v = v"

definition slog_zero :: "string \<times> slogValue \<Rightarrow> bool" where
  "slog_zero attr \<longleftrightarrow> fst attr = [] \<and> snd attr = SlogNil"

text \<open>The walk through the groups: \<open>f\<close> is applied to the map of the innermost one.\<close>

fun in_groups :: "string list \<Rightarrow> ((string \<times> fieldTree) list \<Rightarrow> (string \<times> fieldTree) list) \<Rightarrow>
    (string \<times> fieldTree) list \<Rightarrow> (string \<times> fieldTree) list" where
  "in_groups [] f target = f target"
| "in_groups (g # gs) f target =
     (let nested = (case map_get target g of Some (FieldMap m) \<Rightarrow> m | _ \<Rightarrow> [])
      in map_put g (FieldMap (in_groups gs f nested)) target)"

fun slog_tree :: "slogValue \<Rightarrow> fieldTree" where
  "slog_tree SlogNil = FieldLeaf (Some JNull)"
| "slog_tree (SlogAny v) = FieldLeaf v"
| "slog_tree (SlogErr e) = FieldLeaf (Some (JStr e))"
| "slog_tree (SlogValuer v) = slog_tree v"
| "slog_tree (SlogGroup children) =
     FieldMap (fold (\<lambda>(k, v) m. if slog_zero (k, slog_resolve v) then m else map_put k (slog_tree v) m) children [])"

definition addSlogAttr :: "(string \<times> fieldTree) list \<Rightarrow> string list \<Rightarrow> string \<times> slogValue \<Rightarrow> (string \<times> fieldTree) list" where
  "addSlogAttr fs groups attr =
     (let (k, v) = attr in
      if slog_zero (k, slog_resolve v) then fs
      else in_groups groups (map_put k (slog_tree v)) fs)"

text \<open>What the JSON encoder makes of the captured fields.\<close>

fun tree_value :: "fieldTree \<Rightarrow> anyval" where
  "tree_value (FieldLeaf v) = v"
| "tree_value (FieldMap m) =
     (if list_all (\<lambda>(k, t). tree_value t \<noteq> None) m
      then Some (JObj (map (\<lambda>(k, t). (k, case tree_value t of Some j \<Rightarrow> j | None \<Rightarrow> JNull)) m)) else None)"

record slogHandler =
  shAttrs :: "(string \<times> slogValue) list"
  shGroups :: "string list"

record slogRecord =
  srTime :: instant
  srLevel :: string
  srMessage :: string
  srAttrs :: "(string \<times> slogValue) list"

definition slog_fields :: "slogHandler \<Rightarrow> slogRecord \<Rightarrow> (string \<times> fieldTree) list" where
  "slog_fields h r = fold (\<lambda>attr fs. addSlogAttr fs (shGroups h) attr) (shAttrs h @ srAttrs r) []"

definition slogHandle :: "(goContext option \<Rightarrow> slogRecord \<Rightarrow> ('d, 'w, 'x, string option) action) \<Rightarrow> slogHandler \<Rightarrow>
    goContext option \<Rightarrow> slogRecord \<Rightarrow> ('d, 'w, 'x, string option) action" where
  "slogHandle inner h ctx r s =
     (let (d, p) = s;
          p = LogLogContext ctx (zeroLog\<lparr>mStartedAt := srTime r, loLevel := srLevel r, loMessage := srMessage r,
            loFields := map (\<lambda>(k, t). (k, tree_value t)) (slog_fields h r)\<rparr>) p
      in inner ctx r (d, p))"

definition slogWithAttrs :: "(string \<times> slogValue) list \<Rightarrow> slogHandler \<Rightarrow> slogHandler" where
  "slogWithAttrs attrs h = h\<lparr>shAttrs := shAttrs h @ attrs\<rparr>"

definition slogWithGroup :: "string \<Rightarrow> slogHandler \<Rightarrow> slogHandler" where
  "slogWithGroup name h = h\<lparr>shGroups := shGroups h @ [name]\<rparr>"

subsection \<open>Zap\<close>

text \<open>A field adds to the map of the encoder; the level and the stack are texts of the entry.\<close>

record zapEntry =
  zeTime :: instant
  zeLevel :: string
  zeMessage :: string
  zeStack :: string

type_synonym zapField = "(string \<times> anyval) list \<Rightarrow> (string \<times> anyval) list"

definition zapWrite :: "(zapEntry \<Rightarrow> zapField list \<Rightarrow> ('d, 'w, 'x, string option) action) \<Rightarrow> zapField list \<Rightarrow>
    zapEntry \<Rightarrow> zapField list \<Rightarrow> ('d, 'w, 'x, string option) action" where
  "zapWrite inner stored entry fs s =
     (let (d, p) = s; encoded = fold (\<lambda>f m. f m) (stored @ fs) [];
          (p, start) = (if zeTime entry = 0 then clock_now p else (p, zeTime entry));
          p = LogLog (zeroLog\<lparr>mStartedAt := start, loLevel := zeLevel entry, loMessage := zeMessage entry,
            loFields := encoded, loStack := zeStack entry\<rparr>) p
      in inner entry fs (d, p))"

definition zapWith :: "zapField list \<Rightarrow> zapField list \<Rightarrow> zapField list" where
  "zapWith stored fs = stored @ fs"

text \<open>\<open>Check\<close>: the cores that will write an entry (\<open>True\<close> stands for this one).\<close>

definition zapCheck :: "(zapEntry \<Rightarrow> bool) \<Rightarrow> zapEntry \<Rightarrow> 'c list \<Rightarrow> 'c \<Rightarrow> 'c list" where
  "zapCheck inner entry checked this = (if \<not> inner entry then checked else checked @ [this])"

subsection \<open>Zerolog\<close>

text \<open>The hook: the event is nil or carries a context, which may be nil too.\<close>

definition zerologRun :: "bool \<Rightarrow> goContext option option \<Rightarrow> string \<Rightarrow> string \<Rightarrow> ('w, 'x) Profiler \<Rightarrow> ('w, 'x) Profiler" where
  "zerologRun has event level message p =
     (if \<not> has then p
      else
        let ctx = (case event of Some (Some c) \<Rightarrow> c | _ \<Rightarrow> Background)
        in LogLogContext (Some ctx) (zeroLog\<lparr>loLevel := level, loMessage := message\<rparr>) p)"

end
