(* ===== verification/Grpc.thy ===== *)
theory Grpc
  imports Integrations
begin

text \<open>
  The interceptors of gRPC (\<open>profiler/grpc\<close>).  An error is \<open>io.EOF\<close> or carries a status; handlers,
  invokers and streams are parameters that act on the application and on the profiler.
\<close>

datatype grpcCode = CodeOK | CodeCanceled | CodeUnknown | CodeInvalidArgument | CodeDeadlineExceeded
  | CodeNotFound | CodeAlreadyExists | CodePermissionDenied | CodeResourceExhausted
  | CodeFailedPrecondition | CodeAborted | CodeOutOfRange | CodeUnimplemented | CodeInternal
  | CodeUnavailable | CodeDataLoss | CodeUnauthenticated

datatype rpcError = RpcEOF | RpcStatus grpcCode string

text \<open>\<open>status.Code\<close>; an error that carries no status has the code \<open>Unknown\<close>.\<close>

definition status_code :: "rpcError option \<Rightarrow> grpcCode" where
  "status_code err = (case err of None \<Rightarrow> CodeOK | Some RpcEOF \<Rightarrow> CodeUnknown | Some (RpcStatus c e) \<Rightarrow> c)"

definition grpcStatusCode :: "grpcCode \<Rightarrow> int" where
  "grpcStatusCode code =
     (case code of
        CodeOK \<Rightarrow> 200
      | CodeInvalidArgument \<Rightarrow> 400 | CodeFailedPrecondition \<Rightarrow> 400 | CodeOutOfRange \<Rightarrow> 400
      | CodeUnauthenticated \<Rightarrow> 401
      | CodePermissionDenied \<Rightarrow> 403
      | CodeNotFound \<Rightarrow> 404
      | CodeAlreadyExists \<Rightarrow> 409 | CodeAborted \<Rightarrow> 409
      | CodeResourceExhausted \<Rightarrow> 429
      | CodeCanceled \<Rightarrow> 499
      | CodeUnimplemented \<Rightarrow> 501
      | CodeUnavailable \<Rightarrow> 503
      | CodeDeadlineExceeded \<Rightarrow> 504
      | _ \<Rightarrow> 500)"

definition rpc_error_text :: "rpcError option \<Rightarrow> string" where
  "rpc_error_text err = (case err of Some (RpcStatus c e) \<Rightarrow> e | _ \<Rightarrow> [])"

definition ServiceMethod :: "string \<Rightarrow> string \<times> string" where
  "ServiceMethod fullMethod =
     (let trimmed = trim_prefix fullMethod ''/'';
          method = rev (takeWhile (\<lambda>c. c \<noteq> CHR ''/'') (rev trimmed))
      in if CHR ''/'' \<notin> set trimmed then ([], trimmed)
         else (take (length trimmed - length method - 1) trimmed, method))"

subsection \<open>Server\<close>

definition serverRequest :: "string \<Rightarrow> string \<Rightarrow> instant \<Rightarrow> Request" where
  "serverRequest method rpcType start =
     zeroRequest\<lparr>mStartedAt := start,
       mTags := [(''rpc.system'', ''grpc''), (''rpc.side'', ''server''), (''rpc.type'', rpcType)],
       rqMethod := ''GRPC'', rqPath := method, rqRoute := method, rqProtocol := ''gRPC''\<rparr>"

definition requestResult :: "rpcError option \<Rightarrow> RequestResult" where
  "requestResult err = zeroRequestResult\<lparr>rrStatus := grpcStatusCode (status_code err), rrError := rpc_error_text err\<rparr>"

definition grpcShouldCapture :: "string \<Rightarrow> ('w, 'x) Profiler \<Rightarrow> ('w, 'x) Profiler \<times> bool" where
  "grpcShouldCapture method p =
     ShouldCaptureRequest (Some \<lparr>hqMethod = ''GRPC'', hqPath = method, hqRawQuery = [], hqHeader = [], hqCookies = [],
       hqHost = [], hqRemoteAddr = [], hqProto = [], hqTLS = False, hqContentLength = 0, hqPattern = []\<rparr>) p"

text \<open>What a handler ends with: an answer and an error, or a panic.\<close>

datatype 'v rpcOutcome = RpcReturned 'v "rpcError option" | RpcPanicked recoveredPanic

text \<open>
  Both server interceptors: \<open>rpcType\<close> is \<open>unary\<close> or \<open>stream\<close>; the stream interceptor hands the
  context on in a stream whose \<open>Context\<close> method answers it.
\<close>

definition serverInterceptor :: "string \<Rightarrow> bool \<Rightarrow> string \<Rightarrow> (goContext \<Rightarrow> ('d, 'w, 'x, 'v rpcOutcome) action) \<Rightarrow>
    goContext \<Rightarrow> ('d, 'w, 'x, 'v rpcOutcome) action" where
  "serverInterceptor rpcType has fullMethod handle ctx s =
     (if \<not> has \<or> \<not> RecordingEnabled (Some ctx) then handle ctx s
      else
        let (d, p) = s; (p, capture) = grpcShouldCapture fullMethod p in
        if \<not> capture then handle (WithoutRecording ctx) (d, p)
        else
          let (p, start) = clock_now p; (p, i) = BeginRequest (serverRequest fullMethod rpcType start) True p;
              ctx = WithRequest ctx (Some i);
              ((d, p), outcome) = handle ctx (d, p)
          in case outcome of
               RpcPanicked e \<Rightarrow>
                 ((d, Finish i (zeroRequestResult\<lparr>rrStatus := grpcStatusCode CodeInternal, rrError := paText e\<rparr>)
                    (LogExceptionContext (Some ctx) (PanicException e) p)), outcome)
             | RpcReturned v err \<Rightarrow> ((d, Finish i (requestResult err) p), outcome))"

definition UnaryServerInterceptorWith :: "bool \<Rightarrow> string \<Rightarrow> (goContext \<Rightarrow> ('d, 'w, 'x, 'v rpcOutcome) action) \<Rightarrow>
    goContext \<Rightarrow> ('d, 'w, 'x, 'v rpcOutcome) action" where
  "UnaryServerInterceptorWith = serverInterceptor ''unary''"

definition StreamServerInterceptorWith :: "bool \<Rightarrow> string \<Rightarrow> (goContext \<Rightarrow> ('d, 'w, 'x, unit rpcOutcome) action) \<Rightarrow>
    goContext \<Rightarrow> ('d, 'w, 'x, unit rpcOutcome) action" where
  "StreamServerInterceptorWith = serverInterceptor ''stream''"

subsection \<open>Client\<close>

definition clientCall :: "string \<Rightarrow> string \<Rightarrow> instant \<Rightarrow> duration \<Rightarrow> SourceFrame list \<Rightarrow> rpcError option \<Rightarrow> HTTPCall" where
  "clientCall method rpcType start elapsed callsite err =
     zeroHTTPCall\<lparr>mStartedAt := start, mDuration := elapsed,
       mTags := [(''rpc.system'', ''grpc''), (''rpc.side'', ''client''), (''rpc.type'', rpcType)],
       hcMethod := ''GRPC'', hcURL := method, hcStatus := grpcStatusCode (status_code err),
       hcCallsite := callsite, hcError := rpc_error_text err\<rparr>"

definition UnaryClientInterceptorWith :: "bool \<Rightarrow> string \<Rightarrow> (goContext option \<Rightarrow> ('d, 'w, 'x, rpcError option) action) \<Rightarrow>
    goContext option \<Rightarrow> ('d, 'w, 'x, rpcError option) action" where
  "UnaryClientInterceptorWith has method invoke ctx s =
     (if \<not> has \<or> \<not> RecordingEnabled ctx then invoke ctx s
      else
        let (d, p) = s; (p, start) = clock_now p; (p, callsite) = CaptureCallsite KindHTTPCall p;
            ((d, p), err) = invoke ctx (d, p); (p, stop) = clock_now p
        in ((d, LogHTTPCallContext ctx (clientCall method ''unary'' start (stop - start) callsite err) p), err))"

text \<open>A captured client stream; \<open>csDone\<close> tells that \<open>once\<close> has run.\<close>

record clientStream =
  csCtx :: "goContext option"
  csMethod :: string
  csStartedAt :: instant
  csCallsite :: "SourceFrame list"
  csDone :: bool

definition streamFinish :: "rpcError option \<Rightarrow> clientStream \<Rightarrow> ('w, 'x) Profiler \<Rightarrow> clientStream \<times> ('w, 'x) Profiler" where
  "streamFinish err st p =
     (if csDone st then (st, p)
      else
        let err = (if err = Some RpcEOF then None else err); (p, stop) = clock_now p
        in (st\<lparr>csDone := True\<rparr>, LogHTTPCallContext (csCtx st)
             (clientCall (csMethod st) ''stream'' (csStartedAt st) (stop - csStartedAt st) (csCallsite st) err) p))"

text \<open>The operations of a stream; \<open>SendMsg\<close>, \<open>Header\<close> and \<open>Trailer\<close> are those of the inner one.\<close>

datatype 'm streamCall = RecvMsg | CloseSend | SendMsg 'm | StreamHeader

fun stream_call :: "('m streamCall \<Rightarrow> ('d, 'w, 'x, rpcError option) action) \<Rightarrow> 'm streamCall \<Rightarrow>
    clientStream \<times> ('d, 'w, 'x) world \<Rightarrow> (clientStream \<times> ('d, 'w, 'x) world) \<times> rpcError option" where
  "stream_call inner call (st, (d, p)) =
     (let ((d, p), err) = inner call (d, p) in
      if (case call of RecvMsg \<Rightarrow> True | CloseSend \<Rightarrow> True | _ \<Rightarrow> False) \<and> err \<noteq> None
      then let (st, p) = streamFinish err st p in ((st, (d, p)), err)
      else ((st, (d, p)), err))"

text \<open>Opening: \<open>None\<close> where the application gets no stream or one that is not captured.\<close>

definition StreamClientInterceptorWith :: "bool \<Rightarrow> string \<Rightarrow> (goContext option \<Rightarrow> ('d, 'w, 'x, rpcError option) action) \<Rightarrow>
    goContext option \<Rightarrow> ('d, 'w, 'x) world \<Rightarrow> ('d, 'w, 'x) world \<times> clientStream option \<times> rpcError option" where
  "StreamClientInterceptorWith has method streamer ctx s =
     (if \<not> has \<or> \<not> RecordingEnabled ctx then (case streamer ctx s of (s, err) \<Rightarrow> (s, None, err))
      else
        let (d, p) = s; (p, start) = clock_now p; (p, callsite) = CaptureCallsite KindHTTPCall p;
            st = \<lparr>csCtx = ctx, csMethod = method, csStartedAt = start, csCallsite = callsite, csDone = False\<rparr>;
            ((d, p), err) = streamer ctx (d, p)
        in if err \<noteq> None then ((d, snd (streamFinish err st p)), None, err) else ((d, p), Some st, None))"

end
