(* ===== verification/AdapterProps.thy ===== *)
theory AdapterProps
  imports IntegrationProps CacheIntegration QueueIntegration LogIntegrations Grpc
begin

text \<open>
  What the integrations promise to the application: they do not change what it does
  (\<open>integrations_transparent\<close>), they keep no more of a payload than configured, a job is recorded
  under the names it was sent to, a stream of gRPC is recorded once.
\<close>

subsection \<open>Transparency\<close>

text \<open>
  An application that does \<open>g\<close> and meanwhile calls the profiler in any way: \<open>h\<close> tells what the
  calls make of it.
\<close>

definition performing :: "('d \<Rightarrow> 'd \<times> 'r) \<Rightarrow> ('d \<Rightarrow> ('w, 'x) Profiler \<Rightarrow> ('w, 'x) Profiler) \<Rightarrow> ('d, 'w, 'x, 'r) action" where
  "performing g h = (\<lambda>(d, p). ((fst (g d), h d p), snd (g d)))"

lemma performing_like [simp]: "acts_like (performing g h) g"
  by (simp add: performing_def acts_like_def)

lemma cacheOp_like:
  assumes "\<And>call. acts_like (inner call) (g call)" "\<And>key d. fst (g (CacheHas key) d) = d"
  shows "acts_like (cacheOp inner c call) (g call)"
  using assms by (cases call) (simp_all add: acts_like_def cache_timed_def cache_asked_def Let_def case_prod_beta)

lemma lockOp_like: "(\<And>call. acts_like (inner call) (g call)) \<Longrightarrow> acts_like (lockOp inner c key call) (g call)"
  by (simp add: acts_like_def Let_def case_prod_beta)

lemma jobHandle_like:
  assumes "\<And>j args. acts_like (handle j args) (g j args)"
  shows "acts_like (jobHandle signature handle n args) (\<lambda>(heap, d). g (jwInner (heap ! n)) args (heap, d))"
  using assms by (simp add: acts_like_def jobHandle_def Let_def case_prod_beta split: callOutcome.split)

lemma taskSend_like: "acts_like send g \<Longrightarrow> acts_like (taskSend signature t state send) g"
  by (simp add: acts_like_def taskSend_def Let_def case_prod_beta)

lemma slogHandle_like: "acts_like (inner ctx r) g \<Longrightarrow> acts_like (slogHandle inner h ctx r) g"
  by (simp add: acts_like_def slogHandle_def Let_def)

lemma zapWrite_like: "acts_like (inner entry fs) g \<Longrightarrow> acts_like (zapWrite inner stored entry fs) g"
  by (simp add: acts_like_def zapWrite_def Let_def case_prod_beta)

lemma serverInterceptor_like:
  "(\<And>c. acts_like (handle c) g) \<Longrightarrow> acts_like (serverInterceptor rpcType has method handle ctx) g"
  by (simp add: acts_like_def serverInterceptor_def Let_def case_prod_beta split: rpcOutcome.split)

lemma clientInterceptor_like:
  "(\<And>c. acts_like (invoke c) g) \<Longrightarrow> acts_like (UnaryClientInterceptorWith has method invoke ctx) g"
  by (simp add: acts_like_def UnaryClientInterceptorWith_def Let_def case_prod_beta)

text \<open>A cache that can be asked for a key without changing.\<close>

definition asking :: "(string \<Rightarrow> 'd \<Rightarrow> bool) \<Rightarrow> (('v, 'k) cacheCall \<Rightarrow> 'd \<Rightarrow> 'd \<times> 'v cacheAnswer) \<Rightarrow>
    ('v, 'k) cacheCall \<Rightarrow> 'd \<Rightarrow> 'd \<times> 'v cacheAnswer" where
  "asking present g call = (case call of CacheHas key \<Rightarrow> (\<lambda>d. (d, AnsBool (present key d))) | _ \<Rightarrow> g call)"


subsection \<open>Payloads\<close>

text \<open>
  No captured argument holds a byte of a payload unless capturing is enabled, and then at most the
  limit, cut at the front; the size is always that of the payload.
\<close>

definition within_limit :: "bool \<Rightarrow> int \<Rightarrow> string \<Rightarrow> Argument \<Rightarrow> bool" where
  "within_limit capture limit payload a \<longleftrightarrow>
     arSize a = int (length payload) \<and>
     arValue a = (if capture then take (payloadLimit limit) payload else []) \<and>
     arTruncated a = (capture \<and> payloadLimit limit < length payload)"

lemma capture_payload_within: "within_limit capture limit payload (capture_payload name capture limit payload)"
  by (simp add: within_limit_def capture_payload_def Let_def)

lemma payloads_bounded:
  "list_all (within_limit (aqcCapturePayload aconfig) (aqcPayloadLimit aconfig) (aqtPayload t)) (asynqPayload (Some t) aconfig)"
  "list_all (within_limit capture limit payload) (payloadArgument payload capture limit)"
  "list_all (\<lambda>a. within_limit False 0 (kmKey m) a \<or>
     within_limit (kcCaptureValue kconfig) (kcValueLimit kconfig) (kmValue m) a) (messageArguments m kconfig)"
  by (simp_all add: asynqPayload_def payloadArgument_def messageArguments_def capture_payload_within Let_def)
    (simp add: within_limit_def)

subsection \<open>Hits of a cache\<close>

text \<open>
  \<open>Get\<close> takes any value for a hit, so a missing key with a default counts as one, while the typed
  reads ask the cache.
\<close>

lemma default_counts_as_hit:
  assumes "inner (CacheGet key [Some v]) (d, tick p) = ((d, tick p), AnsValue (Some v))"
  shows "snd (fst (cacheOp inner c (CacheGet key [Some v]) (d, p))) =
    cacheRecord c (pClock p (pTick p)) ''get'' key True 0 None (tick p)"
  using assms by (simp add: cache_timed_def clock_now_def ans_value_def ans_error_def)

subsection \<open>Labels of a dispatched job\<close>

text \<open>What is set on a task between its creation and its dispatch.\<close>

datatype taskSetting = ToQueue string | ToConnection string | DelayedTo instant

fun apply_setting :: "(string \<Rightarrow> 't \<Rightarrow> 't) \<Rightarrow> (string \<Rightarrow> 't \<Rightarrow> 't) \<Rightarrow> (instant \<Rightarrow> 't \<Rightarrow> 't) \<Rightarrow> taskSetting \<Rightarrow>
    'j jobWrapper list \<times> 't queueTask \<Rightarrow> 'j jobWrapper list \<times> 't queueTask" where
  "apply_setting onQueue onConnection delay (ToQueue q) s = OnQueue onQueue q s"
| "apply_setting onQueue onConnection delay (ToConnection c) s = OnConnection onConnection c s"
| "apply_setting onQueue onConnection delay (DelayedTo t) s = (fst s, taskDelay delay t (snd s))"

text \<open>The labels the settings amount to: queue, connection, time.\<close>

fun label_setting :: "taskSetting \<Rightarrow> string \<times> string \<times> instant \<Rightarrow> string \<times> string \<times> instant" where
  "label_setting (ToQueue q) l = (q, snd l)"
| "label_setting (ToConnection c) l = (fst l, c, snd (snd l))"
| "label_setting (DelayedTo t) l = (fst l, fst (snd l), t)"

text \<open>The records of a dispatch without any sharing: each job of the chain under the same labels.\<close>

fun log_labelled :: "goContext option \<Rightarrow> instant \<Rightarrow> string \<Rightarrow> string option \<Rightarrow> string \<times> string \<times> instant \<Rightarrow>
    (string \<times> Argument list) list \<Rightarrow> ('w, 'x) Profiler \<Rightarrow> ('w, 'x) Profiler" where
  "log_labelled ctx start state err l [] p = p"
| "log_labelled ctx start state err l ((name, arguments) # js) p =
     (let (p, stop) = clock_now p;
          event = zeroJob\<lparr>mStartedAt := start, mDuration := stop - start, joName := name, joQueue := fst l,
            joConnection := fst (snd l), joState := (if err = None then state else ''dispatch_failed''),
            joAvailableAt := snd (snd l), joArguments := arguments, joError := errorString err\<rparr>
      in log_labelled ctx start state err l js (LogJobContext ctx event p))"

lemma set_jobs_suffix:
  "set_jobs f [length xs..<length xs + length ys] (xs @ ys) = xs @ map f ys"
proof (induction ys arbitrary: xs)
  case (Cons y ys)
  have "set_jobs f [length xs..<length xs + length (y # ys)] (xs @ y # ys) =
      set_jobs f [length (xs @ [f y])..<length (xs @ [f y]) + length ys] ((xs @ [f y]) @ ys)"
    by (simp add: set_jobs_def upt_conv_Cons nth_append del: upt_Suc)
  also have "\<dots> = (xs @ [f y]) @ map f ys" by (rule Cons)
  finally show ?case by simp
qed (simp add: set_jobs_def)

lemma profileJobs_plain:
  "profileJobs (map PlainJob js) queue heap =
     (heap @ map (\<lambda>j. \<lparr>jwInner = j, jwQueue = queue, jwConnection = []\<rparr>) js, [length heap..<length heap + length js])"
  by (induction js arbitrary: heap) (simp_all add: profileQueueJob_def upt_rec)

text \<open>The wrappers of a fresh chain, and its task, under the labels \<open>l\<close>.\<close>

definition labelled :: "string \<times> string \<times> instant \<Rightarrow> 'j list \<Rightarrow> 'j jobWrapper list" where
  "labelled l js = map (\<lambda>j. \<lparr>jwInner = j, jwQueue = fst l, jwConnection = fst (snd l)\<rparr>) js"

definition chain_ok :: "'j jobWrapper list \<Rightarrow> ('j \<times> string list) list \<Rightarrow> string \<times> string \<times> instant \<Rightarrow>
    'j jobWrapper list \<times> 't queueTask \<Rightarrow> bool" where
  "chain_ok heap js l s \<longleftrightarrow> fst s = heap @ labelled l (map fst js) \<and> qtCtx (snd s) = None \<and>
     qtJobs (snd s) = [length heap..<length heap + length js] \<and>
     qtArguments (snd s) = map (queueArguments \<circ> snd) js \<and> qtAvailableAt (snd s) = snd (snd l)"

lemma chain_new:
  "chain_ok heap js (queue, [], 0) (queueChain mk queue (map (map_prod PlainJob id) js) heap)"
  using profileJobs_plain [of "map fst js" queue heap]
  by (simp add: chain_ok_def queueChain_def labelled_def comp_def)

lemma labelled_set:
  "map (jwQueue_update (\<lambda>_. q)) (labelled l js) = labelled (q, snd l) js"
  "map (jwConnection_update (\<lambda>_. c)) (labelled l js) = labelled (fst l, c, snd (snd l)) js"
  "labelled (fst l, fst (snd l), t) js = labelled l js"
  by (simp_all add: labelled_def)

lemma chain_setting:
  assumes "chain_ok heap js l s"
  shows "chain_ok heap js (label_setting x l) (apply_setting onQueue onConnection delay x s)"
proof -
  obtain h t where s: "s = (h, t)" by force
  have set: "set_jobs f [length heap..<length heap + length js] (heap @ labelled l (map fst js)) =
      heap @ map f (labelled l (map fst js))" for f
    using set_jobs_suffix [of f heap "labelled l (map fst js)"] by (simp add: labelled_def)
  show ?thesis
    using assms unfolding s
    by (cases x) (simp_all add: chain_ok_def OnQueue_def OnConnection_def taskDelay_def set labelled_set)
qed

lemma log_dispatched_labelled:
  fixes p :: "('w, 'x) Profiler"
  assumes "length ws = length js" "\<And>i. i < length js \<Longrightarrow> ws ! i = \<lparr>jwInner = fst (js ! i), jwQueue = fst l, jwConnection = fst (snd l)\<rparr>"
    "qtAvailableAt t = snd (snd l)"
  shows "log_dispatched signature t start state err (heap @ ws)
      (zip [length heap..<length heap + length js] (map (queueArguments \<circ> snd) js)) p =
    log_labelled (qtCtx t) start state err l (map (\<lambda>(j, as). (signature j, queueArguments as)) js) p"
  using assms(1,2)
proof (induction js arbitrary: heap ws p)
  case (Cons j js)
  then obtain w ws' where ws: "ws = w # ws'" by (cases ws) auto
  have w: "w = \<lparr>jwInner = fst j, jwQueue = fst l, jwConnection = fst (snd l)\<rparr>" using Cons.prems(2) [of 0] ws by simp
  have rest': "ws' ! i = \<lparr>jwInner = fst (js ! i), jwQueue = fst l, jwConnection = fst (snd l)\<rparr>" if "i < length js" for i
    using Cons.prems(2) [of "Suc i"] that ws by simp
  define ns where "ns = [length (heap @ [w])..<length (heap @ [w]) + length js]"
  have IH: "log_dispatched signature t start state err ((heap @ [w]) @ ws')
      (zip [length (heap @ [w])..<length (heap @ [w]) + length js] (map (queueArguments \<circ> snd) js)) q =
    log_labelled (qtCtx t) start state err l (map (\<lambda>(j, as). (signature j, queueArguments as)) js) q" for q :: "('w, 'x) Profiler"
    by (rule Cons.IH) (use Cons.prems(1) ws rest' in simp_all)
  have range: "[length heap..<length heap + length (j # js)] =
      length heap # [length (heap @ [w])..<length (heap @ [w]) + length js]"
    by (simp add: upt_conv_Cons del: upt_Suc)
  show ?case
    unfolding range [folded ns_def] ws using IH [folded ns_def, unfolded comp_def case_prod_beta]
    by (cases err) (simp_all add: w assms(3) comp_def nth_append errorString_def zeroJob_def case_prod_beta)
qed simp

text \<open>
  C19. A job is recorded under the names it was sent to.  For a chain of the application's own
  jobs, whatever queues, connections and times are set on the task in whatever order and in
  whatever state the other wrapped jobs are, dispatching records every job of the chain once, in
  order, under the queue and the connection set last (the default queue and none where nothing was
  set), and the wrappers that existed before are left as they were.
\<close>
theorem dispatch_labels:
  "let (heap', t) = fold (apply_setting onQueue onConnection delay) settings
         (queueChain mk queue (map (map_prod PlainJob id) js) heap);
       l = fold label_setting settings (queue, [], 0)
   in log_dispatched signature t start state err heap' (zip (qtJobs t) (qtArguments t)) p =
        log_labelled None start state err l (map (\<lambda>(j, as). (signature j, queueArguments as)) js) p \<and>
      take (length heap) heap' = heap"
proof -
  define l where "l = fold label_setting settings (queue, [], 0 :: instant)"
  define s where "s = fold (apply_setting onQueue onConnection delay) settings
         (queueChain mk queue (map (map_prod PlainJob id) js) heap)"
  have "chain_ok heap js (fold label_setting xs k) (fold (apply_setting onQueue onConnection delay) xs u)"
    if "chain_ok heap js k u" for xs k u
    using that by (induction xs arbitrary: k u) (simp_all add: chain_setting)
  then have ok: "chain_ok heap js l s" unfolding l_def s_def using chain_new by blast
  obtain heap' t where s': "s = (heap', t)" by force
  have "log_dispatched signature t start state err (heap @ labelled l (map fst js))
      (zip [length heap..<length heap + length js] (map (queueArguments \<circ> snd) js)) p =
    log_labelled (qtCtx t) start state err l (map (\<lambda>(j, as). (signature j, queueArguments as)) js) p"
    by (rule log_dispatched_labelled) (use ok s' in \<open>simp_all add: labelled_def chain_ok_def\<close>)
  then show ?thesis
    unfolding l_def [symmetric] s_def [symmetric] s' Let_def using ok by (simp add: s' chain_ok_def)
qed

text \<open>
  With a wrapper that is shared it is otherwise: a job that was registered and sent over some
  connection is recorded under that connection when it is sent again without one.
\<close>

lemma connection_leaks:
  "let (heap, n) = registerJob (PlainJob j) queue [];
       (heap, t) = queueJob mk queue (WrappedJob n) args heap;
       (heap, t) = OnConnection onConnection c (heap, t);
       (heap, t) = queueJob mk queue (WrappedJob n) args heap
   in qtJobs t = [n] \<and> jwConnection (heap ! n) = c"
  by (simp add: registerJob_def profileQueueJob_def queueJob_def OnConnection_def set_jobs_def)

end
