(* ===== verification/RpcProps.thy ===== *)
theory RpcProps
  imports Grpc
begin

text \<open>
  What is recorded of a stream of gRPC: one call, when the application first learns of its end.
\<close>

subsection \<open>Runs of a stream\<close>

text \<open>The stream below does \<open>g\<close> and records nothing itself.\<close>

definition silent :: "('m streamCall \<Rightarrow> 'd \<Rightarrow> 'd \<times> rpcError option) \<Rightarrow> 'm streamCall \<Rightarrow> ('d, 'w, 'x, rpcError option) action" where
  "silent g call = (\<lambda>(d, p). ((fst (g call d), p), snd (g call d)))"

lemma silent_apply: "silent g call (d, p) = ((fst (g call d), p), snd (g call d))"
  by (simp add: silent_def)

fun stream_run :: "('m streamCall \<Rightarrow> ('d, 'w, 'x, rpcError option) action) \<Rightarrow> 'm streamCall list \<Rightarrow>
    clientStream \<times> ('d, 'w, 'x) world \<Rightarrow> (clientStream \<times> ('d, 'w, 'x) world) \<times> rpcError option list" where
  "stream_run inner [] s = (s, [])"
| "stream_run inner (c # cs) s =
     (case stream_call inner c s of (s, e) \<Rightarrow> (case stream_run inner cs s of (s, es) \<Rightarrow> (s, e # es)))"

text \<open>The same calls on the stream below, and the error that ends it for the application.\<close>

fun plain_run :: "('m streamCall \<Rightarrow> 'd \<Rightarrow> 'd \<times> rpcError option) \<Rightarrow> 'm streamCall list \<Rightarrow> 'd \<Rightarrow> 'd \<times> rpcError option list" where
  "plain_run g [] d = (d, [])"
| "plain_run g (c # cs) d = (case g c d of (d, e) \<Rightarrow> (case plain_run g cs d of (d, es) \<Rightarrow> (d, e # es)))"

fun first_end :: "'m streamCall list \<Rightarrow> rpcError option list \<Rightarrow> rpcError option" where
  "first_end (RecvMsg # cs) (Some e # es) = Some e"
| "first_end (CloseSend # cs) (Some e # es) = Some e"
| "first_end (c # cs) (e # es) = first_end cs es"
| "first_end cs es = None"

definition stream_recorded :: "rpcError option \<Rightarrow> clientStream \<Rightarrow> ('w, 'x) Profiler \<Rightarrow> ('w, 'x) Profiler" where
  "stream_recorded ending st p =
     (case ending of None \<Rightarrow> p
      | Some e \<Rightarrow>
          let (p, stop) = clock_now p
          in LogHTTPCallContext (csCtx st) (clientCall (csMethod st) ''stream'' (csStartedAt st) (stop - csStartedAt st)
               (csCallsite st) (if e = RpcEOF then None else Some e)) p)"

lemma run_done:
  "csDone st \<Longrightarrow> stream_run (silent g) calls (st, (d, p)) =
     (let (d', es) = plain_run g calls d in ((st, (d', p)), es))"
  by (induction calls arbitrary: d) (simp_all add: silent_def streamFinish_def case_prod_beta Let_def)

lemma finish_recorded:
  "\<not> csDone st \<Longrightarrow> streamFinish (Some e) st p = (st\<lparr>csDone := True\<rparr>, stream_recorded (Some e) st p)"
  by (simp add: streamFinish_def stream_recorded_def case_prod_beta Let_def)

text \<open>
  C18. A client stream is transparent and recorded at most once.  Whatever the application does
  with it, in any order and however often, it gets the answers of the stream below; the call is
  recorded exactly when \<open>RecvMsg\<close> or \<open>CloseSend\<close> first fails, with that status, the end of the
  stream counting as success, and never again.
\<close>
theorem stream_recorded_once:
  "stream_run (silent g) calls (st, (d, p)) =
     (let (d', es) = plain_run g calls d; ending = first_end calls es
      in if csDone st then ((st, (d', p)), es)
         else ((st\<lparr>csDone := (ending \<noteq> None)\<rparr>, (d', stream_recorded ending st p)), es))"
proof (cases "csDone st")
  case False
  then show ?thesis
  proof (induction calls arbitrary: d)
    case (Cons c cs)
    obtain d1 e where g: "g c d = (d1, e)" by force
    obtain d2 es where r: "plain_run g cs d1 = (d2, es)" by force
    show ?case
    proof (cases "e \<noteq> None \<and> (c = RecvMsg \<or> c = CloseSend)")
      case True
      then obtain err where "e = Some err" by auto
      then show ?thesis
        using True Cons.prems run_done [of "st\<lparr>csDone := True\<rparr>" g cs d1 "stream_recorded (Some err) st p"]
        by (auto simp: silent_apply g r finish_recorded Let_def)
    next
      case False
      then have "stream_call (silent g) c (st, (d, p)) = ((st, (d1, p)), e)"
        using g by (cases c) (auto simp: silent_def)
      moreover have "first_end (c # cs) (e # es) = first_end cs es" using False by (cases c; cases e) auto
      ultimately show ?thesis using Cons.IH [OF Cons.prems, of d1] by (simp add: g r Let_def)
    qed
  qed (simp add: stream_recorded_def Let_def)
qed (simp add: run_done Let_def)

text \<open>
  A call with many requests and one answer ends with \<open>CloseSend\<close> and one \<open>RecvMsg\<close>; when all goes
  well neither fails, and nothing is recorded.
\<close>

lemma no_end: "first_end cs (replicate n None) = None"
proof (induction cs arbitrary: n)
  case (Cons c cs)
  then show ?case by (cases n; cases c) simp_all
qed simp

lemma client_stream_unrecorded:
  assumes "snd (plain_run g (map SendMsg ms @ [CloseSend, RecvMsg]) d) = replicate n None"
  shows "snd (snd (fst (stream_run (silent g) (map SendMsg ms @ [CloseSend, RecvMsg]) (st, (d, p))))) = p"
proof -
  obtain d' where "plain_run g (map SendMsg ms @ [CloseSend, RecvMsg]) d = (d', replicate n None)"
    using assms by (metis prod.collapse)
  then show ?thesis by (simp add: stream_recorded_once no_end stream_recorded_def)
qed

text \<open>A full method name is split into its service and its method.\<close>

lemma service_method_split:
  assumes "CHR ''/'' \<notin> set m"
  shows "ServiceMethod (''/'' @ service @ ''/'' @ m) = (service, m)"
proof -
  have "takeWhile (\<lambda>c. c \<noteq> CHR ''/'') (rev m) = rev m" using assms by (auto simp: takeWhile_eq_all_conv)
  then have "takeWhile (\<lambda>c. c \<noteq> CHR ''/'') (rev m @ CHR ''/'' # rev service) = rev m"
    by (simp add: takeWhile_tail)
  then show ?thesis by (simp add: ServiceMethod_def trim_prefix_def has_prefix_def)
qed

end
