(* ===== verification/LogProps.thy ===== *)
theory LogProps
  imports LogIntegrations
begin

text \<open>
  Where the attributes of a log record land, against the contract of \<open>log/slog\<close>: an attribute
  belongs to the groups that were open when it was given.
\<close>

datatype slogStep = WithAttrs "(string \<times> slogValue) list" | WithGroup string

fun slog_step :: "slogStep \<Rightarrow> slogHandler \<Rightarrow> slogHandler" where
  "slog_step (WithAttrs attrs) h = slogWithAttrs attrs h"
| "slog_step (WithGroup g) h = slogWithGroup g h"

text \<open>Every attribute with the groups open at its time, as the contract places it.\<close>

fun placed :: "string list \<Rightarrow> slogStep list \<Rightarrow> (string list \<times> string \<times> slogValue) list" where
  "placed gs [] = []"
| "placed gs (WithAttrs attrs # steps) = map (Pair gs) attrs @ placed gs steps"
| "placed gs (WithGroup g # steps) = placed (gs @ [g]) steps"

definition documented_fields :: "slogStep list \<Rightarrow> slogRecord \<Rightarrow> (string \<times> fieldTree) list" where
  "documented_fields steps r =
     (let groups = concat (map (\<lambda>s. case s of WithGroup g \<Rightarrow> [g] | _ \<Rightarrow> []) steps)
      in fold (\<lambda>(gs, attr) fs. addSlogAttr fs gs attr) (placed [] steps @ map (Pair groups) (srAttrs r)) [])"

lemma groups_first: "fold slog_step (map WithGroup gs) h = h\<lparr>shGroups := shGroups h @ gs\<rparr>"
  by (induction gs arbitrary: h) (simp_all add: slogWithGroup_def)

lemma attrs_last: "fold slog_step (map WithAttrs ass) h = h\<lparr>shAttrs := shAttrs h @ concat ass\<rparr>"
  by (induction ass arbitrary: h) (simp_all add: slogWithAttrs_def)

lemma placed_groups: "placed ps (map WithGroup gs @ steps) = placed (ps @ gs) steps"
  by (induction gs arbitrary: ps) simp_all

lemma placed_attrs: "placed ps (map WithAttrs ass) = map (Pair ps) (concat ass)"
  by (induction ass) simp_all

lemma fold_pair: "fold (\<lambda>(gs, attr) fs. f fs gs attr) (map (Pair k) xs) m = fold (\<lambda>attr fs. f fs k attr) xs m"
  by (induction xs arbitrary: m) simp_all

text \<open>Groups opened before any attribute is given: the captured fields are the documented ones.\<close>

lemma slog_fields_documented:
  "slog_fields (fold slog_step (map WithGroup gs @ map WithAttrs ass) \<lparr>shAttrs = [], shGroups = []\<rparr>) r =
     documented_fields (map WithGroup gs @ map WithAttrs ass) r"
proof -
  have "concat (map (\<lambda>s. case s of WithGroup g \<Rightarrow> [g] | _ \<Rightarrow> []) (map WithGroup gs @ map WithAttrs ass)) = gs"
    by (induction gs) (induction ass, simp_all)
  then show ?thesis
    by (simp add: slog_fields_def documented_fields_def groups_first attrs_last placed_groups placed_attrs fold_pair)
qed

text \<open>An attribute given before the group is captured inside it all the same.\<close>

lemma slog_group_swallows:
  "slog_fields (fold slog_step [WithAttrs [(''service'', SlogAny (Some (JStr ''api'')))], WithGroup ''http'']
      \<lparr>shAttrs = [], shGroups = []\<rparr>) \<lparr>srTime = 0, srLevel = ''INFO'', srMessage = [], srAttrs = []\<rparr> =
     [(''http'', FieldMap [(''service'', FieldLeaf (Some (JStr ''api'')))])]"
  "documented_fields [WithAttrs [(''service'', SlogAny (Some (JStr ''api'')))], WithGroup ''http'']
      \<lparr>srTime = 0, srLevel = ''INFO'', srMessage = [], srAttrs = []\<rparr> =
     [(''service'', FieldLeaf (Some (JStr ''api'')))]"
  by (simp_all add: slog_fields_def slogWithAttrs_def slogWithGroup_def documented_fields_def addSlogAttr_def
      slog_zero_def map_put_def)

end
