(* ===== verification/Spec2Isabelle.thy ===== *)
theory Spec2Isabelle
  imports StoreRestart CaptureProps FingerprintProps FindingProps LoginProps McpProps HttpCaptureProps SanitizeProps SqlProps SqliteProps LifecycleProps AdapterProps RpcProps LogProps
begin

text \<open>
  webpprof, an in-process profiler for Go web applications: the application records what it does
  (requests, queries, jobs, logs and so on) as entries, the profiler keeps a bounded window of
  them in memory and optionally in a journal, and a dashboard, a client and an agent-facing
  service read them over HTTP.

  How the parts interact.  An integration or the application builds an entity
  (\<open>contracts.go\<close>) and hands it with a context (\<open>context.go\<close>) to the profiler (\<open>profiler.go\<close>), or
  attaches it to the capture of the current request (\<open>request.go\<close>) or measures it with a span
  (\<open>measure.go\<close>, \<open>task.go\<close>, \<open>query_span.go\<close>).  The profiler decides by its configuration
  (\<open>options.go\<close>, \<open>capture_rules.go\<close>) whether it is captured, adds ids, tags and the callsite
  (\<open>query_callsite.go\<close>), masks it (\<open>redact.go\<close>) and puts it into the store (\<open>store.go\<close>, on the
  circular order of \<open>store_order.go\<close>).  The store evicts and expires, tells its subscribers,
  and issues numbered batches that are written outside its lock to the journal or to an
  \<open>EntryStorage\<close> (\<open>storage.go\<close>).  The handlers of \<open>http.go\<close> read the store, run the analysis
  (\<open>analysis.go\<close>, \<open>query_plan.go\<close>) and serve the snapshots of \<open>dashboard.go\<close>, \<open>runtime.go\<close> and
  \<open>queue_stats.go\<close>; \<open>websocket.go\<close> streams them.  \<open>client\<close> is the other end of that interface, and
  \<open>internal/mcpserver\<close> condenses what the client reads for an agent.

  Conventions.  A struct is a record with a two-letter prefix per type, an enum or interface of
  known cases a datatype.  A Go string is the list of its bytes, a map an association list
  with \<open>map_get\<close>/\<open>map_put\<close>/\<open>map_del\<close> (the order stands for the traversal order, over which
  the properties quantify), a time or duration an \<open>int\<close> of nanoseconds, a \<open>float64\<close> the rational
  it denotes with every operation rounded to 53 bits (\<open>GoNumbers\<close>).  Locked sections are single
  functions of the state; what lies outside the program (clock, random ids, stacks, the answers
  of files and of external storages, the digest, the runtime's metrics) is an argument.

  Theories, in the order of the code:

    \<^item> \<open>Prelude\<close>, \<open>GoText\<close>, \<open>GoNumbers\<close>: association lists, the collections of rewrite rules,
      and the parts of \<open>strings\<close>, \<open>strconv\<close>, \<open>fmt\<close> and of floating-point arithmetic in use.
    \<^item> \<open>EntryOrder\<close> (\<open>store_order.go\<close>): the circular buffer with growth and removal from the middle;
      it refines a first-in first-out list (\<open>abs_order\<close>), one lemma per operation.
    \<^item> \<open>Redact\<close> (\<open>redact.go\<close>): JSON documents, decoding into \<open>any\<close>, masking.
    \<^item> \<open>Contracts\<close>, \<open>ContractsJson\<close>, \<open>ContractsRoundtrip\<close> (\<open>contracts.go\<close>): the entities, their JSON
      documents by the struct tags, and the round trip of every entity.
    \<^item> \<open>Options\<close> (\<open>options.go\<close>, \<open>capture_rules.go\<close>, \<open>storage.go\<close>): configuration and its bounds, path
      patterns; the locale \<open>entry_storage\<close> is the contract of a back end.
    \<^item> \<open>Dashboard\<close> (\<open>dashboard.go\<close>): widgets, normalisation, sampling.
    \<^item> \<open>Store\<close>, \<open>StorePersist\<close> (\<open>store.go\<close>): the state \<open>entryStore\<close> and its operations; opening,
      replay, journal writing, compaction, closing.  \<open>StoreFacts\<close> shows what each operation does
      to the list of retained entries (\<open>view\<close>); \<open>StoreQueries\<close> does so for the queries;
      \<open>StoreJournal\<close> reads a journal as a log of list operations; \<open>StoreSystem\<close> interleaves
      critical sections with the writing of batches (an inductive step relation and the
      invariant of its reachable states); \<open>StoreProps\<close>, \<open>StoreRestart\<close> and \<open>StoreSubscribers\<close> hold
      the properties: bounds, recovery after a crash, progress, channels.
    \<^item> \<open>Capture\<close> (\<open>profiler.go\<close>, \<open>context.go\<close>, \<open>request.go\<close>, \<open>query_callsite.go\<close>): the state
      \<open>Profiler\<close>, contexts as values, captures in a heap because they are shared by reference.
      \<open>CaptureFacts\<close> shows the invariant of any sequence of calls, \<open>CaptureProps\<close> the promises to
      the application.
    \<^item> \<open>Spans\<close>, \<open>SpanProps\<close> (\<open>measure.go\<close>, \<open>task.go\<close>, \<open>query_span.go\<close>): spans over the profiler;
      the locale \<open>once_span\<close> is their common contract, interpreted on all three.
    \<^item> \<open>Analysis\<close>, \<open>QueryPlanIssues\<close> (\<open>analysis.go\<close>, \<open>query_plan.go\<close>): every finder and the four entry
      points; \<open>AnalysisProps\<close>, \<open>FindingProps\<close>, \<open>HierarchyProps\<close>, \<open>FingerprintProps\<close>.
    \<^item> \<open>Snapshots\<close> (\<open>runtime.go\<close>, \<open>queue_stats.go\<close>): the snapshots beside the log.
    \<^item> \<open>GoHttp\<close>, \<open>GoHttpFacts\<close>, \<open>GoMilliseconds\<close>: what is used of \<open>net/url\<close>, \<open>net\<close> and number parsing.
    \<^item> \<open>Http\<close>, \<open>Routes\<close> (\<open>http.go\<close>, the opening of \<open>websocket.go\<close>): the server state \<open>dashServer\<close>, every
      handler, the route table, the multiplexer and the mounted prefix.  \<open>HttpProps\<close> (authorisation,
      form of the responses), \<open>LoginProps\<close> (guessing the token), \<open>PagingProps\<close>.
    \<^item> \<open>Client\<close> (\<open>client\<close>): the client over any transport; \<open>ClientServer\<close> makes the server's handler
      a transport; \<open>ClientProps\<close> shows what arrives.
    \<^item> \<open>Mcp\<close>, \<open>McpProps\<close> (\<open>internal/mcpserver\<close>): the agent's service over an interface of methods; the
      locales \<open>page_transport\<close> and \<open>event_pages\<close> lead from the server's handler to the service.
    \<^item> \<open>Entities\<close>, \<open>HttpCapture\<close> (\<open>profiler/http\<close>): the inbound middleware over any handler (a program
      of writes and reads with the response writer as its state), body capture, the snapshot of a
      request and the outbound transport.  \<open>HttpCaptureProps\<close> compares the observed writer with the
      wrapped one (the locale \<open>response_writer\<close>, interpreted on both), \<open>SanitizeProps\<close> shows what
      is left of a query string.
    \<^item> \<open>Sql\<close>, \<open>SqlProps\<close> (\<open>profiler/sql\<close>): the wrapped driver, connector, connection, statement and
      rows over the operations of the wrapped driver, which are parameters with its state, and the
      EXPLAIN of a query; transparency, one record per query, the bounds of EXPLAIN.
    \<^item> \<open>StoreBackend\<close> (\<open>store.go\<close>, \<open>storage.go\<close>): the locale \<open>entry_backend\<close> states what a back end
      promises of put, delete and clear, and in it the back end with the waiting records mirrors
      the retained window; \<open>Sqlite\<close>, \<open>SqliteProps\<close> (\<open>storage/sqlite\<close>) model the tables and the
      transactions and interpret the locale on them.
    \<^item> \<open>Lifecycle\<close>, \<open>LifecycleProps\<close> (\<open>server.go\<close>, the first part of \<open>profiler.go\<close>, \<open>integration.go\<close>):
      the table of profilers of a process with the default one, construction, the owned server,
      shutting down, the values of integrations; one open profiler after any sequence of calls.
    \<^item> \<open>Recording\<close>: the locale \<open>recording_invariant\<close>, a predicate on profilers that recording never
      breaks, with its instances (redaction, the store being open).
    \<^item> \<open>Integrations\<close>, \<open>CacheIntegration\<close>, \<open>QueueIntegration\<close>, \<open>LogIntegrations\<close>, \<open>Grpc\<close> (the packages
      under \<open>profiler/\<close>): wrappers over the wrapped function, which acts on the application's state
      and on the profiler.  \<open>IntegrationProps\<close> states their contract as the locale \<open>call_wrapper\<close>,
      interpreted on each; \<open>AdapterProps\<close> (transparency, payloads, labels of jobs in the heap of
      shared wrappers), \<open>RpcProps\<close> (streams), \<open>LogProps\<close> (groups of attributes).

  Termination, fuel and bounds.  The loops of the order, the store, the analysis and the text
  functions are structural or have a measure.  The memoised search of the analysis runs with the
  fuel of its recursion depth, and \<open>hierarchy_search_returns\<close> shows that it is enough.  Reading
  in pages (\<open>read_pages\<close>) takes one page more than there are matching entries at most.
  The polling loop of the client may go on for ever and is a partial function.  Integers are
  unbounded except where the code depends on their width: captured numbers beyond 2^53, the
  clamping of numbers in query strings, and the wrap-around of a timeout in milliseconds.

  Not modelled: the adapters to web frameworks, ORMs, pgx and OpenTelemetry under \<open>profiler/\<close>, which
  fill entities inside hooks whose order those frameworks fix; of \<open>profiler/http\<close> and \<open>profiler/sql\<close>
  the hijacking of a connection, \<open>Unwrap\<close>, \<open>ColumnConverter\<close> and the recognition of an already
  wrapped driver; the serving of a socket and the command \<open>cmd/webpprof-mcp\<close> (flags, signals); the
  loop of a web socket after its first message (the sending order of a \<open>select\<close>; the subscriber's
  channel itself is part of the store); the dashboard's JavaScript, the example application and
  the documentation checker.  Data
  races are outside a sequential model.
\<close>

end
